(* ===== verification/Prelude.thy ===== *)
theory Prelude
  imports Complex_Main
begin

text \<open>
  Shared vocabulary of the development.

  \<^item> The exceptions of the program: \<open>exc_class\<close> lists the classes the sources raise or catch,
    \<open>mro\<close> is the method resolution order of each (the class and its bases), \<open>isinstance\<close> is the
    test an \<open>except\<close> clause makes, and an exception carries its message and its \<open>__cause__\<close>.
  \<^item> Python statements as state transformers that may raise: a \<open>prog\<close> returns an exception or
    a value \<^emph>\<open>together with\<close> the state, because what a method wrote before it raised stays written.
  \<^item> Strings: decimal and hexadecimal rendering, \<open>repr\<close>, and their inverses.
  \<^item> Generic lemmas on lists and maps that the components share.
\<close>

named_theorems prog_simps \<open>unfolding of the state-and-exception combinators\<close>


section \<open>Exceptions\<close>

datatype exc_class =
    Exception | LookupError | KeyError | IndexError | TypeError | ValueError | ArithmeticError
  | InvalidOperation | DivisionByZero | RuntimeError | PermissionError | TimeoutError
  | TokenScopeError | TokenExpiredError | TokenRevokedError | TokenActionError
  | TokenBindingError | DPoPProofError | DPoPReplayError | AdapterSecurityError
  | PolicyDeniedError | PromptInjectionError | MissingTaskIdError | ValidationError
  | BudgetExceededError | BudgetLimitError | LoopDetectedError | TokenVelocityError
  | PendingApprovalError | LoopHaltError | LoopVelocityError | LoopApprovalError
  | OpaUnavailableError | DataConverterError | AuditOrderingError
  | JWTError | ExpiredSignatureError
  | HTTPError | ConnectError | TimeoutException | HTTPStatusError
  | RateLimitError | HITLEscalationError | ActivityError string | AttributeError | InvalidToken
  | ApplicationError string bool
  | PendingApprovalNotFoundError | PendingApprovalConflictError
  | HTTPException nat

text \<open>
  The bases of every class, the class itself first. \<open>PermissionError\<close> is an \<open>OSError\<close> in
  Python, which no clause of the program names, so \<open>OSError\<close> itself does not occur here.
\<close>

fun mro :: "exc_class \<Rightarrow> exc_class list" where
  "mro Exception = [Exception]"
| "mro KeyError = [KeyError, LookupError, Exception]"
| "mro IndexError = [IndexError, LookupError, Exception]"
| "mro InvalidOperation = [InvalidOperation, ArithmeticError, Exception]"
| "mro DivisionByZero = [DivisionByZero, ArithmeticError, Exception]"
| "mro TokenScopeError = [TokenScopeError, PermissionError, Exception]"
| "mro TokenExpiredError = [TokenExpiredError, PermissionError, Exception]"
| "mro TokenRevokedError = [TokenRevokedError, PermissionError, Exception]"
| "mro TokenActionError = [TokenActionError, PermissionError, Exception]"
| "mro TokenBindingError = [TokenBindingError, PermissionError, Exception]"
| "mro DPoPProofError = [DPoPProofError, PermissionError, Exception]"
| "mro DPoPReplayError = [DPoPReplayError, DPoPProofError, PermissionError, Exception]"
| "mro AdapterSecurityError = [AdapterSecurityError, PermissionError, Exception]"
| "mro PolicyDeniedError = [PolicyDeniedError, PermissionError, Exception]"
| "mro PromptInjectionError = [PromptInjectionError, ValueError, Exception]"
| "mro MissingTaskIdError = [MissingTaskIdError, ValueError, Exception]"
| "mro ValidationError = [ValidationError, ValueError, Exception]"
| "mro OpaUnavailableError = [OpaUnavailableError, RuntimeError, Exception]"
| "mro DataConverterError = [DataConverterError, RuntimeError, Exception]"
| "mro AuditOrderingError = [AuditOrderingError, RuntimeError, Exception]"
| "mro ExpiredSignatureError = [ExpiredSignatureError, JWTError, Exception]"
| "mro ConnectError = [ConnectError, HTTPError, Exception]"
| "mro TimeoutException = [TimeoutException, HTTPError, Exception]"
| "mro HTTPStatusError = [HTTPStatusError, HTTPError, Exception]"
| "mro PendingApprovalNotFoundError = [PendingApprovalNotFoundError, LookupError, Exception]"
| "mro PendingApprovalConflictError = [PendingApprovalConflictError, RuntimeError, Exception]"
| "mro c = [c, Exception]"

datatype exn = Exn (exc_cls: exc_class) (exc_msg: string) (exc_cause: "exn option")

abbreviation exn_of :: "exc_class \<Rightarrow> string \<Rightarrow> exn" where
  "exn_of c m \<equiv> Exn c m None"

definition isinstance :: "exn \<Rightarrow> exc_class \<Rightarrow> bool" where
  "isinstance e c \<longleftrightarrow> c \<in> set (mro (exc_cls e))"

definition isinstance_any :: "exn \<Rightarrow> exc_class list \<Rightarrow> bool" where
  "isinstance_any e cs \<longleftrightarrow> list_ex (isinstance e) cs"

lemma isinstance_Exception [simp]: "isinstance e Exception"
  by (cases e; cases "exc_cls e") (simp_all add: isinstance_def)

lemma isinstance_self [simp]: "isinstance (Exn c m k) c"
  by (cases c) (simp_all add: isinstance_def)


section \<open>Programs with state and exceptions\<close>

type_synonym ('s, 'a) prog = "'s \<Rightarrow> (exn + 'a) \<times> 's"

definition returnE :: "'a \<Rightarrow> ('s, 'a) prog" where
  "returnE x = (\<lambda>s. (Inr x, s))"

definition raiseE :: "exn \<Rightarrow> ('s, 'a) prog" where
  "raiseE e = (\<lambda>s. (Inl e, s))"

definition bindE :: "('s, 'a) prog \<Rightarrow> ('a \<Rightarrow> ('s, 'b) prog) \<Rightarrow> ('s, 'b) prog" where
  "bindE m f = (\<lambda>s. case m s of (Inl e, s') \<Rightarrow> (Inl e, s') | (Inr x, s') \<Rightarrow> f x s')"

definition thenE :: "('s, 'a) prog \<Rightarrow> ('s, 'b) prog \<Rightarrow> ('s, 'b) prog" where
  "thenE m n = bindE m (\<lambda>_. n)"

text \<open>\<open>try: m except Exception as e: h e\<close>; the handler re-raises what it does not handle.\<close>

definition tryE :: "('s, 'a) prog \<Rightarrow> (exn \<Rightarrow> ('s, 'a) prog) \<Rightarrow> ('s, 'a) prog" where
  "tryE m h = (\<lambda>s. case m s of (Inl e, s') \<Rightarrow> h e s' | (Inr x, s') \<Rightarrow> (Inr x, s'))"

definition getE :: "('s \<Rightarrow> 'a) \<Rightarrow> ('s, 'a) prog" where
  "getE f = (\<lambda>s. (Inr (f s), s))"

definition modifyE :: "('s \<Rightarrow> 's) \<Rightarrow> ('s, unit) prog" where
  "modifyE f = (\<lambda>s. (Inr (), f s))"

definition liftE :: "exn + 'a \<Rightarrow> ('s, 'a) prog" where
  "liftE r = (\<lambda>s. (r, s))"

definition whenE :: "bool \<Rightarrow> ('s, unit) prog \<Rightarrow> ('s, unit) prog" where
  "whenE b m = (if b then m else returnE ())"

text \<open>A call on an object that the state holds: run on the part, write the part back.\<close>

definition zoomE :: "('w \<Rightarrow> 's) \<Rightarrow> ('s \<Rightarrow> 'w \<Rightarrow> 'w) \<Rightarrow> ('s, 'a) prog \<Rightarrow> ('w, 'a) prog" where
  "zoomE g p m = (\<lambda>w. let (r, s') = m (g w) in (r, p s' w))"

primrec mapE :: "('a \<Rightarrow> ('s, 'b) prog) \<Rightarrow> 'a list \<Rightarrow> ('s, 'b list) prog" where
  "mapE f [] = returnE []"
| "mapE f (x # xs) = bindE (f x) (\<lambda>y. bindE (mapE f xs) (\<lambda>ys. returnE (y # ys)))"

primrec forE :: "'a list \<Rightarrow> ('a \<Rightarrow> ('s, unit) prog) \<Rightarrow> ('s, unit) prog" where
  "forE [] f = returnE ()"
| "forE (x # xs) f = thenE (f x) (forE xs f)"

declare returnE_def [prog_simps] raiseE_def [prog_simps] bindE_def [prog_simps]
  thenE_def [prog_simps] tryE_def [prog_simps] getE_def [prog_simps] modifyE_def [prog_simps]
  liftE_def [prog_simps] whenE_def [prog_simps] zoomE_def [prog_simps]

lemma bindE_assoc: "bindE (bindE m f) g = bindE m (\<lambda>x. bindE (f x) g)"
  by (auto simp: bindE_def split: prod.splits sum.splits)

lemma bindE_returnE [simp]: "bindE (returnE x) f = f x" "bindE m returnE = m"
  by (auto simp: prog_simps fun_eq_iff split: prod.splits sum.splits)

lemma bindE_raiseE [simp]: "bindE (raiseE e) f = raiseE e"
  by (auto simp: prog_simps)

lemma bindE_Inr: "bindE m f s = (Inr y, t) \<longleftrightarrow>
    (\<exists>x s'. m s = (Inr x, s') \<and> f x s' = (Inr y, t))"
  by (auto simp: bindE_def split: prod.splits sum.splits)

lemma bindE_Inl: "bindE m f s = (Inl e, t) \<longleftrightarrow>
    m s = (Inl e, t) \<or> (\<exists>x s'. m s = (Inr x, s') \<and> f x s' = (Inl e, t))"
  by (auto simp: bindE_def split: prod.splits sum.splits)

lemma thenE_returnE [simp]: "thenE (returnE x) m = m"
  by (simp add: thenE_def)

lemma bindE_ok: "p s = (Inr x, t) \<Longrightarrow> bindE p f s = f x t"
  by (simp add: bindE_def)

lemma bindE_err: "p s = (Inl e, t) \<Longrightarrow> bindE p f s = (Inl e, t)"
  by (simp add: bindE_def)

lemma thenE_ok: "p s = (Inr x, t) \<Longrightarrow> thenE p q s = q t"
  by (simp add: thenE_def bindE_def)

lemma thenE_err: "p s = (Inl e, t) \<Longrightarrow> thenE p q s = (Inl e, t)"
  by (simp add: thenE_def bindE_def)

lemma tryE_ok: "p s = (Inr x, t) \<Longrightarrow> tryE p h s = (Inr x, t)"
  by (simp add: tryE_def)

lemma tryE_err: "p s = (Inl e, t) \<Longrightarrow> tryE p h s = h e t"
  by (simp add: tryE_def)

lemma bindE_liftE [simp]: "bindE (liftE (Inr x)) f = f x" "bindE (liftE (Inl e)) f = raiseE e"
  by (auto simp: prog_simps)

lemma bindE_getE: "bindE (getE g) f s = f (g s) s"
  by (simp add: bindE_def getE_def)

lemma thenE_modifyE: "thenE (modifyE f) m s = m (f s)"
  by (simp add: thenE_def bindE_def modifyE_def)

lemma snd_thenE: "(\<And>t. snd (n t) = t) \<Longrightarrow> snd (thenE m n s) = snd (m s)"
  by (auto simp: thenE_def bindE_def split: prod.splits sum.splits)

lemma forE_invariant:
  "I s \<Longrightarrow> (\<And>x s. x \<in> set xs \<Longrightarrow> I s \<Longrightarrow> I (snd (f x s))) \<Longrightarrow> I (snd (forE xs f s))"
proof (induction xs arbitrary: s)
  case Nil
  then show ?case by (simp add: returnE_def)
next
  case (Cons x xs)
  have "I (snd (f x s))" using Cons.prems by simp
  moreover have "I (snd (forE xs f t))" if "I t" for t
    using that Cons by simp
  ultimately show ?case
    by (auto simp: thenE_def bindE_def split: prod.splits sum.splits)
qed

lemma forE_map: "forE (map g xs) f = forE xs (\<lambda>x. f (g x))"
  by (induction xs) simp_all

lemma forE_cong: "(\<And>x. x \<in> set xs \<Longrightarrow> f x = g x) \<Longrightarrow> forE xs f = forE xs g"
  by (induction xs) simp_all


text \<open>A program keeps a property of the state, whether it returns or raises.\<close>

named_theorems keeps_intros \<open>preservation of a state property by the combinators\<close>

definition keepsE :: "('s \<Rightarrow> bool) \<Rightarrow> ('s, 'a) prog \<Rightarrow> bool" where
  "keepsE I p \<longleftrightarrow> (\<forall>s. I s \<longrightarrow> I (snd (p s)))"

lemma keepsE_D: "keepsE I p \<Longrightarrow> I s \<Longrightarrow> I (snd (p s))"
  by (simp add: keepsE_def)

lemma keepsE_pure [keeps_intros]:
  "keepsE I (returnE x)" "keepsE I (raiseE e)" "keepsE I (liftE r)" "keepsE I (getE f)"
  by (simp_all add: keepsE_def prog_simps)

lemma keepsE_modifyE [keeps_intros]: "(\<And>s. I s \<Longrightarrow> I (f s)) \<Longrightarrow> keepsE I (modifyE f)"
  by (simp add: keepsE_def prog_simps)

lemma keepsE_bindE [keeps_intros]:
  "keepsE I p \<Longrightarrow> (\<And>x. keepsE I (f x)) \<Longrightarrow> keepsE I (bindE p f)"
  unfolding keepsE_def bindE_def
proof (intro allI impI)
  fix s
  assume p: "\<forall>s. I s \<longrightarrow> I (snd (p s))" and f: "\<And>x. \<forall>s. I s \<longrightarrow> I (snd (f x s))" and s: "I s"
  show "I (snd (case p s of (Inl e, t) \<Rightarrow> (Inl e, t) | (Inr x, t) \<Rightarrow> f x t))"
    using p [rule_format, OF s] f by (cases "p s"; cases "fst (p s)") auto
qed

lemma keepsE_thenE [keeps_intros]: "keepsE I p \<Longrightarrow> keepsE I q \<Longrightarrow> keepsE I (thenE p q)"
  by (simp add: thenE_def keepsE_bindE)

lemma keepsE_tryE [keeps_intros]:
  "keepsE I p \<Longrightarrow> (\<And>e. keepsE I (h e)) \<Longrightarrow> keepsE I (tryE p h)"
  unfolding keepsE_def tryE_def
proof (intro allI impI)
  fix s
  assume p: "\<forall>s. I s \<longrightarrow> I (snd (p s))" and h: "\<And>e. \<forall>s. I s \<longrightarrow> I (snd (h e s))" and s: "I s"
  show "I (snd (case p s of (Inl e, t) \<Rightarrow> h e t | (Inr x, t) \<Rightarrow> (Inr x, t)))"
    using p [rule_format, OF s] h by (cases "p s"; cases "fst (p s)") auto
qed

lemma keepsE_whenE [keeps_intros]: "(b \<Longrightarrow> keepsE I p) \<Longrightarrow> keepsE I (whenE b p)"
  by (simp add: whenE_def keepsE_pure)

lemma keepsE_if [keeps_intros]: "(b \<Longrightarrow> keepsE I p) \<Longrightarrow> (\<not> b \<Longrightarrow> keepsE I q) \<Longrightarrow> keepsE I (if b then p else q)"
  by simp

lemma keepsE_option [keeps_intros]:
  "(x = None \<Longrightarrow> keepsE I p) \<Longrightarrow> (\<And>y. x = Some y \<Longrightarrow> keepsE I (q y)) \<Longrightarrow>
     keepsE I (case x of None \<Rightarrow> p | Some y \<Rightarrow> q y)"
  by (cases x) simp_all

lemma keepsE_sum [keeps_intros]:
  "(\<And>y. x = Inl y \<Longrightarrow> keepsE I (p y)) \<Longrightarrow> (\<And>y. x = Inr y \<Longrightarrow> keepsE I (q y)) \<Longrightarrow>
     keepsE I (case x of Inl y \<Rightarrow> p y | Inr y \<Rightarrow> q y)"
  by (cases x) simp_all

lemma keepsE_prod [keeps_intros]: "(\<And>a b. x = (a, b) \<Longrightarrow> keepsE I (p a b)) \<Longrightarrow> keepsE I (case x of (a, b) \<Rightarrow> p a b)"
  by (cases x) simp

lemma keepsE_Let [keeps_intros]: "(\<And>y. keepsE I (p y)) \<Longrightarrow> keepsE I (let y = x in p y)"
  by simp

lemma keepsE_forE [keeps_intros]: "(\<And>x. x \<in> set xs \<Longrightarrow> keepsE I (f x)) \<Longrightarrow> keepsE I (forE xs f)"
  by (induction xs) (simp_all add: keepsE_pure keepsE_thenE)

lemma keepsE_mapE [keeps_intros]: "(\<And>x. x \<in> set xs \<Longrightarrow> keepsE I (f x)) \<Longrightarrow> keepsE I (mapE f xs)"
  by (induction xs) (simp_all add: keepsE_pure keepsE_bindE)

lemma keepsE_zoomE [keeps_intros]: "(\<And>w. I w \<Longrightarrow> I (put (snd (p (get w))) w)) \<Longrightarrow> keepsE I (zoomE get put p)"
  by (simp add: keepsE_def zoomE_def split_beta)


section \<open>Strings\<close>

definition digit_char :: "nat \<Rightarrow> char" where
  "digit_char d = ''0123456789abcdef'' ! d"

text \<open>
  Digits of a non-negative integer. Numbers are kept as \<^typ>\<open>int\<close> here because the simplifier
  computes with binary integers.
\<close>

function show_uint :: "int \<Rightarrow> string" where
  "show_uint n = (if n < 10 then [digit_char (nat n)]
                  else show_uint (n div 10) @ [digit_char (nat (n mod 10))])"
  by pat_completeness auto
termination
  by (relation "measure nat") auto

declare show_uint.simps [simp del]

definition show_int :: "int \<Rightarrow> string" where
  "show_int i = (if i < 0 then CHR ''-'' # show_uint (- i) else show_uint i)"

definition show_nat :: "nat \<Rightarrow> string" where
  "show_nat n = show_uint (int n)"

definition digit_val :: "char \<Rightarrow> nat option" where
  "digit_val c = (let n = of_char c :: nat in
     if 48 \<le> n \<and> n \<le> 57 then Some (n - 48) else None)"

definition is_digit :: "char \<Rightarrow> bool" where
  "is_digit c \<longleftrightarrow> digit_val c \<noteq> None"

fun read_digits :: "int \<Rightarrow> string \<Rightarrow> int option" where
  "read_digits acc [] = Some acc"
| "read_digits acc (c # cs) =
     (case digit_val c of None \<Rightarrow> None | Some d \<Rightarrow> read_digits (10 * acc + int d) cs)"

definition read_uint :: "string \<Rightarrow> int option" where
  "read_uint s = (if s = [] then None else read_digits 0 s)"

definition lower_char :: "char \<Rightarrow> char" where
  "lower_char c = (let n = of_char c :: nat in if 65 \<le> n \<and> n \<le> 90 then char_of (n + 32) else c)"

definition upper_char :: "char \<Rightarrow> char" where
  "upper_char c = (let n = of_char c :: nat in if 97 \<le> n \<and> n \<le> 122 then char_of (n - 32) else c)"

definition lower :: "string \<Rightarrow> string" where
  "lower s = map lower_char s"

definition upper :: "string \<Rightarrow> string" where
  "upper s = map upper_char s"

text \<open>\<open>repr\<close> of a string: single quotes unless the text holds one and no double quote.\<close>

definition squote :: char where "squote = CHR 0x27"
definition dquote :: char where "dquote = CHR 0x22"

definition repr_char :: "char \<Rightarrow> char \<Rightarrow> string" where
  "repr_char q c =
     (if c = q \<or> c = CHR 0x5C then [CHR 0x5C, c]
      else if c = CHR 0x0A then [CHR 0x5C, CHR ''n'']
      else if c = CHR 0x0D then [CHR 0x5C, CHR ''r'']
      else if c = CHR 0x09 then [CHR 0x5C, CHR ''t'']
      else [c])"

definition py_repr :: "string \<Rightarrow> string" where
  "py_repr s =
     (let q = (if squote \<in> set s \<and> dquote \<notin> set s then dquote else squote)
      in q # concat (map (repr_char q) s) @ [q])"

text \<open>
  \<open>str(exc)\<close>: the message, except that \<open>KeyError\<close> shows the \<open>repr\<close> of its key and Temporal's
  \<open>ApplicationError\<close> puts its type in front.
\<close>

definition str_exn :: "exn \<Rightarrow> string" where
  "str_exn e =
     (case exc_cls e of
        KeyError \<Rightarrow> py_repr (exc_msg e)
      | ApplicationError ty _ \<Rightarrow> ty @ '': '' @ exc_msg e
      | _ \<Rightarrow> exc_msg e)"


lemma digit_table: "list_all (\<lambda>d. digit_val (digit_char d) = Some d) [0..<10]"
  by code_simp

lemma digit_val_digit_char [simp]: "d < 10 \<Longrightarrow> digit_val (digit_char d) = Some d"
  using digit_table by (auto simp: list_all_iff)

lemma digit_val_bound: "digit_val c = Some d \<Longrightarrow> d < 10"
  by (auto simp: digit_val_def Let_def split: if_splits)

lemma is_digit_digit_char [simp]: "d < 10 \<Longrightarrow> is_digit (digit_char d)"
  by (simp add: is_digit_def)

lemma read_digits_append:
  "read_digits acc (xs @ ys) = Option.bind (read_digits acc xs) (\<lambda>a. read_digits a ys)"
  by (induction xs arbitrary: acc) (auto split: option.splits)

lemma show_uint_nonempty [simp]: "show_uint n \<noteq> []"
  by (subst show_uint.simps) simp

lemma read_digits_show_uint: "0 \<le> n \<Longrightarrow> read_digits 0 (show_uint n) = Some n"
proof (induction n rule: show_uint.induct)
  case (1 n)
  then show ?case
    by (subst show_uint.simps) (auto simp: read_digits_append)
qed

lemma read_uint_show_uint [simp]: "0 \<le> n \<Longrightarrow> read_uint (show_uint n) = Some n"
  by (simp add: read_uint_def read_digits_show_uint)

lemma show_uint_digits: "0 \<le> n \<Longrightarrow> c \<in> set (show_uint n) \<Longrightarrow> is_digit c"
proof (induction n rule: show_uint.induct)
  case (1 n)
  show ?case
  proof (cases "n < 10")
    case True
    with "1.prems" show ?thesis by (simp add: show_uint.simps [of n])
  next
    case False
    with "1.prems" "1.IH" show ?thesis by (auto simp: show_uint.simps [of n])
  qed
qed

lemma show_uint_inject: "0 \<le> m \<Longrightarrow> 0 \<le> n \<Longrightarrow> show_uint m = show_uint n \<longleftrightarrow> m = n"
  by (metis option.inject read_uint_show_uint)

lemma show_nat_inject [simp]: "show_nat m = show_nat n \<longleftrightarrow> m = n"
  by (simp add: show_nat_def show_uint_inject)

lemma read_digits_zeros: "read_digits 0 (replicate k (CHR ''0'') @ xs) = read_digits 0 xs"
  by (induction k) (auto simp: digit_val_def)


section \<open>Invariants of step relations\<close>

text \<open>
  A component is a set of initial states and a step relation, one rule per operation. Its
  invariant holds initially and is kept by every step; it then holds in every reachable state.
  Each component interprets this interface with its own step relation.
\<close>

inductive reachable :: "('s \<Rightarrow> bool) \<Rightarrow> ('s \<Rightarrow> 's \<Rightarrow> bool) \<Rightarrow> 's \<Rightarrow> bool"
  for init :: "'s \<Rightarrow> bool" and step :: "'s \<Rightarrow> 's \<Rightarrow> bool" where
  reach_init: "init s \<Longrightarrow> reachable init step s"
| reach_step: "reachable init step s \<Longrightarrow> step s t \<Longrightarrow> reachable init step t"

locale invariant_system =
  fixes init :: "'s \<Rightarrow> bool"
    and step :: "'s \<Rightarrow> 's \<Rightarrow> bool"
    and inv :: "'s \<Rightarrow> bool"
  assumes inv_init: "init s \<Longrightarrow> inv s"
    and inv_step: "inv s \<Longrightarrow> step s t \<Longrightarrow> inv t"
begin

lemma reachable_inv: "reachable init step s \<Longrightarrow> inv s"
  by (induction rule: reachable.induct) (auto intro: inv_init inv_step)

lemma steps_inv: "step\<^sup>*\<^sup>* s t \<Longrightarrow> inv s \<Longrightarrow> inv t"
  by (induction rule: rtranclp_induct) (auto intro: inv_step)

end


section \<open>Snapshots\<close>

text \<open>
  What a client of a snapshot relies on: deserialising what was serialised gives the object back.
  Then snapshots identify the object, and resuming from a snapshot is resuming with the object.
\<close>

locale snapshot_codec =
  fixes ser :: "'a \<Rightarrow> 'b"
    and des :: "'b \<Rightarrow> exn + 'a"
    and ok :: "'a \<Rightarrow> bool"
  assumes roundtrip: "ok x \<Longrightarrow> des (ser x) = Inr x"
begin

lemma ser_inject: "ok x \<Longrightarrow> ok y \<Longrightarrow> ser x = ser y \<longleftrightarrow> x = y"
  by (metis Inr_inject roundtrip)

lemma resume: "ok x \<Longrightarrow> bindE (liftE (des (ser x))) f = f x"
  by (simp add: roundtrip bindE_def liftE_def)

end

end
