(* ===== verification/PyDecimal.thy ===== *)
theory PyDecimal
  imports Prelude
begin

text \<open>
  Python's \<open>decimal.Decimal\<close>, as the budget code uses it: finite numbers, the default context
  (28 significant digits, \<open>ROUND_HALF_EVEN\<close>), \<open>+\<close>, \<open>-\<close>, \<open>*\<close>, \<open>/\<close>, comparison, \<open>str\<close> and the
  constructor from a string.

  A number is a coefficient and an exponent; \<open>dval\<close> is the rational it denotes. Every arithmetic
  result is rounded to the context precision by \<open>dfix\<close>, so the arithmetic is exact only while the
  coefficient of the result has at most 28 digits; the lemmas \<open>dval_dadd\<close> and \<open>dval_dmul\<close> carry
  that side condition. Signed zero, the special values Infinity and NaN and the exponent limits of
  the context are not part of the type: a string that spells a special value is not read.
\<close>

datatype decimal = Dec (coeff: int) (expo: int)

definition dval :: "decimal \<Rightarrow> rat" where
  "dval d = of_int (coeff d) * 10 powi expo d"

definition dzero :: decimal where
  "dzero = Dec 0 0"


section \<open>Context rounding\<close>

definition dprec :: nat where
  "dprec = 28"

function ndigits :: "int \<Rightarrow> nat" where
  "ndigits n = (if n < 10 then 1 else Suc (ndigits (n div 10)))"
  by pat_completeness auto
termination
  by (relation "measure nat") auto

declare ndigits.simps [simp del]

definition round_half_even :: "int \<Rightarrow> nat \<Rightarrow> int" where
  "round_half_even n k =
     (let q = n div 10 ^ k; r = n mod 10 ^ k
      in if 10 ^ k < 2 * r \<or> (2 * r = 10 ^ k \<and> odd q) then q + 1 else q)"

definition dfix :: "decimal \<Rightarrow> decimal" where
  "dfix d =
     (let n = \<bar>coeff d\<bar>; k = ndigits n - dprec
      in if k = 0 then d
         else let q = round_half_even n k
              in if q = 10 ^ dprec
                 then Dec (sgn (coeff d) * 10 ^ (dprec - 1)) (expo d + int k + 1)
                 else Dec (sgn (coeff d) * q) (expo d + int k))"


section \<open>Arithmetic and comparison\<close>

text \<open>The coefficient of \<open>d\<close> rewritten at a smaller exponent \<open>e\<close>.\<close>

definition rescaled :: "decimal \<Rightarrow> int \<Rightarrow> int" where
  "rescaled d e = coeff d * 10 ^ nat (expo d - e)"

definition dadd :: "decimal \<Rightarrow> decimal \<Rightarrow> decimal" where
  "dadd a b = (let e = min (expo a) (expo b) in dfix (Dec (rescaled a e + rescaled b e) e))"

definition dsub :: "decimal \<Rightarrow> decimal \<Rightarrow> decimal" where
  "dsub a b = (let e = min (expo a) (expo b) in dfix (Dec (rescaled a e - rescaled b e) e))"

definition dmul :: "decimal \<Rightarrow> decimal \<Rightarrow> decimal" where
  "dmul a b = dfix (Dec (coeff a * coeff b) (expo a + expo b))"

definition dle :: "decimal \<Rightarrow> decimal \<Rightarrow> bool" where
  "dle a b = (let e = min (expo a) (expo b) in rescaled a e \<le> rescaled b e)"

definition dless :: "decimal \<Rightarrow> decimal \<Rightarrow> bool" where
  "dless a b = (let e = min (expo a) (expo b) in rescaled a e < rescaled b e)"

text \<open>Built-in \<open>max(a, b)\<close>: the first argument unless the second is greater.\<close>

definition dmax :: "decimal \<Rightarrow> decimal \<Rightarrow> decimal" where
  "dmax a b = (if dless a b then b else a)"

definition dec_of_int :: "int \<Rightarrow> decimal" where
  "dec_of_int i = Dec i 0"

text \<open>
  Division. The quotient is computed with one guard digit beyond the precision; an inexact
  quotient whose last digit is 0 or 5 is nudged so that the final rounding is correct; an exact
  one drops trailing zeros until it reaches the ideal exponent.
\<close>

function strip_zeros :: "int \<Rightarrow> int \<Rightarrow> int \<Rightarrow> int \<times> int" where
  "strip_zeros c e ideal =
     (if e < ideal \<and> c mod 10 = 0 then strip_zeros (c div 10) (e + 1) ideal else (c, e))"
  by pat_completeness auto
termination
  by (relation "measure (\<lambda>(c, e, ideal). nat (ideal - e))") auto

declare strip_zeros.simps [simp del]

definition ddiv :: "decimal \<Rightarrow> decimal \<Rightarrow> exn + decimal" where
  "ddiv a b =
     (if coeff b = 0 then
        (if coeff a = 0 then Inl (exn_of InvalidOperation ''DivisionUndefined'')
         else Inl (exn_of DivisionByZero ''DivisionByZero''))
      else if coeff a = 0 then Inr (Dec 0 (expo a - expo b))
      else
        let n = \<bar>coeff a\<bar>; m = \<bar>coeff b\<bar>;
            shift = int (ndigits m) - int (ndigits n) + int dprec + 1;
            e = expo a - expo b - shift;
            num = (if 0 \<le> shift then n * 10 ^ nat shift else n);
            den = (if 0 \<le> shift then m else m * 10 ^ nat (- shift));
            q = num div den; r = num mod den;
            (c', e') = (if r \<noteq> 0 then (if q mod 5 = 0 then q + 1 else q, e)
                        else strip_zeros q e (expo a - expo b))
        in Inr (dfix (Dec (sgn (coeff a) * sgn (coeff b) * c') e')))"


section \<open>Printing and reading\<close>

definition show_signed :: "int \<Rightarrow> string" where
  "show_signed i = (if i < 0 then ''-'' else ''+'') @ show_uint \<bar>i\<bar>"

definition dec_to_string :: "decimal \<Rightarrow> string" where
  "dec_to_string d =
     (let ds = show_uint \<bar>coeff d\<bar>;
          leftdigits = expo d + int (length ds);
          dotplace = (if expo d \<le> 0 \<and> - 6 < leftdigits then leftdigits else 1);
          sign = (if coeff d < 0 then ''-'' else '''');
          body = (if dotplace \<le> 0 then ''0.'' @ replicate (nat (- dotplace)) (CHR ''0'') @ ds
                  else if int (length ds) \<le> dotplace
                  then ds @ replicate (nat (dotplace - int (length ds))) (CHR ''0'')
                  else take (nat dotplace) ds @ ''.'' @ drop (nat dotplace) ds);
          ex = (if leftdigits = dotplace then '''' else ''E'' @ show_signed (leftdigits - dotplace))
      in sign @ body @ ex)"

definition is_space :: "char \<Rightarrow> bool" where
  "is_space c \<longleftrightarrow> c \<in> {CHR 0x20, CHR 0x09, CHR 0x0A, CHR 0x0B, CHR 0x0C, CHR 0x0D}"

definition strip :: "string \<Rightarrow> string" where
  "strip s = rev (dropWhile is_space (rev (dropWhile is_space s)))"

definition read_signed :: "string \<Rightarrow> int option" where
  "read_signed s =
     (if s \<noteq> [] \<and> hd s = CHR ''-'' then map_option uminus (read_uint (tl s))
      else if s \<noteq> [] \<and> hd s = CHR ''+'' then read_uint (tl s)
      else read_uint s)"

definition split_mantissa :: "string \<Rightarrow> string \<times> string \<times> string" where
  "split_mantissa s =
     (let i = takeWhile is_digit s; r = dropWhile is_digit s
      in if r \<noteq> [] \<and> hd r = CHR ''.''
         then (i, takeWhile is_digit (tl r), dropWhile is_digit (tl r))
         else (i, [], r))"

definition read_exponent :: "string \<Rightarrow> int option" where
  "read_exponent s =
     (if s = [] then Some 0
      else if hd s = CHR ''E'' \<or> hd s = CHR ''e'' then read_signed (tl s)
      else None)"

definition read_unsigned :: "string \<Rightarrow> (int \<times> int) option" where
  "read_unsigned s =
     (let (i, f, r) = split_mantissa s
      in case (read_uint (i @ f), read_exponent r) of
           (Some n, Some e) \<Rightarrow> Some (n, e - int (length f))
         | _ \<Rightarrow> None)"

definition dec_of_string :: "string \<Rightarrow> decimal option" where
  "dec_of_string s0 =
     (let s = filter (\<lambda>c. c \<noteq> CHR ''_'') (strip s0)
      in if s \<noteq> [] \<and> hd s = CHR ''-''
         then map_option (\<lambda>(n, e). Dec (- n) e) (read_unsigned (tl s))
         else if s \<noteq> [] \<and> hd s = CHR ''+''
         then map_option (\<lambda>(n, e). Dec n e) (read_unsigned (tl s))
         else map_option (\<lambda>(n, e). Dec n e) (read_unsigned s))"

text \<open>\<open>Decimal(s)\<close>: a string that is not a number raises \<open>decimal.InvalidOperation\<close>.\<close>

definition parse_decimal :: "string \<Rightarrow> exn + decimal" where
  "parse_decimal s =
     (case dec_of_string s of
        None \<Rightarrow> Inl (exn_of InvalidOperation ''ConversionSyntax'')
      | Some d \<Rightarrow> Inr d)"


section \<open>Values\<close>

lemma rescaled_val: "e \<le> expo d \<Longrightarrow> of_int (rescaled d e) * 10 powi e = dval d"
proof -
  assume "e \<le> expo d"
  then have "(10::rat) ^ nat (expo d - e) * 10 powi e = 10 powi expo d"
    by (simp add: power_int_of_nat flip: power_int_add power_int_of_nat)
       
  then show ?thesis
    by (simp add: dval_def rescaled_def mult.assoc)
qed

lemma dle_iff [simp]: "dle a b \<longleftrightarrow> dval a \<le> dval b"
proof -
  let ?e = "min (expo a) (expo b)"
  have "dval a \<le> dval b \<longleftrightarrow> of_int (rescaled a ?e) * (10::rat) powi ?e \<le> of_int (rescaled b ?e) * 10 powi ?e"
    by (simp add: rescaled_val)
  also have "\<dots> \<longleftrightarrow> rescaled a ?e \<le> rescaled b ?e"
    by simp
  finally show ?thesis by (simp add: dle_def Let_def)
qed

lemma dless_iff [simp]: "dless a b \<longleftrightarrow> dval a < dval b"
proof -
  let ?e = "min (expo a) (expo b)"
  have "dval a < dval b \<longleftrightarrow> of_int (rescaled a ?e) * (10::rat) powi ?e < of_int (rescaled b ?e) * 10 powi ?e"
    by (simp add: rescaled_val)
  also have "\<dots> \<longleftrightarrow> rescaled a ?e < rescaled b ?e"
    by simp
  finally show ?thesis by (simp add: dless_def Let_def)
qed

lemma dval_dmax [simp]: "dval (dmax a b) = max (dval a) (dval b)"
  by (simp add: dmax_def)

lemma dval_dzero [simp]: "dval dzero = 0"
  by (simp add: dval_def dzero_def)

lemma dval_dec_of_int [simp]: "dval (dec_of_int i) = of_int i"
  by (simp add: dval_def dec_of_int_def)

section \<open>Exactness within the precision\<close>

lemma ndigits_le: "0 \<le> n \<Longrightarrow> n < 10 ^ Suc k \<Longrightarrow> ndigits n \<le> Suc k"
proof (induction k arbitrary: n)
  case 0
  then show ?case by (simp add: ndigits.simps)
next
  case (Suc k)
  then have "ndigits (n div 10) \<le> Suc k" by simp
  then show ?case by (simp add: ndigits.simps [of n])
qed

lemma dfix_exact [simp]: "\<bar>coeff d\<bar> < 10 ^ 28 \<Longrightarrow> dfix d = d"
  using ndigits_le [of "\<bar>coeff d\<bar>" 27] by (simp add: dfix_def dprec_def Let_def)

lemma dmul_exact: "\<bar>coeff a * coeff b\<bar> < 10 ^ 28 \<Longrightarrow>
    dmul a b = Dec (coeff a * coeff b) (expo a + expo b)"
  by (simp add: dmul_def)

lemma dval_dmul: "\<bar>coeff a * coeff b\<bar> < 10 ^ 28 \<Longrightarrow> dval (dmul a b) = dval a * dval b"
  by (simp add: dmul_exact) (simp add: dval_def power_int_add)

text \<open>
  An amount lies on the grid of \<open>p\<close> decimal places if its exponent is at least \<open>- p\<close>. A sum of two
  such amounts that stays below \<open>10 ^ 28\<close> grid units is computed exactly and lies on the grid.
\<close>

definition on_grid :: "nat \<Rightarrow> decimal \<Rightarrow> bool" where
  "on_grid p d \<longleftrightarrow> - int p \<le> expo d"

lemma coeff_bound_of_grid:
  assumes "- int p \<le> e" and "\<bar>of_int c * (10::rat) powi e\<bar> * 10 ^ p < 10 ^ 28"
  shows "\<bar>c\<bar> < 10 ^ 28"
proof -
  have "(10::rat) powi e * 10 ^ p = 10 powi (e + int p)"
    by (simp add: power_int_add)
  moreover have "(1::rat) \<le> 10 powi (e + int p)"
    using assms(1) by (metis add.commute diff_ge_0_iff_ge diff_minus_eq_add one_le_numeral one_le_power_int)
  ultimately have ge: "(1::rat) \<le> 10 powi e * 10 ^ p"
    by simp
  have "of_int \<bar>c\<bar> * 1 \<le> of_int \<bar>c\<bar> * ((10::rat) powi e * 10 ^ p)"
    by (intro mult_left_mono ge) simp
  also have "\<dots> < 10 ^ 28"
    using assms(2) by (simp add: abs_mult mult.assoc)
  finally have "of_int \<bar>c\<bar> < (of_int (10 ^ 28) :: rat)"
    by simp
  then show ?thesis by (simp only: of_int_less_iff)
qed

lemma dadd_exact:
  assumes "on_grid p a" "on_grid p b" "\<bar>dval a + dval b\<bar> * 10 ^ p < 10 ^ 28"
  shows "dval (dadd a b) = dval a + dval b" and "on_grid p (dadd a b)"
proof -
  let ?e = "min (expo a) (expo b)"
  let ?d = "Dec (rescaled a ?e + rescaled b ?e) ?e"
  have val: "dval ?d = dval a + dval b"
    using rescaled_val [of ?e a] rescaled_val [of ?e b] by (simp add: dval_def [of ?d] ring_distribs)
  have "- int p \<le> ?e"
    using assms(1,2) by (simp add: on_grid_def)
  moreover have "\<bar>of_int (coeff ?d) * (10::rat) powi ?e\<bar> * 10 ^ p < 10 ^ 28"
    using assms(3) val by (simp add: dval_def)
  ultimately have "dfix ?d = ?d"
    using coeff_bound_of_grid [of p ?e "coeff ?d"] by simp
  then show "dval (dadd a b) = dval a + dval b" and "on_grid p (dadd a b)"
    using val \<open>- int p \<le> ?e\<close> by (simp_all add: dadd_def Let_def on_grid_def)
qed

lemma strip_zeros_exact: "strip_zeros (c * 10 ^ k) (i - int k) i = (c, i)"
proof (induction k)
  case 0
  then show ?case by (simp add: strip_zeros.simps)
next
  case (Suc k)
  have "i - int (Suc k) + 1 = i - int k" "c * 10 ^ Suc k div 10 = c * 10 ^ k"
       "c * 10 ^ Suc k mod 10 = 0" "i - int (Suc k) < i"
    by simp_all
  with Suc.IH show ?case by (subst strip_zeros.simps) presburger
qed

text \<open>Dividing a product by one of its factors gives the other factor, digit for digit.\<close>

lemma ddiv_dmul_exact:
  assumes "0 < t" "\<bar>c * t\<bar> < 10 ^ 28"
  shows "ddiv (dmul (Dec c e) (dec_of_int t)) (dec_of_int t) = Inr (Dec c e)"
proof (cases "c = 0")
  case True
  then show ?thesis using assms by (simp add: ddiv_def dmul_exact dec_of_int_def)
next
  case False
  let ?n = "\<bar>c * t\<bar>"
  have c: "\<bar>c\<bar> < 10 ^ 28"
    using assms mult_left_mono [of 1 t "\<bar>c\<bar>"] by (simp add: abs_mult)
  have "ndigits ?n \<le> 28"
    using ndigits_le [of ?n 27] assms(2) by simp
  moreover define k where "k = nat (int (ndigits t) - int (ndigits ?n) + 29)"
  ultimately have k: "int (ndigits t) - int (ndigits ?n) + int dprec + 1 = int k"
    by (simp add: dprec_def)
  have q: "?n * 10 ^ k div t = \<bar>c\<bar> * 10 ^ k" "?n * 10 ^ k mod t = 0"
    using assms(1) by (simp_all add: abs_mult mult.assoc mult.left_commute [of _ t])
  have z: "strip_zeros (\<bar>c\<bar> * 10 ^ k) (e - int k) e = (\<bar>c\<bar>, e)"
    by (rule strip_zeros_exact)
  have s: "sgn (c * t) * \<bar>c\<bar> = c"
    using assms(1) by (simp add: sgn_mult mult_sgn_abs)
  show ?thesis
    using False assms c s by (simp add: ddiv_def dmul_exact dec_of_int_def k q z Let_def)
qed


section \<open>Reading back what was printed\<close>

lemma takeWhile_digits [simp]:
  "list_all is_digit ds \<Longrightarrow> takeWhile is_digit (ds @ r) = ds @ takeWhile is_digit r"
  "list_all is_digit ds \<Longrightarrow> dropWhile is_digit (ds @ r) = dropWhile is_digit r"
  "list_all is_digit ds \<Longrightarrow> takeWhile is_digit ds = ds"
  "list_all is_digit ds \<Longrightarrow> dropWhile is_digit ds = []"
  by (induction ds) auto

lemma not_digit_marks [simp]:
  "\<not> is_digit (CHR ''.'')" "\<not> is_digit (CHR ''E'')" "\<not> is_digit (CHR ''-'')"
  "\<not> is_digit (CHR ''+'')" "\<not> is_digit (CHR ''_'')" "is_digit (CHR ''0'')"
  by (simp_all add: is_digit_def digit_val_def)

lemma digit_not_marks:
  "is_digit c \<Longrightarrow> c \<noteq> CHR ''_'' \<and> \<not> is_space c \<and> c \<noteq> CHR ''-'' \<and> c \<noteq> CHR ''+'' \<and> c \<noteq> CHR ''.''"
  by (auto simp: is_space_def is_digit_def digit_val_def)

lemma list_all_show_uint [simp]: "0 \<le> n \<Longrightarrow> list_all is_digit (show_uint n)"
  by (auto simp: list_all_iff dest: show_uint_digits)

lemma list_all_replicate: "P x \<Longrightarrow> list_all P (replicate k x)"
  by (induction k) auto

lemma list_all_replicate0 [simp]: "list_all is_digit (replicate k (CHR ''0''))"
  by (rule list_all_replicate) simp

lemma list_all_take_drop: "list_all P xs \<Longrightarrow> list_all P (take n xs) \<and> list_all P (drop n xs)"
  by (metis append_take_drop_id list_all_append)

lemma read_signed_show_signed: "read_signed (show_signed i) = Some i"
  by (auto simp: read_signed_def show_signed_def)

definition exp_part :: "int \<Rightarrow> string" where
  "exp_part x = (if x = 0 then [] else ''E'' @ show_signed x)"

lemma read_exponent_exp_part: "read_exponent (exp_part x) = Some x"
  by (simp add: exp_part_def read_exponent_def read_signed_show_signed)

lemma exp_part_no_digit [simp]:
  "takeWhile is_digit (exp_part x) = []" "dropWhile is_digit (exp_part x) = exp_part x"
  by (auto simp: exp_part_def)

lemma hd_exp_part: "exp_part x \<noteq> [] \<Longrightarrow> hd (exp_part x) = CHR ''E''"
  by (auto simp: exp_part_def split: if_splits)

lemma read_unsigned_plain:
  assumes "list_all is_digit ds" "ds \<noteq> []" "read_digits 0 ds = Some n"
  shows "read_unsigned (ds @ exp_part x) = Some (n, x)"
  using assms hd_exp_part [of x]
  by (auto simp: read_unsigned_def split_mantissa_def read_uint_def read_exponent_exp_part Let_def)

lemma read_unsigned_dotted:
  assumes "list_all is_digit is" "list_all is_digit fs" "is @ fs \<noteq> []" "read_digits 0 (is @ fs) = Some n"
  shows "read_unsigned (is @ ''.'' @ fs @ exp_part x) = Some (n, x - int (length fs))"
  using assms
  by (auto simp: read_unsigned_def split_mantissa_def read_uint_def read_exponent_exp_part Let_def)

definition dec_body :: "decimal \<Rightarrow> string" where
  "dec_body d = (let ds = show_uint \<bar>coeff d\<bar>;
          leftdigits = expo d + int (length ds);
          dotplace = (if expo d \<le> 0 \<and> - 6 < leftdigits then leftdigits else 1)
      in (if dotplace \<le> 0 then ''0.'' @ replicate (nat (- dotplace)) (CHR ''0'') @ ds
                  else if int (length ds) \<le> dotplace
                  then ds @ replicate (nat (dotplace - int (length ds))) (CHR ''0'')
                  else take (nat dotplace) ds @ ''.'' @ drop (nat dotplace) ds)
          @ exp_part (leftdigits - dotplace))"

lemma dec_to_string_body:
  "dec_to_string d = (if coeff d < 0 then ''-'' else []) @ dec_body d"
  by (simp add: dec_to_string_def dec_body_def exp_part_def Let_def)

lemma read_unsigned_body: "read_unsigned (dec_body d) = Some (\<bar>coeff d\<bar>, expo d)"
proof -
  define ds where "ds = show_uint \<bar>coeff d\<bar>"
  define l where "l = expo d + int (length ds)"
  define p where "p = (if expo d \<le> 0 \<and> - 6 < l then l else 1)"
  have ds: "list_all is_digit ds" "ds \<noteq> []" "read_digits 0 ds = Some \<bar>coeff d\<bar>"
    by (simp_all add: ds_def read_digits_show_uint)
  have body: "dec_body d =
      (if p \<le> 0 then ''0.'' @ replicate (nat (- p)) (CHR ''0'') @ ds
       else if int (length ds) \<le> p then ds @ replicate (nat (p - int (length ds))) (CHR ''0'')
       else take (nat p) ds @ ''.'' @ drop (nat p) ds) @ exp_part (l - p)"
    unfolding dec_body_def Let_def ds_def l_def p_def by (rule refl)
  consider (small) "p \<le> 0" | (whole) "0 < p" "int (length ds) \<le> p" | (mid) "0 < p" "p < int (length ds)"
    by linarith
  then show ?thesis
  proof cases
    case small
    then have "l = p" by (simp add: p_def split: if_splits)
    let ?f = "replicate (nat (- p)) (CHR ''0'') @ ds"
    have "dec_body d = ''0'' @ ''.'' @ ?f @ exp_part 0"
      using small \<open>l = p\<close> by (simp add: body)
    moreover have "read_digits 0 (''0'' @ ?f) = Some \<bar>coeff d\<bar>"
      using ds(3) by (simp add: digit_val_def read_digits_zeros)
    ultimately show ?thesis
      using read_unsigned_dotted [of "''0''" ?f _ 0] ds small \<open>l = p\<close> by (simp add: l_def)
  next
    case whole
    have "int (length ds) = p"
      using whole ds(2) by (auto simp: p_def l_def Suc_le_eq le_Suc_eq split: if_splits)
    then have "dec_body d = ds @ exp_part (expo d)"
      using whole by (simp add: body l_def)
    then show ?thesis using read_unsigned_plain [OF ds] by simp
  next
    case mid
    have "dec_body d = take (nat p) ds @ ''.'' @ drop (nat p) ds @ exp_part (l - p)"
      using mid by (simp add: body)
    moreover have "l - p - int (length (drop (nat p) ds)) = expo d"
      using mid by (simp add: l_def of_nat_diff)
    ultimately show ?thesis
      using read_unsigned_dotted [of "take (nat p) ds" "drop (nat p) ds" _ "l - p"]
        list_all_take_drop [OF ds(1)] ds(2,3) by simp
  qed
qed

text \<open>Neither stripping nor the removal of underscores touches a printed number.\<close>

lemma strip_id: "s \<noteq> [] \<Longrightarrow> \<not> is_space (hd s) \<Longrightarrow> \<not> is_space (last s) \<Longrightarrow> strip s = s"
  by (simp add: strip_def iffD2 [OF dropWhile_eq_self_iff] hd_rev)

definition clean :: "char \<Rightarrow> bool" where
  "clean c \<longleftrightarrow> c \<noteq> CHR ''_'' \<and> \<not> is_space c"

lemma clean_marks [simp]:
  "clean (CHR ''.'')" "clean (CHR ''E'')" "clean (CHR ''-'')" "clean (CHR ''+'')" "clean (CHR ''0'')"
  by (simp_all add: clean_def is_space_def)

lemma show_uint_clean [simp]: "0 \<le> n \<Longrightarrow> list_all clean (show_uint n)"
  using digit_not_marks show_uint_digits by (fastforce simp: list_all_iff clean_def)

lemma dec_body_clean: "list_all clean (dec_body d)"
  using list_all_take_drop [OF show_uint_clean, of "\<bar>coeff d\<bar>"]
  by (auto simp: dec_body_def exp_part_def show_signed_def Let_def list_all_append list_all_replicate)

lemma dec_body_hd: "dec_body d \<noteq> [] \<and> hd (dec_body d) \<noteq> CHR ''-'' \<and> hd (dec_body d) \<noteq> CHR ''+''"
proof -
  let ?ds = "show_uint \<bar>coeff d\<bar>"
  have "?ds \<noteq> []" "hd ?ds \<noteq> CHR ''-'' \<and> hd ?ds \<noteq> CHR ''+''"
    using digit_not_marks [OF show_uint_digits [of "\<bar>coeff d\<bar>" "hd ?ds"]] by auto
  then show ?thesis by (auto simp: dec_body_def Let_def hd_append)
qed

lemma dec_of_string_dec_to_string [simp]: "dec_of_string (dec_to_string d) = Some d"
proof -
  let ?s = "dec_to_string d"
  have ne: "?s \<noteq> []" and cl: "list_all clean ?s"
    using dec_body_hd [of d] dec_body_clean [of d] by (simp_all add: dec_to_string_body)
  then have "strip ?s = ?s"
    using hd_in_set [OF ne] last_in_set [OF ne] by (intro strip_id) (auto simp: list_all_iff clean_def)
  moreover have "filter (\<lambda>c. c \<noteq> CHR ''_'') ?s = ?s"
    using cl by (simp add: filter_id_conv list_all_iff clean_def)
  ultimately have "filter (\<lambda>c. c \<noteq> CHR ''_'') (strip ?s) = ?s"
    by simp
  then show ?thesis
    using dec_body_hd [of d] read_unsigned_body [of d]
    by (cases d) (auto simp: dec_of_string_def Let_def dec_to_string_body)
qed

lemma parse_decimal_dec_to_string [simp]: "parse_decimal (dec_to_string d) = Inr d"
  by (simp add: parse_decimal_def)

lemma dec_to_string_inject [simp]: "dec_to_string a = dec_to_string b \<longleftrightarrow> a = b"
  by (metis dec_of_string_dec_to_string option.inject)


section \<open>Rounding never loses the larger summand\<close>

lemma ndigits_pos [simp]: "0 < ndigits n"
  by (subst ndigits.simps) simp

lemma ndigits_upper: "0 \<le> n \<Longrightarrow> n < 10 ^ ndigits n"
proof (induction n rule: ndigits.induct)
  case (1 n)
  show ?case
  proof (cases "n < 10")
    case True
    then show ?thesis by (simp add: ndigits.simps [of n])
  next
    case False
    with 1 have "n div 10 < 10 ^ ndigits (n div 10)" by simp
    with False show ?thesis by (simp add: ndigits.simps [of n])
  qed
qed

lemma ndigits_lower: "1 \<le> n \<Longrightarrow> 10 ^ (ndigits n - 1) \<le> n"
proof (induction n rule: ndigits.induct)
  case (1 n)
  show ?case
  proof (cases "n < 10")
    case True
    then show ?thesis using "1.prems" by (simp add: ndigits.simps [of n])
  next
    case False
    with 1 have "10 ^ (ndigits (n div 10) - 1) \<le> n div 10" by simp
    then have "10 * 10 ^ (ndigits (n div 10) - 1) \<le> n" by linarith
    with False show ?thesis by (simp add: ndigits.simps [of n] flip: power_Suc)
  qed
qed

lemma round_half_even_bounds:
  "n div 10 ^ k \<le> round_half_even n k" "round_half_even n k \<le> n div 10 ^ k + 1"
  by (simp_all add: round_half_even_def Let_def)

lemma round_digits:
  assumes "0 \<le> n" "k = ndigits n - 28" "0 < k"
  shows "10 ^ 27 \<le> n div 10 ^ k" "round_half_even n k \<le> 10 ^ 28"
proof -
  have nd: "ndigits n = 28 + k" using assms by simp
  have "n \<noteq> 0" using nd by (auto simp: ndigits.simps [of 0])
  then have "10 ^ (27 + k) \<le> n" "n < 10 ^ (28 + k)"
    using ndigits_lower [of n] ndigits_upper [of n] assms(1) by (simp_all add: nd)
  then show "10 ^ 27 \<le> n div 10 ^ k"
    using zdiv_mono1 [of "10 ^ (27 + k)" n "10 ^ k"] by (simp add: power_add)
  have "n div 10 ^ k < 10 ^ 28"
  proof (rule ccontr)
    assume "\<not> n div 10 ^ k < 10 ^ 28"
    then have "10 ^ 28 * 10 ^ k \<le> n div 10 ^ k * 10 ^ k"
      by (intro mult_right_mono) simp_all
    also have "\<dots> \<le> n"
    proof -
      have "0 \<le> n mod 10 ^ k" by simp
      then show ?thesis using div_mult_mod_eq [of n "10 ^ k"] by linarith
    qed
    finally show False using \<open>n < 10 ^ (28 + k)\<close> by (simp add: power_add)
  qed
  then show "round_half_even n k \<le> 10 ^ 28"
    using round_half_even_bounds(2) [of n k] by simp
qed

lemma dfix_bound: "\<bar>coeff (dfix d)\<bar> < 10 ^ 28"
proof (cases "ndigits \<bar>coeff d\<bar> - 28 = 0")
  case True
  have "\<bar>coeff d\<bar> < 10 ^ ndigits \<bar>coeff d\<bar>" by (rule ndigits_upper) simp
  also have "\<dots> \<le> 10 ^ 28" using True by (intro power_increasing) simp_all
  finally show ?thesis using True by (simp add: dfix_def dprec_def Let_def)
next
  case False
  let ?q = "round_half_even \<bar>coeff d\<bar> (ndigits \<bar>coeff d\<bar> - 28)"
  have "?q \<le> 10 ^ 28" "0 \<le> ?q"
    using round_digits(2) [of "\<bar>coeff d\<bar>"] False
      order_trans [OF _ round_half_even_bounds(1), of 0 "\<bar>coeff d\<bar>"]
    by (simp_all add: pos_imp_zdiv_nonneg_iff)
  then show ?thesis using False
    by (simp add: dfix_def dprec_def Let_def abs_mult abs_sgn_eq)
qed

lemma dval_dfix_round:
  assumes "0 \<le> coeff d" "k = ndigits (coeff d) - 28" "0 < k"
  shows "dval (dfix d) = of_int (round_half_even (coeff d) k) * 10 powi (expo d + int k)"
proof -
  have "coeff d \<noteq> 0" using assms(2,3) by (auto simp: ndigits.simps [of 0])
  then have sg: "sgn (coeff d) = 1" and ab: "\<bar>coeff d\<bar> = coeff d" using assms(1) by simp_all
  let ?q = "round_half_even (coeff d) k"
  have fix_eq: "dfix d = (if ?q = 10 ^ 28 then Dec (10 ^ 27) (expo d + int k + 1)
                          else Dec ?q (expo d + int k))"
    unfolding dfix_def dprec_def Let_def ab sg assms(2) [symmetric] using assms(3) by simp
  have "(10::rat) ^ 27 * 10 powi (expo d + int k + 1) = 10 ^ 28 * 10 powi (expo d + int k)"
    by (subst power_int_add) simp_all
  then show ?thesis
    by (simp add: fix_eq dval_def)
qed

text \<open>A number that fits the precision and is not above \<open>d\<close> is not above \<open>d\<close> rounded.\<close>

lemma dfix_lower:
  assumes a: "0 \<le> coeff a" "coeff a < 10 ^ 28" and d: "0 \<le> coeff d" and le: "dval a \<le> dval d"
  shows "dval a \<le> dval (dfix d)"
proof (cases "ndigits (coeff d) - 28 = 0")
  case True
  then show ?thesis using le d by (simp add: dfix_def dprec_def)
next
  case False
  define k where "k = ndigits (coeff d) - 28"
  define g where "g = expo d + int k"
  let ?f = "coeff d div 10 ^ k"
  have k: "0 < k" using False by (simp add: k_def)
  have "dval a \<le> of_int ?f * 10 powi g"
  proof (cases "g \<le> expo a")
    case True
    have "of_int (rescaled a g) * (10::rat) powi g \<le> of_int (coeff d) * 10 powi expo d"
      using le rescaled_val [OF True] by (simp add: dval_def)
    also have "(10::rat) powi g = 10 powi expo d * 10 ^ k"
      by (simp add: g_def power_int_add)
    finally have "of_int (rescaled a g * 10 ^ k) * (10::rat) powi expo d \<le> of_int (coeff d) * 10 powi expo d"
      by (simp add: ac_simps)
    then have "of_int (rescaled a g * 10 ^ k) \<le> (of_int (coeff d) :: rat)"
      by simp
    then have "rescaled a g * 10 ^ k \<le> coeff d"
      by (simp only: of_int_le_iff)
    then have "rescaled a g \<le> ?f"
      by (metis nonzero_mult_div_cancel_right power_not_zero zdiv_mono1 zero_less_numeral
          zero_less_power zero_neq_numeral)
    then have "of_int (rescaled a g) * (10::rat) powi g \<le> of_int ?f * 10 powi g"
      by simp
    then show ?thesis using rescaled_val [OF True] by simp
  next
    case below: False
    have "of_int (coeff a) \<le> (of_int (10 ^ 28) :: rat)"
      using a(2) by (simp only: of_int_le_iff)
    then have "of_int (coeff a) * (10::rat) powi expo a \<le> 10 ^ 28 * 10 powi expo a"
      by (intro mult_right_mono) simp_all
    also have "\<dots> \<le> 10 ^ 28 * 10 powi (g - 1)"
      using below by (intro mult_left_mono power_int_increasing) simp_all
    also have "\<dots> = 10 ^ 27 * 10 powi g"
      by (simp add: power_int_diff)
    also have "\<dots> \<le> of_int ?f * 10 powi g"
    proof (rule mult_right_mono)
      have "(of_int (10 ^ 27) :: rat) \<le> of_int ?f"
        using round_digits(1) [OF d k_def k] by (simp only: of_int_le_iff)
      then show "(10::rat) ^ 27 \<le> of_int ?f" by simp
    qed simp
    finally show ?thesis by (simp add: dval_def)
  qed
  also have "of_int ?f * (10::rat) powi g \<le> of_int (round_half_even (coeff d) k) * 10 powi g"
    using round_half_even_bounds(1) by (intro mult_right_mono) simp_all
  also have "\<dots> = dval (dfix d)"
    using dval_dfix_round [OF d k_def k] by (simp add: g_def)
  finally show ?thesis .
qed

lemma coeff_nonneg_iff: "0 \<le> dval d \<longleftrightarrow> 0 \<le> coeff d"
proof -
  have "(0::rat) < 10 powi expo d" by simp
  then show ?thesis by (simp add: dval_def zero_le_mult_iff del: zero_less_power_int)
qed

lemma coeff_dfix_nonneg: "0 \<le> coeff d \<Longrightarrow> 0 \<le> coeff (dfix d)"
  using dfix_lower [of dzero d] by (simp add: coeff_nonneg_iff dzero_def [THEN arg_cong [where f = coeff]])

lemma dadd_coeff: "0 \<le> coeff a \<Longrightarrow> 0 \<le> coeff b \<Longrightarrow> 0 \<le> coeff (dadd a b)"
  by (simp add: dadd_def Let_def coeff_dfix_nonneg rescaled_def)

lemma dmul_coeff: "0 \<le> coeff a \<Longrightarrow> 0 \<le> coeff b \<Longrightarrow> 0 \<le> coeff (dmul a b)"
  by (simp add: dmul_def coeff_dfix_nonneg)

lemma dadd_mono:
  assumes "0 \<le> coeff a" "coeff a < 10 ^ 28" "0 \<le> coeff b"
  shows "dval a \<le> dval (dadd a b)"
proof -
  let ?e = "min (expo a) (expo b)"
  let ?d = "Dec (rescaled a ?e + rescaled b ?e) ?e"
  have "dval ?d = dval a + dval b"
    using rescaled_val [of ?e a] rescaled_val [of ?e b] by (simp add: dval_def [of ?d] ring_distribs)
  moreover have "0 \<le> dval b" using assms(3) by (simp add: coeff_nonneg_iff)
  moreover have "0 \<le> coeff ?d" using assms by (simp add: rescaled_def)
  ultimately show ?thesis
    using dfix_lower [OF assms(1,2), of ?d] by (simp add: dadd_def Let_def)
qed

lemma dmul_commute: "dmul a b = dmul b a"
  by (simp add: dmul_def ac_simps)


lemma strip_zeros_nonneg: "0 \<le> c \<Longrightarrow> strip_zeros c e i = (x, y) \<Longrightarrow> 0 \<le> x"
proof (induction c e i rule: strip_zeros.induct)
  case (1 c e i)
  then show ?case
    by (cases "e < i \<and> c mod 10 = 0") (auto simp: strip_zeros.simps [of c e i])
qed

lemma ddiv_coeff: "ddiv a b = Inr d \<Longrightarrow> 0 \<le> coeff a \<Longrightarrow> 0 \<le> coeff b \<Longrightarrow> 0 \<le> coeff d"
  by (auto simp: ddiv_def Let_def coeff_dfix_nonneg div_int_pos_iff zero_le_mult_iff sgn_if
      split: if_splits prod.splits dest!: strip_zeros_nonneg [rotated])

end
