(* ===== verification/PyStd.thy ===== *)
theory PyStd
  imports PyDecimal
begin

text \<open>
  The other pieces of the Python standard library that the sources use: \<open>uuid.UUID\<close> with \<open>str\<close> and
  the constructor, JSON values, \<open>dict\<close> displays and updates (association lists, in insertion
  order), \<open>datetime\<close> values with and without a time zone, and free text as a list of code points.
\<close>

section \<open>UUIDs\<close>

text \<open>A UUID is kept as its 32 lower-case hexadecimal digits.\<close>

datatype uuid = UUID (hex: string)

definition hex_chars :: string where
  "hex_chars = ''0123456789abcdef''"

definition uuid_ok :: "uuid \<Rightarrow> bool" where
  "uuid_ok u \<longleftrightarrow> length (hex u) = 32 \<and> list_all (\<lambda>c. c \<in> set hex_chars) (hex u)"

definition str_uuid :: "uuid \<Rightarrow> string" where
  "str_uuid u = (let h = hex u in
     take 8 h @ ''-'' @ take 4 (drop 8 h) @ ''-'' @ take 4 (drop 12 h) @ ''-''
       @ take 4 (drop 16 h) @ ''-'' @ drop 20 h)"

text \<open>\<open>s.replace(pat, "")\<close>.\<close>

function remove_all :: "string \<Rightarrow> string \<Rightarrow> string" where
  "remove_all pat s =
     (if s = [] \<or> pat = [] then s
      else if take (length pat) s = pat then remove_all pat (drop (length pat) s)
      else hd s # remove_all pat (tl s))"
  by pat_completeness auto
termination
  by (relation "measure (\<lambda>(pat, s). length s)") auto

declare remove_all.simps [simp del]

definition strip_braces :: "string \<Rightarrow> string" where
  "strip_braces s =
     (let p = (\<lambda>c. c = CHR ''{'' \<or> c = CHR ''}'') in rev (dropWhile p (rev (dropWhile p s))))"

text \<open>
  \<open>UUID(s)\<close>: the prefixes \<open>urn:\<close> and \<open>uuid:\<close>, surrounding braces and all hyphens are dropped, and
  what is left must be 32 hexadecimal digits. (The extra spellings that \<open>int(s, 16)\<close> would accept
  in those 32 places, such as underscores, are rejected here.)
\<close>

definition parse_uuid :: "string \<Rightarrow> exn + uuid" where
  "parse_uuid s =
     (let h = filter (\<lambda>c. c \<noteq> CHR ''-'') (strip_braces (remove_all ''uuid:'' (remove_all ''urn:'' s)))
      in if length h \<noteq> 32 then Inl (exn_of ValueError ''badly formed hexadecimal UUID string'')
         else if list_all (\<lambda>c. c \<in> set hex_chars) (lower h) then Inr (UUID (lower h))
         else Inl (exn_of ValueError ''invalid literal for int() with base 16''))"


section \<open>JSON, dictionaries, text, time\<close>

type_synonym utext = "int list"

definition asc :: "string \<Rightarrow> utext" where
  "asc s = map of_char s"

text \<open>A JSON string that holds free text is \<open>JText\<close>, one that holds an identifier is \<open>JStr\<close>.\<close>

datatype json =
    JNull | JBool bool | JNum rat | JStr string | JText utext
  | JList "json list" | JObj "(string \<times> json) list"

type_synonym 'v dict = "(string \<times> 'v) list"

text \<open>\<open>d[k] = v\<close> keeps the position of an existing key, as Python dictionaries do.\<close>

fun dict_set :: "string \<Rightarrow> 'v \<Rightarrow> 'v dict \<Rightarrow> 'v dict" where
  "dict_set k v [] = [(k, v)]"
| "dict_set k v ((k', v') # d) = (if k = k' then (k, v) # d else (k', v') # dict_set k v d)"

text \<open>\<open>{**d, **e}\<close>.\<close>

definition dict_update :: "'v dict \<Rightarrow> 'v dict \<Rightarrow> 'v dict" where
  "dict_update d e = fold (\<lambda>(k, v). dict_set k v) e d"

definition dict_get :: "'v dict \<Rightarrow> string \<Rightarrow> exn + 'v" where
  "dict_get d k = (case map_of d k of None \<Rightarrow> Inl (exn_of KeyError k) | Some v \<Rightarrow> Inr v)"

text \<open>
  A \<open>datetime\<close>: wall-clock microseconds since the epoch and, for an aware value, the UTC offset.
\<close>

datatype datetime = DateTime (wall: int) (utcoffset: "int option")

lemma map_of_dict_set [simp]: "map_of (dict_set k v d) = (map_of d)(k \<mapsto> v)"
  by (induction d) (auto simp: fun_eq_iff)

lemma dict_update_Nil [simp]: "dict_update d [] = d"
  by (simp add: dict_update_def)

lemma map_of_dict_update:
  "k \<notin> fst ` set e \<Longrightarrow> map_of (dict_update d e) k = map_of d k"
  by (induction e arbitrary: d) (auto simp: dict_update_def)


section \<open>Reading back a printed UUID\<close>

lemma hex_chars_lower: "c \<in> set hex_chars \<Longrightarrow> lower_char c = c"
  by (auto simp: hex_chars_def lower_char_def)

lemma hex_chars_not:
  "c \<in> set hex_chars \<Longrightarrow> c \<noteq> CHR ''-'' \<and> c \<noteq> CHR ''{'' \<and> c \<noteq> CHR ''}'' \<and> c \<noteq> CHR ''u''"
  by (auto simp: hex_chars_def)

lemma remove_all_absent:
  "p \<noteq> [] \<Longrightarrow> c \<in> set p \<Longrightarrow> c \<notin> set s \<Longrightarrow> remove_all p s = s"
proof (induction p s rule: remove_all.induct)
  case (1 p s)
  show ?case
  proof (cases s)
    case Nil
    then show ?thesis by (simp add: remove_all.simps [of p "[]"])
  next
    case (Cons x xs)
    have "take (length p) s \<noteq> p"
      using "1.prems" by (metis in_set_takeD)
    with "1" Cons show ?thesis by (simp add: remove_all.simps [of p "x # xs"])
  qed
qed

lemma str_uuid_set: "set (str_uuid u) \<subseteq> insert (CHR ''-'') (set (hex u))"
  by (auto simp: str_uuid_def Let_def dest: in_set_takeD in_set_dropD)

lemma hex_parts:
  "take 8 h @ take 4 (drop 8 h) @ take 4 (drop 12 h) @ take 4 (drop 16 h) @ drop 20 h = h"
proof -
  have "drop 8 h = take 4 (drop 8 h) @ drop 12 h" "drop 12 h = take 4 (drop 12 h) @ drop 16 h"
       "drop 16 h = take 4 (drop 16 h) @ drop 20 h"
    using append_take_drop_id [of 4 "drop 8 h"] append_take_drop_id [of 4 "drop 12 h"]
      append_take_drop_id [of 4 "drop 16 h"] by simp_all
  then show ?thesis by (metis append_take_drop_id)
qed

lemma str_uuid_filter:
  assumes "list_all (\<lambda>c. c \<in> set hex_chars) (hex u)"
  shows "filter (\<lambda>c. c \<noteq> CHR ''-'') (str_uuid u) = hex u"
proof -
  have id: "filter (\<lambda>c. c \<noteq> CHR ''-'') xs = xs" if "set xs \<subseteq> set (hex u)" for xs
    using that assms hex_chars_not by (auto simp: filter_id_conv list_all_iff)
  have "filter (\<lambda>c. c \<noteq> CHR ''-'') (str_uuid u) = take 8 (hex u) @ take 4 (drop 8 (hex u))
      @ take 4 (drop 12 (hex u)) @ take 4 (drop 16 (hex u)) @ drop 20 (hex u)"
    by (simp add: str_uuid_def Let_def id set_take_subset set_drop_subset
        order_trans [OF set_take_subset set_drop_subset])
  then show ?thesis by (simp only: hex_parts)
qed

lemma parse_uuid_str_uuid [simp]: "uuid_ok u \<Longrightarrow> parse_uuid (str_uuid u) = Inr u"
proof -
  assume ok: "uuid_ok u"
  then have cs: "list_all (\<lambda>c. c \<in> set hex_chars) (hex u)"
    by (simp add: uuid_ok_def)
  have chars: "c \<noteq> CHR ''u'' \<and> c \<noteq> CHR ''{'' \<and> c \<noteq> CHR ''}''" if "c \<in> set (str_uuid u)" for c
    using that str_uuid_set [of u] hex_chars_not cs by (fastforce simp: list_all_iff)
  then have u: "CHR ''u'' \<notin> set (str_uuid u)"
    by blast
  have ne: "str_uuid u \<noteq> []"
    by (simp add: str_uuid_def Let_def)
  have "strip_braces (str_uuid u) = str_uuid u"
    using chars [OF hd_in_set [OF ne]] chars [OF last_in_set [OF ne]] ne
    by (simp add: strip_braces_def Let_def iffD2 [OF dropWhile_eq_self_iff] hd_rev)
  moreover have "lower (hex u) = hex u"
    using cs hex_chars_lower by (auto simp: lower_def list_all_iff intro: map_idI)
  ultimately show ?thesis
    using ok cs u by (cases u) (simp add: parse_uuid_def remove_all_absent [of _ "CHR ''u''"]
        str_uuid_filter uuid_ok_def)
qed

lemma str_uuid_inject: "uuid_ok u \<Longrightarrow> uuid_ok v \<Longrightarrow> str_uuid u = str_uuid v \<Longrightarrow> u = v"
  by (metis Inr_inject parse_uuid_str_uuid)

end
