(* ===== verification/PyCodec.thy ===== *)
theory PyCodec
  imports PyStd "HOL-Library.Word"
begin

text \<open>
  The encodings of the standard library that the token code uses: \<open>base64\<close> (URL-safe, with the
  lenient decoder of \<open>binascii\<close>), \<open>int.from_bytes\<close> and \<open>int.to_bytes\<close>, compact \<open>json.dumps\<close> with
  sorted keys, and \<open>hashlib.sha256\<close>. Bytes are integers from 0 to 255.
\<close>

type_synonym bytes = "int list"

definition bytes_ok :: "bytes \<Rightarrow> bool" where
  "bytes_ok bs \<longleftrightarrow> list_all (\<lambda>b. 0 \<le> b \<and> b < 256) bs"

text \<open>\<open>s.encode()\<close>: UTF-8 of the code points below 256 that a \<open>string\<close> holds.\<close>

definition str_bytes :: "string \<Rightarrow> bytes" where
  "str_bytes s = concat (map (\<lambda>c. let n = of_char c :: int in
     if n < 128 then [n] else [192 + n div 64, 128 + n mod 64]) s)"


section \<open>Base64\<close>

text \<open>The URL-safe alphabet.\<close>

definition b64_char :: "int \<Rightarrow> char" where
  "b64_char i = ''ABCDEFGHIJKLMNOPQRSTUVWXYZabcdefghijklmnopqrstuvwxyz0123456789-_'' ! nat i"

text \<open>The four characters of a group of three bytes.\<close>

definition b64_group :: "int \<Rightarrow> int \<Rightarrow> int \<Rightarrow> string" where
  "b64_group a b c = map b64_char
     [a div 4, (a mod 4) * 16 + b div 16, (b mod 16) * 4 + c div 64, c mod 64]"

fun b64_encode :: "bytes \<Rightarrow> string" where
  "b64_encode [] = []"
| "b64_encode [a] = take 2 (b64_group a 0 0) @ ''==''"
| "b64_encode [a, b] = take 3 (b64_group a b 0) @ ''=''"
| "b64_encode (a # b # c # bs) = b64_group a b c @ b64_encode bs"

text \<open>The decoder accepts the URL-safe and the standard spelling of 62 and 63, as
  \<open>urlsafe_b64decode\<close> does.\<close>

definition b64_val :: "char \<Rightarrow> int option" where
  "b64_val ch = (let n = of_char ch :: int in
     if 65 \<le> n \<and> n \<le> 90 then Some (n - 65)
     else if 97 \<le> n \<and> n \<le> 122 then Some (n - 71)
     else if 48 \<le> n \<and> n \<le> 57 then Some (n + 4)
     else if n = 43 \<or> n = 45 then Some 62
     else if n = 47 \<or> n = 95 then Some 63
     else None)"

text \<open>
  The loop of \<open>binascii.a2b_base64\<close>: position in the group of four, padding seen, bits left over.
  Characters outside the alphabet are skipped; enough padding ends the data.
\<close>

fun a2b_base64 :: "int \<Rightarrow> int \<Rightarrow> int \<Rightarrow> string \<Rightarrow> exn + bytes" where
  "a2b_base64 quad pads left [] =
     (if quad = 0 then Inr []
      else if quad = 1 then Inl (exn_of ValueError ''Invalid base64-encoded string'')
      else Inl (exn_of ValueError ''Incorrect padding''))"
| "a2b_base64 quad pads left (ch # cs) =
     (if ch = CHR ''='' then
        (if 2 \<le> quad \<and> 4 \<le> quad + (pads + 1) then Inr []
         else a2b_base64 quad (if 2 \<le> quad then pads + 1 else pads) left cs)
      else case b64_val ch of
        None \<Rightarrow> a2b_base64 quad pads left cs
      | Some v \<Rightarrow>
          if quad = 0 then a2b_base64 1 0 v cs
          else
            let byte = (if quad = 1 then left * 4 + v div 16
                        else if quad = 2 then left * 16 + v div 4
                        else left * 64 + v);
                left' = (if quad = 1 then v mod 16 else if quad = 2 then v mod 4 else 0);
                quad' = (if quad = 3 then 0 else quad + 1)
            in (case a2b_base64 quad' 0 left' cs of Inl e \<Rightarrow> Inl e | Inr bs \<Rightarrow> Inr (byte # bs)))"

definition rstrip_eq :: "string \<Rightarrow> string" where
  "rstrip_eq s = rev (dropWhile (\<lambda>c. c = CHR ''='') (rev s))"

definition b64url_encode :: "bytes \<Rightarrow> string" where
  "b64url_encode data = rstrip_eq (b64_encode data)"

definition b64url_decode :: "string \<Rightarrow> exn + bytes" where
  "b64url_decode data =
     (let padding = replicate (nat ((- int (length data)) mod 4)) (CHR ''='') in
      if list_ex (\<lambda>c. 128 \<le> (of_char c :: int)) data
      then Inl (exn_of ValueError ''string argument should contain only ASCII characters'')
      else a2b_base64 0 0 0 (data @ padding))"


section \<open>Integers as bytes\<close>

definition from_bytes :: "bytes \<Rightarrow> int" where
  "from_bytes bs = foldl (\<lambda>acc b. acc * 256 + b) 0 bs"

fun to_bytes :: "nat \<Rightarrow> int \<Rightarrow> bytes" where
  "to_bytes 0 n = []"
| "to_bytes (Suc k) n = to_bytes k (n div 256) @ [n mod 256]"


section \<open>Compact JSON\<close>

definition hex4 :: "int \<Rightarrow> string" where
  "hex4 n = map (\<lambda>k. digit_char (nat (n div 16 ^ k mod 16))) [3, 2, 1, 0]"

text \<open>One code point under \<open>ensure_ascii\<close>.\<close>

definition json_escape :: "int \<Rightarrow> string" where
  "json_escape n =
     (if n = 34 then [CHR 0x5C, CHR 0x22]
      else if n = 92 then [CHR 0x5C, CHR 0x5C]
      else if n = 10 then [CHR 0x5C, CHR ''n'']
      else if n = 13 then [CHR 0x5C, CHR ''r'']
      else if n = 9 then [CHR 0x5C, CHR ''t'']
      else if n = 8 then [CHR 0x5C, CHR ''b'']
      else if n = 12 then [CHR 0x5C, CHR ''f'']
      else if 32 \<le> n \<and> n \<le> 126 then [char_of n]
      else if n < 65536 then [CHR 0x5C, CHR ''u''] @ hex4 n
      else [CHR 0x5C, CHR ''u''] @ hex4 (55296 + (n - 65536) div 1024)
             @ [CHR 0x5C, CHR ''u''] @ hex4 (56320 + (n - 65536) mod 1024))"

definition json_string :: "utext \<Rightarrow> string" where
  "json_string t = [CHR 0x22] @ concat (map json_escape t) @ [CHR 0x22]"

fun join :: "string \<Rightarrow> string list \<Rightarrow> string" where
  "join sep [] = []"
| "join sep [x] = x"
| "join sep (x # y # ys) = x @ sep @ join sep (y # ys)"

text \<open>
  \<open>json.dumps(v, separators=(",", ":"))\<close>; objects are printed in the order they have. The
  rendering of a number is a parameter, \<open>show_num\<close>.
\<close>

fun json_dumps :: "(rat \<Rightarrow> string) \<Rightarrow> json \<Rightarrow> string" where
  "json_dumps show_num JNull = ''null''"
| "json_dumps show_num (JBool b) = (if b then ''true'' else ''false'')"
| "json_dumps show_num (JNum q) = show_num q"
| "json_dumps show_num (JStr s) = json_string (asc s)"
| "json_dumps show_num (JText t) = json_string t"
| "json_dumps show_num (JList vs) = ''['' @ join '','' (map (json_dumps show_num) vs) @ '']''"
| "json_dumps show_num (JObj d) =
     ''{'' @ join '','' (map (\<lambda>(k, v). json_string (asc k) @ '':'' @ json_dumps show_num v) d) @ ''}''"


section \<open>SHA-256\<close>

unbundle bit_operations_syntax

text \<open>The constants: the first 32 bits of the fractional parts of the cube and square roots of the first primes.\<close>

definition sha256_k :: "32 word list" where
  "sha256_k =
     [1116352408, 1899447441, 3049323471, 3921009573, 961987163, 1508970993, 2453635748, 2870763221,
      3624381080, 310598401, 607225278, 1426881987, 1925078388, 2162078206, 2614888103, 3248222580,
      3835390401, 4022224774, 264347078, 604807628, 770255983, 1249150122, 1555081692, 1996064986,
      2554220882, 2821834349, 2952996808, 3210313671, 3336571891, 3584528711, 113926993, 338241895,
      666307205, 773529912, 1294757372, 1396182291, 1695183700, 1986661051, 2177026350, 2456956037,
      2730485921, 2820302411, 3259730800, 3345764771, 3516065817, 3600352804, 4094571909, 275423344,
      430227734, 506948616, 659060556, 883997877, 958139571, 1322822218, 1537002063, 1747873779,
      1955562222, 2024104815, 2227730452, 2361852424, 2428436474, 2756734187, 3204031479, 3329325298]"

definition sha256_init :: "32 word list" where
  "sha256_init =
     [1779033703, 3144134277, 1013904242, 2773480762, 1359893119, 2600822924, 528734635, 1541459225]"

text \<open>Padding to a multiple of 64 bytes: a one bit, zeros, the length in bits.\<close>

definition sha256_pad :: "bytes \<Rightarrow> bytes" where
  "sha256_pad m = m @ [128] @ replicate (nat ((55 - int (length m)) mod 64)) 0
     @ to_bytes 8 (8 * int (length m))"

fun be_words :: "bytes \<Rightarrow> 32 word list" where
  "be_words (a # b # c # d # bs) = word_of_int (from_bytes [a, b, c, d]) # be_words bs"
| "be_words _ = []"

text \<open>Message schedule: \<open>n\<close> further words, most recent first.\<close>

fun sha256_schedule :: "nat \<Rightarrow> 32 word list \<Rightarrow> 32 word list" where
  "sha256_schedule 0 w = rev w"
| "sha256_schedule (Suc n) w =
     (let w15 = w ! 14; w2 = w ! 1;
          s0 = word_rotr 7 w15 XOR word_rotr 18 w15 XOR drop_bit 3 w15;
          s1 = word_rotr 17 w2 XOR word_rotr 19 w2 XOR drop_bit 10 w2
      in sha256_schedule n ((w ! 15 + s0 + w ! 6 + s1) # w))"

fun sha256_round :: "32 word list \<Rightarrow> 32 word \<times> 32 word \<Rightarrow> 32 word list" where
  "sha256_round [a, b, c, d, e, f, g, h] (k, w) =
     (let t1 = h + (word_rotr 6 e XOR word_rotr 11 e XOR word_rotr 25 e)
                 + ((e AND f) XOR (NOT e AND g)) + k + w;
          t2 = (word_rotr 2 a XOR word_rotr 13 a XOR word_rotr 22 a)
                 + ((a AND b) XOR (a AND c) XOR (b AND c))
      in [t1 + t2, a, b, c, d + t1, e, f, g])"
| "sha256_round v _ = v"

definition sha256_block :: "32 word list \<Rightarrow> bytes \<Rightarrow> 32 word list" where
  "sha256_block hs block =
     (let w = sha256_schedule 48 (rev (be_words block))
      in map2 (+) hs (foldl sha256_round hs (zip sha256_k w)))"

fun sha256_blocks :: "nat \<Rightarrow> 32 word list \<Rightarrow> bytes \<Rightarrow> 32 word list" where
  "sha256_blocks 0 hs m = hs"
| "sha256_blocks (Suc n) hs m = sha256_blocks n (sha256_block hs (take 64 m)) (drop 64 m)"

definition sha256 :: "bytes \<Rightarrow> bytes" where
  "sha256 m = (let p = sha256_pad m in
     concat (map (\<lambda>w. to_bytes 4 (uint w)) (sha256_blocks (length p div 64) sha256_init p)))"


section \<open>Round trips\<close>

lemma b64_table: "list_all (\<lambda>i. b64_val (b64_char i) = Some i \<and> b64_char i \<noteq> CHR ''=''
    \<and> (of_char (b64_char i) :: int) < 128) [0..63]"
  by code_simp

lemma b64_char_facts [simp]:
  assumes "0 \<le> i" "i < 64"
  shows "b64_val (b64_char i) = Some i" "b64_char i \<noteq> CHR ''=''" "(of_char (b64_char i) :: int) < 128"
  using b64_table assms by (auto simp: list_all_iff)

lemma pack [simp]:
  fixes x y m :: int
  assumes "0 \<le> y" "y < m"
  shows "(x * m + y) div m = x" "(x * m + y) mod m = y"
  using assms by (simp_all add: div_mult_self3 div_pos_pos_trivial)

lemma pack_bounds:
  fixes x y :: int
  assumes "0 \<le> x" "0 \<le> y"
  shows "x < 4 \<Longrightarrow> y < 16 \<Longrightarrow> 0 \<le> x * 16 + y \<and> x * 16 + y < 64"
    "x < 16 \<Longrightarrow> y < 4 \<Longrightarrow> 0 \<le> x * 4 + y \<and> x * 4 + y < 64"
  using assms by simp_all

text \<open>A group as four sextets that determine the three bytes.\<close>

definition sextets :: "int \<Rightarrow> int \<Rightarrow> int \<Rightarrow> int \<Rightarrow> int \<Rightarrow> int \<Rightarrow> int \<Rightarrow> bool" where
  "sextets a b c i j k l \<longleftrightarrow> b64_group a b c = [b64_char i, b64_char j, b64_char k, b64_char l] \<and>
     0 \<le> i \<and> i < 64 \<and> 0 \<le> j \<and> j < 64 \<and> 0 \<le> k \<and> k < 64 \<and> 0 \<le> l \<and> l < 64 \<and>
     i * 4 + j div 16 = a \<and> j mod 16 * 16 + k div 4 = b \<and> k mod 4 * 64 + l = c"

definition byte_ok :: "int \<Rightarrow> bool" where
  "byte_ok b \<longleftrightarrow> 0 \<le> b \<and> b < 256"

lemma bytes_ok_Cons [simp]: "bytes_ok (b # bs) \<longleftrightarrow> byte_ok b \<and> bytes_ok bs" "bytes_ok []" "byte_ok 0"
  by (simp_all add: bytes_ok_def byte_ok_def)

lemma group_sextets:
  assumes "byte_ok a" "byte_ok b" "byte_ok c"
  shows "\<exists>i j k l. sextets a b c i j k l"
proof -
  have parts: "0 \<le> b div 16" "b div 16 < 16" "0 \<le> c div 64" "c div 64 < 4" "0 \<le> a div 4" "a div 4 < 64"
    using assms by (auto simp: byte_ok_def div_less_iff_less_mult pos_imp_zdiv_nonneg_iff)
  have "sextets a b c (a div 4) ((a mod 4) * 16 + b div 16) ((b mod 16) * 4 + c div 64) (c mod 64)"
    unfolding sextets_def
  proof (intro conjI)
    show "0 \<le> (a mod 4) * 16 + b div 16" "(a mod 4) * 16 + b div 16 < 64"
      using pack_bounds(1) [of "a mod 4" "b div 16"] parts by simp_all
    show "0 \<le> (b mod 16) * 4 + c div 64" "(b mod 16) * 4 + c div 64 < 64"
      using pack_bounds(2) [of "b mod 16" "c div 64"] parts by simp_all
  qed (use parts in \<open>simp_all add: b64_group_def\<close>)
  then show ?thesis by blast
qed

text \<open>The encoding without its padding.\<close>

fun b64_bare :: "bytes \<Rightarrow> string" where
  "b64_bare [] = []"
| "b64_bare [a] = take 2 (b64_group a 0 0)"
| "b64_bare [a, b] = take 3 (b64_group a b 0)"
| "b64_bare (a # b # c # bs) = b64_group a b c @ b64_bare bs"

definition sextet_char :: "char \<Rightarrow> bool" where
  "sextet_char ch \<longleftrightarrow> ch \<noteq> CHR ''='' \<and> (of_char ch :: int) < 128"

lemma b64_group_chars: "byte_ok a \<Longrightarrow> byte_ok b \<Longrightarrow> byte_ok c \<Longrightarrow> list_all sextet_char (b64_group a b c)"
  using group_sextets [of a b c] by (auto simp: sextet_char_def sextets_def)

lemma list_all_take: "list_all P xs \<Longrightarrow> list_all P (take n xs)"
  by (auto simp: list_all_iff dest: in_set_takeD)

lemma b64_bare_chars: "bytes_ok bs \<Longrightarrow> list_all sextet_char (b64_bare bs)"
  by (induction bs rule: b64_bare.induct)
     (auto simp: b64_group_chars list_all_take)

lemma b64_encode_bare: "\<exists>k. b64_encode bs = b64_bare bs @ replicate k (CHR ''='')"
proof (induction bs rule: b64_bare.induct)
  case (2 a)
  show ?case by (intro exI [of _ 2]) (simp add: numeral_2_eq_2)
next
  case (3 a b)
  show ?case by (intro exI [of _ 1]) simp
qed auto

lemma b64url_encode_bare: "bytes_ok bs \<Longrightarrow> b64url_encode bs = b64_bare bs"
proof -
  assume ok: "bytes_ok bs"
  obtain k where "b64_encode bs = b64_bare bs @ replicate k (CHR ''='')"
    using b64_encode_bare by blast
  moreover have "dropWhile (\<lambda>c. c = CHR ''='') (replicate k (CHR ''='') @ xs) = dropWhile (\<lambda>c. c = CHR ''='') xs" for xs
    by (induction k) simp_all
  moreover have "dropWhile (\<lambda>c. c = CHR ''='') (rev (b64_bare bs)) = rev (b64_bare bs)"
    using b64_bare_chars [OF ok]
    by (cases "rev (b64_bare bs)") (auto simp: sextet_char_def list_all_iff)
  ultimately show ?thesis by (simp add: b64url_encode_def rstrip_eq_def)
qed

lemma neg_mod_4: "(- (int n + 4)) mod 4 = (- int n) mod 4"
  by presburger

lemma a2b_group:
  "sextets a b c i j k m \<Longrightarrow> a2b_base64 0 p l (take 2 (b64_group a b c) @ ''=='') = Inr [a]"
  "sextets a b c i j k m \<Longrightarrow> a2b_base64 0 p l (take 3 (b64_group a b c) @ ''='') = Inr [a, b]"
  "sextets a b c i j k m \<Longrightarrow> a2b_base64 0 p l (b64_group a b c @ cs) =
     (case a2b_base64 0 0 0 cs of Inl e \<Rightarrow> Inl e | Inr bs \<Rightarrow> Inr (a # b # c # bs))"
  by (simp_all add: sextets_def split: sum.splits)

lemma length_b64_group [simp]: "length (b64_group a b c) = 4"
  by (simp add: b64_group_def)

definition b64_padding :: "string \<Rightarrow> string" where
  "b64_padding s = replicate (nat ((- int (length s)) mod 4)) (CHR ''='')"

lemma b64_padding_simps:
  "b64_padding [] = []" "b64_padding (take 2 (b64_group a b c)) = ''==''"
  "b64_padding (take 3 (b64_group a b c)) = ''=''" "b64_padding (b64_group a b c @ s) = b64_padding s"
proof -
  show "b64_padding (b64_group a b c @ s) = b64_padding s"
    using neg_mod_4 [of "length s"] unfolding b64_padding_def length_append length_b64_group of_nat_add
    by (simp only: of_nat_numeral add.commute)
qed (simp_all add: b64_padding_def numeral_2_eq_2)

lemma a2b_bare: "bytes_ok bs \<Longrightarrow> a2b_base64 0 p l (b64_bare bs @ b64_padding (b64_bare bs)) = Inr bs"
proof (induction bs arbitrary: p l rule: b64_bare.induct)
  case (2 a)
  then show ?case using group_sextets [of a 0 0] by (auto simp: b64_padding_simps a2b_group)
next
  case (3 a b)
  then show ?case using group_sextets [of a b 0] by (auto simp: b64_padding_simps a2b_group)
next
  case (4 a b c bs)
  then show ?case using group_sextets [of a b c] by (auto simp: b64_padding_simps a2b_group)
qed (simp add: b64_padding_simps)

lemma b64url_roundtrip: "bytes_ok bs \<Longrightarrow> b64url_decode (b64url_encode bs) = Inr bs"
proof -
  assume ok: "bytes_ok bs"
  have "\<not> list_ex (\<lambda>c. 128 \<le> (of_char c :: int)) (b64_bare bs)"
    using b64_bare_chars [OF ok] unfolding list_ex_iff list_all_iff sextet_char_def
    by (meson linorder_not_less)
  then show ?thesis
    using a2b_bare [OF ok, of 0 0] by (simp add: b64url_decode_def b64url_encode_bare [OF ok] Let_def b64_padding_def)
qed

lemma from_bytes_snoc: "from_bytes (bs @ [b]) = from_bytes bs * 256 + b"
  by (simp add: from_bytes_def)

lemma from_to_bytes: "0 \<le> n \<Longrightarrow> n < 256 ^ k \<Longrightarrow> from_bytes (to_bytes k n) = n"
proof (induction k arbitrary: n)
  case (Suc k)
  have "n div 256 < 256 ^ k"
    using Suc.prems(2) by (simp add: div_less_iff_less_mult mult.commute [of _ 256])
  then have "from_bytes (to_bytes k (n div 256)) = n div 256"
    using Suc.prems(1) by (intro Suc.IH) (simp_all add: pos_imp_zdiv_nonneg_iff)
  then show ?case by (simp add: from_bytes_snoc)
qed (simp add: from_bytes_def)

lemma to_bytes_ok: "bytes_ok (to_bytes k n)"
  by (induction k arbitrary: n) (simp_all add: bytes_ok_def byte_ok_def)

lemma length_to_bytes [simp]: "length (to_bytes k n) = k"
  by (induction k arbitrary: n) simp_all

end
