(* ===== verification/ReplayStore.thy ===== *)
theory ReplayStore
  imports PyStd
begin

text \<open>
  \<open>src/governance/replay_store.py\<close>: stores of used DPoP proof identifiers. The in-memory store keeps
  the expiry time of every \<open>jti\<close>; the Redis store delegates to \<open>SET key "1" EX ttl NX\<close> of a client
  that is not part of the repository, so the client call is a parameter and its state an abstract
  type. Time is a rational number of seconds, given to each call (the in-memory store reads
  \<open>time.time()\<close> once per call; a Redis server has its own clock).

  The locale states what \<open>validate_dpop_proof\<close> relies on; a \<open>jti\<close> is then never accepted twice within
  the lifetime it was registered for. The in-memory store satisfies it, and so does the Redis store
  over a client with the documented behaviour of \<open>SET ... NX\<close>.
\<close>

section \<open>The stores\<close>

type_synonym 'r redis_set = "string \<Rightarrow> string \<Rightarrow> int \<Rightarrow> bool \<Rightarrow> rat \<Rightarrow> 'r \<Rightarrow> bool \<times> 'r"

datatype 'r replay_store =
    InMemoryDPoPReplayStore "string \<rightharpoonup> rat"
  | RedisDPoPReplayStore string 'r

definition drop_expired :: "rat \<Rightarrow> (string \<rightharpoonup> rat) \<Rightarrow> (string \<rightharpoonup> rat)" where
  "drop_expired now entries =
     (\<lambda>k. case entries k of None \<Rightarrow> None | Some expires_at \<Rightarrow> if expires_at \<le> now then None else Some expires_at)"

definition register_in_memory ::
  "string \<Rightarrow> int \<Rightarrow> rat \<Rightarrow> (string \<rightharpoonup> rat) \<Rightarrow> bool \<times> (string \<rightharpoonup> rat)" where
  "register_in_memory jti ttl_seconds now entries =
     (let entries' = drop_expired now entries in
      if entries' jti \<noteq> None then (False, entries')
      else (True, entries'(jti \<mapsto> now + of_int ttl_seconds)))"

definition register_redis ::
  "'r redis_set \<Rightarrow> string \<Rightarrow> string \<Rightarrow> int \<Rightarrow> rat \<Rightarrow> 'r \<Rightarrow> bool \<times> 'r" where
  "register_redis redis_set namespace jti ttl_seconds now client =
     redis_set (namespace @ '':'' @ jti) ''1'' ttl_seconds True now client"

definition register_if_unused ::
  "'r redis_set \<Rightarrow> string \<Rightarrow> int \<Rightarrow> rat \<Rightarrow> 'r replay_store \<Rightarrow> bool \<times> 'r replay_store" where
  "register_if_unused redis_set jti ttl_seconds now st =
     (case st of
        InMemoryDPoPReplayStore entries \<Rightarrow>
          (let (r, e) = register_in_memory jti ttl_seconds now entries in (r, InMemoryDPoPReplayStore e))
      | RedisDPoPReplayStore ns client \<Rightarrow>
          (let (r, c) = register_redis redis_set ns jti ttl_seconds now client in (r, RedisDPoPReplayStore ns c)))"


section \<open>The contract\<close>

text \<open>Requests \<open>(jti, ttl, time)\<close> served in order.\<close>

fun register_all ::
  "(string \<Rightarrow> int \<Rightarrow> rat \<Rightarrow> 's \<Rightarrow> bool \<times> 's) \<Rightarrow> (string \<times> int \<times> rat) list \<Rightarrow> 's \<Rightarrow> bool list" where
  "register_all register [] s = []"
| "register_all register ((jti, ttl, t) # reqs) s =
     (let (r, s') = register jti ttl t s in r # register_all register reqs s')"

fun in_time_order :: "(string \<times> int \<times> rat) list \<Rightarrow> bool" where
  "in_time_order [] = True"
| "in_time_order ((_, _, t) # reqs) \<longleftrightarrow> list_all (\<lambda>q. t \<le> snd (snd q)) reqs \<and> in_time_order reqs"

locale replay_contract =
  fixes register :: "string \<Rightarrow> int \<Rightarrow> rat \<Rightarrow> 's \<Rightarrow> bool \<times> 's"
    and used :: "'s \<Rightarrow> rat \<Rightarrow> string set"
  assumes accept_iff: "fst (register jti ttl now s) \<longleftrightarrow> jti \<notin> used s now"
    and used_after: "now \<le> t \<Longrightarrow> used (snd (register jti ttl now s)) t =
      used s t \<union> (if fst (register jti ttl now s) \<and> t < now + of_int ttl then {jti} else {})"
begin

lemma length_register_all: "length (register_all register reqs s) = length reqs"
  by (induction reqs arbitrary: s) (auto split: prod.splits)

lemma used_mono: "now \<le> t \<Longrightarrow> used s t \<subseteq> used (snd (register jti ttl now s)) t"
  by (simp add: used_after)

lemma used_blocks:
  assumes "in_time_order reqs" "list_all (\<lambda>q. t0 \<le> snd (snd q)) reqs"
    and "\<And>t. t0 \<le> t \<Longrightarrow> t < e \<Longrightarrow> jti \<in> used s t"
    and "j < length reqs" "reqs ! j = (jti, ttl, t)" "register_all register reqs s ! j"
  shows "e \<le> t"
  using assms
proof (induction reqs arbitrary: s j t0)
  case (Cons r reqs)
  obtain jti' ttl' t' where r: "r = (jti', ttl', t')" by (cases r)
  have t': "t0 \<le> t'" using Cons.prems(2) r by simp
  show ?case
  proof (cases j)
    case 0
    with Cons.prems r accept_iff [of jti ttl t s] show ?thesis
      by (auto simp: split_beta not_less [symmetric])
  next
    case (Suc k)
    show ?thesis
    proof (rule Cons.IH [of t' "snd (register jti' ttl' t' s)" k])
      show "jti \<in> used (snd (register jti' ttl' t' s)) u" if "t' \<le> u" "u < e" for u
        using that t' Cons.prems(3) [of u] used_mono [of t' u s jti' ttl'] by auto
    qed (use Cons.prems Suc r in \<open>auto simp: split_beta\<close>)
  qed
qed simp

lemma no_replay:
  assumes "in_time_order reqs" "i < j" "j < length reqs"
    and "reqs ! i = (jti, ttl, t)" "reqs ! j = (jti, ttl', t')"
    and "register_all register reqs s ! i" "register_all register reqs s ! j"
  shows "t + of_int ttl \<le> t'"
  using assms
proof (induction reqs arbitrary: s i j)
  case (Cons r reqs)
  obtain jti1 ttl1 t1 where r: "r = (jti1, ttl1, t1)" by (cases r)
  obtain k where k: "j = Suc k" using Cons.prems(2) by (cases j) auto
  show ?case
  proof (cases i)
    case 0
    then have acc: "jti1 = jti" "ttl1 = ttl" "t1 = t" "fst (register jti ttl t s)"
      using Cons.prems r by (auto simp: split_beta)
    show ?thesis
    proof (rule used_blocks [of reqs t "t + of_int ttl" jti "snd (register jti ttl t s)" k ttl' t'])
      show "jti \<in> used (snd (register jti ttl t s)) u" if "t \<le> u" "u < t + of_int ttl" for u
        using that acc(4) by (simp add: used_after)
    qed (use Cons.prems k r acc in \<open>auto simp: split_beta\<close>)
  next
    case (Suc m)
    then show ?thesis
      using Cons.prems k r Cons.IH [of m k "snd (register jti1 ttl1 t1 s)"] by (auto simp: split_beta)
  qed
qed simp

end


section \<open>The stores meet it\<close>

definition used_in_memory :: "(string \<rightharpoonup> rat) \<Rightarrow> rat \<Rightarrow> string set" where
  "used_in_memory entries t = {jti. \<exists>e. entries jti = Some e \<and> t < e}"

interpretation memory_store: replay_contract register_in_memory used_in_memory
proof
  fix jti ttl now s
  show "fst (register_in_memory jti ttl now s) \<longleftrightarrow> jti \<notin> used_in_memory s now"
    by (auto simp: register_in_memory_def used_in_memory_def drop_expired_def Let_def
        split: option.splits if_splits)
next
  fix jti ttl now s t
  assume "now \<le> (t :: rat)"
  then show "used_in_memory (snd (register_in_memory jti ttl now s)) t =
      used_in_memory s t \<union> (if fst (register_in_memory jti ttl now s) \<and> t < now + of_int ttl then {jti} else {})"
    by (auto simp: register_in_memory_def used_in_memory_def drop_expired_def Let_def
        split: option.splits if_splits)
qed

text \<open>The documented behaviour of \<open>SET key value EX ttl NX\<close>, over the set of live keys.\<close>

definition redis_documented :: "'r redis_set \<Rightarrow> ('r \<Rightarrow> rat \<Rightarrow> string set) \<Rightarrow> bool" where
  "redis_documented redis_set keys \<longleftrightarrow>
     (\<forall>key val ttl now c. fst (redis_set key val ttl True now c) \<longleftrightarrow> key \<notin> keys c now) \<and>
     (\<forall>key val ttl now c t. now \<le> t \<longrightarrow> keys (snd (redis_set key val ttl True now c)) t =
        keys c t \<union> (if key \<notin> keys c now \<and> t < now + of_int ttl then {key} else {}))"

lemma redis_contract:
  "redis_documented redis_set keys \<Longrightarrow>
     replay_contract (register_redis redis_set ns) (\<lambda>c t. {jti. ns @ '':'' @ jti \<in> keys c t})"
  by (intro replay_contract.intro) (auto simp: redis_documented_def register_redis_def)

text \<open>
  Replay protection of the in-memory store: among requests in time order, the same \<open>jti\<close> is
  accepted again only when the lifetime of its earlier registration is over.
\<close>

theorem memory_store_no_replay:
  assumes "in_time_order reqs" and "i < j" and "j < length reqs"
    and "reqs ! i = (jti, ttl, t)" and "reqs ! j = (jti, ttl', t')"
    and "register_all register_in_memory reqs entries ! i"
    and "register_all register_in_memory reqs entries ! j"
  shows "t + of_int ttl \<le> t'"
  using memory_store.no_replay [OF assms] .

theorem memory_store_no_replay_witness:
  "register_all register_in_memory [(''a'', 300, 10), (''a'', 300, 200), (''a'', 300, 310)] Map.empty
     = [True, False, True] \<and> (10::rat) + of_int 300 \<le> 310"
proof -
  let ?reqs = "[(''a'', 300, 10), (''a'', 300, 200), (''a'', 300, 310)] :: (string \<times> int \<times> rat) list"
  have run: "register_all register_in_memory ?reqs Map.empty = [True, False, True]"
    by (simp add: register_in_memory_def drop_expired_def Let_def)
  have "(10::rat) + of_int 300 \<le> 310"
    by (rule memory_store_no_replay [of ?reqs 0 2 "''a''" 300 10 300 310 Map.empty]) (simp_all add: run del: register_all.simps)
  with run show ?thesis by simp
qed

text \<open>
  The Redis store gives the same guarantee over every client that behaves as Redis documents
  \<open>SET key value EX ttl NX\<close>: it sets the key and returns true exactly when the key is not live, and
  the key is live until its time to live is over.
\<close>

theorem redis_store_no_replay:
  assumes "redis_documented redis_set keys" and "in_time_order reqs" and "i < j" and "j < length reqs"
    and "reqs ! i = (jti, ttl, t)" and "reqs ! j = (jti, ttl', t')"
    and "register_all (register_redis redis_set ns) reqs client ! i"
    and "register_all (register_redis redis_set ns) reqs client ! j"
  shows "t + of_int ttl \<le> t'"
  by (rule replay_contract.no_replay [OF redis_contract [OF assms(1)] assms(2-8)])

text \<open>A client with the documented behaviour: a map from keys to expiry times.\<close>

definition map_redis_set :: "(string \<rightharpoonup> rat) redis_set" where
  "map_redis_set key val ttl nx now c =
     (case c key of
        Some e \<Rightarrow> if now < e \<and> nx then (False, c) else (True, c(key \<mapsto> now + of_int ttl))
      | None \<Rightarrow> (True, c(key \<mapsto> now + of_int ttl)))"

lemma map_redis_documented: "redis_documented map_redis_set used_in_memory"
  by (auto simp: redis_documented_def map_redis_set_def used_in_memory_def
      split: option.splits if_splits)

theorem redis_store_no_replay_witness:
  "register_all (register_redis map_redis_set ''ns'') [(''a'', 300, 10), (''b'', 300, 20), (''a'', 300, 310)] Map.empty
     = [True, True, True] \<and> (10::rat) + of_int 300 \<le> 310"
proof -
  let ?reqs = "[(''a'', 300, 10), (''b'', 300, 20), (''a'', 300, 310)] :: (string \<times> int \<times> rat) list"
  have run: "register_all (register_redis map_redis_set ''ns'') ?reqs Map.empty = [True, True, True]"
    by (simp add: register_redis_def map_redis_set_def)
  have "(10::rat) + of_int 300 \<le> 310"
    by (rule redis_store_no_replay [OF map_redis_documented, of ?reqs 0 2 "''a''" 300 10 300 310 "''ns''" Map.empty])
       (simp_all add: run del: register_all.simps)
  with run show ?thesis by simp
qed

end
