(* ===== verification/SessionManager.thy ===== *)
theory SessionManager
  imports PyCodec ReplayStore Config
begin

text \<open>
  \<open>src/governance/session_mgr.py\<close>: issue, validation, rotation and revocation of session tokens, and
  DPoP proofs for sender-constrained ones.

  A \<open>session_manager\<close> holds the revocation list, the rotation index and the replay store of the Python
  object, together with what it reads from outside: the clock (\<open>sm_clock n\<close> is the \<open>n\<close>-th reading of
  \<open>time.time()\<close>, in seconds) and the supply of \<open>uuid4\<close> values.

  \<open>python-jose\<close>, \<open>cryptography\<close>, pydantic's reading of numeric strings and the Redis client are not
  part of the repository: they are the fields of \<open>token_libs\<close>, an argument of every definition that
  calls them. A JWT payload or header is a JSON object whose strings are \<open>JStr\<close>. The library's
  \<open>jwt.decode\<close> reads the clock itself, so \<open>jwt_decode\<close> takes the time.
\<close>

section \<open>Libraries\<close>

record 'r token_libs =
  jwt_encode :: "json dict \<Rightarrow> string \<Rightarrow> string \<Rightarrow> json dict \<Rightarrow> exn + string"
  jwt_decode :: "string \<Rightarrow> string \<Rightarrow> string \<Rightarrow> rat \<Rightarrow> exn + json dict"
  jwt_get_unverified_header :: "string \<Rightarrow> exn + json dict"
  jwt_get_unverified_claims :: "string \<Rightarrow> exn + json dict"
  ec_public_pem :: "string \<Rightarrow> int \<Rightarrow> int \<Rightarrow> exn + string"
  rsa_public_pem :: "int \<Rightarrow> int \<Rightarrow> exn + string"
  public_pem_of_private :: "string \<Rightarrow> exn + string"
  float_of_string :: "string \<Rightarrow> rat option"
  float_repr :: "rat \<Rightarrow> string"
  redis_client_set :: "'r redis_set"


section \<open>Claims\<close>

record token_claims =
  tc_jti :: string
  tc_sub :: string
  tc_agent_type :: string
  tc_session_id :: "string option"
  tc_task_id :: "string option"
  tc_allowed_actions :: "string list"
  tc_role :: "string option"
  tc_issued_at :: rat
  tc_expires_at :: rat
  tc_metadata :: "string dict"
  tc_cnf :: "string option"

record dpop_proof_claims =
  dp_jti :: string
  dp_htm :: string
  dp_htu :: string
  dp_iat :: int
  dp_ath :: "string option"
  dp_nonce :: "string option"

record token_request =
  rq_agent_type :: string
  rq_requester_id :: string
  rq_metadata :: "string dict"
  rq_session_id :: "string option"
  rq_allowed_actions :: "string list"
  rq_role :: "string option"
  rq_expires_in_seconds :: "int option"
  rq_rotation_key :: "string option"
  rq_task_id :: "string option"
  rq_confirmation_jwk :: "json dict option"

text \<open>\<open>repr\<close> of a JSON value.\<close>

fun json_repr :: "(rat \<Rightarrow> string) \<Rightarrow> json \<Rightarrow> string" where
  "json_repr show_num JNull = ''None''"
| "json_repr show_num (JBool b) = (if b then ''True'' else ''False'')"
| "json_repr show_num (JNum q) = show_num q"
| "json_repr show_num (JStr s) = py_repr s"
| "json_repr show_num (JText t) = py_repr (concat (map json_escape t))"
| "json_repr show_num (JList vs) = ''['' @ join '', '' (map (json_repr show_num) vs) @ '']''"
| "json_repr show_num (JObj d) =
     ''{'' @ join '', '' (map (\<lambda>(k, v). py_repr k @ '': '' @ json_repr show_num v) d) @ ''}''"

definition json_str :: "(rat \<Rightarrow> string) \<Rightarrow> json \<Rightarrow> string" where
  "json_str show_num v = (case v of JStr s \<Rightarrow> s | _ \<Rightarrow> json_repr show_num v)"

text \<open>Field validation of the pydantic models: a wrong type is a \<open>ValidationError\<close>.\<close>

definition invalid :: "exn + 'a" where
  "invalid = Inl (exn_of ValidationError ''validation error'')"

definition v_str :: "json \<Rightarrow> exn + string" where
  "v_str v = (case v of JStr s \<Rightarrow> Inr s | _ \<Rightarrow> invalid)"

definition v_opt_str :: "json option \<Rightarrow> exn + string option" where
  "v_opt_str v = (case v of None \<Rightarrow> Inr None | Some JNull \<Rightarrow> Inr None | Some (JStr s) \<Rightarrow> Inr (Some s) | _ \<Rightarrow> invalid)"

definition v_float :: "'r token_libs \<Rightarrow> json \<Rightarrow> exn + rat" where
  "v_float lib v =
     (case v of JNum q \<Rightarrow> Inr q | JBool b \<Rightarrow> Inr (if b then 1 else 0)
      | JStr s \<Rightarrow> (case float_of_string lib s of Some q \<Rightarrow> Inr q | None \<Rightarrow> invalid) | _ \<Rightarrow> invalid)"

definition v_int :: "'r token_libs \<Rightarrow> json \<Rightarrow> exn + int" where
  "v_int lib v = (case v_float lib v of Inl e \<Rightarrow> Inl e | Inr q \<Rightarrow> if of_int \<lfloor>q\<rfloor> = q then Inr \<lfloor>q\<rfloor> else invalid)"

fun v_strs :: "json list \<Rightarrow> exn + string list" where
  "v_strs [] = Inr []"
| "v_strs (v # vs) =
     (case v_str v of Inl e \<Rightarrow> Inl e | Inr s \<Rightarrow> (case v_strs vs of Inl e \<Rightarrow> Inl e | Inr ss \<Rightarrow> Inr (s # ss)))"

fun v_str_items :: "json dict \<Rightarrow> exn + string dict" where
  "v_str_items [] = Inr []"
| "v_str_items ((k, v) # d) =
     (case v_str v of Inl e \<Rightarrow> Inl e | Inr s \<Rightarrow>
       (case v_str_items d of Inl e \<Rightarrow> Inl e | Inr r \<Rightarrow> Inr ((k, s) # r)))"

definition v_str_dict :: "json \<Rightarrow> exn + string dict" where
  "v_str_dict v = (case v of JObj d \<Rightarrow> v_str_items d | _ \<Rightarrow> invalid)"

text \<open>\<open>ConfirmationClaims.model_validate\<close>.\<close>

definition v_cnf :: "json option \<Rightarrow> exn + string option" where
  "v_cnf v = (case v of None \<Rightarrow> Inr None | Some JNull \<Rightarrow> Inr None
     | Some (JObj d) \<Rightarrow> (case map_of d ''jkt'' of Some (JStr s) \<Rightarrow> Inr (Some s) | _ \<Rightarrow> invalid)
     | Some _ \<Rightarrow> invalid)"

text \<open>\<open>list(v)\<close> of a JSON value.\<close>

definition py_list :: "json \<Rightarrow> exn + json list" where
  "py_list v =
     (case v of JList vs \<Rightarrow> Inr vs | JObj d \<Rightarrow> Inr (map (JStr \<circ> fst) d)
      | JStr s \<Rightarrow> Inr (map (\<lambda>c. JStr [c]) s) | JText t \<Rightarrow> Inr (map (\<lambda>c. JText [c]) t)
      | _ \<Rightarrow> Inl (exn_of TypeError ''object is not iterable''))"


section \<open>Keys\<close>

definition curve_from_name :: "'r token_libs \<Rightarrow> json \<Rightarrow> exn + string" where
  "curve_from_name lib v =
     (case v of
        JList _ \<Rightarrow> Inl (exn_of TypeError ''unhashable type'')
      | JObj _ \<Rightarrow> Inl (exn_of TypeError ''unhashable type'')
      | _ \<Rightarrow>
        (if v \<in> {JStr ''P-256'', JStr ''P-384'', JStr ''P-521''} then v_str v
         else Inl (Exn ValueError (''Unsupported JWK curve: '' @ json_repr (float_repr lib) v)
                (Some (exn_of KeyError (json_str (float_repr lib) v))))))"

definition unsupported_kty :: "'r token_libs \<Rightarrow> json dict \<Rightarrow> exn" where
  "unsupported_kty lib jwk =
     exn_of ValueError (''Unsupported JWK key type: ''
       @ json_repr (float_repr lib) (case map_of jwk ''kty'' of Some v \<Rightarrow> v | None \<Rightarrow> JNull))"

text \<open>A dict display \<open>{"k": jwk["k"], ...}\<close>.\<close>

fun select_keys :: "string list \<Rightarrow> json dict \<Rightarrow> exn + json dict" where
  "select_keys [] d = Inr []"
| "select_keys (k # ks) d =
     (case dict_get d k of Inl e \<Rightarrow> Inl e | Inr v \<Rightarrow>
       (case select_keys ks d of Inl e \<Rightarrow> Inl e | Inr r \<Rightarrow> Inr ((k, v) # r)))"

definition required_jwk_fields :: "'r token_libs \<Rightarrow> json dict \<Rightarrow> exn + json dict" where
  "required_jwk_fields lib jwk =
     (if map_of jwk ''kty'' = Some (JStr ''EC'') then select_keys [''crv'', ''kty'', ''x'', ''y''] jwk
      else if map_of jwk ''kty'' = Some (JStr ''RSA'') then select_keys [''e'', ''kty'', ''n''] jwk
      else Inl (unsupported_kty lib jwk))"

definition b64url_uint :: "json dict \<Rightarrow> string \<Rightarrow> exn + int" where
  "b64url_uint jwk k =
     (case dict_get jwk k of Inl e \<Rightarrow> Inl e
      | Inr (JStr s) \<Rightarrow> (case b64url_decode s of Inl e \<Rightarrow> Inl e | Inr bs \<Rightarrow> Inr (from_bytes bs))
      | Inr _ \<Rightarrow> Inl (exn_of TypeError ''a JWK coordinate must be a string''))"

definition public_pem_from_jwk :: "'r token_libs \<Rightarrow> json dict \<Rightarrow> exn + string" where
  "public_pem_from_jwk lib jwk =
     (if map_of jwk ''kty'' = Some (JStr ''EC'') then
        (case dict_get jwk ''crv'' of Inl e \<Rightarrow> Inl e | Inr crv \<Rightarrow>
        (case curve_from_name lib crv of Inl e \<Rightarrow> Inl e | Inr curve \<Rightarrow>
        (case b64url_uint jwk ''x'' of Inl e \<Rightarrow> Inl e | Inr x \<Rightarrow>
        (case b64url_uint jwk ''y'' of Inl e \<Rightarrow> Inl e | Inr y \<Rightarrow> ec_public_pem lib curve x y))))
      else if map_of jwk ''kty'' = Some (JStr ''RSA'') then
        (case b64url_uint jwk ''e'' of Inl e \<Rightarrow> Inl e | Inr e \<Rightarrow>
        (case b64url_uint jwk ''n'' of Inl er \<Rightarrow> Inl er | Inr n \<Rightarrow> rsa_public_pem lib e n))
      else Inl (unsupported_kty lib jwk))"

text \<open>\<open>public_jwk_thumbprint\<close>. The keys of both field sets are already in sorted order.\<close>

definition public_jwk_thumbprint :: "'r token_libs \<Rightarrow> json dict \<Rightarrow> exn + string" where
  "public_jwk_thumbprint lib jwk =
     (case required_jwk_fields lib jwk of Inl e \<Rightarrow> Inl e
      | Inr fs \<Rightarrow> Inr (b64url_encode (sha256 (str_bytes (json_dumps (float_repr lib) (JObj fs))))))"

text \<open>The JWK that \<open>generate_dpop_key_pair\<close> returns for the generated point \<open>(x, y)\<close>.\<close>

definition dpop_public_jwk :: "int \<Rightarrow> int \<Rightarrow> json dict" where
  "dpop_public_jwk x y =
     [(''kty'', JStr ''EC''), (''crv'', JStr ''P-256''),
      (''x'', JStr (b64url_encode (to_bytes 32 x))), (''y'', JStr (b64url_encode (to_bytes 32 y)))]"

definition starts_with_HS :: "string \<Rightarrow> bool" where
  "starts_with_HS alg \<longleftrightarrow> take 2 alg = ''HS''"

definition signing_key :: "settings \<Rightarrow> exn + string" where
  "signing_key cfg =
     (if starts_with_HS (token_algorithm cfg) then Inr (token_secret_key cfg)
      else if token_private_key cfg \<noteq> '''' then Inr (token_private_key cfg)
      else Inl (exn_of ValueError ''AEGIS_TOKEN_PRIVATE_KEY must be configured for asymmetric token signing''))"

definition verification_key :: "'r token_libs \<Rightarrow> settings \<Rightarrow> exn + string" where
  "verification_key lib cfg =
     (if starts_with_HS (token_algorithm cfg) then Inr (token_secret_key cfg)
      else if token_public_key cfg \<noteq> '''' then Inr (token_public_key cfg)
      else if token_private_key cfg \<noteq> '''' then public_pem_of_private lib (token_private_key cfg)
      else Inl (exn_of ValueError
        ''AEGIS_TOKEN_PUBLIC_KEY or AEGIS_TOKEN_PRIVATE_KEY must be configured for asymmetric token verification''))"

definition access_token_hash :: "string \<Rightarrow> string" where
  "access_token_hash token = b64url_encode (sha256 (str_bytes token))"


section \<open>State\<close>

record 'r session_manager =
  sm_revoked_jtis :: "string \<rightharpoonup> rat"
  sm_rotation_index :: "string \<rightharpoonup> string"
  sm_replay_store :: "'r replay_store"
  sm_clock :: "nat \<Rightarrow> rat"
  sm_ticks :: nat
  sm_uuids :: "nat \<Rightarrow> uuid"
  sm_uuid_ticks :: nat

text \<open>\<open>time.time()\<close> and \<open>uuid4()\<close>.\<close>

definition time_now :: "('r session_manager, rat) prog" where
  "time_now = (\<lambda>m. (Inr (sm_clock m (sm_ticks m)), m\<lparr>sm_ticks := Suc (sm_ticks m)\<rparr>))"

definition uuid4 :: "('r session_manager, uuid) prog" where
  "uuid4 = (\<lambda>m. (Inr (sm_uuids m (sm_uuid_ticks m)), m\<lparr>sm_uuid_ticks := Suc (sm_uuid_ticks m)\<rparr>))"

text \<open>\<open>_default_replay_store\<close>, with the Redis client that \<open>Redis.from_url\<close> returns.\<close>

definition default_replay_store :: "settings \<Rightarrow> 'r \<Rightarrow> exn + 'r replay_store" where
  "default_replay_store cfg client =
     (if dpop_replay_store_url cfg \<noteq> '''' then Inr (RedisDPoPReplayStore ''aegis:dpop:jti'' client)
      else if lower (aegis_env cfg) = ''production'' then
        Inl (exn_of ValueError ''AEGIS_DPOP_REPLAY_STORE_URL must be configured in production for shared DPoP proof replay protection'')
      else Inr (InMemoryDPoPReplayStore Map.empty))"

definition new_session_manager ::
  "settings \<Rightarrow> 'r replay_store option \<Rightarrow> 'r \<Rightarrow> (nat \<Rightarrow> rat) \<Rightarrow> (nat \<Rightarrow> uuid) \<Rightarrow> exn + 'r session_manager" where
  "new_session_manager cfg st client clock uuids =
     (case (case st of Some x \<Rightarrow> Inr x | None \<Rightarrow> default_replay_store cfg client) of
        Inl e \<Rightarrow> Inl e
      | Inr x \<Rightarrow> Inr \<lparr>sm_revoked_jtis = Map.empty, sm_rotation_index = Map.empty, sm_replay_store = x,
                     sm_clock = clock, sm_ticks = 0, sm_uuids = uuids, sm_uuid_ticks = 0\<rparr>)"


section \<open>Revocation\<close>

definition purge_expired_revocations :: "rat \<Rightarrow> ('r session_manager, unit) prog" where
  "purge_expired_revocations now =
     modifyE (\<lambda>m. m\<lparr>sm_revoked_jtis := drop_expired now (sm_revoked_jtis m)\<rparr>)"

definition revoke_jti :: "settings \<Rightarrow> string \<Rightarrow> rat option \<Rightarrow> ('r session_manager, unit) prog" where
  "revoke_jti cfg jti expires_at =
     bindE (case expires_at of Some t \<Rightarrow> returnE t
            | None \<Rightarrow> bindE time_now (\<lambda>now. returnE (now + of_int (token_expiry_seconds cfg))))
       (\<lambda>ttl. modifyE (\<lambda>m. m\<lparr>sm_revoked_jtis := (sm_revoked_jtis m)(jti \<mapsto> ttl)\<rparr>))"

definition is_revoked :: "string \<Rightarrow> ('r session_manager, bool) prog" where
  "is_revoked jti =
     bindE time_now (\<lambda>now. thenE (purge_expired_revocations now)
       (getE (\<lambda>m. sm_revoked_jtis m jti \<noteq> None)))"

text \<open>\<open>float(v)\<close> of a JSON value.\<close>

definition py_float :: "'r token_libs \<Rightarrow> json \<Rightarrow> exn + rat" where
  "py_float lib v =
     (case v of JNum q \<Rightarrow> Inr q | JBool b \<Rightarrow> Inr (if b then 1 else 0)
      | JStr s \<Rightarrow> (case float_of_string lib s of Some q \<Rightarrow> Inr q
                    | None \<Rightarrow> Inl (exn_of ValueError ''could not convert string to float''))
      | _ \<Rightarrow> Inl (exn_of TypeError ''float() argument must be a string or a real number''))"

definition revoke_token :: "'r token_libs \<Rightarrow> settings \<Rightarrow> string \<Rightarrow> ('r session_manager, string) prog" where
  "revoke_token lib cfg token =
     (case jwt_get_unverified_claims lib token of
        Inl e \<Rightarrow> (if isinstance e JWTError
                   then raiseE (Exn ValueError ''Unable to revoke malformed token'' (Some e)) else raiseE e)
      | Inr claims \<Rightarrow>
          bindE (liftE (dict_get claims ''jti'')) (\<lambda>v.
            let jti = json_str (float_repr lib) v in
          bindE time_now (\<lambda>now.
          bindE (liftE (py_float lib (case map_of claims ''exp'' of Some x \<Rightarrow> x | None \<Rightarrow> JNum now))) (\<lambda>expires_at.
          thenE (revoke_jti cfg jti (Some expires_at)) (returnE jti)))))"


section \<open>Issue and validation\<close>

definition opt_str :: "string option \<Rightarrow> json" where
  "opt_str v = (case v of None \<Rightarrow> JNull | Some s \<Rightarrow> JStr s)"

definition token_payload :: "token_request \<Rightarrow> string \<Rightarrow> rat \<Rightarrow> int \<Rightarrow> json dict" where
  "token_payload q jti now expiry_seconds =
     [(''jti'', JStr jti), (''sub'', JStr (rq_requester_id q)), (''agent_type'', JStr (rq_agent_type q)),
      (''session_id'', opt_str (rq_session_id q)), (''task_id'', opt_str (rq_task_id q)),
      (''allowed_actions'', JList (map JStr (rq_allowed_actions q))), (''role'', opt_str (rq_role q)),
      (''iat'', JNum now), (''exp'', JNum (now + of_int expiry_seconds)),
      (''metadata'', JObj (map (map_prod id JStr) (rq_metadata q)))]"

definition issue_token :: "'r token_libs \<Rightarrow> settings \<Rightarrow> token_request \<Rightarrow> ('r session_manager, string) prog" where
  "issue_token lib cfg q =
     (if rq_agent_type q = '''' \<or> rq_requester_id q = ''''
      then raiseE (exn_of ValueError ''agent_type and requester_id must not be empty'')
      else
        bindE time_now (\<lambda>now.
        let expiry_seconds = (case rq_expires_in_seconds q of Some n \<Rightarrow> n | None \<Rightarrow> token_expiry_seconds cfg) in
        thenE (purge_expired_revocations now)
       (bindE (getE sm_rotation_index) (\<lambda>index.
        thenE (case rq_rotation_key q of None \<Rightarrow> returnE ()
               | Some k \<Rightarrow> (case index k of None \<Rightarrow> returnE () | Some old \<Rightarrow> revoke_jti cfg old None))
       (bindE uuid4 (\<lambda>u.
        let claims = token_payload q (str_uuid u) now expiry_seconds in
        bindE (case rq_confirmation_jwk q of None \<Rightarrow> returnE claims
               | Some jwk \<Rightarrow> bindE (liftE (public_jwk_thumbprint lib jwk)) (\<lambda>t.
                   returnE (dict_set ''cnf'' (JObj [(''jkt'', JStr t)]) claims))) (\<lambda>claims.
        bindE (liftE (signing_key cfg)) (\<lambda>key.
        bindE (liftE (jwt_encode lib claims key (token_algorithm cfg) [])) (\<lambda>token.
        thenE (case rq_rotation_key q of None \<Rightarrow> returnE ()
               | Some k \<Rightarrow> modifyE (\<lambda>m. m\<lparr>sm_rotation_index := (sm_rotation_index m)(k \<mapsto> str_uuid u)\<rparr>))
          (returnE token))))))))))"

definition issue_sender_constrained_token ::
  "'r token_libs \<Rightarrow> settings \<Rightarrow> token_request \<Rightarrow> json dict \<Rightarrow> ('r session_manager, string) prog" where
  "issue_sender_constrained_token lib cfg q public_jwk =
     issue_token lib cfg (q\<lparr>rq_confirmation_jwk := Some public_jwk\<rparr>)"

text \<open>Building \<open>TokenClaims\<close> from a payload: the lookups of the call, then the model's validation.\<close>

definition token_claims_of :: "'r token_libs \<Rightarrow> json \<Rightarrow> json dict \<Rightarrow> exn + token_claims" where
  "token_claims_of lib jti p =
     (case dict_get p ''sub'' of Inl e \<Rightarrow> Inl e | Inr sub \<Rightarrow>
      (case dict_get p ''agent_type'' of Inl e \<Rightarrow> Inl e | Inr agent_type \<Rightarrow>
      (case py_list (case map_of p ''allowed_actions'' of Some v \<Rightarrow> v | None \<Rightarrow> JList []) of Inl e \<Rightarrow> Inl e | Inr actions \<Rightarrow>
      (case dict_get p ''iat'' of Inl e \<Rightarrow> Inl e | Inr iat \<Rightarrow>
      (case dict_get p ''exp'' of Inl e \<Rightarrow> Inl e | Inr expv \<Rightarrow>
      (case v_cnf (map_of p ''cnf'') of Inl e \<Rightarrow> Inl e | Inr cnf \<Rightarrow>
      (case (v_str jti, v_str sub, v_str agent_type, v_opt_str (map_of p ''session_id''),
             v_opt_str (map_of p ''task_id''), v_strs actions, v_opt_str (map_of p ''role''),
             v_float lib iat, v_float lib expv,
             v_str_dict (case map_of p ''metadata'' of Some v \<Rightarrow> v | None \<Rightarrow> JObj [])) of
         (Inr jti', Inr sub', Inr at', Inr sid', Inr tid', Inr acts', Inr role', Inr iat', Inr exp', Inr md') \<Rightarrow>
           Inr \<lparr>tc_jti = jti', tc_sub = sub', tc_agent_type = at', tc_session_id = sid', tc_task_id = tid',
                tc_allowed_actions = acts', tc_role = role', tc_issued_at = iat', tc_expires_at = exp',
                tc_metadata = md', tc_cnf = cnf\<rparr>
       | _ \<Rightarrow> invalid)))))))"

text \<open>\<open>jti in self._revoked_jtis\<close> for the payload's value: only a string can be a key.\<close>

definition revocation_test :: "json \<Rightarrow> ('r session_manager, bool) prog" where
  "revocation_test v =
     (case v of JStr s \<Rightarrow> is_revoked s
      | JList _ \<Rightarrow> thenE (is_revoked '''') (raiseE (exn_of TypeError ''unhashable type''))
      | JObj _ \<Rightarrow> thenE (is_revoked '''') (raiseE (exn_of TypeError ''unhashable type''))
      | _ \<Rightarrow> thenE (is_revoked '''') (returnE False))"

definition validate_token :: "'r token_libs \<Rightarrow> settings \<Rightarrow> string \<Rightarrow> ('r session_manager, token_claims) prog" where
  "validate_token lib cfg token =
     bindE (tryE (bindE (liftE (verification_key lib cfg)) (\<lambda>key.
              bindE time_now (\<lambda>now. liftE (jwt_decode lib token key (token_algorithm cfg) now))))
            (\<lambda>e. if isinstance e ExpiredSignatureError
                 then raiseE (Exn TokenExpiredError ''Session token has expired'' (Some e)) else raiseE e))
     (\<lambda>payload.
      bindE (liftE (dict_get payload ''jti'')) (\<lambda>jti.
      bindE time_now (\<lambda>now.
      thenE (purge_expired_revocations now)
     (bindE (revocation_test jti) (\<lambda>revoked.
      if revoked then raiseE (exn_of TokenRevokedError
             (''Session token jti='' @ json_repr (float_repr lib) jti @ '' has been revoked''))
      else liftE (token_claims_of lib jti payload))))))"


section \<open>DPoP proofs\<close>

definition dpop_headers :: "json dict \<Rightarrow> json dict" where
  "dpop_headers public_jwk =
     [(''typ'', JStr ''dpop+jwt''), (''alg'', JStr ''ES256''), (''jwk'', JObj public_jwk)]"

definition issue_dpop_proof ::
  "'r token_libs \<Rightarrow> string \<Rightarrow> json dict \<Rightarrow> string \<Rightarrow> string \<Rightarrow> string option \<Rightarrow> string option \<Rightarrow> int option
     \<Rightarrow> string option \<Rightarrow> ('r session_manager, string) prog" where
  "issue_dpop_proof lib private_key_pem public_jwk http_method http_url access_token nonce issued_at proof_jti =
     bindE (case issued_at of Some t \<Rightarrow> returnE t | None \<Rightarrow> bindE time_now (\<lambda>t. returnE \<lfloor>t\<rfloor>)) (\<lambda>now.
     bindE (case proof_jti of Some (c # s) \<Rightarrow> returnE (c # s)
            | _ \<Rightarrow> bindE uuid4 (\<lambda>u. returnE (str_uuid u))) (\<lambda>jti.
       liftE (jwt_encode lib
         ([(''jti'', JStr jti), (''htm'', JStr (upper http_method)), (''htu'', JStr http_url),
           (''iat'', JNum (of_int now))]
          @ (case access_token of None \<Rightarrow> [] | Some t \<Rightarrow> [(''ath'', JStr (access_token_hash t))])
          @ (case nonce of None \<Rightarrow> [] | Some n \<Rightarrow> [(''nonce'', JStr n)]))
         private_key_pem ''ES256'' (dpop_headers public_jwk))))"

definition proof_claims_of :: "'r token_libs \<Rightarrow> json dict \<Rightarrow> exn + dpop_proof_claims" where
  "proof_claims_of lib p =
     (case (map_of p ''jti'', map_of p ''htm'', map_of p ''htu'', map_of p ''iat'',
            v_opt_str (map_of p ''ath''), v_opt_str (map_of p ''nonce'')) of
        (Some (JStr jti), Some (JStr htm), Some (JStr htu), Some iat, Inr ath, Inr nonce) \<Rightarrow>
          (case v_int lib iat of Inl e \<Rightarrow> Inl e
           | Inr i \<Rightarrow> Inr \<lparr>dp_jti = jti, dp_htm = htm, dp_htu = htu, dp_iat = i, dp_ath = ath, dp_nonce = nonce\<rparr>)
      | _ \<Rightarrow> invalid)"

text \<open>The replay store call: the in-memory store reads the clock, a Redis server its own.\<close>

definition replay_register :: "'r token_libs \<Rightarrow> string \<Rightarrow> int \<Rightarrow> ('r session_manager, bool) prog" where
  "replay_register lib jti ttl =
     (\<lambda>m. let (r, st) = register_if_unused (redis_client_set lib) jti ttl (sm_clock m (sm_ticks m)) (sm_replay_store m);
              ticks = (case sm_replay_store m of InMemoryDPoPReplayStore _ \<Rightarrow> Suc (sm_ticks m)
                       | RedisDPoPReplayStore _ _ \<Rightarrow> sm_ticks m)
          in (Inr r, m\<lparr>sm_replay_store := st, sm_ticks := ticks\<rparr>))"

definition unverified_header :: "'r token_libs \<Rightarrow> string \<Rightarrow> exn + json dict" where
  "unverified_header lib prf =
     (case jwt_get_unverified_header lib prf of
        Inl e \<Rightarrow> (if isinstance e JWTError then Inl (Exn DPoPProofError ''Malformed DPoP proof header'' (Some e)) else Inl e)
      | Inr h \<Rightarrow> Inr h)"

definition header_jwk :: "json dict \<Rightarrow> exn + json dict" where
  "header_jwk h =
     (case map_of h ''jwk'' of Some (JObj d) \<Rightarrow> Inr d
      | _ \<Rightarrow> Inl (exn_of DPoPProofError ''DPoP proof header must embed a public JWK''))"

definition proof_error :: "string \<Rightarrow> ('r session_manager, 'a) prog" where
  "proof_error msg = raiseE (exn_of DPoPProofError msg)"

text \<open>The checks on the claims of a verified proof, in the order of the code.\<close>

definition proof_problem ::
  "settings \<Rightarrow> dpop_proof_claims \<Rightarrow> string \<Rightarrow> string \<Rightarrow> string option \<Rightarrow> string option \<Rightarrow> rat \<Rightarrow> string option" where
  "proof_problem cfg c http_method http_url access_token nonce current_time =
     (if upper (dp_htm c) \<noteq> upper http_method then
        Some (''DPoP proof htm mismatch: '' @ py_repr (dp_htm c) @ '' != '' @ py_repr (upper http_method))
      else if dp_htu c \<noteq> http_url then
        Some (''DPoP proof htu mismatch: '' @ py_repr (dp_htu c) @ '' != '' @ py_repr http_url)
      else if of_int (dp_iat c) < current_time - of_int (dpop_proof_ttl_seconds cfg)
           \<or> current_time + of_int (dpop_clock_skew_seconds cfg) < of_int (dp_iat c) then
        Some ''DPoP proof iat is outside the acceptable time window''
      else if nonce \<noteq> None \<and> dp_nonce c \<noteq> nonce then Some ''DPoP proof nonce mismatch''
      else if access_token \<noteq> None \<and> dp_ath c \<noteq> map_option access_token_hash access_token then
        Some ''DPoP proof ath mismatch for presented access token''
      else None)"

definition validate_dpop_proof ::
  "'r token_libs \<Rightarrow> settings \<Rightarrow> string \<Rightarrow> string \<Rightarrow> string \<Rightarrow> string option \<Rightarrow> string option \<Rightarrow> rat option
     \<Rightarrow> ('r session_manager, dpop_proof_claims) prog" where
  "validate_dpop_proof lib cfg prf http_method http_url access_token nonce now =
     bindE (case now of Some t \<Rightarrow> returnE t | None \<Rightarrow> time_now) (\<lambda>current_time.
     bindE (liftE (unverified_header lib prf)) (\<lambda>header.
     if map_of header ''typ'' \<noteq> Some (JStr ''dpop+jwt'')
     then proof_error (''DPoP proof header typ must be '' @ py_repr ''dpop+jwt'')
     else
       bindE (liftE (header_jwk header)) (\<lambda>public_jwk.
       bindE (liftE (public_pem_from_jwk lib public_jwk)) (\<lambda>public_pem.
       let algorithm = (case map_of header ''alg'' of None \<Rightarrow> ''ES256'' | Some v \<Rightarrow> json_str (float_repr lib) v) in
       bindE (tryE (bindE time_now (\<lambda>t. liftE (jwt_decode lib prf public_pem algorithm t)))
               (\<lambda>e. if isinstance e ExpiredSignatureError then raiseE (Exn DPoPProofError ''DPoP proof has expired'' (Some e))
                    else if isinstance e JWTError then raiseE (Exn DPoPProofError ''DPoP proof signature validation failed'' (Some e))
                    else raiseE e)) (\<lambda>payload.
       bindE (liftE (proof_claims_of lib payload)) (\<lambda>c.
       case proof_problem cfg c http_method http_url access_token nonce current_time of
         Some msg \<Rightarrow> proof_error msg
       | None \<Rightarrow>
           bindE (replay_register lib (dp_jti c) (dpop_proof_ttl_seconds cfg)) (\<lambda>fresh.
           if fresh then returnE c
           else raiseE (exn_of DPoPReplayError (''DPoP proof jti='' @ py_repr (dp_jti c) @ '' has already been used'')))))))))"

definition validate_sender_constrained_token ::
  "'r token_libs \<Rightarrow> settings \<Rightarrow> string \<Rightarrow> string \<Rightarrow> string \<Rightarrow> string \<Rightarrow> string option \<Rightarrow> rat option
     \<Rightarrow> ('r session_manager, token_claims) prog" where
  "validate_sender_constrained_token lib cfg token dpop_proof http_method http_url nonce now =
     bindE (validate_token lib cfg token) (\<lambda>claims.
     case tc_cnf claims of
       None \<Rightarrow> raiseE (exn_of TokenBindingError ''Access token is not sender-constrained (missing cnf.jkt)'')
     | Some jkt \<Rightarrow>
         bindE (liftE (unverified_header lib dpop_proof)) (\<lambda>header.
         bindE (liftE (header_jwk header)) (\<lambda>public_jwk.
         bindE (liftE (public_jwk_thumbprint lib public_jwk)) (\<lambda>proof_thumbprint.
         if proof_thumbprint \<noteq> jkt
         then raiseE (exn_of TokenBindingError ''DPoP proof key thumbprint does not match access token cnf.jkt'')
         else thenE (validate_dpop_proof lib cfg dpop_proof http_method http_url (Some token) nonce now)
                (returnE claims)))))"


section \<open>Queries on claims\<close>

definition ensure_action_allowed :: "token_claims \<Rightarrow> string \<Rightarrow> exn + unit" where
  "ensure_action_allowed claims action =
     (if action \<in> set (tc_allowed_actions claims) then Inr ()
      else Inl (exn_of TokenActionError (''Token jti='' @ py_repr (tc_jti claims)
             @ '' is not scoped for action '' @ py_repr action)))"

definition is_expired :: "token_claims \<Rightarrow> ('r session_manager, bool) prog" where
  "is_expired claims = bindE time_now (\<lambda>now. returnE (tc_expires_at claims < now))"

definition time_remaining :: "token_claims \<Rightarrow> ('r session_manager, rat) prog" where
  "time_remaining claims = bindE time_now (\<lambda>now. returnE (tc_expires_at claims - now))"

definition half_even :: "rat \<Rightarrow> int" where
  "half_even q = (let f = \<lfloor>q\<rfloor>; r = q - of_int f in
     if r < 1 / 2 then f else if 1 / 2 < r then f + 1 else if even f then f else f + 1)"

definition issued_at_utc :: "token_claims \<Rightarrow> datetime" where
  "issued_at_utc claims = DateTime (half_even (tc_issued_at claims * 1000000)) (Some 0)"

end
