(* ===== verification/OpaClient.thy ===== *)
theory OpaClient
  imports SessionManager
begin

text \<open>
  \<open>src/governance/policy_engine/opa_client.py\<close>: the policy decision, over an HTTP client.

  The client is \<open>httpx\<close>: what the \<open>n\<close>-th request of the process is answered is read from outside
  (\<open>ht_reply\<close>), either an exception or a response whose body \<open>response.json()\<close> parses or not. The
  requests sent are kept in order, so that a property can speak about what left the process. Strings
  of a policy decision are \<open>JStr\<close>.

  The main result: a decision is positive only if a successful reply says so.
\<close>

section \<open>The HTTP client\<close>

record http_request =
  hq_url :: string
  hq_json :: json
  hq_headers :: "string dict"
  hq_timeout :: int

record http_response =
  hs_status :: int
  hs_json :: "exn + json"
  hs_message :: string

record http =
  ht_reply :: "nat \<Rightarrow> http_request \<Rightarrow> exn + http_response"
  ht_sent :: "http_request list"

definition http_post :: "http_request \<Rightarrow> (http, http_response) prog" where
  "http_post q = (\<lambda>h. (ht_reply h (length (ht_sent h)) q, h\<lparr>ht_sent := ht_sent h @ [q]\<rparr>))"

text \<open>\<open>raise_for_status\<close> lets exactly the 2xx responses pass.\<close>

definition raise_for_status :: "http_response \<Rightarrow> exn + unit" where
  "raise_for_status r =
     (if 200 \<le> hs_status r \<and> hs_status r < 300 then Inr () else Inl (exn_of HTTPStatusError (hs_message r)))"


section \<open>Reading JSON\<close>

text \<open>\<open>v.get(k, default)\<close>.\<close>

definition json_get :: "json \<Rightarrow> string \<Rightarrow> json \<Rightarrow> exn + json" where
  "json_get v k d =
     (case v of JObj o' \<Rightarrow> Inr (case map_of o' k of Some x \<Rightarrow> x | None \<Rightarrow> d)
      | _ \<Rightarrow> Inl (exn_of AttributeError ''object has no attribute get''))"

definition truthy :: "json \<Rightarrow> bool" where
  "truthy v = (case v of JNull \<Rightarrow> False | JBool b \<Rightarrow> b | JNum q \<Rightarrow> q \<noteq> 0 | JStr s \<Rightarrow> s \<noteq> []
     | JText t \<Rightarrow> t \<noteq> [] | JList vs \<Rightarrow> vs \<noteq> [] | JObj d \<Rightarrow> d \<noteq> [])"

definition v_str_list :: "json \<Rightarrow> exn + string list" where
  "v_str_list v = (case v of JList vs \<Rightarrow> v_strs vs | _ \<Rightarrow> invalid)"


section \<open>Decisions\<close>

record policy_input =
  pin_agent_type :: string
  pin_requester_id :: string
  pin_action :: string
  pin_resource :: string
  pin_metadata :: "string dict"
  pin_principal_role :: "string option"
  pin_token_expired :: bool

definition policy_input_dump :: "policy_input \<Rightarrow> json" where
  "policy_input_dump p = JObj
     [(''agent_type'', JStr (pin_agent_type p)), (''requester_id'', JStr (pin_requester_id p)),
      (''action'', JStr (pin_action p)), (''resource'', JStr (pin_resource p)),
      (''metadata'', JObj (map (map_prod id JStr) (pin_metadata p))),
      (''principal_role'', opt_str (pin_principal_role p)), (''token_expired'', JBool (pin_token_expired p))]"

record policy_result =
  pr_allowed :: bool
  pr_reasons :: "string list"
  pr_action :: string
  pr_fields :: "string list"

definition policy_result_of :: "json \<Rightarrow> exn + policy_result" where
  "policy_result_of body =
     (case json_get body ''result'' (JObj []) of Inl e \<Rightarrow> Inl e | Inr result \<Rightarrow>
      (case json_get result ''allow'' (JBool False) of Inl e \<Rightarrow> Inl e | Inr allow \<Rightarrow>
      (case json_get result ''reasons'' (JList []) of Inl e \<Rightarrow> Inl e | Inr reasons \<Rightarrow>
      (let allowed = truthy allow;
           default_action = (if \<not> allowed then ''reject'' else ''allow'') in
       case json_get result ''action'' (JStr default_action) of Inl e \<Rightarrow> Inl e | Inr action \<Rightarrow>
      (case json_get result ''fields'' (JList []) of Inl e \<Rightarrow> Inl e | Inr fs \<Rightarrow>
      (case (v_str_list reasons, v_str action, v_str_list fs) of
         (Inr rs, Inr a, Inr ls) \<Rightarrow> Inr \<lparr>pr_allowed = allowed, pr_reasons = rs, pr_action = a, pr_fields = ls\<rparr>
       | _ \<Rightarrow> invalid))))))"

definition policy_request :: "string \<Rightarrow> string \<Rightarrow> policy_input \<Rightarrow> http_request" where
  "policy_request opa policy_name input_data =
     \<lparr>hq_url = opa @ ''/v1/data/aegis/'' @ policy_name, hq_json = JObj [(''input'', policy_input_dump input_data)],
      hq_headers = [], hq_timeout = 5\<rparr>"

text \<open>\<open>PolicyEngine(opa_url)\<close> holds one string.\<close>

definition new_policy_engine :: "settings \<Rightarrow> string option \<Rightarrow> string" where
  "new_policy_engine cfg url = (case url of Some (c # s) \<Rightarrow> c # s | _ \<Rightarrow> opa_url cfg)"

definition evaluate :: "string \<Rightarrow> string \<Rightarrow> policy_input \<Rightarrow> (http, policy_result) prog" where
  "evaluate opa policy_name input_data =
     bindE (tryE (http_post (policy_request opa policy_name input_data))
        (\<lambda>e. if isinstance e ConnectError then
               raiseE (Exn OpaUnavailableError
                 (''OPA server unreachable at '' @ py_repr opa @ '': '' @ str_exn e) (Some e))
             else if isinstance e TimeoutException then
               raiseE (Exn OpaUnavailableError
                 (''OPA request timed out for policy '' @ py_repr policy_name @ '': '' @ str_exn e) (Some e))
             else raiseE e)) (\<lambda>response.
     if 500 \<le> hs_status response then
       raiseE (exn_of OpaUnavailableError
         (''OPA server returned HTTP '' @ show_int (hs_status response) @ '' for policy '' @ py_repr policy_name))
     else
       bindE (liftE (raise_for_status response)) (\<lambda>_.
       bindE (liftE (hs_json response)) (\<lambda>body. liftE (policy_result_of body))))"

definition is_allowed :: "string \<Rightarrow> string \<Rightarrow> policy_input \<Rightarrow> (http, bool) prog" where
  "is_allowed opa policy_name input_data =
     bindE (evaluate opa policy_name input_data) (\<lambda>r. returnE (pr_allowed r))"


section \<open>What a decision rests on\<close>

text \<open>The reply says that the request is allowed.\<close>

definition reply_allows :: "http_response \<Rightarrow> bool" where
  "reply_allows r \<longleftrightarrow> 200 \<le> hs_status r \<and> hs_status r < 300 \<and>
     (\<exists>d res v. hs_json r = Inr (JObj d) \<and> map_of d ''result'' = Some (JObj res) \<and>
        map_of res ''allow'' = Some v \<and> truthy v)"

lemma evaluate_sends: "ht_sent (snd (evaluate opa name i h)) = ht_sent h @ [policy_request opa name i]"
  by (auto simp: evaluate_def prog_simps http_post_def split: sum.splits prod.splits)

lemma json_get_Inr: "json_get v k d = Inr x \<longleftrightarrow> (\<exists>o'. v = JObj o' \<and> x = (case map_of o' k of Some y \<Rightarrow> y | None \<Rightarrow> d))"
  by (cases v) (auto simp: json_get_def)

lemma policy_result_allowed:
  assumes "policy_result_of body = Inr r" "pr_allowed r"
  shows "\<exists>d res v. body = JObj d \<and> map_of d ''result'' = Some (JObj res) \<and> map_of res ''allow'' = Some v \<and> truthy v"
proof -
  obtain result allow where result: "json_get body ''result'' (JObj []) = Inr result"
    and allow: "json_get result ''allow'' (JBool False) = Inr allow" and t: "truthy allow"
    using assms unfolding policy_result_of_def Let_def invalid_def by (auto split: sum.splits)
  then show ?thesis
    unfolding json_get_Inr by (force simp: truthy_def split: option.splits)
qed

lemma evaluate_state: "snd (evaluate opa name i h) = h\<lparr>ht_sent := ht_sent h @ [policy_request opa name i]\<rparr>"
  by (auto simp: evaluate_def prog_simps http_post_def split: sum.splits prod.splits)

lemma evaluate_Inr:
  assumes "evaluate opa name i h = (Inr r, h')"
  obtains resp body where "ht_reply h (length (ht_sent h)) (policy_request opa name i) = Inr resp"
    "200 \<le> hs_status resp" "hs_status resp < 300" "hs_json resp = Inr body" "policy_result_of body = Inr r"
  using assms
  by (auto simp: evaluate_def prog_simps http_post_def raise_for_status_def split: sum.splits prod.splits if_splits)

text \<open>
  (C21) A policy decision fails closed: \<open>evaluate\<close> sends one request, and returns \<open>allowed\<close> only if the
  server answered it with a 2xx reply whose \<open>result.allow\<close> is true. An unreachable server, a timeout
  and a 5xx reply raise \<open>OpaUnavailableError\<close>; any other reply that is not 2xx raises too.
\<close>

theorem evaluate_fails_closed:
  assumes "ht_reply h (length (ht_sent h)) (policy_request opa name i) = reply"
    and "evaluate opa name i h = (r, h')"
  shows "ht_sent h' = ht_sent h @ [policy_request opa name i] \<and>
    (\<forall>d. r = Inr d \<and> pr_allowed d \<longrightarrow> (\<exists>resp. reply = Inr resp \<and> reply_allows resp)) \<and>
    (case reply of
       Inl e \<Rightarrow> (if isinstance e ConnectError \<or> isinstance e TimeoutException
                  then \<exists>e'. r = Inl e' \<and> exc_cls e' = OpaUnavailableError \<and> exc_cause e' = Some e else r = Inl e)
     | Inr resp \<Rightarrow> (500 \<le> hs_status resp \<longrightarrow> (\<exists>e'. r = Inl e' \<and> exc_cls e' = OpaUnavailableError)) \<and>
         (\<not> (200 \<le> hs_status resp \<and> hs_status resp < 300) \<longrightarrow> (\<exists>e'. r = Inl e')))"
proof (intro conjI)
  show "ht_sent h' = ht_sent h @ [policy_request opa name i]"
    using evaluate_sends [of opa name i h] assms(2) by simp
  show "\<forall>d. r = Inr d \<and> pr_allowed d \<longrightarrow> (\<exists>resp. reply = Inr resp \<and> reply_allows resp)"
  proof (intro allI impI)
    fix d
    assume d: "r = Inr d \<and> pr_allowed d"
    then have ev: "evaluate opa name i h = (Inr d, h')"
      using assms(2) by simp
    obtain resp body where "reply = Inr resp" "200 \<le> hs_status resp" "hs_status resp < 300"
      "hs_json resp = Inr body" "policy_result_of body = Inr d"
      using evaluate_Inr [OF ev] assms(1) by metis
    then show "\<exists>resp. reply = Inr resp \<and> reply_allows resp"
      using policy_result_allowed [of body d] d by (auto simp: reply_allows_def)
  qed
qed (use assms in \<open>auto simp: evaluate_def prog_simps http_post_def raise_for_status_def split: sum.splits if_splits\<close>)

definition demo_reply :: http_response where
  "demo_reply = \<lparr>hs_status = 200, hs_json = Inr (JObj [(''result'', JObj [(''allow'', JBool True)])]), hs_message = ''''\<rparr>"

definition demo_http :: http where
  "demo_http = \<lparr>ht_reply = (\<lambda>n q. if n = 0 then Inr demo_reply else Inl (exn_of ConnectError ''down'')), ht_sent = []\<rparr>"

definition demo_input :: policy_input where
  "demo_input = \<lparr>pin_agent_type = ''hr'', pin_requester_id = ''r1'', pin_action = ''llm.complete'',
     pin_resource = ''model:m'', pin_metadata = [], pin_principal_role = None, pin_token_expired = False\<rparr>"

theorem evaluate_fails_closed_witness:
  "\<exists>d h'. evaluate ''http://opa'' ''agent_access'' demo_input demo_http = (Inr d, h') \<and> pr_allowed d \<and> reply_allows demo_reply
     \<and> length (ht_sent h') = 1"
proof -
  obtain r h' where ev: "evaluate ''http://opa'' ''agent_access'' demo_input demo_http = (r, h')"
    by fastforce
  have "r = Inr \<lparr>pr_allowed = True, pr_reasons = [], pr_action = ''allow'', pr_fields = []\<rparr>"
    using ev by (auto simp: evaluate_def prog_simps http_post_def raise_for_status_def demo_http_def demo_reply_def
        policy_result_of_def json_get_def truthy_def v_str_list_def v_str_def)
  moreover have reply: "ht_reply demo_http (length (ht_sent demo_http)) (policy_request ''http://opa'' ''agent_access'' demo_input) = Inr demo_reply"
    by (simp add: demo_http_def)
  moreover note evaluate_fails_closed [OF reply ev]
  ultimately show ?thesis
    using ev by (simp add: demo_http_def)
qed

end
