(* ===== verification/Regex.thy ===== *)
theory Regex
  imports PyStd
begin

text \<open>
  The part of Python's \<open>re\<close> that the guardrails use, over text as a list of code points: character
  classes (with \<open>IGNORECASE\<close>), sequence, alternative, greedy repetition, \<open>\b\<close> and negative lookahead,
  with \<open>search\<close> and \<open>sub\<close>.

  The matcher is the backtracking one: the list of all ways to match at a position, the preferred one
  first. A position is the character before it and the text after it. Character classes are decided
  here for ASCII; for other characters they are read from the Unicode database, a parameter.
  \<open>mt\<close> is the declarative meaning of a pattern, and the matcher finds exactly the matches it has.
\<close>

section \<open>Characters\<close>

record unicode_db =
  u_digit :: "int \<Rightarrow> bool"
  u_space :: "int \<Rightarrow> bool"
  u_word :: "int \<Rightarrow> bool"
  u_case :: "int \<Rightarrow> int list"
  u_nfkc :: "utext \<Rightarrow> utext"

definition is_udigit :: "unicode_db \<Rightarrow> int \<Rightarrow> bool" where
  "is_udigit db c \<longleftrightarrow> (if c < 128 then 48 \<le> c \<and> c \<le> 57 else u_digit db c)"

definition is_uspace :: "unicode_db \<Rightarrow> int \<Rightarrow> bool" where
  "is_uspace db c \<longleftrightarrow> (if c < 128 then 9 \<le> c \<and> c \<le> 13 \<or> 28 \<le> c \<and> c \<le> 32 else u_space db c)"

definition is_letter :: "int \<Rightarrow> bool" where
  "is_letter c \<longleftrightarrow> 65 \<le> c \<and> c \<le> 90 \<or> 97 \<le> c \<and> c \<le> 122"

definition is_uword :: "unicode_db \<Rightarrow> int \<Rightarrow> bool" where
  "is_uword db c \<longleftrightarrow>
     (if c < 128 then 48 \<le> c \<and> c \<le> 57 \<or> is_letter c \<or> c = 95 else u_word db c)"

text \<open>The characters that \<open>IGNORECASE\<close> identifies with \<open>c\<close>, itself included.\<close>

definition case_variants :: "unicode_db \<Rightarrow> int \<Rightarrow> int list" where
  "case_variants db c =
     (if c < 128 then
        (if 65 \<le> c \<and> c \<le> 90 then [c, c + 32] else if 97 \<le> c \<and> c \<le> 122 then [c, c - 32] else [c])
      else c # u_case db c)"

datatype cls_item = CRange int int | CDigit | CSpace

fun item_ok :: "unicode_db \<Rightarrow> cls_item \<Rightarrow> int \<Rightarrow> bool" where
  "item_ok db (CRange a b) c \<longleftrightarrow> a \<le> c \<and> c \<le> b"
| "item_ok db CDigit c \<longleftrightarrow> is_udigit db c"
| "item_ok db CSpace c \<longleftrightarrow> is_uspace db c"

definition cls_ok :: "unicode_db \<Rightarrow> bool \<Rightarrow> cls_item list \<Rightarrow> int \<Rightarrow> bool" where
  "cls_ok db ic items c \<longleftrightarrow>
     list_ex (\<lambda>c'. list_ex (\<lambda>i. item_ok db i c') items) (if ic then case_variants db c else [c])"


section \<open>Patterns and the matcher\<close>

datatype re =
    Eps | Cls "cls_item list" | Seq re re | Alt re re | Star re | WordB | NotAhead re

type_synonym pos = "int option \<times> utext"

definition word_at :: "unicode_db \<Rightarrow> int option \<Rightarrow> bool" where
  "word_at db x = (case x of None \<Rightarrow> False | Some c \<Rightarrow> is_uword db c)"

definition next_char :: "utext \<Rightarrow> int option" where
  "next_char t = (case t of [] \<Rightarrow> None | c # _ \<Rightarrow> Some c)"

fun star_m :: "nat \<Rightarrow> (pos \<Rightarrow> pos list) \<Rightarrow> pos \<Rightarrow> pos list" where
  "star_m 0 f p = [p]"
| "star_m (Suc n) f p =
     concat (map (\<lambda>q. if length (snd q) < length (snd p) then star_m n f q else []) (f p)) @ [p]"

primrec re_m :: "unicode_db \<Rightarrow> bool \<Rightarrow> re \<Rightarrow> pos \<Rightarrow> pos list" where
  "re_m db ic Eps = (\<lambda>p. [p])"
| "re_m db ic (Cls items) = (\<lambda>p. case snd p of [] \<Rightarrow> []
     | c # cs \<Rightarrow> if cls_ok db ic items c then [(Some c, cs)] else [])"
| "re_m db ic (Seq a b) = (\<lambda>p. concat (map (re_m db ic b) (re_m db ic a p)))"
| "re_m db ic (Alt a b) = (\<lambda>p. re_m db ic a p @ re_m db ic b p)"
| "re_m db ic (Star a) = (\<lambda>p. star_m (length (snd p)) (re_m db ic a) p)"
| "re_m db ic WordB = (\<lambda>p. if word_at db (fst p) \<noteq> word_at db (next_char (snd p)) then [p] else [])"
| "re_m db ic (NotAhead a) = (\<lambda>p. if re_m db ic a p = [] then [p] else [])"

text \<open>The first way to match at a position that consumes text (every pattern of the guardrails
  consumes at least one character).\<close>

definition match_at :: "unicode_db \<Rightarrow> bool \<Rightarrow> re \<Rightarrow> pos \<Rightarrow> pos option" where
  "match_at db ic r p = List.find (\<lambda>q. length (snd q) < length (snd p)) (re_m db ic r p)"

fun search_from :: "unicode_db \<Rightarrow> bool \<Rightarrow> re \<Rightarrow> int option \<Rightarrow> utext \<Rightarrow> bool" where
  "search_from db ic r p [] \<longleftrightarrow> match_at db ic r (p, []) \<noteq> None"
| "search_from db ic r p (c # cs) \<longleftrightarrow>
     match_at db ic r (p, c # cs) \<noteq> None \<or> search_from db ic r (Some c) cs"

definition re_search :: "unicode_db \<Rightarrow> bool \<Rightarrow> re \<Rightarrow> utext \<Rightarrow> bool" where
  "re_search db ic r t = search_from db ic r None t"

lemma match_at_progress: "match_at db ic r p = Some q \<Longrightarrow> length (snd q) < length (snd p)"
  by (auto simp: match_at_def find_Some_iff)

function sub_from :: "unicode_db \<Rightarrow> bool \<Rightarrow> re \<Rightarrow> utext \<Rightarrow> int option \<Rightarrow> utext \<Rightarrow> utext" where
  "sub_from db ic r repl p t =
     (case match_at db ic r (p, t) of
        Some q \<Rightarrow> repl @ sub_from db ic r repl (fst q) (snd q)
      | None \<Rightarrow> (case t of [] \<Rightarrow> [] | c # cs \<Rightarrow> c # sub_from db ic r repl (Some c) cs))"
  by pat_completeness auto
termination
  by (relation "measure (\<lambda>(db, ic, r, repl, p, t). length t)") (auto dest: match_at_progress)

declare sub_from.simps [simp del]

definition re_sub :: "unicode_db \<Rightarrow> bool \<Rightarrow> re \<Rightarrow> utext \<Rightarrow> utext \<Rightarrow> utext" where
  "re_sub db ic r repl t = sub_from db ic r repl None t"


section \<open>Building patterns\<close>

definition lit :: "string \<Rightarrow> re" where
  "lit s = foldr (\<lambda>c r. Seq (Cls [CRange (of_char c) (of_char c)]) r) s Eps"

fun reps :: "nat \<Rightarrow> re \<Rightarrow> re" where
  "reps 0 r = Eps"
| "reps (Suc n) r = Seq r (reps n r)"

abbreviation plus :: "re \<Rightarrow> re" where
  "plus r \<equiv> Seq r (Star r)"

abbreviation opt :: "re \<Rightarrow> re" where
  "opt r \<equiv> Alt r Eps"

fun seqs :: "re list \<Rightarrow> re" where
  "seqs [] = Eps"
| "seqs (r # rs) = Seq r (seqs rs)"

fun alts :: "re list \<Rightarrow> re" where
  "alts [] = NotAhead Eps"
| "alts [r] = r"
| "alts (r # q # rs) = Alt r (alts (q # rs))"


section \<open>Meaning\<close>

definition lastp :: "int option \<Rightarrow> utext \<Rightarrow> int option" where
  "lastp p w = (if w = [] then p else Some (last w))"

lemma lastp_simps [simp]: "lastp p [] = p" "lastp p (w @ [c]) = Some c" "lastp (lastp p u) v = lastp p (u @ v)"
  "lastp p [c] = Some c" "lastp p (c # w) = lastp (Some c) w"
  by (auto simp: lastp_def)

inductive star_rel :: "(int option \<Rightarrow> utext \<Rightarrow> utext \<Rightarrow> bool) \<Rightarrow> int option \<Rightarrow> utext \<Rightarrow> utext \<Rightarrow> bool"
  for f where
  star_nil: "star_rel f p [] s"
| star_step: "f p u (v @ s) \<Longrightarrow> u \<noteq> [] \<Longrightarrow> star_rel f (lastp p u) v s \<Longrightarrow> star_rel f p (u @ v) s"

text \<open>\<open>mt r p w s\<close>: the pattern matches \<open>w\<close> after the character \<open>p\<close> and before the text \<open>s\<close>.\<close>

primrec mt :: "unicode_db \<Rightarrow> bool \<Rightarrow> re \<Rightarrow> int option \<Rightarrow> utext \<Rightarrow> utext \<Rightarrow> bool" where
  "mt db ic Eps = (\<lambda>p w s. w = [])"
| "mt db ic (Cls items) = (\<lambda>p w s. \<exists>c. w = [c] \<and> cls_ok db ic items c)"
| "mt db ic (Seq a b) = (\<lambda>p w s. \<exists>u v. w = u @ v \<and> mt db ic a p u (v @ s) \<and> mt db ic b (lastp p u) v s)"
| "mt db ic (Alt a b) = (\<lambda>p w s. mt db ic a p w s \<or> mt db ic b p w s)"
| "mt db ic (Star a) = star_rel (mt db ic a)"
| "mt db ic WordB = (\<lambda>p w s. w = [] \<and> word_at db p \<noteq> word_at db (next_char s))"
| "mt db ic (NotAhead a) = (\<lambda>p w s. w = [] \<and> \<not> (\<exists>u t. s = u @ t \<and> mt db ic a p u t))"

definition found :: "(int option \<Rightarrow> utext \<Rightarrow> utext \<Rightarrow> bool) \<Rightarrow> int option \<Rightarrow> utext \<Rightarrow> pos set" where
  "found f p t = {(lastp p w, s) | w s. t = w @ s \<and> f p w s}"

lemma star_m_found:
  assumes "\<And>p t. set (m (p, t)) = found f p t" and "length t \<le> n"
  shows "set (star_m n m (p, t)) = found (star_rel f) p t"
  using assms(2)
proof (induction n arbitrary: p t)
  case 0
  then show ?case by (auto simp: found_def intro: star_nil elim: star_rel.cases)
next
  case (Suc n)
  have "set (star_m (Suc n) m (p, t)) = {(p, t)} \<union> (\<Union>(q, s) \<in> found f p t. if length s < length t then set (star_m n m (q, s)) else {})"
    using assms(1) by (auto simp: split_beta)
  also have "\<dots> = {(p, t)} \<union> (\<Union>(q, s) \<in> found f p t. if length s < length t then found (star_rel f) q s else {})"
  proof -
    have "(\<lambda>(q, s). if length s < length t then set (star_m n m (q, s)) else {}) =
        (\<lambda>(q, s). if length s < length t then found (star_rel f) q s else {})"
      using Suc by (intro ext) (simp split: prod.splits)
    then show ?thesis by (simp only:)
  qed
  also have "\<dots> = found (star_rel f) p t"
  proof (intro equalityI subsetI)
    fix x
    assume "x \<in> {(p, t)} \<union> (\<Union>(q, s) \<in> found f p t. if length s < length t then found (star_rel f) q s else {})"
    then consider "x = (p, t)" | u s where "t = u @ s" "f p u s" "u \<noteq> []" "x \<in> found (star_rel f) (lastp p u) s"
      by (auto simp: found_def split: if_splits)
    then show "x \<in> found (star_rel f) p t"
    proof cases
      case 1
      then show ?thesis by (auto simp: found_def intro!: exI [of _ "[]"] star_nil)
    next
      case (2 u s)
      then show ?thesis unfolding found_def
        by (auto intro!: star_step)
    qed
  next
    fix x
    assume "x \<in> found (star_rel f) p t"
    then obtain w s where "t = w @ s" "x = (lastp p w, s)" "star_rel f p w s" by (auto simp: found_def)
    from this(3,1,2) show "x \<in> {(p, t)} \<union> (\<Union>(q, s) \<in> found f p t. if length s < length t then found (star_rel f) q s else {})"
    proof cases
      case (star_step u v)
      then have "(lastp p u, v @ s) \<in> found f p t" "length (v @ s) < length t" "x \<in> found (star_rel f) (lastp p u) (v @ s)"
        using \<open>t = w @ s\<close> \<open>x = (lastp p w, s)\<close> by (auto simp: found_def)
      then show ?thesis by fastforce
    qed auto
  qed
  finally show ?case .
qed

lemma re_m_found: "set (re_m db ic r (p, t)) = found (mt db ic r) p t"
proof (induction r arbitrary: p t)
  case (Cls items)
  then show ?case by (auto simp: found_def split: list.splits)
next
  case (Seq a b)
  have "set (re_m db ic (Seq a b) (p, t)) = (\<Union>(q, s) \<in> found (mt db ic a) p t. found (mt db ic b) q s)"
    using Seq by auto
  also have "\<dots> = found (mt db ic (Seq a b)) p t"
    by (fastforce simp: found_def)
  finally show ?case .
next
  case (Star a)
  then show ?case by (simp add: star_m_found)
next
  case (NotAhead a)
  have "re_m db ic a (p, t) = [] \<longleftrightarrow> found (mt db ic a) p t = {}"
    using NotAhead [of p t] by (metis set_empty)
  then show ?case by (auto simp: found_def)
qed (auto simp: found_def)


lemma match_at_Some:
  assumes "match_at db ic r (p, t) = Some q"
  obtains w where "t = w @ snd q" "w \<noteq> []" "fst q = lastp p w" "mt db ic r p w (snd q)"
proof -
  have "q \<in> set (re_m db ic r (p, t))" "length (snd q) < length t"
    using assms by (auto simp: match_at_def find_Some_iff)
  then show ?thesis
    using that by (auto simp: re_m_found found_def)
qed

lemma match_at_None:
  assumes "match_at db ic r (p, w @ s) = None" "w \<noteq> []"
  shows "\<not> mt db ic r p w s"
proof
  assume "mt db ic r p w s"
  then have "(lastp p w, s) \<in> set (re_m db ic r (p, w @ s))"
    by (auto simp: re_m_found found_def)
  with assms show False by (fastforce simp: match_at_def find_None_iff)
qed


section \<open>Patterns that look only at what they match\<close>

primrec plain :: "re \<Rightarrow> bool" where
  "plain Eps \<longleftrightarrow> True"
| "plain (Cls items) \<longleftrightarrow> True"
| "plain (Seq a b) \<longleftrightarrow> plain a \<and> plain b"
| "plain (Alt a b) \<longleftrightarrow> plain a \<and> plain b"
| "plain (Star a) \<longleftrightarrow> plain a"
| "plain WordB \<longleftrightarrow> False"
| "plain (NotAhead a) \<longleftrightarrow> False"

fun fixed :: "re \<Rightarrow> nat option" where
  "fixed Eps = Some 0"
| "fixed (Cls items) = Some 1"
| "fixed (Seq a b) = (case (fixed a, fixed b) of (Some m, Some n) \<Rightarrow> Some (m + n) | _ \<Rightarrow> None)"
| "fixed (Alt a b) = (if fixed a = fixed b then fixed a else None)"
| "fixed _ = None"

text \<open>A lookahead may only guard a pattern of the same fixed length.\<close>

fun local :: "re \<Rightarrow> bool" where
  "local (Seq (NotAhead a) b) \<longleftrightarrow> plain a \<and> plain b \<and> fixed a \<noteq> None \<and> fixed a = fixed b"
| "local (Seq a b) \<longleftrightarrow> local a \<and> local b"
| "local (Alt a b) \<longleftrightarrow> local a \<and> local b"
| "local (Star a) \<longleftrightarrow> local a"
| "local (NotAhead a) \<longleftrightarrow> False"
| "local _ \<longleftrightarrow> True"

lemma plain_mt: "plain r \<Longrightarrow> mt db ic r p w s \<Longrightarrow> mt db ic r p' w s'"
proof (induction r arbitrary: p w s p' s')
  case (Seq a b p w s p' s')
  from Seq.prems(2) obtain u v where "w = u @ v" "mt db ic a p u (v @ s)" "mt db ic b (lastp p u) v s" by auto
  with Seq.IH Seq.prems(1) have "w = u @ v \<and> mt db ic a p' u (v @ s') \<and> mt db ic b (lastp p' u) v s'" by auto
  then show ?case by auto
next
  case (Star a p w s p' s')
  have step: "mt db ic a q u t" if "mt db ic a p u s" for p q u s t
    using Star.IH that Star.prems(1) by auto
  have "star_rel (mt db ic a) p w s" using Star.prems(2) by simp
  then have "star_rel (mt db ic a) p' w s'"
  proof (induction arbitrary: p')
    case (star_step p u v s)
    then show ?case using step by (blast intro: star_rel.star_step)
  qed (rule star_nil)
  then show ?case by simp
qed auto

lemma fixed_mt: "fixed r = Some k \<Longrightarrow> mt db ic r p w s \<Longrightarrow> length w = k"
  by (induction r arbitrary: k p w s rule: fixed.induct) (auto split: option.splits if_splits)

definition same_word :: "unicode_db \<Rightarrow> int option \<Rightarrow> int option \<Rightarrow> bool" where
  "same_word db x y \<longleftrightarrow> word_at db x = word_at db y"

lemma same_word_lastp: "same_word db p p' \<Longrightarrow> same_word db (lastp p u) (lastp p' u)"
  by (simp add: same_word_def lastp_def)

lemma same_word_next: "same_word db (next_char s) (next_char s') \<Longrightarrow> same_word db (next_char (v @ s)) (next_char (v @ s'))"
  by (cases v) (simp_all add: same_word_def next_char_def)

lemma guard_mt:
  assumes "plain a" "plain b" "fixed a = Some k" "fixed b = Some k"
  shows "mt db ic (Seq (NotAhead a) b) p w s \<longleftrightarrow> mt db ic b p w s \<and> \<not> mt db ic a p w s"
proof
  assume "mt db ic (Seq (NotAhead a) b) p w s"
  then have b: "mt db ic b p w s" and a: "\<not> (\<exists>u t. w @ s = u @ t \<and> mt db ic a p u t)" by auto
  then show "mt db ic b p w s \<and> \<not> mt db ic a p w s" by blast
next
  assume *: "mt db ic b p w s \<and> \<not> mt db ic a p w s"
  have "\<not> mt db ic a p u t" if "w @ s = u @ t" for u t
  proof
    assume "mt db ic a p u t"
    then have "length u = length w"
      using assms(3,4) * fixed_mt by metis
    then show False using that * \<open>mt db ic a p u t\<close> by simp
  qed
  then show "mt db ic (Seq (NotAhead a) b) p w s" using * by auto
qed

lemma local_mt:
  "local r \<Longrightarrow> mt db ic r p w s \<Longrightarrow> same_word db p p' \<Longrightarrow> same_word db (next_char s) (next_char s') \<Longrightarrow>
     mt db ic r p' w s'"
proof (induction r arbitrary: p w s p' s')
  case (Seq a b)
  show ?case
  proof (cases "\<exists>c. a = NotAhead c")
    case True
    then obtain c where c: "a = NotAhead c" by blast
    then have guard: "plain c" "plain b" and same: "fixed c = fixed b" "fixed c \<noteq> None"
      using Seq.prems(1) unfolding c local.simps(1) by blast+
    then obtain k where k: "fixed c = Some k" "fixed b = Some k" by (metis option.exhaust)
    show ?thesis
      using Seq.prems(2) plain_mt [of c db ic p' w s' p s] plain_mt [of b db ic p w s p' s'] guard(1,2)
      unfolding c guard_mt [OF guard(1,2) k] by blast
  next
    case False
    then have loc: "local a" "local b" using Seq.prems(1) by (cases a; simp)+
    obtain u v where w: "w = u @ v" "mt db ic a p u (v @ s)" "mt db ic b (lastp p u) v s"
      using Seq.prems(2) by auto
    have "mt db ic a p' u (v @ s')"
      using Seq.IH(1) [OF loc(1) w(2) Seq.prems(3)] same_word_next [OF Seq.prems(4)] by blast
    moreover have "mt db ic b (lastp p' u) v s'"
      using Seq.IH(2) [OF loc(2) w(3) same_word_lastp [OF Seq.prems(3)] Seq.prems(4)] .
    ultimately show ?thesis using w(1) by auto
  qed
next
  case (Star a)
  have loc: "local a" using Star.prems(1) by simp
  have "star_rel (mt db ic a) p w s" using Star.prems(2) by simp
  then have "star_rel (mt db ic a) p' w s'"
    using Star.prems(3,4)
  proof (induction arbitrary: p')
    case (star_step p u v s)
    then show ?case
      using Star.IH [OF loc] same_word_next same_word_lastp by (blast intro: star_rel.star_step)
  qed (rule star_nil)
  then show ?case by simp
qed (auto simp: same_word_def)


section \<open>What a match cannot contain\<close>

primrec avoids :: "unicode_db \<Rightarrow> bool \<Rightarrow> re \<Rightarrow> int \<Rightarrow> bool" where
  "avoids db ic Eps c \<longleftrightarrow> True"
| "avoids db ic (Cls items) c \<longleftrightarrow> \<not> cls_ok db ic items c"
| "avoids db ic (Seq a b) c \<longleftrightarrow> avoids db ic a c \<and> avoids db ic b c"
| "avoids db ic (Alt a b) c \<longleftrightarrow> avoids db ic a c \<and> avoids db ic b c"
| "avoids db ic (Star a) c \<longleftrightarrow> avoids db ic a c"
| "avoids db ic WordB c \<longleftrightarrow> True"
| "avoids db ic (NotAhead a) c \<longleftrightarrow> True"

lemma avoids_mt: "avoids db ic r c \<Longrightarrow> mt db ic r p w s \<Longrightarrow> c \<notin> set w"
proof (induction r arbitrary: p w s)
  case (Star a)
  have "star_rel (mt db ic a) p w s" using Star.prems(2) by simp
  then show ?case
    by (induction) (use Star.IH Star.prems(1) in auto)
qed auto

text \<open>No match is made of the given characters only.\<close>

primrec needs :: "unicode_db \<Rightarrow> bool \<Rightarrow> re \<Rightarrow> utext \<Rightarrow> bool" where
  "needs db ic Eps X \<longleftrightarrow> False"
| "needs db ic (Cls items) X \<longleftrightarrow> list_all (\<lambda>c. \<not> cls_ok db ic items c) X"
| "needs db ic (Seq a b) X \<longleftrightarrow> needs db ic a X \<or> needs db ic b X"
| "needs db ic (Alt a b) X \<longleftrightarrow> needs db ic a X \<and> needs db ic b X"
| "needs db ic (Star a) X \<longleftrightarrow> False"
| "needs db ic WordB X \<longleftrightarrow> False"
| "needs db ic (NotAhead a) X \<longleftrightarrow> False"

lemma needs_mt: "needs db ic r X \<Longrightarrow> mt db ic r p w s \<Longrightarrow> \<not> set w \<subseteq> set X"
  by (induction r arbitrary: p w s) (auto simp: list_all_iff)


section \<open>Substitution leaves no match\<close>

definition bounded :: "re \<Rightarrow> re" where
  "bounded body = Seq WordB (Seq body WordB)"

lemma bounded_mt:
  "mt db ic (bounded body) p w s \<longleftrightarrow>
     word_at db p \<noteq> word_at db (next_char (w @ s)) \<and> mt db ic body p w s \<and>
     word_at db (lastp p w) \<noteq> word_at db (next_char s)"
  by (auto simp: bounded_def)

definition nomatch :: "unicode_db \<Rightarrow> bool \<Rightarrow> re \<Rightarrow> int option \<Rightarrow> utext \<Rightarrow> bool" where
  "nomatch db ic r p t \<longleftrightarrow> (\<forall>l w s. t = l @ w @ s \<longrightarrow> w \<noteq> [] \<longrightarrow> \<not> mt db ic r (lastp p l) w s)"

lemma nomatchD: "nomatch db ic r p (l @ w @ s) \<Longrightarrow> w \<noteq> [] \<Longrightarrow> \<not> mt db ic r (lastp p l) w s"
  by (simp add: nomatch_def)

lemma nomatch_suffix: "nomatch db ic r p (u @ t) \<Longrightarrow> nomatch db ic r (lastp p u) t"
  unfolding nomatch_def by (metis append_assoc lastp_simps(3))

lemma nomatch_search: "\<not> search_from db ic r p t \<Longrightarrow> nomatch db ic r p t"
proof (induction t arbitrary: p)
  case Nil
  then show ?case by (simp add: nomatch_def)
next
  case (Cons c t)
  then have here: "match_at db ic r (p, c # t) = None" and rest: "nomatch db ic r (Some c) t"
    by (simp_all del: not_None_eq)
  show ?case
    unfolding nomatch_def
  proof (intro allI impI)
    fix l w s
    assume *: "c # t = l @ w @ s" "w \<noteq> []"
    show "\<not> mt db ic r (lastp p l) w s"
    proof (cases l)
      case Nil
      then show ?thesis using match_at_None [of db ic r p w s] here * by simp
    next
      case (Cons d l')
      then show ?thesis using nomatchD [of db ic r "Some c" l' w s] rest * by simp
    qed
  qed
qed

text \<open>A pattern body whose matches the masking can remove for good.\<close>

definition maskable :: "unicode_db \<Rightarrow> bool \<Rightarrow> re \<Rightarrow> bool" where
  "maskable db ic body \<longleftrightarrow> local body \<and> avoids db ic body 91 \<and> avoids db ic body 93 \<and>
     (\<forall>p w s. mt db ic body p w s \<longrightarrow> w \<noteq> [] \<and> is_uword db (last w))"

lemma maskable_mt:
  assumes "maskable db ic body" "mt db ic (bounded body) p w s"
  shows "91 \<notin> set w" "93 \<notin> set w" "w \<noteq> []" "word_at db (lastp p w)" "\<not> word_at db (next_char s)"
proof -
  have body: "mt db ic body p w s" "word_at db (lastp p w) \<noteq> word_at db (next_char s)"
    using assms(2) by (simp_all add: bounded_mt)
  show "91 \<notin> set w" "93 \<notin> set w"
    using assms(1) body(1) avoids_mt unfolding maskable_def by blast+
  show "w \<noteq> []" and word: "word_at db (lastp p w)"
    using assms(1) body(1) unfolding maskable_def by (auto simp: word_at_def lastp_def)
  show "\<not> word_at db (next_char s)" using body(2) word by simp
qed

lemma sub_from_Some: "match_at db ic r (p, t) = Some q \<Longrightarrow>
    sub_from db ic r repl p t = repl @ sub_from db ic r repl (fst q) (snd q)"
  by (subst sub_from.simps) simp

lemma sub_from_None:
  "match_at db ic r (p, []) = None \<Longrightarrow> sub_from db ic r repl p [] = []"
  "match_at db ic r (p, c # t) = None \<Longrightarrow> sub_from db ic r repl p (c # t) = c # sub_from db ic r repl (Some c) t"
  by (subst sub_from.simps, simp)+

lemma bounded_local_mt:
  assumes "local body" "mt db ic (bounded body) p w s" "same_word db (next_char s) (next_char s')" "w \<noteq> []"
  shows "mt db ic (bounded body) p w s'"
proof -
  have "next_char (w @ s) = next_char (w @ s')" using assms(4) by (cases w) (simp_all add: next_char_def)
  then show ?thesis
    using assms local_mt [of body db ic p w s p s'] by (simp add: bounded_mt same_word_def)
qed

lemma next_char_sub:
  "next_char (sub_from db ic r (91 # X) p t) = next_char t \<or> next_char (sub_from db ic r (91 # X) p t) = Some 91"
  by (cases "match_at db ic r (p, t)"; cases t) (simp_all add: sub_from_Some sub_from_None next_char_def)

text \<open>Up to the first redaction the output is the input.\<close>

lemma sub_prefix:
  assumes "maskable db ic body" "sub_from db ic (bounded body) (91 # X) p t = w @ s" "91 \<notin> set w"
  shows "\<exists>s'. t = w @ s' \<and> (next_char s = next_char s' \<or>
     next_char s = Some 91 \<and> word_at db (lastp p w) \<noteq> word_at db (next_char s'))"
  using assms(2,3)
proof (induction w arbitrary: p t)
  case Nil
  show ?case
  proof (cases "match_at db ic (bounded body) (p, t)")
    case None
    then show ?thesis
      using Nil by (cases t) (auto simp: sub_from_None next_char_def)
  next
    case (Some q)
    then obtain u where "t = u @ snd q" "mt db ic (bounded body) p u (snd q)" by (rule match_at_Some)
    then have "word_at db p \<noteq> word_at db (next_char t)" by (simp add: bounded_mt)
    moreover have "next_char s = Some 91"
      using Nil Some by (auto simp: sub_from_Some next_char_def)
    ultimately show ?thesis by simp
  qed
next
  case (Cons c w)
  then have "match_at db ic (bounded body) (p, t) = None"
    by (cases "match_at db ic (bounded body) (p, t)") (auto simp: sub_from_Some)
  then obtain t' where "t = c # t'" "sub_from db ic (bounded body) (91 # X) (Some c) t' = w @ s"
    using Cons.prems(1) by (cases t) (auto simp: sub_from_None)
  with Cons.IH [of "Some c" t'] Cons.prems(2) show ?case by auto
qed

text \<open>A redaction in front of a text without matches gives none, when the text does not begin with a
  word character.\<close>

lemma redaction_nomatch:
  assumes m2: "maskable db ic b2" and X: "needs db ic b2 X"
    and "91 \<notin> set X" "93 \<notin> set X"
    and t: "nomatch db ic (bounded b2) q t" "\<not> word_at db (next_char t)" and w: "w \<noteq> []"
    and eq: "91 # X @ 93 # t = l @ w @ s"
  shows "\<not> mt db ic (bounded b2) (lastp p l) w s"
proof
  assume mt: "mt db ic (bounded b2) (lastp p l) w s"
  note facts = maskable_mt [OF m2 mt]
  have "(91 # X @ [93]) @ t = l @ (w @ s)" using eq by simp
  then obtain us where "91 # X @ [93] = l @ us \<and> us @ t = w @ s \<or> (91 # X @ [93]) @ us = l \<and> t = us @ w @ s"
    by (meson append_eq_append_conv2)
  then consider us where "91 # X @ [93] = l @ us" "us @ t = w @ s" "us \<noteq> []"
    | us where "l = (91 # X @ [93]) @ us" "t = us @ w @ s"
    by (cases "us = []") force+
  then show False
  proof cases
    case (1 us)
    then obtain vs where vs: "us = vs @ [93]" "91 # X = l @ vs"
      by (cases us rule: rev_cases) (auto simp flip: append_assoc simp: append_eq_Cons_conv)
    then have "vs @ 93 # t = w @ s" using 1(2) by simp
    then have "set w \<subseteq> set vs"
      using facts(2) by (auto simp: append_eq_append_conv2 append_eq_Cons_conv Cons_eq_append_conv)
    moreover have "set vs \<subseteq> insert 91 (set X)" using vs(2) by (metis Un_upper2 list.simps(15) set_append)
    ultimately have "set w \<subseteq> set X" using facts(1) by blast
    then show False using needs_mt [OF X] mt by (auto simp: bounded_mt)
  next
    case (2 us)
    show False
    proof (cases us)
      case Nil
      then have "word_at db (next_char t)"
        using mt 2 by (auto simp: bounded_mt word_at_def is_uword_def is_letter_def)
      then show False using t(2) by simp
    next
      case (Cons c us')
      then have "lastp p l = lastp q us" using 2(1) by (simp add: lastp_def)
      then show False using nomatchD [OF t(1) [unfolded 2(2)] w] mt by simp
    qed
  qed
qed

text \<open>
  One pass of \<open>sub\<close> for \<open>bounded b1\<close>, seen by a pattern \<open>bounded b2\<close>: if it matched nowhere that the
  pass copied, it matches nowhere in the output.
\<close>

lemma sub_nomatch:
  assumes m1: "maskable db ic1 b1" and m2: "maskable db ic2 b2"
    and X: "needs db ic2 b2 X" "91 \<notin> set X" "93 \<notin> set X"
    and suffix: "\<And>p u t. Q p (u @ t) \<Longrightarrow> Q (lastp p u) t"
    and copied: "\<And>p w s. Q p (w @ s) \<Longrightarrow> match_at db ic1 (bounded b1) (p, w @ s) = None \<Longrightarrow> w \<noteq> [] \<Longrightarrow>
      \<not> mt db ic2 (bounded b2) p w s"
    and Q: "Q p t"
  shows "nomatch db ic2 (bounded b2) p (sub_from db ic1 (bounded b1) (91 # X @ [93]) p t)"
  using Q
proof (induction t arbitrary: p rule: length_induct)
  case (1 t)
  let ?sub = "sub_from db ic1 (bounded b1) (91 # X @ [93])"
  show ?case
    unfolding nomatch_def
  proof (intro allI impI notI)
    fix l w s
    assume out: "?sub p t = l @ w @ s" and w: "w \<noteq> []" and mt: "mt db ic2 (bounded b2) (lastp p l) w s"
    note facts = maskable_mt [OF m2 mt]
    show False
    proof (cases "match_at db ic1 (bounded b1) (p, t)")
      case None
      show False
      proof (cases l)
        case Nil
        then obtain s' where s': "t = w @ s'" "next_char s = next_char s' \<or>
            next_char s = Some 91 \<and> word_at db (lastp p w) \<noteq> word_at db (next_char s')"
          using sub_prefix [OF m1 out [unfolded Nil append_Nil]] facts(1) by blast
        have "same_word db (next_char s) (next_char s')"
          using s'(2) facts(4,5) Nil by (auto simp: same_word_def word_at_def is_uword_def is_letter_def)
        then have "mt db ic2 (bounded b2) p w s'"
          using bounded_local_mt mt w m2 Nil by (auto simp: maskable_def)
        then show False using copied [of p w s'] "1.prems" None w s'(1) by simp
      next
        case (Cons c l')
        then obtain t' where t': "t = c # t'" "?sub (Some c) t' = l' @ w @ s"
          using out None by (cases t) (auto simp: sub_from_None)
        then have "nomatch db ic2 (bounded b2) (Some c) (?sub (Some c) t')"
          using "1.IH" [rule_format, of t' "Some c"] "1.prems" suffix [of p "[c]" t'] by simp
        then show False using nomatchD [of db ic2 _ "Some c" l' w s] t'(2) mt w Cons by simp
      qed
    next
      case (Some q)
      obtain u where u: "t = u @ snd q" "u \<noteq> []" "fst q = lastp p u" "mt db ic1 (bounded b1) p u (snd q)"
        using match_at_Some [OF Some] by blast
      have out': "91 # X @ 93 # ?sub (fst q) (snd q) = l @ w @ s"
        using out Some by (simp add: sub_from_Some)
      have IH: "nomatch db ic2 (bounded b2) (fst q) (?sub (fst q) (snd q))"
        using "1.IH" [rule_format, of "snd q" "fst q"] "1.prems" suffix [of p u "snd q"] u by simp
      have "\<not> word_at db (next_char (?sub (fst q) (snd q)))"
        using next_char_sub [of db ic1 "bounded b1" "X @ [93]" "fst q" "snd q"] maskable_mt(5) [OF m1 u(4)]
        by (auto simp: word_at_def is_uword_def is_letter_def)
      with redaction_nomatch [OF m2 X(1) _ _ IH _ w] mt out' X(2,3) show False by blast
    qed
  qed
qed

end
