(* ===== verification/Guardrails.thy ===== *)
theory Guardrails
  imports Regex PyCodec
begin

text \<open>
  \<open>src/governance/guardrails.py\<close>: the normalisation pipeline, the PII patterns and their masking, and
  the prompt-injection patterns. Patterns are written as \<open>re\<close> terms in the order of the source; a
  trailing flag is \<open>IGNORECASE\<close>. NFKC and the classes of non-ASCII characters come from the Unicode
  database \<open>db\<close>; \<open>urllib.parse.unquote\<close> is defined, with its UTF-8 decoder.

  The main results: no PII pattern matches anywhere in masked text, and the injection check refuses
  exactly the texts in which one of its patterns matches.
\<close>

section \<open>Normalisation\<close>

definition is_invisible :: "int \<Rightarrow> bool" where
  "is_invisible c \<longleftrightarrow> c = 0x00AD \<or> 0x200B \<le> c \<and> c \<le> 0x200F \<or> c = 0x2028 \<or> c = 0x2029
     \<or> 0x202A \<le> c \<and> c \<le> 0x202E \<or> 0x2060 \<le> c \<and> c \<le> 0x2064 \<or> c = 0xFEFF"

definition hex_digit :: "int \<Rightarrow> int option" where
  "hex_digit c =
     (if 48 \<le> c \<and> c \<le> 57 then Some (c - 48)
      else if 65 \<le> c \<and> c \<le> 70 then Some (c - 55)
      else if 97 \<le> c \<and> c \<le> 102 then Some (c - 87) else None)"

text \<open>\<open>unquote_to_bytes\<close> of ASCII text.\<close>

fun percent_bytes :: "utext \<Rightarrow> bytes" where
  "percent_bytes (c # h # l # cs) =
     (if c = 37 then
        (case (hex_digit h, hex_digit l) of
           (Some x, Some y) \<Rightarrow> (16 * x + y) # percent_bytes cs
         | _ \<Rightarrow> c # percent_bytes (h # l # cs))
      else c # percent_bytes (h # l # cs))"
| "percent_bytes cs = cs"

text \<open>
  UTF-8 with \<open>errors="replace"\<close>: for a lead byte, the range of the second byte, the number of
  continuation bytes and the bits of the lead; a malformed sequence becomes one replacement character
  for its longest valid prefix.
\<close>

definition utf8_lead :: "int \<Rightarrow> (int \<times> int \<times> nat \<times> int) option" where
  "utf8_lead b =
     (if 0xC2 \<le> b \<and> b \<le> 0xDF then Some (0x80, 0xBF, 1, b - 0xC0)
      else if b = 0xE0 then Some (0xA0, 0xBF, 2, 0)
      else if b = 0xED then Some (0x80, 0x9F, 2, 13)
      else if 0xE1 \<le> b \<and> b \<le> 0xEF then Some (0x80, 0xBF, 2, b - 0xE0)
      else if b = 0xF0 then Some (0x90, 0xBF, 3, 0)
      else if 0xF1 \<le> b \<and> b \<le> 0xF3 then Some (0x80, 0xBF, 3, b - 0xF0)
      else if b = 0xF4 then Some (0x80, 0x8F, 3, 4)
      else None)"

fun utf8_cont :: "nat \<Rightarrow> int \<Rightarrow> int \<Rightarrow> int \<Rightarrow> bytes \<Rightarrow> int \<times> bytes" where
  "utf8_cont 0 lo hi acc bs = (acc, bs)"
| "utf8_cont (Suc n) lo hi acc [] = (0xFFFD, [])"
| "utf8_cont (Suc n) lo hi acc (c # cs) =
     (if lo \<le> c \<and> c \<le> hi then utf8_cont n 0x80 0xBF (acc * 64 + (c - 0x80)) cs else (0xFFFD, c # cs))"

definition utf8_step :: "int \<Rightarrow> bytes \<Rightarrow> int \<times> bytes" where
  "utf8_step b bs =
     (if b < 128 then (b, bs)
      else case utf8_lead b of None \<Rightarrow> (0xFFFD, bs) | Some (lo, hi, n, acc) \<Rightarrow> utf8_cont n lo hi acc bs)"

lemma utf8_cont_length: "length (snd (utf8_cont n lo hi acc bs)) \<le> length bs"
  by (induction n lo hi acc bs rule: utf8_cont.induct) auto

lemma utf8_step_length: "length (snd (utf8_step b bs)) \<le> length bs"
  by (auto simp: utf8_step_def utf8_cont_length split: option.splits)

function utf8_decode :: "bytes \<Rightarrow> utext" where
  "utf8_decode [] = []"
| "utf8_decode (b # bs) = fst (utf8_step b bs) # utf8_decode (snd (utf8_step b bs))"
  by pat_completeness auto
termination
  by (relation "measure length") (auto intro: le_imp_less_Suc utf8_step_length)

text \<open>\<open>unquote\<close> decodes each maximal run of ASCII characters.\<close>

function unquote_runs :: "utext \<Rightarrow> utext" where
  "unquote_runs [] = []"
| "unquote_runs (c # cs) =
     (if c < 128
      then utf8_decode (percent_bytes (c # takeWhile (\<lambda>x. x < 128) cs)) @ unquote_runs (dropWhile (\<lambda>x. x < 128) cs)
      else c # unquote_runs cs)"
  by pat_completeness auto
termination
  by (relation "measure length") (auto intro: le_imp_less_Suc length_dropWhile_le)

definition unquote :: "utext \<Rightarrow> utext" where
  "unquote t = (if 37 \<in> set t then unquote_runs t else t)"

definition at_ws :: re where
  "at_ws = (let ws = Cls [CRange 32 32, CRange 9 10, CRange 13 13] in
     seqs [Star ws, lit ''@'', Star ws])"

definition normalize :: "unicode_db \<Rightarrow> utext \<Rightarrow> utext" where
  "normalize db text =
     (let t1 = filter (\<lambda>c. \<not> is_invisible c) text;
          t2 = u_nfkc db t1;
          t3 = unquote t2
      in re_sub db False at_ws (asc ''@'') t3)"


section \<open>Patterns\<close>

definition sp :: re where "sp = Cls [CSpace]"
definition dg :: re where "dg = Cls [CDigit]"
definition sep :: re where "sep = Cls [CSpace, CRange 45 45]"
definition sepdot :: re where "sepdot = Cls [CSpace, CRange 45 45, CRange 46 46]"

definition letters :: re where
  "letters = Cls [CRange 65 90, CRange 97 122]"

definition email_body :: re where
  "email_body = seqs
     [plus (Cls [CRange 65 90, CRange 97 122, CRange 48 57, CRange 46 46, CRange 95 95, CRange 37 37, CRange 43 43, CRange 45 45]),
      lit ''@'',
      plus (Cls [CRange 65 90, CRange 97 122, CRange 48 57, CRange 46 46, CRange 45 45]),
      Star sp, lit ''.'', Star sp, letters, plus letters]"

definition ssn_body :: re where
  "ssn_body = seqs
     [Seq (NotAhead (alts [lit ''000'', lit ''666'', seqs [lit ''9'', dg, dg]])) (reps 3 dg), plus sep,
      Seq (NotAhead (lit ''00'')) (reps 2 dg), plus sep,
      Seq (NotAhead (lit ''0000'')) (reps 4 dg)]"

definition credit_card_body :: re where
  "credit_card_body = seqs [reps 3 (Seq (reps 4 dg) (opt sep)), reps 4 dg]"

definition phone_us_body :: re where
  "phone_us_body = seqs
     [opt (Seq (lit ''+1'') (opt sepdot)), opt (lit ''(''), reps 3 dg, opt (lit '')''), opt sepdot,
      reps 3 dg, opt sepdot, reps 4 dg]"

definition octet :: re where
  "octet = alts
     [Seq (lit ''25'') (Cls [CRange 48 53]), seqs [lit ''2'', Cls [CRange 48 52], dg],
      seqs [opt (Cls [CRange 48 49]), dg, opt dg]]"

definition ip_address_body :: re where
  "ip_address_body = seqs [reps 3 (seqs [octet, Star sp, lit ''.'', Star sp]), octet]"

text \<open>\<open>_PII_PATTERNS\<close>: label, body between two word boundaries, ignore case.\<close>

definition pii_patterns :: "(string \<times> re \<times> bool) list" where
  "pii_patterns =
     [(''email'', email_body, True), (''ssn'', ssn_body, False), (''credit_card'', credit_card_body, False),
      (''phone_us'', phone_us_body, False), (''ip_address'', ip_address_body, False)]"

definition injection_patterns :: "(string \<times> re) list" where
  "injection_patterns =
     (let b = [CHR 0x5C] in
      [(''ignore'' @ b @ ''s+(all'' @ b @ ''s+)?previous'' @ b @ ''s+instructions'',
        seqs [lit ''ignore'', plus sp, opt (Seq (lit ''all'') (plus sp)), lit ''previous'', plus sp, lit ''instructions'']),
       (''disregard'' @ b @ ''s+(all'' @ b @ ''s+)?prior'' @ b @ ''s+(instructions|rules)'',
        seqs [lit ''disregard'', plus sp, opt (Seq (lit ''all'') (plus sp)), lit ''prior'', plus sp,
              Alt (lit ''instructions'') (lit ''rules'')]),
       (''you'' @ b @ ''s+are'' @ b @ ''s+now'' @ b @ ''s+(?:a|an)'' @ b @ ''s+'',
        seqs [lit ''you'', plus sp, lit ''are'', plus sp, lit ''now'', plus sp, Alt (lit ''a'') (lit ''an''), plus sp]),
       (''act'' @ b @ ''s+as'' @ b @ ''s+(?:if'' @ b @ ''s+)?(?:you'' @ b @ ''s+are'' @ b @ ''s+)?(?:a|an)'' @ b @ ''s+'',
        seqs [lit ''act'', plus sp, lit ''as'', plus sp, opt (Seq (lit ''if'') (plus sp)),
              opt (seqs [lit ''you'', plus sp, lit ''are'', plus sp]), Alt (lit ''a'') (lit ''an''), plus sp]),
       (''jailbreak'', lit ''jailbreak''),
       (''DAN'' @ b @ ''s+mode'', seqs [lit ''DAN'', plus sp, lit ''mode''])])"


section \<open>Operations\<close>

record mask_result =
  mr_text :: utext
  mr_found_types :: "string list"

definition redaction :: "string \<Rightarrow> utext" where
  "redaction label = asc (''[REDACTED-'' @ upper label @ '']'')"

fun mask_loop :: "unicode_db \<Rightarrow> (string \<times> re \<times> bool) list \<Rightarrow> utext \<Rightarrow> string list \<Rightarrow> mask_result" where
  "mask_loop db [] text acc = \<lparr>mr_text = text, mr_found_types = acc\<rparr>"
| "mask_loop db ((label, body, ic) # ps) text acc =
     (if re_search db ic (bounded body) text
      then mask_loop db ps (re_sub db ic (bounded body) (redaction label) text) (acc @ [label])
      else mask_loop db ps text acc)"

definition mask_pii :: "unicode_db \<Rightarrow> utext \<Rightarrow> mask_result" where
  "mask_pii db text = mask_loop db pii_patterns (normalize db text) []"

definition scrub :: "unicode_db \<Rightarrow> utext \<Rightarrow> mask_result" where
  "scrub db text = mask_pii db text"

fun injection_loop :: "unicode_db \<Rightarrow> (string \<times> re) list \<Rightarrow> utext \<Rightarrow> exn + unit" where
  "injection_loop db [] text = Inr ()"
| "injection_loop db ((source, r) # ps) text =
     (if re_search db True r text
      then Inl (exn_of PromptInjectionError
             (''Potential prompt injection detected: matched pattern '' @ [squote] @ source @ [squote]))
      else injection_loop db ps text)"

definition check_prompt_injection :: "unicode_db \<Rightarrow> utext \<Rightarrow> exn + unit" where
  "check_prompt_injection db text = injection_loop db injection_patterns text"

definition sanitize :: "unicode_db \<Rightarrow> utext \<Rightarrow> exn + utext" where
  "sanitize db text =
     (case check_prompt_injection db text of Inl e \<Rightarrow> Inl e | Inr _ \<Rightarrow> Inr (mr_text (mask_pii db text)))"

record agent_input =
  ai_raw_prompt :: utext
  ai_sanitized_prompt :: utext
  ai_pii_found :: "string list"

definition build_agent_input :: "unicode_db \<Rightarrow> utext \<Rightarrow> exn + agent_input" where
  "build_agent_input db raw_prompt =
     (case check_prompt_injection db raw_prompt of Inl e \<Rightarrow> Inl e
      | Inr _ \<Rightarrow> (let result = mask_pii db raw_prompt in
          Inr \<lparr>ai_raw_prompt = raw_prompt, ai_sanitized_prompt = mr_text result,
               ai_pii_found = mr_found_types result\<rparr>))"


section \<open>What the patterns match\<close>

text \<open>What the proofs use of the Unicode database: a decimal digit is a word character, and so is a
  character that \<open>IGNORECASE\<close> identifies with an ASCII letter.\<close>

definition unicode_ok :: "unicode_db \<Rightarrow> bool" where
  "unicode_ok db \<longleftrightarrow> (\<forall>c. 128 \<le> c \<longrightarrow>
     (u_digit db c \<longrightarrow> u_word db c) \<and> (\<forall>x \<in> set (u_case db c). is_letter x \<longrightarrow> u_word db c))"

primrec consumes :: "re \<Rightarrow> bool" where
  "consumes Eps \<longleftrightarrow> False"
| "consumes (Cls items) \<longleftrightarrow> True"
| "consumes (Seq a b) \<longleftrightarrow> consumes a \<or> consumes b"
| "consumes (Alt a b) \<longleftrightarrow> consumes a \<and> consumes b"
| "consumes (Star a) \<longleftrightarrow> False"
| "consumes WordB \<longleftrightarrow> False"
| "consumes (NotAhead a) \<longleftrightarrow> False"

lemma consumes_mt: "consumes r \<Longrightarrow> mt db ic r p w s \<Longrightarrow> w \<noteq> []"
  by (induction r arbitrary: p w s) fastforce+

text \<open>Every nonempty match ends in a word character.\<close>

primrec ends_word :: "unicode_db \<Rightarrow> bool \<Rightarrow> re \<Rightarrow> bool" where
  "ends_word db ic Eps \<longleftrightarrow> True"
| "ends_word db ic (Cls items) \<longleftrightarrow> (\<forall>c. cls_ok db ic items c \<longrightarrow> is_uword db c)"
| "ends_word db ic (Seq a b) \<longleftrightarrow> ends_word db ic b \<and> (ends_word db ic a \<or> consumes b)"
| "ends_word db ic (Alt a b) \<longleftrightarrow> ends_word db ic a \<and> ends_word db ic b"
| "ends_word db ic (Star a) \<longleftrightarrow> ends_word db ic a"
| "ends_word db ic WordB \<longleftrightarrow> True"
| "ends_word db ic (NotAhead a) \<longleftrightarrow> True"

lemma ends_word_mt: "ends_word db ic r \<Longrightarrow> mt db ic r p w s \<Longrightarrow> w \<noteq> [] \<Longrightarrow> is_uword db (last w)"
proof (induction r arbitrary: p w s)
  case (Seq a b)
  then obtain u v where uv: "w = u @ v" "mt db ic a p u (v @ s)" "mt db ic b (lastp p u) v s"
    by auto
  show ?case
  proof (cases "v = []")
    case True
    then have "\<not> consumes b"
      using consumes_mt uv(3) by blast
    then show ?thesis
      using Seq.IH(1) [OF _ uv(2)] Seq.prems uv True by simp
  next
    case False
    then show ?thesis
      using Seq.IH(2) [OF _ uv(3)] Seq.prems uv by simp
  qed
next
  case (Star a)
  from Star.prems(2) have "star_rel (mt db ic a) p w s"
    by simp
  then show ?case
    using Star.prems(3)
  proof (induction rule: star_rel.induct)
    case (star_step p u v s)
    then show ?case
      using Star.IH Star.prems(1) by (cases "v = []") auto
  qed simp
qed auto

lemma maskableI:
  assumes "local b" "avoids db ic b 91" "avoids db ic b 93" "consumes b" "ends_word db ic b"
  shows "maskable db ic b"
  using assms consumes_mt ends_word_mt unfolding maskable_def by blast

lemma cls_ok_exact [simp]: "cls_ok db False items c \<longleftrightarrow> list_ex (\<lambda>i. item_ok db i c) items"
  by (simp add: cls_ok_def)

lemma digit_word: "unicode_ok db \<Longrightarrow> is_udigit db c \<Longrightarrow> is_uword db c"
  by (auto simp: unicode_ok_def is_udigit_def is_uword_def split: if_splits)

lemma letter_word: "unicode_ok db \<Longrightarrow> cls_ok db True [CRange 65 90, CRange 97 122] c \<Longrightarrow> is_uword db c"
  by (auto simp: unicode_ok_def cls_ok_def case_variants_def list_ex_iff is_uword_def is_letter_def split: if_splits)

lemma range_digit_word: "48 \<le> c \<Longrightarrow> c \<le> 57 \<Longrightarrow> is_uword db c"
  by (simp add: is_uword_def)

lemma cls_ok_ascii: "c < 128 \<Longrightarrow> cls_ok db True items c \<longleftrightarrow>
    list_ex (\<lambda>c'. list_ex (\<lambda>i. item_ok db i c') items)
      (if 65 \<le> c \<and> c \<le> 90 then [c, c + 32] else if 97 \<le> c \<and> c \<le> 122 then [c, c - 32] else [c])"
  by (simp add: cls_ok_def case_variants_def)

lemmas body_defs = email_body_def ssn_body_def credit_card_body_def phone_us_body_def ip_address_body_def
  octet_def sp_def dg_def sep_def sepdot_def letters_def lit_def

lemma ascii_classes:
  "c < 128 \<Longrightarrow> is_udigit db c \<longleftrightarrow> 48 \<le> c \<and> c \<le> 57"
  "c < 128 \<Longrightarrow> is_uspace db c \<longleftrightarrow> 9 \<le> c \<and> c \<le> 13 \<or> 28 \<le> c \<and> c \<le> 32"
  by (simp_all add: is_udigit_def is_uspace_def)

lemmas body_eval = body_defs numeral_3_eq_3 numeral_2_eq_2 eval_nat_numeral ascii_classes cls_ok_ascii
  digit_word letter_word range_digit_word

lemma maskable_email: "unicode_ok db \<Longrightarrow> maskable db True email_body"
  by (rule maskableI) (simp_all add: body_eval)

lemma maskable_ssn: "unicode_ok db \<Longrightarrow> maskable db False ssn_body"
  by (rule maskableI) (simp_all add: body_eval)

lemma maskable_credit_card: "unicode_ok db \<Longrightarrow> maskable db False credit_card_body"
  by (rule maskableI) (simp_all add: body_eval)

lemma maskable_phone_us: "unicode_ok db \<Longrightarrow> maskable db False phone_us_body"
  by (rule maskableI) (simp_all add: body_eval)

lemma maskable_ip_address: "unicode_ok db \<Longrightarrow> maskable db False ip_address_body"
  by (rule maskableI) (simp_all add: body_eval)

text \<open>The characters of the redaction labels: no digit, no \<open>@\<close>, no bracket.\<close>

definition label_char :: "int \<Rightarrow> bool" where
  "label_char c \<longleftrightarrow> 65 \<le> c \<and> c \<le> 90 \<or> c = 45 \<or> c = 95"

lemma needs_bodies:
  assumes "\<forall>c \<in> set X. label_char c"
  shows "needs db True email_body X" "needs db False ssn_body X" "needs db False credit_card_body X"
    "needs db False phone_us_body X" "needs db False ip_address_body X"
proof -
  have digit: "list_all (\<lambda>c. \<not> is_udigit db c) X"
    using assms by (auto simp: list_all_iff label_char_def ascii_classes)
  show "needs db True email_body X"
    using assms by (auto simp: email_body_def lit_def list_all_iff label_char_def cls_ok_ascii)
  show "needs db False ssn_body X" "needs db False credit_card_body X" "needs db False phone_us_body X"
    using digit by (simp_all add: body_defs eval_nat_numeral)
  show "needs db False ip_address_body X"
    using digit assms by (auto simp: body_defs numeral_3_eq_3 list_all_iff label_char_def)
qed

lemma redactions:
  "redaction ''email'' = 91 # asc ''REDACTED-EMAIL'' @ [93]"
  "redaction ''ssn'' = 91 # asc ''REDACTED-SSN'' @ [93]"
  "redaction ''credit_card'' = 91 # asc ''REDACTED-CREDIT_CARD'' @ [93]"
  "redaction ''phone_us'' = 91 # asc ''REDACTED-PHONE_US'' @ [93]"
  "redaction ''ip_address'' = 91 # asc ''REDACTED-IP_ADDRESS'' @ [93]"
  by code_simp+

lemma label_chars:
  assumes "(label, b, ic) \<in> set pii_patterns"
  obtains X where "redaction label = 91 # X @ [93]" "\<forall>c \<in> set X. label_char c"
proof -
  have "\<forall>(label, b, ic) \<in> set pii_patterns. \<exists>X. redaction label = 91 # X @ [93] \<and> (\<forall>c \<in> set X. label_char c)"
    unfolding pii_patterns_def by (simp add: redactions) (simp add: asc_def label_char_def)
  then have "\<exists>X. redaction label = 91 # X @ [93] \<and> (\<forall>c \<in> set X. label_char c)"
    using assms by fast
  then show ?thesis
    using that by blast
qed

lemma pii_maskable: "unicode_ok db \<Longrightarrow> (label, b, ic) \<in> set pii_patterns \<Longrightarrow> maskable db ic b"
  by (auto simp: pii_patterns_def maskable_email maskable_ssn maskable_credit_card maskable_phone_us maskable_ip_address)

lemma pii_needs: "\<forall>c \<in> set X. label_char c \<Longrightarrow> (label, b, ic) \<in> set pii_patterns \<Longrightarrow> needs db ic b X"
  by (auto simp: pii_patterns_def needs_bodies)

lemma label_char_brackets: "\<forall>c \<in> set X. label_char c \<Longrightarrow> 91 \<notin> set X \<and> 93 \<notin> set X"
  by (force simp: label_char_def)

text \<open>A substitution removes the matches of its own pattern and adds none of another.\<close>

lemma sub_self:
  assumes "unicode_ok db" "(label, b, ic) \<in> set pii_patterns"
  shows "nomatch db ic (bounded b) None (re_sub db ic (bounded b) (redaction label) t)"
proof -
  obtain X where X: "redaction label = 91 # X @ [93]" "\<forall>c \<in> set X. label_char c"
    using label_chars assms(2) by blast
  show ?thesis
    unfolding X(1) re_sub_def
    using sub_nomatch [where Q = "\<lambda>_ _. True", OF pii_maskable pii_maskable, of db label b ic label b ic X]
      assms pii_needs X(2) label_char_brackets match_at_None by blast
qed

lemma sub_other:
  assumes "unicode_ok db" "(label, b, ic) \<in> set pii_patterns" "(label', b', ic') \<in> set pii_patterns"
    and "nomatch db ic' (bounded b') None t"
  shows "nomatch db ic' (bounded b') None (re_sub db ic (bounded b) (redaction label) t)"
proof -
  obtain X where X: "redaction label = 91 # X @ [93]" "\<forall>c \<in> set X. label_char c"
    using label_chars assms(2) by blast
  have copied: "\<not> mt db ic' (bounded b') p w s" if "nomatch db ic' (bounded b') p (w @ s)" "w \<noteq> []" for p w s
    using nomatchD [of db ic' "bounded b'" p "[]" w s] that by simp
  show ?thesis
    unfolding X(1) re_sub_def
    using sub_nomatch [where Q = "nomatch db ic' (bounded b')", OF pii_maskable pii_maskable, of db label b ic label' b' ic' X]
      assms pii_needs X(2) label_char_brackets copied nomatch_suffix by blast
qed

lemma mask_loop_nomatch:
  assumes "unicode_ok db" "set ps \<subseteq> set pii_patterns" "D \<subseteq> set pii_patterns"
    and "\<forall>(label, b, ic) \<in> D. nomatch db ic (bounded b) None t"
  shows "\<forall>(label, b, ic) \<in> D \<union> set ps. nomatch db ic (bounded b) None (mr_text (mask_loop db ps t acc))"
  using assms(2-)
proof (induction ps arbitrary: t acc D)
  case (Cons x ps)
  obtain label b ic where x: "x = (label, b, ic)"
    by (cases x)
  let ?t = "if re_search db ic (bounded b) t then re_sub db ic (bounded b) (redaction label) t else t"
  have "\<forall>(label', b', ic') \<in> insert x D. nomatch db ic' (bounded b') None ?t"
    using Cons.prems x assms(1) sub_self sub_other nomatch_search
    by (fastforce simp: re_search_def)
  then show ?case
    using Cons.IH [of "insert x D" ?t] Cons.prems x by (simp split: if_splits)
qed simp

lemma nomatch_search_from: "nomatch db ic r p t \<Longrightarrow> \<not> search_from db ic r p t"
proof (induction t arbitrary: p)
  case Nil
  then show ?case
    using match_at_progress by fastforce
next
  case (Cons c t)
  have "match_at db ic r (p, c # t) = None"
  proof (rule ccontr)
    assume "match_at db ic r (p, c # t) \<noteq> None"
    then obtain q where q: "match_at db ic r (p, c # t) = Some q"
      by blast
    show False
      using match_at_Some [OF q] nomatchD [of db ic r p "[]"] Cons.prems by (metis append_Nil lastp_simps(1))
  qed
  then show ?case
    using Cons nomatch_suffix [of db ic r p "[c]" t] by simp
qed


section \<open>Masking and the injection check\<close>

lemma mask_loop_unmatched:
  "mr_found_types (mask_loop db ps t acc) = acc \<longleftrightarrow> (\<forall>(label, b, ic) \<in> set ps. \<not> re_search db ic (bounded b) t)"
  "(\<forall>(label, b, ic) \<in> set ps. \<not> re_search db ic (bounded b) t) \<Longrightarrow> mr_text (mask_loop db ps t acc) = t"
proof -
  have grows: "\<exists>ls. mr_found_types (mask_loop db ps t acc) = acc @ ls" for ps t acc
    by (induction db ps t acc rule: mask_loop.induct) auto
  have "mr_found_types (mask_loop db ps t (acc @ [label])) \<noteq> acc" for label ps t acc
    using grows [of ps t "acc @ [label]"] by auto
  then show "mr_found_types (mask_loop db ps t acc) = acc \<longleftrightarrow> (\<forall>(label, b, ic) \<in> set ps. \<not> re_search db ic (bounded b) t)"
    by (induction db ps t acc rule: mask_loop.induct) auto
  show "(\<forall>(label, b, ic) \<in> set ps. \<not> re_search db ic (bounded b) t) \<Longrightarrow> mr_text (mask_loop db ps t acc) = t"
    by (induction db ps t acc rule: mask_loop.induct) auto
qed

lemma mask_pii_clean:
  assumes "unicode_ok db" "(label, b, ic) \<in> set pii_patterns"
  shows "\<not> re_search db ic (bounded b) (mr_text (mask_pii db t))"
proof -
  have "nomatch db ic (bounded b) None (mr_text (mask_loop db pii_patterns (normalize db t) []))"
    using mask_loop_nomatch [of db pii_patterns "{}"] assms by fastforce
  then show ?thesis
    using nomatch_search_from by (simp add: mask_pii_def re_search_def)
qed

lemma injection_loop_ok:
  "injection_loop db ps t = Inr () \<longleftrightarrow> (\<forall>(source, r) \<in> set ps. \<not> re_search db True r t)"
  by (induction db ps t rule: injection_loop.induct) auto

lemma injection_loop_err:
  "injection_loop db ps t = Inl e \<Longrightarrow> \<exists>(source, r) \<in> set ps. re_search db True r t \<and>
     e = exn_of PromptInjectionError
       (''Potential prompt injection detected: matched pattern '' @ [squote] @ source @ [squote])"
  by (induction db ps t rule: injection_loop.induct) (auto split: if_splits)

text \<open>
  (C23) Masked text holds no PII: whatever the input, none of the five patterns matches anywhere in the
  text that \<open>mask_pii\<close> returns. Redacting one kind never exposes another.
\<close>

theorem mask_pii_leaves_no_pii:
  assumes "unicode_ok db" "(label, body, ic) \<in> set pii_patterns"
  shows "\<not> re_search db ic (bounded body) (mr_text (mask_pii db text))"
  using assms by (rule mask_pii_clean)

text \<open>
  A database in which only ASCII counts. Digits, spaces and words beyond ASCII do not exist in it, and
  NFKC does nothing.
\<close>

definition ascii_db :: unicode_db where
  "ascii_db = \<lparr>u_digit = \<lambda>_. False, u_space = \<lambda>_. False, u_word = \<lambda>_. False, u_case = \<lambda>_. [], u_nfkc = \<lambda>t. t\<rparr>"

lemma ascii_db_ok: "unicode_ok ascii_db"
  by (simp add: unicode_ok_def ascii_db_def)

lemma ssn_listed: "(''ssn'', ssn_body, False) \<in> set pii_patterns"
  by (simp add: pii_patterns_def)

theorem mask_pii_leaves_no_pii_witness:
  "\<not> re_search ascii_db False (bounded ssn_body) (mr_text (mask_pii ascii_db (asc ''SSN 123-45-6789, mail a@b.co'')))
   \<and> mask_pii ascii_db (asc ''SSN 123-45-6789, mail a@b.co'') =
      \<lparr>mr_text = asc ''SSN [REDACTED-SSN], mail [REDACTED-EMAIL]'', mr_found_types = [''email'', ''ssn'']\<rparr>"
  using mask_pii_leaves_no_pii [OF ascii_db_ok ssn_listed] by code_simp

text \<open>
  (C24) A prompt reaches an agent exactly when no injection pattern matches it, and then with a
  sanitised prompt in which no PII pattern matches; \<open>pii_found\<close> is empty exactly when no pattern matched
  the normalised prompt, which is then passed on unchanged. A refused prompt raises
  \<open>PromptInjectionError\<close> naming a pattern that matches.
\<close>

theorem build_agent_input_screens:
  assumes "unicode_ok db"
  shows "case build_agent_input db raw of
      Inl e \<Rightarrow> (\<exists>(source, r) \<in> set injection_patterns. re_search db True r raw \<and>
        e = exn_of PromptInjectionError
          (''Potential prompt injection detected: matched pattern '' @ [squote] @ source @ [squote]))
    | Inr ai \<Rightarrow> (\<forall>(source, r) \<in> set injection_patterns. \<not> re_search db True r raw) \<and>
        ai_raw_prompt ai = raw \<and>
        (\<forall>(label, body, ic) \<in> set pii_patterns. \<not> re_search db ic (bounded body) (ai_sanitized_prompt ai)) \<and>
        (ai_pii_found ai = [] \<longleftrightarrow> (\<forall>(label, body, ic) \<in> set pii_patterns. \<not> re_search db ic (bounded body) (normalize db raw))) \<and>
        (ai_pii_found ai = [] \<longrightarrow> ai_sanitized_prompt ai = normalize db raw)"
proof (cases "check_prompt_injection db raw")
  case (Inl e)
  then show ?thesis
    using injection_loop_err [of db injection_patterns raw e]
    by (simp add: build_agent_input_def check_prompt_injection_def)
next
  case (Inr u)
  then have "\<forall>(source, r) \<in> set injection_patterns. \<not> re_search db True r raw"
    using injection_loop_ok [of db injection_patterns raw] by (simp add: check_prompt_injection_def)
  moreover have "\<forall>(label, body, ic) \<in> set pii_patterns. \<not> re_search db ic (bounded body) (mr_text (mask_pii db raw))"
    using mask_pii_clean [OF assms] by blast
  moreover note mask_loop_unmatched [where db = db and ps = pii_patterns and t = "normalize db raw" and acc = "[]"]
  ultimately show ?thesis
    using Inr by (simp add: build_agent_input_def mask_pii_def Let_def)
qed

theorem build_agent_input_screens_witness:
  "unicode_ok ascii_db \<and>
   build_agent_input ascii_db (asc ''call 555-123-4567'') =
     Inr \<lparr>ai_raw_prompt = asc ''call 555-123-4567'', ai_sanitized_prompt = asc ''call [REDACTED-PHONE_US]'',
          ai_pii_found = [''phone_us'']\<rparr> \<and>
   \<not> re_search ascii_db False (bounded phone_us_body) (asc ''call [REDACTED-PHONE_US]'')"
proof -
  have eq: "build_agent_input ascii_db (asc ''call 555-123-4567'') =
     Inr \<lparr>ai_raw_prompt = asc ''call 555-123-4567'', ai_sanitized_prompt = asc ''call [REDACTED-PHONE_US]'',
          ai_pii_found = [''phone_us'']\<rparr>"
    by code_simp
  show ?thesis
    using build_agent_input_screens [OF ascii_db_ok, of "asc ''call 555-123-4567''"] eq ascii_db_ok
    by (simp add: pii_patterns_def)
qed

text \<open>
  The injection check reads the raw text, not the normalised one: \<open>jail%62reak\<close> passes it, and
  \<open>sanitize\<close> then returns \<open>jailbreak\<close>, which the same check refuses. The class documentation says that
  all public methods normalise their input first.
\<close>

theorem sanitize_returns_injection:
  "sanitize ascii_db (asc ''jail%62reak'') = Inr (asc ''jailbreak'')
   \<and> check_prompt_injection ascii_db (asc ''jailbreak'') =
       Inl (exn_of PromptInjectionError
         (''Potential prompt injection detected: matched pattern '' @ [squote] @ ''jailbreak'' @ [squote]))"
  by code_simp

text \<open>
  Invisible characters are stripped before URL-decoding, so one that is itself percent-encoded
  survives normalisation and hides the address that contains it: nothing is found or masked. The
  documentation of \<open>mask_pii\<close> says that URL-encoding and zero-width insertions are caught.
\<close>

theorem encoded_zero_width_hides_email:
  "mask_pii ascii_db (asc ''bob@example%E2%80%8B.com'') =
     \<lparr>mr_text = asc ''bob@example'' @ [0x200B] @ asc ''.com'', mr_found_types = []\<rparr>
   \<and> mr_found_types (mask_pii ascii_db (asc ''bob@example'' @ [0x200B] @ asc ''.com'')) = [''email'']"
  by code_simp

end
