(* ===== verification/AuditLogger.thy ===== *)
theory AuditLogger
  imports PyStd
begin

text \<open>
  \<open>src/audit_vault/logger.py\<close>: the structured, append-only audit logger.

  An \<open>audit_logger\<close> holds the per-task sequence counters and last timestamps of the Python object,
  the entries it has emitted so far (\<open>al_log\<close>, oldest first), and what it reads from outside: the
  wall clock (\<open>al_clock n\<close> is the \<open>n\<close>-th reading, \<open>al_ticks\<close> counts the readings made) and the
  OpenTelemetry span that is current. Timestamps are microseconds since the epoch; their ISO-8601
  rendering is left symbolic (\<open>VTime\<close>), as is the float computation of \<open>skew_ms\<close> (\<open>VSkewMs\<close> carries
  the exact difference in microseconds).

  The lemmas show that the task-scoped entries of one logger are numbered 0, 1, 2, ... per task
  without gap or repetition and carry non-decreasing timestamps, whatever the wall clock does.
\<close>

section \<open>Entries\<close>

datatype level = Info | Warning | Error

datatype log_value =
    VNone | VBool bool | VInt int | VStr string | VStrs "string list" | VTime int | VSkewMs int

record log_entry =
  lg_level :: level
  lg_event :: string
  lg_fields :: "log_value dict"

record span_context =
  sc_valid :: bool
  sc_trace_id :: int
  sc_span_id :: int
  sc_flags :: int

record audit_logger =
  al_component :: string
  al_seq_counters :: "string \<Rightarrow> nat"
  al_last_timestamps :: "string \<rightharpoonup> int"
  al_log :: "log_entry list"
  al_clock :: "nat \<Rightarrow> int"
  al_ticks :: nat
  al_span :: span_context

datatype lifecycle_event =
    STARTED | RETRIED | PENDING_APPROVAL | APPROVED | DENIED | COMPLETED | FAILED

fun lifecycle_value :: "lifecycle_event \<Rightarrow> string" where
  "lifecycle_value STARTED = ''task.started''"
| "lifecycle_value RETRIED = ''task.retried''"
| "lifecycle_value PENDING_APPROVAL = ''task.pending_approval''"
| "lifecycle_value APPROVED = ''task.approved''"
| "lifecycle_value DENIED = ''task.denied''"
| "lifecycle_value COMPLETED = ''task.completed''"
| "lifecycle_value FAILED = ''task.failed''"

definition new_audit_logger :: "string \<Rightarrow> (nat \<Rightarrow> int) \<Rightarrow> span_context \<Rightarrow> audit_logger" where
  "new_audit_logger component clock sp =
     \<lparr>al_component = component, al_seq_counters = (\<lambda>_. 0), al_last_timestamps = Map.empty,
      al_log = [], al_clock = clock, al_ticks = 0, al_span = sp\<rparr>"


section \<open>Emission\<close>

text \<open>\<open>datetime.now(UTC)\<close>.\<close>

definition utcnow :: "(audit_logger, datetime) prog" where
  "utcnow = bindE (getE (\<lambda>l. DateTime (al_clock l (al_ticks l)) (Some 0)))
     (\<lambda>t. thenE (modifyE (\<lambda>l. l\<lparr>al_ticks := Suc (al_ticks l)\<rparr>)) (returnE t))"

text \<open>\<open>_normalize_timestamp\<close>: an aware value is moved to UTC, a naive one is taken as UTC.\<close>

definition normalize_timestamp :: "datetime \<Rightarrow> int" where
  "normalize_timestamp t =
     (case utcoffset t of None \<Rightarrow> wall t | Some off \<Rightarrow> wall t - off)"

text \<open>\<open>_format_utc_timestamp\<close>: normalise, then render.\<close>

definition format_utc_timestamp :: "datetime \<Rightarrow> log_value" where
  "format_utc_timestamp t = VTime (normalize_timestamp t)"

text \<open>The structlog processor chain: a timestamp is added only where the caller gave none.\<close>

definition add_timestamp_if_missing :: "log_value dict \<Rightarrow> (audit_logger, log_value dict) prog" where
  "add_timestamp_if_missing fs =
     (if map_of fs ''timestamp'' \<noteq> None then returnE fs
      else bindE utcnow (\<lambda>t. returnE (fs @ [(''timestamp'', format_utc_timestamp t)])))"

definition emit :: "level \<Rightarrow> string \<Rightarrow> log_value dict \<Rightarrow> (audit_logger, unit) prog" where
  "emit lv ev fs = bindE (add_timestamp_if_missing fs)
     (\<lambda>fs'. modifyE (\<lambda>l. l\<lparr>al_log := al_log l @
        [\<lparr>lg_level = lv, lg_event = ev, lg_fields = fs'\<rparr>]\<rparr>))"

definition info :: "string \<Rightarrow> log_value dict \<Rightarrow> (audit_logger, unit) prog" where
  "info ev fs = emit Info ev fs"

definition warning :: "string \<Rightarrow> log_value dict \<Rightarrow> (audit_logger, unit) prog" where
  "warning ev fs = emit Warning ev fs"

definition error :: "string \<Rightarrow> log_value dict \<Rightarrow> (audit_logger, unit) prog" where
  "error ev fs = emit Error ev fs"

definition audit :: "string \<Rightarrow> string \<Rightarrow> string \<Rightarrow> log_value dict \<Rightarrow> (audit_logger, unit) prog" where
  "audit ev agent_id action fs =
     info ev ([(''agent_id'', VStr agent_id), (''action'', VStr action)] @ fs)"


section \<open>Trace context\<close>

function show_hex :: "int \<Rightarrow> string" where
  "show_hex n = (if n < 16 then [digit_char (nat n)]
                 else show_hex (n div 16) @ [digit_char (nat (n mod 16))])"
  by pat_completeness auto
termination
  by (relation "measure nat") auto

declare show_hex.simps [simp del]

text \<open>\<open>f"{n:0kx}"\<close>.\<close>

definition hex_pad :: "nat \<Rightarrow> int \<Rightarrow> string" where
  "hex_pad k n = (let h = show_hex n in replicate (k - length h) (CHR ''0'') @ h)"

definition current_traceparent :: "span_context \<Rightarrow> string" where
  "current_traceparent sc =
     (if \<not> sc_valid sc then ''00-'' @ replicate 32 (CHR ''0'') @ ''-'' @ replicate 16 (CHR ''0'') @ ''-00''
      else ''00-'' @ hex_pad 32 (sc_trace_id sc) @ ''-'' @ hex_pad 16 (sc_span_id sc) @ ''-''
             @ (if odd (sc_flags sc) then ''01'' else ''00''))"


section \<open>Task-scoped events\<close>

text \<open>\<open>_reserve_task_event_metadata\<close>: sequence number, timestamp and, after a backward clock
  movement, the fields of a clock-skew warning.\<close>

definition reserve_task_event_metadata ::
  "string \<Rightarrow> datetime option \<Rightarrow> (audit_logger, nat \<times> int \<times> log_value dict option) prog" where
  "reserve_task_event_metadata task_id ovr =
     bindE (case ovr of Some t \<Rightarrow> returnE t | None \<Rightarrow> utcnow) (\<lambda>t.
       let candidate = normalize_timestamp t in (\<lambda>l.
         let previous = al_last_timestamps l task_id;
             early = (case previous of None \<Rightarrow> False | Some p \<Rightarrow> candidate < p)
         in if ovr \<noteq> None \<and> early
            then (Inl (exn_of AuditOrderingError
                    (''Cannot emit audit event with timestamp earlier than the previous event for task_id=''
                      @ py_repr task_id)), l)
            else
              let n = al_seq_counters l task_id;
                  p = the previous;
                  effective = (if early then p else candidate);
                  warning_payload =
                    (if early then Some
                       [(''sequence_number'', VInt (int n)), (''timestamp'', VTime effective),
                        (''previous_timestamp'', VTime p), (''attempted_timestamp'', VTime candidate),
                        (''adjusted_timestamp'', VTime effective), (''skew_ms'', VSkewMs (p - candidate))]
                     else None);
                  m = (if early then Suc n else n)
              in (Inr (m, effective, warning_payload),
                  l\<lparr>al_seq_counters := (al_seq_counters l)(task_id := Suc m),
                    al_last_timestamps := (al_last_timestamps l)(task_id \<mapsto> effective)\<rparr>)))"

definition emit_clock_skew_warning ::
  "string \<Rightarrow> string \<Rightarrow> string \<Rightarrow> string \<Rightarrow> log_value dict \<Rightarrow> (audit_logger, unit) prog" where
  "emit_clock_skew_warning task_id agent_type stage traceparent payload =
     warning ''audit.clock_skew_warning''
       ([(''task_id'', VStr task_id), (''agent_type'', VStr agent_type), (''stage'', VStr stage),
         (''traceparent'', VStr traceparent)] @ payload)"

definition stage_event ::
  "string \<Rightarrow> string \<Rightarrow> string \<Rightarrow> string \<Rightarrow> string \<Rightarrow> datetime option \<Rightarrow> log_value dict
     \<Rightarrow> (audit_logger, unit) prog" where
  "stage_event ev outcome stage task_id agent_type ovr kwargs =
     bindE (getE (\<lambda>l. current_traceparent (al_span l))) (\<lambda>traceparent.
     bindE (reserve_task_event_metadata task_id ovr) (\<lambda>(sequence_number, timestamp, wp).
     thenE (case wp of None \<Rightarrow> returnE ()
            | Some p \<Rightarrow> emit_clock_skew_warning task_id agent_type stage traceparent p)
       (let payload = dict_update
              [(''outcome'', VStr outcome), (''stage'', VStr stage), (''task_id'', VStr task_id),
               (''agent_type'', VStr agent_type), (''sequence_number'', VInt (int sequence_number)),
               (''traceparent'', VStr traceparent), (''timestamp'', VTime timestamp)] kwargs
        in if outcome = ''error'' then error ev payload
           else if outcome = ''deny'' then warning ev payload
           else info ev payload)))"

definition lifecycle_event_log ::
  "string \<Rightarrow> string \<Rightarrow> string \<Rightarrow> string \<Rightarrow> string option \<Rightarrow> string \<Rightarrow> string \<Rightarrow> datetime option
     \<Rightarrow> log_value dict \<Rightarrow> (audit_logger, unit) prog" where
  "lifecycle_event_log ev event_type task_id agent_type session_id workflow_status stage ovr kwargs =
     bindE (getE (\<lambda>l. current_traceparent (al_span l))) (\<lambda>traceparent.
     bindE (reserve_task_event_metadata task_id ovr) (\<lambda>(sequence_number, timestamp, wp).
     thenE (case wp of None \<Rightarrow> returnE ()
            | Some p \<Rightarrow> emit_clock_skew_warning task_id agent_type stage traceparent p)
       (let payload = dict_update
              [(''event_type'', VStr event_type), (''stage'', VStr stage), (''task_id'', VStr task_id),
               (''agent_type'', VStr agent_type),
               (''session_id'', VStr (case session_id of None \<Rightarrow> '''' | Some s \<Rightarrow> s)),
               (''workflow_status'', VStr workflow_status),
               (''sequence_number'', VInt (int sequence_number)),
               (''traceparent'', VStr traceparent), (''timestamp'', VTime timestamp)] kwargs
        in if event_type = lifecycle_value FAILED then error ev payload
           else if event_type = lifecycle_value DENIED then warning ev payload
           else info ev payload)))"


section \<open>The audit trail of a task\<close>

definition entry_task :: "log_entry \<Rightarrow> string option" where
  "entry_task e = (case (map_of (lg_fields e) ''task_id'', map_of (lg_fields e) ''sequence_number'') of
     (Some (VStr t), Some _) \<Rightarrow> Some t | _ \<Rightarrow> None)"

definition entry_seq :: "log_entry \<Rightarrow> nat" where
  "entry_seq e = (case map_of (lg_fields e) ''sequence_number'' of Some (VInt i) \<Rightarrow> nat i | _ \<Rightarrow> 0)"

definition entry_time :: "log_entry \<Rightarrow> int" where
  "entry_time e = (case map_of (lg_fields e) ''timestamp'' of Some (VTime i) \<Rightarrow> i | _ \<Rightarrow> 0)"

definition task_trail :: "audit_logger \<Rightarrow> string \<Rightarrow> log_entry list" where
  "task_trail l t = filter (\<lambda>e. entry_task e = Some t) (al_log l)"

text \<open>Keyword arguments that do not overwrite the keys the logger itself assigns.\<close>

definition unreserved :: "log_value dict \<Rightarrow> bool" where
  "unreserved kw \<longleftrightarrow> list_all (\<lambda>(k, _). k \<noteq> ''task_id'' \<and> k \<noteq> ''sequence_number'' \<and> k \<noteq> ''timestamp'') kw"

definition audit_ok :: "audit_logger \<Rightarrow> bool" where
  "audit_ok l \<longleftrightarrow> (\<forall>t.
     map entry_seq (task_trail l t) = [0..<al_seq_counters l t] \<and>
     sorted (map entry_time (task_trail l t)) \<and>
     (\<forall>e \<in> set (task_trail l t). \<exists>p. al_last_timestamps l t = Some p \<and> entry_time e \<le> p))"

text \<open>What one task-scoped emission does to the logger: one entry, or a warning and an entry.\<close>

definition appends :: "string \<Rightarrow> audit_logger \<Rightarrow> audit_logger \<Rightarrow> bool" where
  "appends t l l' \<longleftrightarrow> (\<exists>es eff.
     al_log l' = al_log l @ es \<and> es \<noteq> [] \<and>
     (\<forall>e \<in> set es. entry_task e = Some t \<and> entry_time e = eff) \<and>
     map entry_seq es = [al_seq_counters l t ..< al_seq_counters l t + length es] \<and>
     al_seq_counters l' = (al_seq_counters l)(t := al_seq_counters l t + length es) \<and>
     al_last_timestamps l' = (al_last_timestamps l)(t \<mapsto> eff) \<and>
     (\<forall>p. al_last_timestamps l t = Some p \<longrightarrow> p \<le> eff))"

lemma appends_audit_ok: "audit_ok l \<Longrightarrow> appends t l l' \<Longrightarrow> audit_ok l'"
proof -
  assume ok: "audit_ok l" and "appends t l l'"
  then obtain es eff where es: "al_log l' = al_log l @ es" "\<forall>e \<in> set es. entry_task e = Some t \<and> entry_time e = eff"
     "map entry_seq es = [al_seq_counters l t ..< al_seq_counters l t + length es]"
     "al_seq_counters l' = (al_seq_counters l)(t := al_seq_counters l t + length es)"
     "al_last_timestamps l' = (al_last_timestamps l)(t \<mapsto> eff)"
     "\<forall>p. al_last_timestamps l t = Some p \<longrightarrow> p \<le> eff"
    by (auto simp: appends_def)
  have other: "task_trail l' u = task_trail l u" if "u \<noteq> t" for u
    using that es(1,2) by (auto simp: task_trail_def filter_empty_conv)
  have same: "task_trail l' t = task_trail l t @ es"
    using es(1,2) by (simp add: task_trail_def filter_id_conv)
  have seq: "map entry_seq (task_trail l' t) = [0..<al_seq_counters l' t]"
    using ok es(3,4) upt_add_eq_append [of 0 "al_seq_counters l t" "length es"]
    by (simp add: same audit_ok_def)
  have "map entry_time es = replicate (length es) eff"
    using es(2) by (metis map_replicate_const map_eq_conv)
  moreover have "\<forall>e \<in> set (task_trail l t). entry_time e \<le> eff"
    using ok es(6) unfolding audit_ok_def by fastforce
  ultimately have "sorted (map entry_time (task_trail l' t))"
    using ok by (auto simp: same audit_ok_def sorted_append sorted_replicate)
  moreover have "\<forall>e \<in> set (task_trail l' t). entry_time e \<le> eff"
    using \<open>\<forall>e \<in> set (task_trail l t). entry_time e \<le> eff\<close> es(2) by (auto simp: same)
  ultimately show ?thesis
    using ok seq other es(4,5) unfolding audit_ok_def by (metis fun_upd_apply)
qed

lemma map_of_unreserved:
  "unreserved kw \<Longrightarrow> k \<in> {''task_id'', ''sequence_number'', ''timestamp''} \<Longrightarrow>
     map_of (dict_update d kw) k = map_of d k"
  by (rule map_of_dict_update) (auto simp: unreserved_def list_all_iff)

lemmas emission_defs = info_def warning_def error_def emit_def add_timestamp_if_missing_def
  emit_clock_skew_warning_def utcnow_def prog_simps

text \<open>\<open>stage_event\<close> and \<open>lifecycle_event\<close> share everything but the payload and the level.\<close>

definition task_emission ::
  "(log_value dict \<Rightarrow> (audit_logger, unit) prog) \<Rightarrow> string \<Rightarrow> string \<Rightarrow> string \<Rightarrow> datetime option
     \<Rightarrow> log_value dict \<Rightarrow> log_value dict \<Rightarrow> (audit_logger, unit) prog" where
  "task_emission out task_id agent_type stage ovr head kwargs =
     bindE (getE (\<lambda>l. current_traceparent (al_span l))) (\<lambda>traceparent.
     bindE (reserve_task_event_metadata task_id ovr) (\<lambda>(n, ts, wp).
     thenE (case wp of None \<Rightarrow> returnE ()
            | Some p \<Rightarrow> emit_clock_skew_warning task_id agent_type stage traceparent p)
       (out (dict_update (head @ [(''sequence_number'', VInt (int n)),
               (''traceparent'', VStr traceparent), (''timestamp'', VTime ts)]) kwargs))))"

definition stage_level :: "string \<Rightarrow> level" where
  "stage_level outcome = (if outcome = ''error'' then Error else if outcome = ''deny'' then Warning else Info)"

definition lifecycle_level :: "string \<Rightarrow> level" where
  "lifecycle_level et = (if et = lifecycle_value FAILED then Error
     else if et = lifecycle_value DENIED then Warning else Info)"

lemma stage_event_emission:
  "stage_event ev outcome stage t agent_type ovr kw =
     task_emission (emit (stage_level outcome) ev) t agent_type stage ovr
       [(''outcome'', VStr outcome), (''stage'', VStr stage), (''task_id'', VStr t),
        (''agent_type'', VStr agent_type)] kw"
  by (simp add: stage_event_def task_emission_def stage_level_def info_def warning_def error_def Let_def)

lemma lifecycle_event_emission:
  "lifecycle_event_log ev et t agent_type session_id ws stage ovr kw =
     task_emission (emit (lifecycle_level et) ev) t agent_type stage ovr
       [(''event_type'', VStr et), (''stage'', VStr stage), (''task_id'', VStr t),
        (''agent_type'', VStr agent_type),
        (''session_id'', VStr (case session_id of None \<Rightarrow> '''' | Some s \<Rightarrow> s)),
        (''workflow_status'', VStr ws)] kw"
  by (simp add: lifecycle_event_log_def task_emission_def lifecycle_level_def info_def warning_def
      error_def Let_def)

definition early_override :: "audit_logger \<Rightarrow> string \<Rightarrow> datetime option \<Rightarrow> bool" where
  "early_override l t ovr \<longleftrightarrow>
     (case (ovr, al_last_timestamps l t) of
        (Some d, Some p) \<Rightarrow> normalize_timestamp d < p | _ \<Rightarrow> False)"

lemma task_emission_refused:
  assumes "early_override l t ovr"
  shows "\<exists>m. task_emission out t agent_type stage ovr head kw l = (Inl (exn_of AuditOrderingError m), l)"
  using assms
  by (auto simp: early_override_def task_emission_def reserve_task_event_metadata_def prog_simps Let_def
      split: option.splits)

lemma task_emission_appends:
  assumes "\<not> early_override l t ovr" and "unreserved kw"
    and "map_of head ''task_id'' = Some (VStr t)" "map_of head ''sequence_number'' = None"
      "map_of head ''timestamp'' = None"
  obtains l' where "task_emission (emit lv ev) t agent_type stage ovr head kw l = (Inr (), l')"
    and "appends t l l'"
proof -
  let ?r = "task_emission (emit lv ev) t agent_type stage ovr head kw l"
  show ?thesis
  proof (rule that [of "snd ?r"])
    show "?r = (Inr (), snd ?r)"
      using assms
      by (auto simp: early_override_def task_emission_def reserve_task_event_metadata_def emission_defs
          map_of_unreserved map_add_def Let_def split: option.splits)
    show "appends t l (snd ?r)"
      using assms unfolding appends_def
      by (auto simp: early_override_def task_emission_def reserve_task_event_metadata_def emission_defs
          map_of_unreserved map_add_def Let_def entry_task_def entry_seq_def entry_time_def
          split: option.splits)
  qed
qed


section \<open>Reachable loggers\<close>

definition audit_init :: "audit_logger \<Rightarrow> bool" where
  "audit_init l \<longleftrightarrow> al_log l = [] \<and> al_seq_counters l = (\<lambda>_. 0) \<and> al_last_timestamps l = Map.empty"

text \<open>
  The calls that clients make: stage and lifecycle events with any outcome, event name and clock,
  and plain entries, which carry no sequence number.
\<close>

inductive audit_step :: "audit_logger \<Rightarrow> audit_logger \<Rightarrow> bool" where
  step_stage: "unreserved kw \<Longrightarrow>
     audit_step l (snd (stage_event ev outcome stage t agent_type ovr kw l))"
| step_lifecycle: "unreserved kw \<Longrightarrow>
     audit_step l (snd (lifecycle_event_log ev et t agent_type sid ws stage ovr kw l))"
| step_plain: "map_of fs ''sequence_number'' = None \<Longrightarrow> audit_step l (snd (emit lv ev fs l))"
| step_clock: "audit_step l (l\<lparr>al_ticks := n, al_span := sp\<rparr>)"

lemma entry_task_unnumbered: "map_of (lg_fields e) ''sequence_number'' = None \<Longrightarrow> entry_task e = None"
  by (auto simp: entry_task_def split: option.splits log_value.splits)

definition stamped :: "audit_logger \<Rightarrow> log_value dict \<Rightarrow> log_value dict" where
  "stamped l fs = (if map_of fs ''timestamp'' \<noteq> None then fs
     else fs @ [(''timestamp'', VTime (al_clock l (al_ticks l)))])"

lemma emit_eq:
  "emit lv ev fs l = (Inr (),
     l\<lparr>al_log := al_log l @ [\<lparr>lg_level = lv, lg_event = ev, lg_fields = stamped l fs\<rparr>],
       al_ticks := (if map_of fs ''timestamp'' \<noteq> None then al_ticks l else Suc (al_ticks l))\<rparr>)"
  by (simp add: emission_defs stamped_def format_utc_timestamp_def normalize_timestamp_def)

lemma map_of_stamped: "k \<noteq> ''timestamp'' \<Longrightarrow> map_of (stamped l fs) k = map_of fs k"
  by (auto simp: stamped_def map_add_def split: option.splits)

lemma emit_plain_audit_ok:
  assumes "audit_ok l" "map_of fs ''sequence_number'' = None"
  shows "audit_ok (snd (emit lv ev fs l))"
  using assms by (simp add: emit_eq audit_ok_def task_trail_def entry_task_unnumbered map_of_stamped)

lemma task_emission_audit_ok:
  assumes "audit_ok l" "unreserved kw" "map_of head ''task_id'' = Some (VStr t)"
    "map_of head ''sequence_number'' = None" "map_of head ''timestamp'' = None"
  shows "audit_ok (snd (task_emission (emit lv ev) t agent_type stage ovr head kw l))"
proof (cases "early_override l t ovr")
  case True
  then show ?thesis
    using assms(1) task_emission_refused [of l t ovr "emit lv ev" agent_type stage head kw] by auto
next
  case False
  then show ?thesis
    using task_emission_appends [OF False assms(2-5)] assms(1) by (metis appends_audit_ok snd_conv)
qed

interpretation audit_sys: invariant_system audit_init audit_step audit_ok
proof unfold_locales
  fix l assume "audit_init l"
  then show "audit_ok l" by (simp add: audit_init_def audit_ok_def task_trail_def)
next
  fix l l' assume ok: "audit_ok l" and "audit_step l l'"
  from this(2) show "audit_ok l'"
  proof cases
    case step_clock
    then show ?thesis using ok by (simp add: audit_ok_def task_trail_def)
  qed (use ok in \<open>simp_all add: stage_event_emission lifecycle_event_emission task_emission_audit_ok
        emit_plain_audit_ok\<close>)
qed


section \<open>Properties\<close>

lemma reach_stage_event: "reachable audit_init audit_step l \<Longrightarrow> unreserved kw \<Longrightarrow>
    reachable audit_init audit_step (snd (stage_event ev outcome stage t agent_type ovr kw l))"
  by (blast intro: reach_step step_stage)

lemma reach_lifecycle_event: "reachable audit_init audit_step l \<Longrightarrow> unreserved kw \<Longrightarrow>
    reachable audit_init audit_step (snd (lifecycle_event_log ev et t agent_type sid ws stage ovr kw l))"
  by (blast intro: reach_step step_lifecycle)

text \<open>
  (C8) Audit trail integrity. In every state a logger can reach, through any mix of stage events,
  lifecycle events and plain entries and under any behaviour of the wall clock, the sequence
  numbers of a task's entries are exactly 0, 1, ..., n - 1 in emission order, where n is the task's
  counter, and their timestamps never decrease.
\<close>

theorem audit_trail_gap_free:
  assumes "reachable audit_init audit_step l"
  shows "map entry_seq (task_trail l t) = [0..<al_seq_counters l t] \<and>
    sorted (map entry_time (task_trail l t))"
  using audit_sys.reachable_inv [OF assms] by (simp add: audit_ok_def)

definition no_span :: span_context where
  "no_span = \<lparr>sc_valid = False, sc_trace_id = 0, sc_span_id = 0, sc_flags = 0\<rparr>"

text \<open>Two events of one task while the clock runs backwards, and one event of another task.\<close>

definition demo_logger :: audit_logger where
  "demo_logger =
     snd (stage_event ''policy.denied'' ''deny'' ''policy-eval'' ''t1'' ''hr'' None []
     (snd (lifecycle_event_log ''workflow.started'' (lifecycle_value STARTED) ''t2'' ''it'' None
             ''running'' ''workflow-lifecycle'' None []
     (snd (stage_event ''guardrails.pre_sanitize'' ''allow'' ''pre-pii-scrub'' ''t1'' ''hr'' None []
        (new_audit_logger ''orchestrator'' (\<lambda>n. 1000 - int n) no_span))))))"

lemmas demo_logger_eval = demo_logger_def stage_event_def lifecycle_event_log_def
  reserve_task_event_metadata_def emission_defs new_audit_logger_def normalize_timestamp_def
  no_span_def current_traceparent_def Let_def

theorem audit_trail_gap_free_witness:
  "map entry_seq (task_trail demo_logger ''t1'') = [0, 1, 2] \<and>
   sorted (map entry_time (task_trail demo_logger ''t1''))"
proof -
  have r: "reachable audit_init audit_step demo_logger"
    unfolding demo_logger_def
    by (intro reach_stage_event reach_lifecycle_event reach_init)
       (simp_all add: unreserved_def audit_init_def new_audit_logger_def)
  moreover have "al_seq_counters demo_logger ''t1'' = 3"
    by (simp add: demo_logger_eval)
  ultimately show ?thesis
    using audit_trail_gap_free [OF r, of "''t1''"] by (simp add: upt_rec)
qed

text \<open>
  A stage event is refused exactly when it carries an explicit timestamp earlier than the
  task's last one: then \<open>AuditOrderingError\<close> is raised and the logger is unchanged. Otherwise the
  call returns and appends one entry for the task, or a clock-skew warning and the entry, with the
  next sequence numbers and a timestamp not before the last.
\<close>

theorem stage_event_outcome:
  assumes "unreserved kw"
  shows "(if early_override l t ovr
          then \<exists>m. stage_event ev outcome stage t agent_type ovr kw l
                      = (Inl (exn_of AuditOrderingError m), l)
          else \<exists>l'. stage_event ev outcome stage t agent_type ovr kw l = (Inr (), l') \<and> appends t l l')"
proof (cases "early_override l t ovr")
  case True
  then show ?thesis by (simp add: stage_event_emission task_emission_refused)
next
  case False
  then show ?thesis
    using task_emission_appends [OF False assms, of "[(''outcome'', VStr outcome),
        (''stage'', VStr stage), (''task_id'', VStr t), (''agent_type'', VStr agent_type)]"]
    by (simp add: stage_event_emission) blast
qed

theorem stage_event_outcome_witness:
  "\<exists>m. stage_event ''x'' ''allow'' ''s'' ''t1'' ''hr'' (Some (DateTime 5 (Some 10))) [] demo_logger
         = (Inl (exn_of AuditOrderingError m), demo_logger)"
proof -
  have "early_override demo_logger ''t1'' (Some (DateTime 5 (Some 10)))"
    by (simp add: early_override_def demo_logger_eval)
  then show ?thesis
    using stage_event_outcome [of "[]" demo_logger "''t1''" "Some (DateTime 5 (Some 10))" "''x''" "''allow''" "''s''" "''hr''"]
    by (simp add: unreserved_def)
qed

lemma show_hex_nonempty [simp]: "show_hex n \<noteq> []"
  by (subst show_hex.simps) simp

lemma length_show_hex: "n < 16 ^ Suc k \<Longrightarrow> length (show_hex n) \<le> Suc k"
proof (induction k arbitrary: n)
  case 0
  then show ?case by (simp add: show_hex.simps)
next
  case (Suc k)
  then have "length (show_hex (n div 16)) \<le> Suc k" by simp
  then show ?case by (simp add: show_hex.simps [of n])
qed

lemma length_hex_pad: "n < 16 ^ Suc k \<Longrightarrow> length (hex_pad (Suc k) n) = Suc k"
  using length_show_hex [of n k] by (simp add: hex_pad_def Let_def)

text \<open>
  The \<open>traceparent\<close> written into every task-scoped entry has the 55 characters of the W3C
  header for every 128-bit trace id and 64-bit span id, whether or not a span is active.
\<close>

theorem current_traceparent_length:
  assumes "sc_trace_id sc < 2 ^ 128" and "sc_span_id sc < 2 ^ 64"
  shows "length (current_traceparent sc) = 55"
  using assms length_hex_pad [of "sc_trace_id sc" 31] length_hex_pad [of "sc_span_id sc" 15]
  by (simp add: current_traceparent_def)

theorem current_traceparent_length_witness:
  "length (current_traceparent \<lparr>sc_valid = True, sc_trace_id = 255, sc_span_id = 4096, sc_flags = 1\<rparr>) = 55"
  by (rule current_traceparent_length) simp_all

end
