(* ===== verification/PyFloat.thy ===== *)
theory PyFloat
  imports PyDecimal "HOL-Library.Log_Nat"
begin

text \<open>
  \<open>float(d)\<close> of a \<open>Decimal\<close>: the IEEE double nearest to the number, ties to the even significand, with
  gradual underflow and overflow to infinity. A double is the rational it denotes or an infinity; NaN
  and the sign of zero do not arise.
\<close>

datatype float64 = Finite rat | Infinite bool

text \<open>The largest power of two that is not above a positive rational.\<close>

definition log2 :: "rat \<Rightarrow> int" where
  "log2 q = (case quotient_of q of (n, d) \<Rightarrow>
     let k = int (floorlog 2 (nat n)) - int (floorlog 2 (nat d)) in if 2 powi k \<le> q then k else k - 1)"

definition round_even :: "rat \<Rightarrow> int" where
  "round_even x = (let q = \<lfloor>x\<rfloor>; r = x - of_int q in if 1/2 < r \<or> r = 1/2 \<and> odd q then q + 1 else q)"

text \<open>A significand has 53 bits, the smallest exponent of its last bit is -1074.\<close>

definition last_bit :: "rat \<Rightarrow> int" where
  "last_bit q = max (log2 q - 52) (- 1074)"

definition nearest_double :: "rat \<Rightarrow> rat" where
  "nearest_double q = (if q = 0 then 0 else let u = last_bit q in of_int (round_even (q / 2 powi u)) * 2 powi u)"

definition to_float :: "rat \<Rightarrow> float64" where
  "to_float q = (let a = nearest_double \<bar>q\<bar> in if 2 ^ 1024 \<le> a then Infinite (q < 0) else Finite (sgn q * a))"

definition float_of_decimal :: "decimal \<Rightarrow> float64" where
  "float_of_decimal d = to_float (dval d)"


section \<open>How near it is\<close>

lemma floorlog_powi:
  assumes "0 < n"
  shows "2 powi (int (floorlog 2 (nat n)) - 1) \<le> (of_int n :: rat)" "of_int n < (2 powi int (floorlog 2 (nat n)) :: rat)"
proof -
  let ?f = "floorlog 2 (nat n)"
  have b: "2 ^ (?f - 1) \<le> nat n" "nat n < 2 ^ ?f"
    using floorlog_bounds [of "nat n" 2] assms by auto
  moreover have "?f \<noteq> 0"
    using assms by (simp add: floorlog_eq_zero_iff)
  ultimately have f: "0 < ?f"
    by simp
  have n: "(of_int n :: rat) = of_nat (nat n)"
    using assms by simp
  have "(2 powi (int ?f - 1) :: rat) = 2 ^ (?f - 1)"
    using f by (simp add: power_int_def nat_diff_distrib)
  also have "\<dots> = of_nat (2 ^ (?f - 1))"
    by simp
  also have "\<dots> \<le> of_int n"
    unfolding n using b(1) by (simp only: of_nat_le_iff)
  finally show "2 powi (int ?f - 1) \<le> (of_int n :: rat)" .
  have "(of_int n :: rat) < of_nat (2 ^ ?f)"
    unfolding n using b(2) by (simp only: of_nat_less_iff)
  then show "of_int n < (2 powi int ?f :: rat)"
    by (simp add: power_int_def)
qed

lemma log2_bounds:
  assumes "0 < q"
  shows "2 powi log2 q \<le> q" "q < 2 powi (log2 q + 1)"
proof -
  obtain n d where q: "quotient_of q = (n, d)"
    by (cases "quotient_of q")
  then have d: "0 < d" "q = of_int n / of_int d"
    using quotient_of_denom_pos quotient_of_div by blast+
  then have n: "0 < n"
    using assms by (simp add: zero_less_divide_iff)
  let ?a = "int (floorlog 2 (nat n))" and ?b = "int (floorlog 2 (nat d))"
  have up: "q < 2 powi (?a - ?b + 1)"
  proof -
    have "q * of_int d < 2 powi ?a"
      using floorlog_powi(2) [OF n] d by simp
    also have "(2 powi ?a :: rat) = 2 powi (?a - ?b + 1) * 2 powi (?b - 1)"
      by (simp flip: power_int_add)
    also have "\<dots> \<le> 2 powi (?a - ?b + 1) * of_int d"
      using floorlog_powi(1) [OF d(1)] by (intro mult_left_mono) simp_all
    finally show ?thesis
      using d(1) by simp
  qed
  have low: "2 powi (?a - ?b - 1) \<le> q"
  proof -
    have "2 powi (?a - ?b - 1) * of_int d \<le> (2 powi (?a - ?b - 1) * 2 powi ?b :: rat)"
      using floorlog_powi(2) [OF d(1)] by (intro mult_left_mono) simp_all
    also have "\<dots> = 2 powi (?a - 1)"
      by (simp del: power_int_of_nat flip: power_int_add)
    also have "\<dots> \<le> q * of_int d"
      using floorlog_powi(1) [OF n] d by simp
    finally show ?thesis
      using d(1) by simp
  qed
  show "2 powi log2 q \<le> q" "q < 2 powi (log2 q + 1)"
    using up low by (auto simp: log2_def q Let_def)
qed

lemma round_even_near: "\<bar>of_int (round_even x) - x\<bar> \<le> 1/2"
proof -
  define r where "r = x - of_int \<lfloor>x\<rfloor>"
  have "0 \<le> r" "r < 1" "x = of_int \<lfloor>x\<rfloor> + r"
    unfolding r_def by linarith+
  moreover have "of_int (round_even x) - x = (if 1/2 < r \<or> r = 1/2 \<and> odd \<lfloor>x\<rfloor> then 1 - r else - r)"
    by (simp add: round_even_def r_def Let_def)
  ultimately show ?thesis
    by (auto simp: abs_if split: if_splits)
qed

lemma nearest_double_near:
  assumes "0 \<le> q"
  shows "\<bar>nearest_double q - q\<bar> \<le> max (q / 2 ^ 53) (2 powi (- 1075))"
proof (cases "q = 0")
  case False
  let ?u = "last_bit q"
  have "nearest_double q - q = (of_int (round_even (q / 2 powi ?u)) - q / 2 powi ?u) * 2 powi ?u"
    using False by (simp add: nearest_double_def Let_def left_diff_distrib)
  then have "\<bar>nearest_double q - q\<bar> = \<bar>of_int (round_even (q / 2 powi ?u)) - q / 2 powi ?u\<bar> * 2 powi ?u"
    by (simp add: abs_mult)
  also have "\<dots> \<le> 1/2 * 2 powi ?u"
    by (intro mult_right_mono round_even_near) simp
  also have "\<dots> = 2 powi (?u - 1)"
    by (simp add: power_int_diff)
  also have "\<dots> \<le> max (q / 2 ^ 53) (2 powi (- 1075))"
  proof (cases "log2 q - 52 \<le> - 1074")
    case False
    then have "2 powi (?u - 1) = (2 powi (log2 q - 53) :: rat)"
      by (simp add: last_bit_def)
    also have "\<dots> = 2 powi log2 q / 2 ^ 53"
      using power_int_diff [of "2::rat" "log2 q" 53] by simp
    also have "\<dots> \<le> q / 2 ^ 53"
      using log2_bounds(1) [of q] assms \<open>q \<noteq> 0\<close> by (intro divide_right_mono) auto
    finally show ?thesis by simp
  qed (simp add: last_bit_def)
  finally show ?thesis .
qed (simp add: nearest_double_def)

lemma to_float_near:
  assumes "\<bar>q\<bar> < 2 ^ 1023"
  shows "\<exists>x. to_float q = Finite x \<and> \<bar>x - q\<bar> \<le> max (\<bar>q\<bar> / 2 ^ 53) (2 powi (- 1075))"
proof -
  let ?a = "nearest_double \<bar>q\<bar>" and ?m = "max (\<bar>q\<bar> / 2 ^ 53) (2 powi (- 1075) :: rat)"
  have near: "\<bar>?a - \<bar>q\<bar>\<bar> \<le> ?m"
    by (rule nearest_double_near) simp
  have "?m \<le> 2 ^ 1023"
  proof (rule max.boundedI)
    show "\<bar>q\<bar> / 2 ^ 53 \<le> 2 ^ 1023"
      using assms by (simp add: divide_le_eq) 
    show "(2 powi (- 1075) :: rat) \<le> 2 ^ 1023"
      by (rule order_trans [of _ 1]) (simp_all add: power_int_minus power_int_numeral le_divide_eq flip: power_one_over)
  qed
  then have "?a < 2 ^ 1023 + 2 ^ 1023"
    using near assms by linarith
  then have "\<not> 2 ^ 1024 \<le> ?a"
    by simp
  then have "to_float q = Finite (sgn q * ?a)"
    by (simp add: to_float_def Let_def)
  moreover have "\<bar>sgn q * ?a - q\<bar> = \<bar>?a - \<bar>q\<bar>\<bar>"
    by (cases q "0::rat" rule: linorder_cases) (auto simp: nearest_double_def abs_if)
  ultimately show ?thesis
    using near by simp
qed

end
