(* ===== verification/BudgetEnforcer.thy ===== *)
theory BudgetEnforcer
  imports AuditLogger PyFloat "HOL-Library.List_Lexorder" "HOL-Library.Char_ord"
begin

text \<open>
  \<open>src/watchdog/budget_enforcer.py\<close>: budget sessions, spend recording, the pre-call guard,
  snapshots and the replay of a spend ledger.

  A \<open>budget_enforcer\<close> holds the registry of sessions, its audit logger, and the Prometheus calls it
  makes, in order (\<open>GaugeSet\<close> for \<open>aegis_budget_remaining_usd\<close> with the float it is given, \<open>CounterInc\<close> for
  \<open>aegis_tokens_consumed_total\<close>, which refuses a negative increment). A method that raises keeps
  what it wrote before: \<open>record_spend\<close> debits the session and marks the operation before it raises.
  Python's session objects are shared between the registry and the caller; the model returns the
  registry's session after the call.
\<close>

section \<open>State\<close>

record budget_session =
  bs_session_id :: uuid
  bs_agent_type :: string
  bs_budget_limit_usd :: decimal
  bs_tokens_used :: int
  bs_cost_usd :: decimal
  bs_alerts :: "string list"
  bs_applied_operation_ids :: "string set"

record budget_session_snapshot =
  bn_session_id :: string
  bn_agent_type :: string
  bn_budget_limit_usd :: string
  bn_tokens_used :: int
  bn_cost_usd :: string
  bn_alerts :: "string list"
  bn_applied_operation_ids :: "string list"

record budget_history_entry =
  bh_operation_id :: string
  bh_amount_usd :: string
  bh_tokens_used :: int

datatype metric_call = GaugeSet string float64 | CounterInc string int

record budget_enforcer =
  be_sessions :: "uuid \<rightharpoonup> budget_session"
  be_audit :: audit_logger
  be_metrics :: "metric_call list"

definition DEFAULT_COST_PER_TOKEN :: decimal where
  "DEFAULT_COST_PER_TOKEN = Dec 2 (- 6)"

definition new_budget_session :: "uuid \<Rightarrow> string \<Rightarrow> decimal \<Rightarrow> budget_session" where
  "new_budget_session sid agent_type limit =
     \<lparr>bs_session_id = sid, bs_agent_type = agent_type, bs_budget_limit_usd = limit,
      bs_tokens_used = 0, bs_cost_usd = dzero, bs_alerts = [], bs_applied_operation_ids = {}\<rparr>"

definition new_budget_enforcer :: "audit_logger \<Rightarrow> budget_enforcer" where
  "new_budget_enforcer l = \<lparr>be_sessions = Map.empty, be_audit = l, be_metrics = []\<rparr>"


section \<open>Snapshots\<close>

definition serialize :: "budget_session \<Rightarrow> budget_session_snapshot" where
  "serialize s =
     \<lparr>bn_session_id = str_uuid (bs_session_id s),
      bn_agent_type = bs_agent_type s,
      bn_budget_limit_usd = dec_to_string (bs_budget_limit_usd s),
      bn_tokens_used = bs_tokens_used s,
      bn_cost_usd = dec_to_string (bs_cost_usd s),
      bn_alerts = bs_alerts s,
      bn_applied_operation_ids = sorted_list_of_set (bs_applied_operation_ids s)\<rparr>"

definition deserialize :: "budget_session_snapshot \<Rightarrow> exn + budget_session" where
  "deserialize n =
     (case parse_uuid (bn_session_id n) of Inl e \<Rightarrow> Inl e | Inr sid \<Rightarrow>
      (case parse_decimal (bn_budget_limit_usd n) of Inl e \<Rightarrow> Inl e | Inr limit \<Rightarrow>
       (case parse_decimal (bn_cost_usd n) of Inl e \<Rightarrow> Inl e | Inr cost \<Rightarrow>
          Inr \<lparr>bs_session_id = sid, bs_agent_type = bn_agent_type n, bs_budget_limit_usd = limit,
               bs_tokens_used = bn_tokens_used n, bs_cost_usd = cost, bs_alerts = bn_alerts n,
               bs_applied_operation_ids = set (bn_applied_operation_ids n)\<rparr>)))"


section \<open>Registry and effects\<close>

definition be_log :: "(audit_logger, unit) prog \<Rightarrow> (budget_enforcer, unit) prog" where
  "be_log = zoomE be_audit (\<lambda>l b. b\<lparr>be_audit := l\<rparr>)"

definition be_metric :: "metric_call \<Rightarrow> (budget_enforcer, unit) prog" where
  "be_metric c = modifyE (\<lambda>b. b\<lparr>be_metrics := be_metrics b @ [c]\<rparr>)"

definition put_session :: "uuid \<Rightarrow> budget_session \<Rightarrow> (budget_enforcer, unit) prog" where
  "put_session sid s = modifyE (\<lambda>b. b\<lparr>be_sessions := (be_sessions b)(sid \<mapsto> s)\<rparr>)"

definition get_session :: "uuid \<Rightarrow> (budget_enforcer, budget_session option) prog" where
  "get_session sid = getE (\<lambda>b. be_sessions b sid)"

text \<open>\<open>_get_session\<close>.\<close>

definition require_session :: "uuid \<Rightarrow> (budget_enforcer, budget_session) prog" where
  "require_session sid = bindE (get_session sid) (\<lambda>r. case r of
     None \<Rightarrow> raiseE (exn_of KeyError (''Budget session '' @ str_uuid sid @ '' not found''))
   | Some s \<Rightarrow> returnE s)"

definition is_duplicate_operation :: "budget_session \<Rightarrow> string option \<Rightarrow> bool" where
  "is_duplicate_operation s op =
     (case op of None \<Rightarrow> False | Some o' \<Rightarrow> o' \<in> bs_applied_operation_ids s)"

definition mark_operation :: "budget_session \<Rightarrow> string option \<Rightarrow> budget_session" where
  "mark_operation s op =
     (case op of None \<Rightarrow> s
      | Some o' \<Rightarrow> s\<lparr>bs_applied_operation_ids := insert o' (bs_applied_operation_ids s)\<rparr>)"

text \<open>\<open>max(remaining, Decimal("0"))\<close>, what the gauge is set to, as a float.\<close>

definition remaining_gauge :: "budget_session \<Rightarrow> decimal" where
  "remaining_gauge s = dmax (dsub (bs_budget_limit_usd s) (bs_cost_usd s)) dzero"

definition exceeded_fields :: "uuid \<Rightarrow> budget_session \<Rightarrow> log_value dict" where
  "exceeded_fields sid s =
     [(''session_id'', VStr (str_uuid sid)), (''agent_type'', VStr (bs_agent_type s)),
      (''spent_usd'', VStr (dec_to_string (bs_cost_usd s))),
      (''limit_usd'', VStr (dec_to_string (bs_budget_limit_usd s)))]"


section \<open>Operations\<close>

text \<open>
  \<open>create_session\<close>. The limit is the \<open>Decimal\<close> given, or \<open>Decimal(str(f))\<close> of a float, or that of
  the configured default; the last two reach the model as the decimal string of the float.
\<close>

datatype limit_arg = LimitDefault | LimitFloat string | LimitDecimal decimal

definition resolve_limit :: "string \<Rightarrow> limit_arg \<Rightarrow> exn + decimal" where
  "resolve_limit default_limit a =
     (case a of LimitDefault \<Rightarrow> parse_decimal default_limit
      | LimitFloat s \<Rightarrow> parse_decimal s
      | LimitDecimal d \<Rightarrow> Inr d)"

definition create_session ::
  "string \<Rightarrow> uuid \<Rightarrow> string \<Rightarrow> limit_arg \<Rightarrow> (budget_enforcer, budget_session) prog" where
  "create_session default_limit sid agent_type a =
     bindE (liftE (resolve_limit default_limit a)) (\<lambda>limit.
       let s = new_budget_session sid agent_type limit in
       thenE (put_session sid s)
      (thenE (be_metric (GaugeSet (str_uuid sid) (float_of_decimal limit)))
      (thenE (be_log (info ''budget.session_created''
                [(''session_id'', VStr (str_uuid sid)), (''agent_type'', VStr agent_type),
                 (''budget_limit_usd'', VStr (dec_to_string limit))]))
       (returnE s))))"

definition record_spend ::
  "uuid \<Rightarrow> decimal \<Rightarrow> string option \<Rightarrow> (budget_enforcer, budget_session) prog" where
  "record_spend sid amount_usd op =
     bindE (require_session sid) (\<lambda>s.
       if is_duplicate_operation s op then returnE s
       else
         let s1 = mark_operation (s\<lparr>bs_cost_usd := dadd (bs_cost_usd s) amount_usd\<rparr>) op in
         thenE (put_session sid s1)
        (thenE (be_metric (GaugeSet (str_uuid sid) (float_of_decimal (remaining_gauge s1))))
         (if dless (bs_budget_limit_usd s1) (bs_cost_usd s1)
          then
            let msg = ''Session '' @ str_uuid sid @ '' exceeded budget ($'' @ dec_to_string (bs_cost_usd s1)
                        @ '' > $'' @ dec_to_string (bs_budget_limit_usd s1) @ '')'';
                s2 = s1\<lparr>bs_alerts := bs_alerts s1 @ [msg]\<rparr>
            in thenE (put_session sid s2)
              (thenE (be_log (warning ''budget.exceeded'' (exceeded_fields sid s2)))
               (raiseE (exn_of BudgetExceededError msg)))
          else returnE s1)))"

definition check_budget :: "uuid \<Rightarrow> (budget_enforcer, unit) prog" where
  "check_budget sid =
     bindE (require_session sid) (\<lambda>s.
       if dle (bs_budget_limit_usd s) (bs_cost_usd s)
       then
         let msg = ''Session '' @ str_uuid sid @ '' budget already exhausted ($''
                     @ dec_to_string (bs_cost_usd s) @ '' >= $''
                     @ dec_to_string (bs_budget_limit_usd s) @ '')''
         in thenE (be_log (warning ''budget.exceeded'' (exceeded_fields sid s)))
              (raiseE (exn_of BudgetExceededError msg))
       else returnE ())"

text \<open>\<open>prometheus_client\<close> raises on a negative counter increment.\<close>

definition counter_inc :: "string \<Rightarrow> int \<Rightarrow> (budget_enforcer, unit) prog" where
  "counter_inc agent_type n =
     (if n < 0 then raiseE (exn_of ValueError ''Counters can only be incremented by non-negative amounts.'')
      else be_metric (CounterInc agent_type n))"

definition record_tokens ::
  "uuid \<Rightarrow> int \<Rightarrow> decimal \<Rightarrow> string option \<Rightarrow> (budget_enforcer, budget_session) prog" where
  "record_tokens sid tokens cost_per_token op =
     bindE (require_session sid) (\<lambda>s.
       if is_duplicate_operation s op then returnE s
       else
         thenE (put_session sid (s\<lparr>bs_tokens_used := bs_tokens_used s + tokens\<rparr>))
        (thenE (counter_inc (bs_agent_type s) tokens)
         (record_spend sid (dmul (dec_of_int tokens) cost_per_token) op)))"

definition restore_session :: "budget_session_snapshot \<Rightarrow> (budget_enforcer, budget_session) prog" where
  "restore_session n =
     bindE (liftE (deserialize n)) (\<lambda>s.
       thenE (put_session (bs_session_id s) s)
      (thenE (be_metric (GaugeSet (str_uuid (bs_session_id s)) (float_of_decimal (remaining_gauge s))))
       (returnE s)))"

definition resolve_cost_per_token :: "budget_history_entry \<Rightarrow> exn + decimal" where
  "resolve_cost_per_token h =
     (if bh_tokens_used h = 0 then Inr dzero
      else case parse_decimal (bh_amount_usd h) of
             Inl e \<Rightarrow> Inl e
           | Inr amount \<Rightarrow> ddiv amount (dec_of_int (bh_tokens_used h)))"

definition replay_entry :: "uuid \<Rightarrow> budget_history_entry \<Rightarrow> (budget_enforcer, unit) prog" where
  "replay_entry sid h =
     bindE (liftE (resolve_cost_per_token h)) (\<lambda>cost.
       thenE (record_tokens sid (bh_tokens_used h) cost (Some (bh_operation_id h))) (returnE ()))"

definition restore_from_history ::
  "uuid \<Rightarrow> string \<Rightarrow> decimal \<Rightarrow> budget_history_entry list \<Rightarrow> (budget_enforcer, budget_session) prog" where
  "restore_from_history sid agent_type limit history =
     thenE (put_session sid (new_budget_session sid agent_type limit))
    (thenE (be_metric (GaugeSet (str_uuid sid) (float_of_decimal limit)))
    (thenE (forE history (replay_entry sid))
     (require_session sid)))"


section \<open>What each operation does\<close>

lemma be_log_eq:
  "be_log (warning ev fs) b = (Inr (), b\<lparr>be_audit := snd (warning ev fs (be_audit b))\<rparr>)"
  "be_log (info ev fs) b = (Inr (), b\<lparr>be_audit := snd (info ev fs (be_audit b))\<rparr>)"
  by (simp_all add: be_log_def zoomE_def warning_def info_def emit_eq)

lemmas budget_defs = be_metric_def put_session_def get_session_def require_session_def
  counter_inc_def be_log_eq prog_simps

definition charged :: "budget_session \<Rightarrow> decimal \<Rightarrow> string option \<Rightarrow> budget_session" where
  "charged s amount op = mark_operation (s\<lparr>bs_cost_usd := dadd (bs_cost_usd s) amount\<rparr>) op"

definition over_limit :: "budget_session \<Rightarrow> bool" where
  "over_limit s \<longleftrightarrow> dval (bs_budget_limit_usd s) < dval (bs_cost_usd s)"

definition exhausted :: "budget_session \<Rightarrow> bool" where
  "exhausted s \<longleftrightarrow> dval (bs_budget_limit_usd s) \<le> dval (bs_cost_usd s)"

definition exceeded_msg :: "uuid \<Rightarrow> budget_session \<Rightarrow> string" where
  "exceeded_msg sid s = ''Session '' @ str_uuid sid @ '' exceeded budget ($'' @ dec_to_string (bs_cost_usd s)
     @ '' > $'' @ dec_to_string (bs_budget_limit_usd s) @ '')''"

lemma charged_simps [simp]:
  "bs_session_id (charged s a op) = bs_session_id s"
  "bs_agent_type (charged s a op) = bs_agent_type s"
  "bs_budget_limit_usd (charged s a op) = bs_budget_limit_usd s"
  "bs_tokens_used (charged s a op) = bs_tokens_used s"
  "bs_cost_usd (charged s a op) = dadd (bs_cost_usd s) a"
  "bs_alerts (charged s a op) = bs_alerts s"
  "bs_applied_operation_ids (charged s a op) =
     (case op of None \<Rightarrow> {} | Some x \<Rightarrow> {x}) \<union> bs_applied_operation_ids s"
  by (auto simp: charged_def mark_operation_def split: option.splits)

lemma require_session_missing:
  "be_sessions b sid = None \<Longrightarrow>
     require_session sid b = (Inl (exn_of KeyError (''Budget session '' @ str_uuid sid @ '' not found'')), b)"
  by (simp add: budget_defs)

lemma require_session_found: "be_sessions b sid = Some s \<Longrightarrow> require_session sid b = (Inr s, b)"
  by (simp add: budget_defs)

lemma record_spend_missing:
  "be_sessions b sid = None \<Longrightarrow> record_spend sid a op b =
     (Inl (exn_of KeyError (''Budget session '' @ str_uuid sid @ '' not found'')), b)"
  by (simp add: record_spend_def bindE_def require_session_missing)

lemma record_spend_duplicate:
  "be_sessions b sid = Some s \<Longrightarrow> is_duplicate_operation s op \<Longrightarrow> record_spend sid a op b = (Inr s, b)"
  by (simp add: record_spend_def bindE_def require_session_found returnE_def)

lemma record_spend_charged:
  "be_sessions b sid = Some s \<Longrightarrow> \<not> is_duplicate_operation s op \<Longrightarrow> record_spend sid a op b =
     (let s1 = charged s a op in
      thenE (put_session sid s1)
     (thenE (be_metric (GaugeSet (str_uuid sid) (float_of_decimal (remaining_gauge s1))))
      (if over_limit s1
       then let s2 = s1\<lparr>bs_alerts := bs_alerts s1 @ [exceeded_msg sid s1]\<rparr>
            in thenE (put_session sid s2)
              (thenE (be_log (warning ''budget.exceeded'' (exceeded_fields sid s2)))
               (raiseE (exn_of BudgetExceededError (exceeded_msg sid s1))))
       else returnE s1))) b"
  unfolding record_spend_def charged_def [symmetric] exceeded_msg_def [symmetric] Let_def
    dless_iff over_limit_def [symmetric]
  by (simp only: bindE_def require_session_found case_prod_conv sum.case if_False)

lemma record_spend_within:
  "be_sessions b sid = Some s \<Longrightarrow> \<not> is_duplicate_operation s op \<Longrightarrow> \<not> over_limit (charged s a op) \<Longrightarrow>
     record_spend sid a op b = (Inr (charged s a op),
       b\<lparr>be_sessions := (be_sessions b)(sid \<mapsto> charged s a op),
         be_metrics := be_metrics b @ [GaugeSet (str_uuid sid) (float_of_decimal (remaining_gauge (charged s a op)))]\<rparr>)"
  by (simp add: record_spend_charged over_limit_def) (simp add: budget_defs Let_def)

lemma record_spend_over:
  assumes "be_sessions b sid = Some s" "\<not> is_duplicate_operation s op" "over_limit (charged s a op)"
  defines "s1 \<equiv> charged s a op"
  defines "s2 \<equiv> s1\<lparr>bs_alerts := bs_alerts s1 @ [exceeded_msg sid s1]\<rparr>"
  shows "record_spend sid a op b = (Inl (exn_of BudgetExceededError (exceeded_msg sid s1)),
       b\<lparr>be_sessions := (be_sessions b)(sid \<mapsto> s2),
         be_metrics := be_metrics b @ [GaugeSet (str_uuid sid) (float_of_decimal (remaining_gauge s1))],
         be_audit := snd (warning ''budget.exceeded'' (exceeded_fields sid s2) (be_audit b))\<rparr>)"
  using assms(1-3) unfolding s2_def s1_def
  by (simp add: record_spend_charged over_limit_def) (simp add: budget_defs Let_def)

lemma check_budget_missing:
  "be_sessions b sid = None \<Longrightarrow> check_budget sid b =
     (Inl (exn_of KeyError (''Budget session '' @ str_uuid sid @ '' not found'')), b)"
  by (simp add: check_budget_def bindE_def require_session_missing)

lemma check_budget_open:
  "be_sessions b sid = Some s \<Longrightarrow> \<not> exhausted s \<Longrightarrow> check_budget sid b = (Inr (), b)"
  by (simp add: check_budget_def bindE_def require_session_found exhausted_def returnE_def)

lemma check_budget_exhausted:
  "be_sessions b sid = Some s \<Longrightarrow> exhausted s \<Longrightarrow> \<exists>m. check_budget sid b =
     (Inl (exn_of BudgetExceededError m),
      b\<lparr>be_audit := snd (warning ''budget.exceeded'' (exceeded_fields sid s) (be_audit b))\<rparr>)"
  by (simp add: check_budget_def bindE_def require_session_found exhausted_def)
     (simp add: budget_defs)

lemma record_tokens_missing:
  "be_sessions b sid = None \<Longrightarrow> record_tokens sid n c op b =
     (Inl (exn_of KeyError (''Budget session '' @ str_uuid sid @ '' not found'')), b)"
  by (simp add: record_tokens_def bindE_def require_session_missing)

lemma record_tokens_duplicate:
  "be_sessions b sid = Some s \<Longrightarrow> is_duplicate_operation s op \<Longrightarrow> record_tokens sid n c op b = (Inr s, b)"
  by (simp add: record_tokens_def bindE_def require_session_found returnE_def)

text \<open>The enforcer after \<open>record_tokens\<close> has counted the tokens and before it records the spend.\<close>

definition tokens_counted :: "uuid \<Rightarrow> budget_session \<Rightarrow> int \<Rightarrow> budget_enforcer \<Rightarrow> budget_enforcer" where
  "tokens_counted sid s n b =
     b\<lparr>be_sessions := (be_sessions b)(sid \<mapsto> s\<lparr>bs_tokens_used := bs_tokens_used s + n\<rparr>),
       be_metrics := be_metrics b @ [CounterInc (bs_agent_type s) n]\<rparr>"

lemma record_tokens_fresh:
  "be_sessions b sid = Some s \<Longrightarrow> \<not> is_duplicate_operation s op \<Longrightarrow> 0 \<le> n \<Longrightarrow>
     record_tokens sid n c op b =
       record_spend sid (dmul (dec_of_int n) c) op (tokens_counted sid s n b)"
  by (simp add: record_tokens_def bindE_def require_session_found)
     (simp add: budget_defs tokens_counted_def)

lemma record_tokens_negative:
  "be_sessions b sid = Some s \<Longrightarrow> \<not> is_duplicate_operation s op \<Longrightarrow> n < 0 \<Longrightarrow>
     \<exists>m. record_tokens sid n c op b = (Inl (exn_of ValueError m),
       b\<lparr>be_sessions := (be_sessions b)(sid \<mapsto> s\<lparr>bs_tokens_used := bs_tokens_used s + n\<rparr>)\<rparr>)"
  by (simp add: record_tokens_def bindE_def require_session_found)
     (simp add: budget_defs)

section \<open>Invariant\<close>

definition session_ok :: "uuid \<Rightarrow> budget_session \<Rightarrow> bool" where
  "session_ok sid s \<longleftrightarrow> bs_session_id s = sid \<and> finite (bs_applied_operation_ids s)
     \<and> 0 \<le> coeff (bs_cost_usd s) \<and> coeff (bs_cost_usd s) < 10 ^ 28"

definition budget_ok :: "budget_enforcer \<Rightarrow> bool" where
  "budget_ok b \<longleftrightarrow> (\<forall>sid s. be_sessions b sid = Some s \<longrightarrow> session_ok sid s)"

text \<open>How a debit moves the session of one registry entry.\<close>

definition session_le :: "budget_session \<Rightarrow> budget_session \<Rightarrow> bool" where
  "session_le s t \<longleftrightarrow> bs_budget_limit_usd t = bs_budget_limit_usd s
     \<and> dval (bs_cost_usd s) \<le> dval (bs_cost_usd t)
     \<and> bs_applied_operation_ids s \<subseteq> bs_applied_operation_ids t"

definition registry_le :: "budget_enforcer \<Rightarrow> budget_enforcer \<Rightarrow> bool" where
  "registry_le b c \<longleftrightarrow> (\<forall>sid s. be_sessions b sid = Some s \<longrightarrow>
     (\<exists>t. be_sessions c sid = Some t \<and> session_le s t))"

lemma session_le_refl [simp]: "session_le s s"
  by (simp add: session_le_def)

lemma session_le_trans: "session_le s t \<Longrightarrow> session_le t u \<Longrightarrow> session_le s u"
  unfolding session_le_def by (metis dual_order.trans)

lemma registry_le_refl [simp]: "registry_le b b"
  by (simp add: registry_le_def)

lemma registry_le_trans: "registry_le a b \<Longrightarrow> registry_le b c \<Longrightarrow> registry_le a c"
  unfolding registry_le_def by (meson session_le_trans)

lemma dadd_bound: "\<bar>coeff (dadd a b)\<bar> < 10 ^ 28"
  unfolding dadd_def Let_def by (rule dfix_bound)

lemma charged_ok: "session_ok sid s \<Longrightarrow> 0 \<le> coeff a \<Longrightarrow> session_ok sid (charged s a op)"
  using dadd_bound [of "bs_cost_usd s" a]
  by (auto simp: session_ok_def dadd_coeff abs_less_iff split: option.splits)

lemma charged_le: "session_ok sid s \<Longrightarrow> 0 \<le> coeff a \<Longrightarrow> session_le s (charged s a op)"
  by (auto simp: session_ok_def session_le_def dadd_mono)

lemma registry_update:
  assumes "budget_ok b" "be_sessions b sid = Some s" "session_ok sid t" "session_le s t"
    and "be_sessions c = (be_sessions b)(sid \<mapsto> t)"
  shows "budget_ok c \<and> registry_le b c"
  using assms by (auto simp: budget_ok_def registry_le_def)

lemma record_spend_step:
  assumes ok: "budget_ok b" and a: "0 \<le> coeff a"
  shows "budget_ok (snd (record_spend sid a op b)) \<and> registry_le b (snd (record_spend sid a op b))"
proof (cases "be_sessions b sid")
  case None
  then show ?thesis using ok by (simp add: record_spend_missing)
next
  case (Some s)
  then have s: "session_ok sid s" using ok by (simp add: budget_ok_def)
  note facts = charged_ok [OF s a, of op] charged_le [OF s a, of op]
  consider (dup) "is_duplicate_operation s op" | (over) "\<not> is_duplicate_operation s op" "over_limit (charged s a op)"
    | (within) "\<not> is_duplicate_operation s op" "\<not> over_limit (charged s a op)" by blast
  then show ?thesis
  proof cases
    case dup
    then show ?thesis using ok Some by (simp add: record_spend_duplicate)
  next
    case over
    let ?t = "(charged s a op)\<lparr>bs_alerts := bs_alerts (charged s a op) @ [exceeded_msg sid (charged s a op)]\<rparr>"
    have "session_ok sid ?t \<and> session_le s ?t" using facts by (simp add: session_ok_def session_le_def)
    then show ?thesis
      using record_spend_over [OF Some over] by (intro registry_update [OF ok Some, of ?t]) simp_all
  next
    case within
    then show ?thesis
      using record_spend_within [OF Some within] facts
      by (intro registry_update [OF ok Some, of "charged s a op"]) simp_all
  qed
qed

lemma record_tokens_step:
  assumes ok: "budget_ok b" and c: "0 \<le> coeff c"
  shows "budget_ok (snd (record_tokens sid n c op b)) \<and> registry_le b (snd (record_tokens sid n c op b))"
proof (cases "be_sessions b sid")
  case None
  then show ?thesis using ok by (simp add: record_tokens_missing)
next
  case (Some s)
  let ?t = "s\<lparr>bs_tokens_used := bs_tokens_used s + n\<rparr>"
  have t: "session_ok sid ?t \<and> session_le s ?t"
    using ok Some by (simp add: budget_ok_def session_ok_def session_le_def)
  show ?thesis
  proof (cases "is_duplicate_operation s op")
    case True
    then show ?thesis using ok Some by (simp add: record_tokens_duplicate)
  next
    case False
    show ?thesis
    proof (cases "n < 0")
      case True
      then show ?thesis
        using record_tokens_negative [OF Some False True, of c] t
        by (intro registry_update [OF ok Some, of ?t]) auto
    next
      case nonneg: False
      then have a: "0 \<le> coeff (dmul (dec_of_int n) c)"
        using c by (simp add: dmul_coeff dec_of_int_def)
      have "budget_ok (tokens_counted sid s n b) \<and> registry_le b (tokens_counted sid s n b)"
        using t by (intro registry_update [OF ok Some, of ?t]) (simp_all add: tokens_counted_def)
      then show ?thesis
        using record_spend_step [OF _ a] record_tokens_fresh [OF Some False] nonneg
        by (metis linorder_not_less registry_le_trans)
    qed
  qed
qed


section \<open>Every operation keeps the invariant\<close>

lemma create_session_ok: "budget_ok b \<Longrightarrow> budget_ok (snd (create_session d sid agent_type a b))"
  by (cases "resolve_limit d a")
     (auto simp: create_session_def budget_ok_def budget_defs Let_def session_ok_def
       new_budget_session_def dzero_def)

lemma check_budget_sessions: "be_sessions (snd (check_budget sid b)) = be_sessions b"
  using check_budget_missing [of b sid] check_budget_open [of b sid] check_budget_exhausted [of b sid]
  by (cases "be_sessions b sid"; cases "exhausted (the (be_sessions b sid))") auto

lemma check_budget_step:
  "budget_ok b \<Longrightarrow> budget_ok (snd (check_budget sid b)) \<and> registry_le b (snd (check_budget sid b))"
  by (simp add: budget_ok_def registry_le_def check_budget_sessions)

lemma restore_session_ok:
  assumes "budget_ok b" "deserialize n = Inr s" "session_ok (bs_session_id s) s"
  shows "budget_ok (snd (restore_session n b))"
  using assms by (auto simp: restore_session_def budget_ok_def budget_defs)

text \<open>A ledger entry whose amount is a non-negative decimal (or not a decimal at all).\<close>

definition entry_ok :: "budget_history_entry \<Rightarrow> bool" where
  "entry_ok h \<longleftrightarrow> 0 \<le> bh_tokens_used h \<and>
     (case parse_decimal (bh_amount_usd h) of Inl _ \<Rightarrow> True | Inr a \<Rightarrow> 0 \<le> coeff a)"

lemma resolve_cost_nonneg: "entry_ok h \<Longrightarrow> resolve_cost_per_token h = Inr c \<Longrightarrow> 0 \<le> coeff c"
  by (auto simp: entry_ok_def resolve_cost_per_token_def dzero_def dec_of_int_def
      split: if_splits sum.splits intro: ddiv_coeff)

lemma replay_entry_ok:
  assumes "budget_ok b" "entry_ok h"
  shows "budget_ok (snd (replay_entry sid h b))"
proof (cases "resolve_cost_per_token h")
  case (Inl e)
  then show ?thesis using assms by (simp add: replay_entry_def prog_simps)
next
  case (Inr c)
  then show ?thesis
    using record_tokens_step [OF assms(1) resolve_cost_nonneg [OF assms(2) Inr],
        of sid "bh_tokens_used h" "Some (bh_operation_id h)"]
    by (auto simp: replay_entry_def prog_simps split: prod.splits sum.splits)
qed

text \<open>The enforcer that \<open>restore_from_history\<close> replays the ledger into.\<close>

definition fresh_registry :: "uuid \<Rightarrow> string \<Rightarrow> decimal \<Rightarrow> budget_enforcer \<Rightarrow> budget_enforcer" where
  "fresh_registry sid agent_type limit b =
     b\<lparr>be_sessions := (be_sessions b)(sid \<mapsto> new_budget_session sid agent_type limit),
       be_metrics := be_metrics b @ [GaugeSet (str_uuid sid) (float_of_decimal limit)]\<rparr>"

lemma restore_from_history_replays:
  "restore_from_history sid agent_type limit hist b =
     thenE (forE hist (replay_entry sid)) (require_session sid) (fresh_registry sid agent_type limit b)"
  by (simp add: restore_from_history_def put_session_def be_metric_def thenE_modifyE fresh_registry_def)

lemma require_session_state: "snd (require_session sid b) = b"
  by (cases "be_sessions b sid") (simp_all add: require_session_missing require_session_found)

lemma fresh_registry_ok: "budget_ok b \<Longrightarrow> budget_ok (fresh_registry sid agent_type limit b)"
  by (simp add: budget_ok_def session_ok_def new_budget_session_def dzero_def fresh_registry_def)

lemma restore_from_history_ok:
  assumes "budget_ok b" "list_all entry_ok hist"
  shows "budget_ok (snd (restore_from_history sid agent_type limit hist b))"
proof -
  let ?b = "fresh_registry sid agent_type limit b"
  have "budget_ok (snd (forE hist (replay_entry sid) ?b))"
    using fresh_registry_ok [OF assms(1)] assms(2)
    by (auto simp: list_all_iff intro!: forE_invariant [where I = budget_ok] replay_entry_ok)
  then show ?thesis
    by (simp add: restore_from_history_replays snd_thenE require_session_state)
qed

text \<open>The operations as data, and what running one leaves, whether it returns or raises.\<close>

datatype budget_op =
    Create uuid string limit_arg
  | Spend uuid decimal "string option"
  | Tokens uuid int decimal "string option"
  | Check uuid
  | Restore budget_session_snapshot
  | Replay uuid string decimal "budget_history_entry list"

fun run_op :: "string \<Rightarrow> budget_op \<Rightarrow> budget_enforcer \<Rightarrow> budget_enforcer" where
  "run_op d (Create sid agent_type a) b = snd (create_session d sid agent_type a b)"
| "run_op d (Spend sid a op) b = snd (record_spend sid a op b)"
| "run_op d (Tokens sid n c op) b = snd (record_tokens sid n c op b)"
| "run_op d (Check sid) b = snd (check_budget sid b)"
| "run_op d (Restore n) b = snd (restore_session n b)"
| "run_op d (Replay sid agent_type limit hist) b = snd (restore_from_history sid agent_type limit hist b)"

text \<open>
  Nothing in the code checks the sign of what it is told to record. An operation is a charge when its
  amounts are not negative; a restored cost is also within the 28 digits that the arithmetic gives.
\<close>

fun charge :: "budget_op \<Rightarrow> bool" where
  "charge (Spend sid a op) \<longleftrightarrow> 0 \<le> coeff a"
| "charge (Tokens sid n c op) \<longleftrightarrow> 0 \<le> coeff c"
| "charge (Restore n) \<longleftrightarrow> (case deserialize n of Inl _ \<Rightarrow> True | Inr s \<Rightarrow> coeff (bs_cost_usd s) \<in> {0..<10 ^ 28})"
| "charge (Replay sid agent_type limit hist) \<longleftrightarrow> list_all entry_ok hist"
| "charge _ \<longleftrightarrow> True"

text \<open>The operations that run while a session is open; none of them replaces a session.\<close>

fun debit :: "budget_op \<Rightarrow> bool" where
  "debit (Spend sid a op) \<longleftrightarrow> True"
| "debit (Tokens sid n c op) \<longleftrightarrow> True"
| "debit (Check sid) \<longleftrightarrow> True"
| "debit _ \<longleftrightarrow> False"

definition budget_init :: "budget_enforcer \<Rightarrow> bool" where
  "budget_init b \<longleftrightarrow> (\<exists>l. b = new_budget_enforcer l)"

definition budget_step :: "budget_enforcer \<Rightarrow> budget_enforcer \<Rightarrow> bool" where
  "budget_step b c \<longleftrightarrow> (\<exists>d x. c = run_op d x b)"

lemma run_op_ok: "budget_ok b \<Longrightarrow> charge x \<Longrightarrow> budget_ok (run_op d x b)"
proof (cases x)
  case (Restore n)
  assume "budget_ok b" "charge x"
  moreover have "session_ok (bs_session_id s) s" if "deserialize n = Inr s" "coeff (bs_cost_usd s) \<in> {0..<10 ^ 28}" for s
    using that by (auto simp: session_ok_def deserialize_def split: sum.splits)
  ultimately show ?thesis
    using Restore restore_session_ok by (cases "deserialize n") (auto simp: restore_session_def prog_simps)
qed (simp_all add: create_session_ok record_spend_step record_tokens_step check_budget_step restore_from_history_ok)

interpretation budget_sys: invariant_system budget_init "\<lambda>b c. \<exists>d x. charge x \<and> c = run_op d x b" budget_ok
proof
  show "budget_ok b" if "budget_init b" for b
    using that by (auto simp: budget_init_def new_budget_enforcer_def budget_ok_def)
qed (auto intro: run_op_ok)

lemma run_ops_ok: "budget_ok b \<Longrightarrow> list_all charge xs \<Longrightarrow> budget_ok (fold (run_op d) xs b)"
  by (induction xs arbitrary: b) (auto intro: run_op_ok)

lemma debits_le:
  "budget_ok b \<Longrightarrow> list_all charge xs \<Longrightarrow> list_all debit xs \<Longrightarrow> registry_le b (fold (run_op d) xs b)"
proof (induction xs arbitrary: b)
  case (Cons x xs)
  have "registry_le b (run_op d x b)"
    using Cons.prems by (cases x) (simp_all add: record_spend_step record_tokens_step check_budget_step)
  then show ?case
    using Cons run_op_ok [of b x d] registry_le_trans by fastforce
qed simp

lemma exhausted_mono: "session_le s t \<Longrightarrow> exhausted s \<Longrightarrow> exhausted t"
  by (simp add: session_le_def exhausted_def)


text \<open>
  (C7) Once the spend of a session has reached its limit, \<open>check_budget\<close> refuses it from then on. In an
  enforcer that was only told to record amounts that are not negative, no sequence of further spends,
  token records and checks of amounts that are not negative, for this session or another, accepted or
  refused, brings it back under the limit. (A negative amount does, as is shown below.)
\<close>

theorem budget_exhaustion_permanent:
  assumes "b = fold (run_op d) before (new_budget_enforcer l)" and "list_all charge before"
    and "be_sessions b sid = Some s" and "exhausted s"
    and "list_all debit later" and "list_all charge later"
  shows "\<exists>m c'. check_budget sid (fold (run_op d) later b) = (Inl (exn_of BudgetExceededError m), c')"
proof -
  have "budget_ok b"
    unfolding assms(1) using assms(2) by (intro run_ops_ok) (simp_all add: new_budget_enforcer_def budget_ok_def)
  then have "registry_le b (fold (run_op d) later b)"
    using assms(5,6) debits_le by blast
  then obtain t where "be_sessions (fold (run_op d) later b) sid = Some t" "session_le s t"
    using assms(3) by (auto simp: registry_le_def)
  then show ?thesis
    using check_budget_exhausted exhausted_mono assms(4) by blast
qed

text \<open>
  (C40) No amount is checked for its sign. In every exhausted session with a positive limit, recording the
  negated cost as a spend succeeds and makes \<open>check_budget\<close> accept the session again.
\<close>

theorem negative_spend_reopens:
  assumes "be_sessions b sid = Some s" and "exhausted s" and "0 < dval (bs_budget_limit_usd s)"
  shows "\<exists>t b'. record_spend sid (Dec (- coeff (bs_cost_usd s)) (expo (bs_cost_usd s))) None b = (Inr t, b') \<and>
    fst (check_budget sid b') = Inr ()"
proof -
  let ?a = "Dec (- coeff (bs_cost_usd s)) (expo (bs_cost_usd s))"
  have "dval (dadd (bs_cost_usd s) ?a) = 0"
    by (simp add: dadd_def Let_def rescaled_def dfix_def dval_def)
  then have t: "\<not> over_limit (charged s ?a None)" "\<not> exhausted (charged s ?a None)"
    using assms(3) by (simp_all add: over_limit_def exhausted_def charged_def mark_operation_def)
  have "\<not> is_duplicate_operation s None"
    by (simp add: is_duplicate_operation_def)
  then show ?thesis
    using record_spend_within [OF assms(1) _ t(1)] check_budget_open [OF _ t(2), of _ sid] by simp
qed

definition demo_session_id :: uuid where
  "demo_session_id = UUID ''00000000000040008000000000000001''"

text \<open>A session of one dollar after a spend of exactly one dollar.\<close>

definition demo_enforcer :: budget_enforcer where
  "demo_enforcer =
     snd (record_spend demo_session_id (Dec 100 (- 2)) (Some ''op-1'')
       (snd (create_session ''10.0'' demo_session_id ''general'' (LimitDecimal (Dec 1 0))
          (new_budget_enforcer (new_audit_logger ''budget-enforcer'' (\<lambda>_. 0) no_span)))))"

definition spent_session :: budget_session where
  "spent_session = \<lparr>bs_session_id = demo_session_id, bs_agent_type = ''general'',
     bs_budget_limit_usd = Dec 1 0, bs_tokens_used = 0, bs_cost_usd = Dec 100 (- 2), bs_alerts = [],
     bs_applied_operation_ids = {''op-1''}\<rparr>"

lemma dadd_demo: "dadd dzero (Dec 100 (- 2)) = Dec 100 (- 2)"
  by code_simp

lemma demo_enforcer_session: "be_sessions demo_enforcer demo_session_id = Some spent_session"
proof -
  let ?b = "snd (create_session ''10.0'' demo_session_id ''general'' (LimitDecimal (Dec 1 0))
          (new_budget_enforcer (new_audit_logger ''budget-enforcer'' (\<lambda>_. 0) no_span)))"
  let ?s = "new_budget_session demo_session_id ''general'' (Dec 1 0)"
  have s: "be_sessions ?b demo_session_id = Some ?s"
    by (simp add: create_session_def resolve_limit_def budget_defs Let_def)
  have c: "charged ?s (Dec 100 (- 2)) (Some ''op-1'') = spent_session"
    by (simp add: charged_def mark_operation_def new_budget_session_def dadd_demo spent_session_def)
  have "\<not> over_limit spent_session"
    by (simp add: over_limit_def spent_session_def dval_def)
  moreover have "\<not> is_duplicate_operation ?s (Some ''op-1'')"
    by (simp add: is_duplicate_operation_def new_budget_session_def)
  ultimately show ?thesis
    unfolding demo_enforcer_def
    using record_spend_within [OF s, of "Some ''op-1''" "Dec 100 (- 2)"] by (simp add: c)
qed

theorem budget_exhaustion_permanent_witness:
  "\<exists>m c'. check_budget demo_session_id
       (snd (record_tokens demo_session_id 10 DEFAULT_COST_PER_TOKEN None demo_enforcer))
     = (Inl (exn_of BudgetExceededError m), c')"
proof -
  let ?before = "[Create demo_session_id ''general'' (LimitDecimal (Dec 1 0)), Spend demo_session_id (Dec 100 (- 2)) (Some ''op-1'')]"
  have b: "demo_enforcer = fold (run_op ''10.0'') ?before (new_budget_enforcer (new_audit_logger ''budget-enforcer'' (\<lambda>_. 0) no_span))"
    by (simp add: demo_enforcer_def)
  have "exhausted spent_session"
    by (simp add: exhausted_def spent_session_def dval_def)
  then show ?thesis
    using budget_exhaustion_permanent [OF b _ demo_enforcer_session, of "[Tokens demo_session_id 10 DEFAULT_COST_PER_TOKEN None]"]
    by (simp add: DEFAULT_COST_PER_TOKEN_def)
qed

theorem negative_spend_reopens_witness:
  "\<exists>t b'. record_spend demo_session_id (Dec (- 100) (- 2)) None demo_enforcer = (Inr t, b') \<and>
     fst (check_budget demo_session_id b') = Inr ()"
proof -
  have "exhausted spent_session" "0 < dval (bs_budget_limit_usd spent_session)" "bs_cost_usd spent_session = Dec 100 (- 2)"
    by (simp_all add: exhausted_def spent_session_def dval_def)
  then show ?thesis
    using negative_spend_reopens [OF demo_enforcer_session] by simp
qed


section \<open>The abstract ledger\<close>

text \<open>What the enforcer promises: exact rational spend, at most one debit per operation id.\<close>

record ledger =
  ld_limit :: rat
  ld_spent :: rat
  ld_ops :: "string set"

definition ledger_spend :: "rat \<Rightarrow> string option \<Rightarrow> ledger \<Rightarrow> bool \<times> ledger" where
  "ledger_spend a op L =
     (if op \<in> Some ` ld_ops L then (True, L)
      else let L' = L\<lparr>ld_spent := ld_spent L + a, ld_ops := set_option op \<union> ld_ops L\<rparr>
           in (ld_spent L' \<le> ld_limit L', L'))"

fun ledger_all :: "(rat \<times> string option) list \<Rightarrow> ledger \<Rightarrow> bool list \<times> ledger" where
  "ledger_all [] L = ([], L)"
| "ledger_all ((a, op) # xs) L =
     (let (r, L1) = ledger_spend a op L; (rs, L2) = ledger_all xs L1 in (r # rs, L2))"

text \<open>A caller that records a list of spends and notes which of them were accepted.\<close>

fun spend_all :: "uuid \<Rightarrow> (decimal \<times> string option) list \<Rightarrow> budget_enforcer \<Rightarrow> bool list \<times> budget_enforcer" where
  "spend_all sid [] b = ([], b)"
| "spend_all sid ((a, op) # xs) b =
     (let (r, b1) = record_spend sid a op b; (rs, b2) = spend_all sid xs b1 in ((\<not> isl r) # rs, b2))"

definition ledger_of :: "budget_session \<Rightarrow> ledger" where
  "ledger_of s = \<lparr>ld_limit = dval (bs_budget_limit_usd s), ld_spent = dval (bs_cost_usd s),
     ld_ops = bs_applied_operation_ids s\<rparr>"

lemma record_spend_ledger:
  assumes s: "be_sessions b sid = Some s" and add: "dval (dadd (bs_cost_usd s) a) = dval (bs_cost_usd s) + dval a"
  shows "\<exists>r b' t. record_spend sid a op b = (r, b') \<and> be_sessions b' sid = Some t
     \<and> ledger_spend (dval a) op (ledger_of s) = ((\<not> isl r), ledger_of t)
     \<and> bs_cost_usd t \<in> {bs_cost_usd s, dadd (bs_cost_usd s) a}"
proof -
  have dup_iff: "is_duplicate_operation s op \<longleftrightarrow> op \<in> Some ` bs_applied_operation_ids s"
    by (auto simp: is_duplicate_operation_def split: option.splits)
  have ops: "(case op of None \<Rightarrow> {} | Some x \<Rightarrow> {x}) = set_option op"
    by (cases op) auto
  consider (dup) "is_duplicate_operation s op"
    | (over) "\<not> is_duplicate_operation s op" "over_limit (charged s a op)"
    | (within) "\<not> is_duplicate_operation s op" "\<not> over_limit (charged s a op)" by blast
  then show ?thesis
  proof cases
    case dup
    then show ?thesis
      using record_spend_duplicate [OF s] s by (auto simp: ledger_spend_def ledger_of_def dup_iff)
  next
    case over
    then show ?thesis
      using record_spend_over [OF s over] dup_iff add
      by (simp add: ledger_spend_def ledger_of_def over_limit_def ops)
  next
    case within
    then show ?thesis
      using record_spend_within [OF s within] dup_iff add
      by (simp add: ledger_spend_def ledger_of_def over_limit_def ops)
  qed
qed

text \<open>
  (C6) Refinement of the abstract ledger. While all amounts are multiples of \<open>10^-p\<close> and the total
  stays below \<open>10^(28-p)\<close>, a sequence of \<open>record_spend\<close> calls accepts and refuses exactly the
  spends that the ledger of exact rational arithmetic accepts and refuses, and leaves exactly its
  spend and operation ids: no rounding, no lost debit, no operation debited twice.
\<close>

theorem spend_all_refines_ledger:
  assumes "be_sessions b sid = Some s" and "on_grid p (bs_cost_usd s)" and "0 \<le> dval (bs_cost_usd s)"
    and "list_all (\<lambda>(a, _). on_grid p a \<and> 0 \<le> dval a) xs"
    and "(dval (bs_cost_usd s) + sum_list (map (dval \<circ> fst) xs)) * 10 ^ p < 10 ^ 28"
  shows "\<exists>rs b' t. spend_all sid xs b = (rs, b') \<and> be_sessions b' sid = Some t
     \<and> ledger_all (map (map_prod dval id) xs) (ledger_of s) = (rs, ledger_of t)"
  using assms
proof (induction xs arbitrary: b s)
  case Nil
  then show ?case by simp
next
  case (Cons x xs)
  obtain a op where x: "x = (a, op)" by force
  have rest: "0 \<le> sum_list (map (dval \<circ> fst) xs)"
    using Cons.prems(4) by (intro sum_list_nonneg) (auto simp: list_all_iff)
  have a: "on_grid p a" "0 \<le> dval a" using Cons.prems(4) x by simp_all
  have bound: "(dval (bs_cost_usd s) + dval a) * 10 ^ p < 10 ^ 28"
  proof (rule le_less_trans [OF _ Cons.prems(5)])
    show "(dval (bs_cost_usd s) + dval a) * 10 ^ p
        \<le> (dval (bs_cost_usd s) + sum_list (map (dval \<circ> fst) (x # xs))) * 10 ^ p"
      using rest x by (intro mult_right_mono) simp_all
  qed
  have add: "dval (dadd (bs_cost_usd s) a) = dval (bs_cost_usd s) + dval a"
    and grid: "on_grid p (dadd (bs_cost_usd s) a)"
    using dadd_exact [OF Cons.prems(2) a(1)] bound Cons.prems(3) a(2) by simp_all
  obtain r b1 t where step: "record_spend sid a op b = (r, b1)" "be_sessions b1 sid = Some t"
      "ledger_spend (dval a) op (ledger_of s) = (\<not> isl r, ledger_of t)"
      "bs_cost_usd t \<in> {bs_cost_usd s, dadd (bs_cost_usd s) a}"
    using record_spend_ledger [OF Cons.prems(1) add, of op] by blast
  have t: "on_grid p (bs_cost_usd t)" "0 \<le> dval (bs_cost_usd t)"
      "dval (bs_cost_usd t) \<le> dval (bs_cost_usd s) + dval a"
    using step(4) grid add Cons.prems(2,3) a(2) by auto
  have "(dval (bs_cost_usd t) + sum_list (map (dval \<circ> fst) xs)) * 10 ^ p < 10 ^ 28"
    using t(3) x by (intro le_less_trans [OF mult_right_mono Cons.prems(5)]) (simp_all add: comp_def)
  from Cons.IH [OF step(2) t(1,2) _ this] Cons.prems(4)
  show ?case by (auto simp: x step(1,3))
qed

theorem spend_all_refines_ledger_witness:
  "\<exists>b' t. spend_all demo_session_id [(Dec 0 0, Some ''op-2''), (Dec 25 (- 2), Some ''op-3''),
       (Dec 25 (- 2), Some ''op-3'')] demo_enforcer = ([True, False, True], b')
     \<and> be_sessions b' demo_session_id = Some t \<and> dval (bs_cost_usd t) = 5 / 4"
proof -
  have "ledger_all (map (map_prod dval id) [(Dec 0 0, Some ''op-2''), (Dec 25 (- 2), Some ''op-3''),
       (Dec 25 (- 2), Some ''op-3'')]) (ledger_of spent_session)
     = ([True, False, True], \<lparr>ld_limit = 1, ld_spent = 5 / 4, ld_ops = {''op-1'', ''op-2'', ''op-3''}\<rparr>)"
    by (simp add: ledger_of_def spent_session_def ledger_spend_def dval_def insert_commute)
  then show ?thesis
    using spend_all_refines_ledger [OF demo_enforcer_session, of 6 "[(Dec 0 0, Some ''op-2''),
        (Dec 25 (- 2), Some ''op-3''), (Dec 25 (- 2), Some ''op-3'')]"]
    by (auto simp: spent_session_def on_grid_def dval_def ledger_of_def)
qed


section \<open>Redelivery, snapshots and replay\<close>

text \<open>
  Redelivery. After \<open>record_tokens\<close> was called once with an operation id, whether it returned
  or raised \<open>BudgetExceededError\<close>, every further call with that id returns normally and changes
  nothing, whatever its amount: no debit, no metric, no alert, no log entry. (In particular the
  redelivery of an operation that was refused is not refused again.)
\<close>

theorem redelivery_idempotent:
  assumes "be_sessions b sid = Some s" and "0 \<le> n"
    and "record_tokens sid n c (Some op) b = (r, b1)"
  shows "\<exists>t. be_sessions b1 sid = Some t \<and> op \<in> bs_applied_operation_ids t
     \<and> record_tokens sid n' c' (Some op) b1 = (Inr t, b1)"
proof -
  have dup: "is_duplicate_operation t (Some op) \<longleftrightarrow> op \<in> bs_applied_operation_ids t" for t
    by (simp add: is_duplicate_operation_def)
  have "\<exists>t. be_sessions b1 sid = Some t \<and> op \<in> bs_applied_operation_ids t"
  proof (cases "is_duplicate_operation s (Some op)")
    case True
    then show ?thesis using assms record_tokens_duplicate [OF assms(1) True] dup by auto
  next
    case False
    let ?s = "s\<lparr>bs_tokens_used := bs_tokens_used s + n\<rparr>"
    have s: "be_sessions (tokens_counted sid s n b) sid = Some ?s"
      by (simp add: tokens_counted_def)
    have nd: "\<not> is_duplicate_operation ?s (Some op)" using False by (simp add: dup)
    show ?thesis
      using record_tokens_fresh [OF assms(1) False assms(2), of c] assms(3)
        record_spend_over [OF s nd, of "dmul (dec_of_int n) c"]
        record_spend_within [OF s nd, of "dmul (dec_of_int n) c"]
      by (cases "over_limit (charged ?s (dmul (dec_of_int n) c) (Some op))") auto
  qed
  then show ?thesis using record_tokens_duplicate dup by blast
qed

theorem redelivery_idempotent_witness:
  "\<exists>t b1. be_sessions b1 demo_session_id = Some t \<and> ''op-9'' \<in> bs_applied_operation_ids t
     \<and> record_tokens demo_session_id 7 DEFAULT_COST_PER_TOKEN (Some ''op-9'') b1 = (Inr t, b1)"
  using redelivery_idempotent [OF demo_enforcer_session, of 3 DEFAULT_COST_PER_TOKEN "''op-9''"
      "fst (record_tokens demo_session_id 3 DEFAULT_COST_PER_TOKEN (Some ''op-9'') demo_enforcer)"
      "snd (record_tokens demo_session_id 3 DEFAULT_COST_PER_TOKEN (Some ''op-9'') demo_enforcer)"
      7 DEFAULT_COST_PER_TOKEN]
  by auto

definition storable :: "budget_session \<Rightarrow> bool" where
  "storable s \<longleftrightarrow> uuid_ok (bs_session_id s) \<and> finite (bs_applied_operation_ids s)"

interpretation budget_codec: snapshot_codec serialize deserialize storable
  by unfold_locales
     (simp add: serialize_def deserialize_def storable_def parse_decimal_dec_to_string)

text \<open>
  A serialised session is restored exactly: \<open>deserialize (serialize s)\<close> is \<open>s\<close>, and
  \<open>restore_session\<close> registers \<open>s\<close> under its id and sets the remaining-budget gauge.
\<close>

theorem restore_session_roundtrip:
  assumes "storable s"
  shows "deserialize (serialize s) = Inr s \<and>
    restore_session (serialize s) b = (Inr s,
      b\<lparr>be_sessions := (be_sessions b)(bs_session_id s \<mapsto> s),
        be_metrics := be_metrics b @ [GaugeSet (str_uuid (bs_session_id s)) (float_of_decimal (remaining_gauge s))]\<rparr>)"
  using assms
  by (simp add: budget_codec.roundtrip restore_session_def budget_codec.resume)
     (simp add: budget_defs)

theorem restore_session_roundtrip_witness:
  "deserialize (serialize spent_session) = Inr spent_session"
  using restore_session_roundtrip [of spent_session demo_enforcer]
  by (simp add: storable_def spent_session_def demo_session_id_def uuid_ok_def hex_chars_def)

text \<open>The ledger line that is written for an operation of \<open>t\<close> tokens at cost \<open>c\<close>.\<close>

fun ledger_line :: "string \<times> int \<times> decimal \<Rightarrow> budget_history_entry" where
  "ledger_line (op, t, c) = \<lparr>bh_operation_id = op,
     bh_amount_usd = dec_to_string (dmul (dec_of_int t) c), bh_tokens_used = t\<rparr>"

lemma replay_ledger_line:
  assumes "0 < t" "\<bar>coeff c * t\<bar> < 10 ^ 28"
  shows "replay_entry sid (ledger_line (op, t, c)) = thenE (record_tokens sid t c (Some op)) (returnE ())"
proof -
  have "ddiv (dmul (dec_of_int t) c) (dec_of_int t) = Inr c"
    using ddiv_dmul_exact [OF assms, of "expo c"] by (simp add: dmul_commute)
  then show ?thesis
    using assms(1) by (simp add: replay_entry_def resolve_cost_per_token_def
        parse_decimal_dec_to_string liftE_def bindE_def)
qed

text \<open>
  (C32) Replaying the ledger of a session is running the session again: for lines with a positive number of tokens whose amount is
  \<open>tokens * cost\<close> within 28 digits, \<open>restore_from_history\<close> equals recording the original
  operations, in order, in a fresh session, errors, metrics, alerts and log entries included.
\<close>

theorem restore_from_history_lossless:
  assumes "list_all (\<lambda>(op, t, c). 0 < t \<and> \<bar>coeff c * t\<bar> < 10 ^ 28) ops"
  shows "restore_from_history sid agent_type limit (map ledger_line ops) b =
     thenE (forE ops (\<lambda>(op, t, c). thenE (record_tokens sid t c (Some op)) (returnE ())))
       (require_session sid) (fresh_registry sid agent_type limit b)"
proof -
  have "forE ops (\<lambda>x. replay_entry sid (ledger_line x)) =
      forE ops (\<lambda>(op, t, c). thenE (record_tokens sid t c (Some op)) (returnE ()))"
  proof (rule forE_cong)
    fix x assume x: "x \<in> set ops"
    obtain op t c where "x = (op, t, c)" by (cases x)
    with x assms show "replay_entry sid (ledger_line x) =
        (case x of (op, t, c) \<Rightarrow> thenE (record_tokens sid t c (Some op)) (returnE ()))"
      using replay_ledger_line [of t c sid op] by (auto simp: list_all_iff)
  qed
  then show ?thesis by (simp only: restore_from_history_replays forE_map)
qed

theorem restore_from_history_lossless_witness:
  "restore_from_history demo_session_id ''general'' (Dec 10 0)
     (map ledger_line [(''op-1'', 1200, DEFAULT_COST_PER_TOKEN), (''op-2'', 7, Dec 3 (- 5))]) demo_enforcer =
   thenE (forE [(''op-1'', 1200, DEFAULT_COST_PER_TOKEN), (''op-2'', 7, Dec 3 (- 5))]
       (\<lambda>(op, t, c). thenE (record_tokens demo_session_id t c (Some op)) (returnE ())))
     (require_session demo_session_id) (fresh_registry demo_session_id ''general'' (Dec 10 0) demo_enforcer)"
  by (rule restore_from_history_lossless) (simp add: DEFAULT_COST_PER_TOKEN_def)


text \<open>A ledger line of one dollar for three tokens: the unit cost has no finite decimal expansion.\<close>

definition third_line :: budget_history_entry where
  "third_line = \<lparr>bh_operation_id = ''op-1'', bh_amount_usd = ''1.00'', bh_tokens_used = 3\<rparr>"

lemma third_line_cost: "resolve_cost_per_token third_line = Inr (Dec 3333333333333333333333333333 (- 28))"
  by code_simp

lemma third_line_amount:
  "dadd dzero (dmul (dec_of_int 3) (Dec 3333333333333333333333333333 (- 28)))
     = Dec 9999999999999999999999999999 (- 28)"
  by code_simp

text \<open>
  The replay of a ledger is not exact for amounts that the token count does not divide: a
  session that spent its whole budget of 1.00 on three tokens comes back with a spend below 1.00,
  and \<open>check_budget\<close>, which would refuse the original session, accepts the restored one.
\<close>

theorem replay_undercounts:
  "fst (thenE (restore_from_history demo_session_id ''general'' (Dec 100 (- 2)) [third_line])
          (check_budget demo_session_id) demo_enforcer) = Inr ()"
proof -
  let ?b = "fresh_registry demo_session_id ''general'' (Dec 100 (- 2)) demo_enforcer"
  let ?new = "new_budget_session demo_session_id ''general'' (Dec 100 (- 2))"
  let ?s = "?new\<lparr>bs_tokens_used := bs_tokens_used ?new + 3\<rparr>"
  let ?a = "dmul (dec_of_int 3) (Dec 3333333333333333333333333333 (- 28))"
  let ?t = "charged ?s ?a (Some ''op-1'')"
  have s0: "be_sessions ?b demo_session_id = Some ?new" by (simp add: fresh_registry_def)
  have s: "be_sessions (tokens_counted demo_session_id ?new 3 ?b) demo_session_id = Some ?s"
    by (simp add: tokens_counted_def)
  have nd: "\<not> is_duplicate_operation ?new (Some ''op-1'')" "\<not> is_duplicate_operation ?s (Some ''op-1'')"
    by (simp_all add: is_duplicate_operation_def new_budget_session_def)
  have cost: "bs_cost_usd ?t = Dec 9999999999999999999999999999 (- 28)"
    using third_line_amount by (simp add: new_budget_session_def)
  have lim: "bs_budget_limit_usd ?t = Dec 100 (- 2)" by (simp add: new_budget_session_def)
  have ok: "\<not> over_limit ?t" "\<not> exhausted ?t"
    unfolding over_limit_def exhausted_def cost lim by (simp_all add: dval_def)
  obtain b' where rec: "record_tokens demo_session_id 3 (Dec 3333333333333333333333333333 (- 28)) (Some ''op-1'') ?b
      = (Inr ?t, b')" "be_sessions b' demo_session_id = Some ?t"
    using record_tokens_fresh [OF s0 nd(1), of 3] record_spend_within [OF s nd(2) ok(1)] by simp
  have "restore_from_history demo_session_id ''general'' (Dec 100 (- 2)) [third_line] demo_enforcer = (Inr ?t, b')"
    using rec require_session_found [OF rec(2)] third_line_cost
    by (simp add: restore_from_history_replays replay_entry_def thenE_def bindE_def liftE_def returnE_def
        third_line_def)
  then show ?thesis
    using check_budget_open [OF rec(2) ok(2)] by (simp add: thenE_def bindE_def)
qed

end
