(* ===== verification/LoopDetector.thy ===== *)
theory LoopDetector
  imports AuditLogger Config
begin

text \<open>
  \<open>src/watchdog/loop_detector.py\<close>: the circuit breaker. A \<open>loop_detector\<close> holds its two limits, the
  execution contexts by session id and its audit logger. \<open>record_step\<close> appends the step and adds
  its tokens before it checks anything, and a check that trips sets its flag before it raises, so a
  refused step stays recorded; the model returns the exception with that state.

  The lemmas give the verdict of every step as a function of the recorded steps, show that flags,
  step numbers and token totals always agree with the step list, and that a checkpoint restored in
  another detector continues as if there had been no interruption.
\<close>

section \<open>State\<close>

datatype loop_signal = PROGRESS | NO_PROGRESS | HUMAN_REQUIRED

fun signal_value :: "loop_signal \<Rightarrow> string" where
  "signal_value PROGRESS = ''progress''"
| "signal_value NO_PROGRESS = ''no_progress''"
| "signal_value HUMAN_REQUIRED = ''human_intervention_required''"

text \<open>\<open>LoopSignal(s)\<close>.\<close>

definition parse_signal :: "string \<Rightarrow> exn + loop_signal" where
  "parse_signal s =
     (if s = ''progress'' then Inr PROGRESS
      else if s = ''no_progress'' then Inr NO_PROGRESS
      else if s = ''human_intervention_required'' then Inr HUMAN_REQUIRED
      else Inl (exn_of ValueError (py_repr s @ '' is not a valid LoopSignal'')))"

record step_record =
  sr_step_number :: int
  sr_token_delta :: int
  sr_signal :: loop_signal
  sr_description :: string

record execution_context =
  ec_session_id :: uuid
  ec_agent_type :: string
  ec_steps :: "step_record list"
  ec_total_tokens :: int
  ec_loop_detected :: bool
  ec_intervention_required :: bool

record step_snapshot =
  sn_step_number :: int
  sn_token_delta :: int
  sn_signal :: string
  sn_description :: string

record execution_checkpoint =
  ck_session_id :: string
  ck_agent_type :: string
  ck_total_tokens :: int
  ck_loop_detected :: bool
  ck_intervention_required :: bool
  ck_steps :: "step_snapshot list"

record loop_detector =
  lp_max_agent_steps :: int
  lp_max_token_velocity :: int
  lp_contexts :: "uuid \<rightharpoonup> execution_context"
  lp_audit :: audit_logger

definition new_execution_context :: "uuid \<Rightarrow> string \<Rightarrow> execution_context" where
  "new_execution_context sid agent_type =
     \<lparr>ec_session_id = sid, ec_agent_type = agent_type, ec_steps = [], ec_total_tokens = 0,
      ec_loop_detected = False, ec_intervention_required = False\<rparr>"

definition new_loop_detector ::
  "settings \<Rightarrow> int option \<Rightarrow> int option \<Rightarrow> audit_logger \<Rightarrow> loop_detector" where
  "new_loop_detector cfg steps velocity l =
     \<lparr>lp_max_agent_steps = (case steps of Some n \<Rightarrow> n | None \<Rightarrow> max_agent_steps cfg),
      lp_max_token_velocity = (case velocity of Some n \<Rightarrow> n | None \<Rightarrow> max_token_velocity cfg),
      lp_contexts = Map.empty, lp_audit = l\<rparr>"


section \<open>Operations\<close>

definition lp_log :: "(audit_logger, unit) prog \<Rightarrow> (loop_detector, unit) prog" where
  "lp_log = zoomE lp_audit (\<lambda>l d. d\<lparr>lp_audit := l\<rparr>)"

definition put_context :: "uuid \<Rightarrow> execution_context \<Rightarrow> (loop_detector, unit) prog" where
  "put_context sid c = modifyE (\<lambda>d. d\<lparr>lp_contexts := (lp_contexts d)(sid \<mapsto> c)\<rparr>)"

definition get_context :: "uuid \<Rightarrow> (loop_detector, execution_context option) prog" where
  "get_context sid = getE (\<lambda>d. lp_contexts d sid)"

text \<open>\<open>_get_context\<close>.\<close>

definition require_context :: "uuid \<Rightarrow> (loop_detector, execution_context) prog" where
  "require_context sid = bindE (get_context sid) (\<lambda>r. case r of
     None \<Rightarrow> raiseE (exn_of KeyError (''Execution context '' @ str_uuid sid @ '' not found''))
   | Some c \<Rightarrow> returnE c)"

definition create_context :: "uuid \<Rightarrow> string \<Rightarrow> (loop_detector, execution_context) prog" where
  "create_context sid agent_type =
     (let c = new_execution_context sid agent_type in
      thenE (put_context sid c)
     (thenE (lp_log (info ''loop_detector.context_created''
               [(''session_id'', VStr (str_uuid sid)), (''agent_type'', VStr agent_type)]))
      (returnE c)))"

text \<open>\<open>_no_progress_streak\<close>: the loop over \<open>reversed(steps)\<close> with its \<open>break\<close>.\<close>

fun streak_loop :: "int \<Rightarrow> step_record list \<Rightarrow> int" where
  "streak_loop streak [] = streak"
| "streak_loop streak (s # ss) =
     (if sr_signal s = PROGRESS \<or> sr_signal s = HUMAN_REQUIRED then streak
      else streak_loop (streak + 1) ss)"

definition no_progress_streak :: "step_record list \<Rightarrow> int" where
  "no_progress_streak steps = streak_loop 0 (rev steps)"

definition record_step ::
  "uuid \<Rightarrow> int \<Rightarrow> loop_signal \<Rightarrow> string \<Rightarrow> (loop_detector, execution_context) prog" where
  "record_step sid token_delta signal description =
     bindE (require_context sid) (\<lambda>ctx0.
     bindE (getE (\<lambda>d. (lp_max_agent_steps d, lp_max_token_velocity d))) (\<lambda>(max_steps, max_velocity).
       let step_number = int (length (ec_steps ctx0)) + 1;
           ctx = ctx0\<lparr>ec_steps := ec_steps ctx0 @
                   [\<lparr>sr_step_number = step_number, sr_token_delta = token_delta,
                     sr_signal = signal, sr_description = description\<rparr>],
                 ec_total_tokens := ec_total_tokens ctx0 + token_delta\<rparr>
       in thenE (put_context sid ctx)
         (if max_velocity < token_delta then
            thenE (put_context sid (ctx\<lparr>ec_loop_detected := True\<rparr>))
           (thenE (lp_log (warning ''loop.detected''
                [(''reason'', VStr ''token_velocity_exceeded''), (''session_id'', VStr (str_uuid sid)),
                 (''agent_type'', VStr (ec_agent_type ctx)), (''step'', VInt step_number),
                 (''token_delta'', VInt token_delta), (''max_token_velocity'', VInt max_velocity)]))
            (raiseE (exn_of TokenVelocityError
               (''Token velocity exceeded on step '' @ show_int step_number @ '': ''
                  @ show_int token_delta @ '' > '' @ show_int max_velocity))))
          else if signal = HUMAN_REQUIRED then
            thenE (put_context sid (ctx\<lparr>ec_intervention_required := True\<rparr>))
           (thenE (lp_log (warning ''loop.pending_approval''
                [(''session_id'', VStr (str_uuid sid)), (''agent_type'', VStr (ec_agent_type ctx)),
                 (''step'', VInt step_number)]))
            (raiseE (exn_of PendingApprovalError
               (''Agent requested human intervention on step '' @ show_int step_number))))
          else
            let streak = no_progress_streak (ec_steps ctx) in
            if max_steps \<le> streak then
              thenE (put_context sid (ctx\<lparr>ec_loop_detected := True\<rparr>))
             (thenE (lp_log (warning ''loop.detected''
                  [(''reason'', VStr ''no_progress_streak''), (''session_id'', VStr (str_uuid sid)),
                   (''agent_type'', VStr (ec_agent_type ctx)), (''step'', VInt step_number),
                   (''streak'', VInt streak), (''max_agent_steps'', VInt max_steps)]))
              (raiseE (exn_of LoopDetectedError
                 (''No progress after '' @ show_int streak @ '' consecutive steps (max=''
                    @ show_int max_steps @ '')''))))
            else returnE ctx)))"

text \<open>The snapshot of a step and its inverse, as the two list comprehensions build them.\<close>

definition snap_step :: "step_record \<Rightarrow> step_snapshot" where
  "snap_step s = \<lparr>sn_step_number = sr_step_number s, sn_token_delta = sr_token_delta s,
     sn_signal = signal_value (sr_signal s), sn_description = sr_description s\<rparr>"

definition unsnap_step :: "step_snapshot \<Rightarrow> exn + step_record" where
  "unsnap_step n =
     (case parse_signal (sn_signal n) of Inl e \<Rightarrow> Inl e
      | Inr g \<Rightarrow> Inr \<lparr>sr_step_number = sn_step_number n, sr_token_delta = sn_token_delta n,
                      sr_signal = g, sr_description = sn_description n\<rparr>)"

fun unsnap_steps :: "step_snapshot list \<Rightarrow> exn + step_record list" where
  "unsnap_steps [] = Inr []"
| "unsnap_steps (n # ns) =
     (case unsnap_step n of Inl e \<Rightarrow> Inl e
      | Inr s \<Rightarrow> (case unsnap_steps ns of Inl e \<Rightarrow> Inl e | Inr ss \<Rightarrow> Inr (s # ss)))"

definition snap_context :: "execution_context \<Rightarrow> execution_checkpoint" where
  "snap_context c =
     \<lparr>ck_session_id = str_uuid (ec_session_id c), ck_agent_type = ec_agent_type c,
      ck_total_tokens = ec_total_tokens c, ck_loop_detected = ec_loop_detected c,
      ck_intervention_required = ec_intervention_required c, ck_steps = map snap_step (ec_steps c)\<rparr>"

definition unsnap_context :: "execution_checkpoint \<Rightarrow> exn + execution_context" where
  "unsnap_context n =
     (case parse_uuid (ck_session_id n) of Inl e \<Rightarrow> Inl e | Inr sid \<Rightarrow>
      (case unsnap_steps (ck_steps n) of Inl e \<Rightarrow> Inl e | Inr steps \<Rightarrow>
         Inr \<lparr>ec_session_id = sid, ec_agent_type = ck_agent_type n, ec_steps = steps,
              ec_total_tokens = ck_total_tokens n, ec_loop_detected = ck_loop_detected n,
              ec_intervention_required = ck_intervention_required n\<rparr>))"

definition checkpoint :: "uuid \<Rightarrow> (loop_detector, execution_checkpoint) prog" where
  "checkpoint sid = bindE (require_context sid) (\<lambda>c. returnE (snap_context c))"

definition restore :: "execution_checkpoint \<Rightarrow> (loop_detector, execution_context) prog" where
  "restore n = bindE (liftE (unsnap_context n)) (\<lambda>c.
     thenE (put_context (ec_session_id c) c) (returnE c))"


section \<open>The verdict on a step\<close>

text \<open>The reference reading of the circuit breaker: a function of the limits and the steps so far.\<close>

definition trailing :: "step_record list \<Rightarrow> nat" where
  "trailing steps = length (takeWhile (\<lambda>s. sr_signal s = NO_PROGRESS) (rev steps))"

definition verdict :: "int \<Rightarrow> int \<Rightarrow> step_record list \<Rightarrow> exc_class option" where
  "verdict max_steps max_velocity steps =
     (if max_velocity < sr_token_delta (last steps) then Some TokenVelocityError
      else if sr_signal (last steps) = HUMAN_REQUIRED then Some PendingApprovalError
      else if max_steps \<le> int (trailing steps) then Some LoopDetectedError
      else None)"

definition add_step :: "int \<Rightarrow> loop_signal \<Rightarrow> string \<Rightarrow> step_record list \<Rightarrow> step_record list" where
  "add_step delta signal descr steps = steps @
     [\<lparr>sr_step_number = int (length steps) + 1, sr_token_delta = delta, sr_signal = signal,
       sr_description = descr\<rparr>]"

definition stepped :: "int \<Rightarrow> loop_signal \<Rightarrow> string \<Rightarrow> execution_context \<Rightarrow> execution_context" where
  "stepped delta signal descr c = c\<lparr>ec_steps := add_step delta signal descr (ec_steps c),
     ec_total_tokens := ec_total_tokens c + delta\<rparr>"

definition flagged :: "exc_class option \<Rightarrow> execution_context \<Rightarrow> execution_context" where
  "flagged v c =
     (case v of None \<Rightarrow> c
      | Some k \<Rightarrow> if k = PendingApprovalError then c\<lparr>ec_intervention_required := True\<rparr>
                  else c\<lparr>ec_loop_detected := True\<rparr>)"

lemma streak_loop_takeWhile:
  "streak_loop n ss = n + int (length (takeWhile (\<lambda>s. sr_signal s = NO_PROGRESS) ss))"
proof (induction ss arbitrary: n)
  case (Cons s ss)
  then show ?case by (cases "sr_signal s") simp_all
qed simp

lemma no_progress_streak_trailing: "no_progress_streak steps = int (trailing steps)"
  by (simp add: no_progress_streak_def trailing_def streak_loop_takeWhile)

lemma lp_log_eq:
  "lp_log (warning ev fs) d = (Inr (), d\<lparr>lp_audit := snd (warning ev fs (lp_audit d))\<rparr>)"
  "lp_log (info ev fs) d = (Inr (), d\<lparr>lp_audit := snd (info ev fs (lp_audit d))\<rparr>)"
  by (simp_all add: lp_log_def zoomE_def warning_def info_def emit_eq)

lemmas loop_defs = put_context_def get_context_def require_context_def lp_log_eq prog_simps

lemma require_context_found: "lp_contexts d sid = Some c \<Longrightarrow> require_context sid d = (Inr c, d)"
  by (simp add: loop_defs)

lemma record_step_missing:
  "lp_contexts d sid = None \<Longrightarrow> record_step sid n g descr d =
     (Inl (exn_of KeyError (''Execution context '' @ str_uuid sid @ '' not found'')), d)"
  by (simp add: record_step_def loop_defs)

definition put_ctx :: "uuid \<Rightarrow> execution_context \<Rightarrow> audit_logger \<Rightarrow> loop_detector \<Rightarrow> loop_detector" where
  "put_ctx sid c l d = d\<lparr>lp_contexts := (lp_contexts d)(sid \<mapsto> c), lp_audit := l\<rparr>"

lemma put_ctx_simps [simp]:
  "lp_contexts (put_ctx sid c l d) = (lp_contexts d)(sid \<mapsto> c)"
  "lp_audit (put_ctx sid c l d) = l"
  "lp_max_agent_steps (put_ctx sid c l d) = lp_max_agent_steps d"
  "lp_max_token_velocity (put_ctx sid c l d) = lp_max_token_velocity d"
  by (simp_all add: put_ctx_def)

abbreviation verdict_of :: "loop_detector \<Rightarrow> step_record list \<Rightarrow> exc_class option" where
  "verdict_of d \<equiv> verdict (lp_max_agent_steps d) (lp_max_token_velocity d)"

lemmas record_step_eval = record_step_def Let_def no_progress_streak_trailing verdict_def flagged_def
  put_ctx_def loop_defs

lemma record_step_verdict:
  fixes n :: int and g :: loop_signal and descr :: string
  assumes "lp_contexts d sid = Some c"
  defines "c' \<equiv> stepped n g descr c"
  defines "v \<equiv> verdict_of d (ec_steps c')"
  shows "\<exists>m l. record_step sid n g descr d =
    (case v of None \<Rightarrow> Inr c' | Some k \<Rightarrow> Inl (exn_of k m), put_ctx sid (flagged v c') l d)"
proof -
  have c': "c\<lparr>ec_steps := ec_steps c @ [\<lparr>sr_step_number = int (length (ec_steps c)) + 1, sr_token_delta = n,
      sr_signal = g, sr_description = descr\<rparr>], ec_total_tokens := ec_total_tokens c + n\<rparr> = c'"
    by (simp add: c'_def stepped_def add_step_def)
  have lst: "sr_token_delta (last (ec_steps c')) = n" "sr_signal (last (ec_steps c')) = g"
    by (simp_all add: c'_def stepped_def add_step_def)
  have same: "d\<lparr>lp_contexts := f\<rparr> = d\<lparr>lp_contexts := f, lp_audit := lp_audit d\<rparr>" for f
    by simp
  consider (vel) "lp_max_token_velocity d < n" | (hum) "\<not> lp_max_token_velocity d < n" "g = HUMAN_REQUIRED"
    | (loop) "\<not> lp_max_token_velocity d < n" "g \<noteq> HUMAN_REQUIRED" "lp_max_agent_steps d \<le> int (trailing (ec_steps c'))"
    | (ok) "\<not> lp_max_token_velocity d < n" "g \<noteq> HUMAN_REQUIRED" "\<not> lp_max_agent_steps d \<le> int (trailing (ec_steps c'))"
    by blast
  then show ?thesis
  proof cases
    case vel
    then show ?thesis
      using assms(1) lst by (simp add: record_step_eval c' v_def, blast)
  next
    case hum
    then show ?thesis
      using assms(1) lst by (simp add: record_step_eval c' [unfolded hum(2)] v_def, blast)
  next
    case loop
    then show ?thesis
      using assms(1) lst by (simp add: record_step_eval c' v_def, blast)
  next
    case ok
    then show ?thesis
      using assms(1) lst by (simp add: record_step_eval c' v_def)
       (rule exI [of _ "lp_audit d"], simp)
  qed
qed


section \<open>Invariant\<close>

text \<open>Whether one of the steps, when it was recorded, drew a verdict of the given kinds.\<close>

definition drew :: "int \<Rightarrow> int \<Rightarrow> exc_class set \<Rightarrow> step_record list \<Rightarrow> bool" where
  "drew ms mv K steps \<longleftrightarrow>
     (\<exists>k \<in> {1..length steps}. \<exists>v \<in> K. verdict ms mv (take k steps) = Some v)"

lemma drew_Nil [simp]: "\<not> drew ms mv K []"
  by (simp add: drew_def)

lemma drew_snoc:
  "drew ms mv K (steps @ [s]) \<longleftrightarrow>
     drew ms mv K steps \<or> (\<exists>v \<in> K. verdict ms mv (steps @ [s]) = Some v)"
proof -
  have "{1..length (steps @ [s])} = insert (length (steps @ [s])) {1..length steps}"
    by auto
  moreover have "take k (steps @ [s]) = take k steps" if "k \<in> {1..length steps}" for k
    using that by simp
  ultimately show ?thesis
    unfolding drew_def by auto
qed

definition context_ok :: "int \<Rightarrow> int \<Rightarrow> uuid \<Rightarrow> execution_context \<Rightarrow> bool" where
  "context_ok ms mv sid c \<longleftrightarrow>
     ec_session_id c = sid \<and>
     map sr_step_number (ec_steps c) = map int [1..<Suc (length (ec_steps c))] \<and>
     ec_total_tokens c = sum_list (map sr_token_delta (ec_steps c)) \<and>
     ec_loop_detected c = drew ms mv {TokenVelocityError, LoopDetectedError} (ec_steps c) \<and>
     ec_intervention_required c = drew ms mv {PendingApprovalError} (ec_steps c)"

definition detector_ok :: "loop_detector \<Rightarrow> bool" where
  "detector_ok d \<longleftrightarrow> (\<forall>sid c. lp_contexts d sid = Some c \<longrightarrow>
     context_ok (lp_max_agent_steps d) (lp_max_token_velocity d) sid c)"

lemma verdict_cases:
  "verdict ms mv steps \<in> {None, Some TokenVelocityError, Some PendingApprovalError, Some LoopDetectedError}"
  by (simp add: verdict_def)

lemma flagged_simps [simp]:
  "ec_session_id (flagged v c) = ec_session_id c" "ec_steps (flagged v c) = ec_steps c"
  "ec_total_tokens (flagged v c) = ec_total_tokens c" "ec_agent_type (flagged v c) = ec_agent_type c"
  by (simp_all add: flagged_def split: option.splits)

lemma stepped_simps [simp]:
  "ec_session_id (stepped n g descr c) = ec_session_id c"
  "ec_steps (stepped n g descr c) = add_step n g descr (ec_steps c)"
  "ec_total_tokens (stepped n g descr c) = ec_total_tokens c + n"
  "ec_agent_type (stepped n g descr c) = ec_agent_type c"
  "ec_loop_detected (stepped n g descr c) = ec_loop_detected c"
  "ec_intervention_required (stepped n g descr c) = ec_intervention_required c"
  by (simp_all add: stepped_def)

lemma stepped_ok:
  assumes "context_ok ms mv sid c"
  shows "context_ok ms mv sid (flagged (verdict ms mv (add_step n g descr (ec_steps c))) (stepped n g descr c))"
proof -
  let ?v = "verdict ms mv (add_step n g descr (ec_steps c))"
  have "ec_loop_detected (flagged ?v (stepped n g descr c)) =
      drew ms mv {TokenVelocityError, LoopDetectedError} (add_step n g descr (ec_steps c))"
    using assms verdict_cases [of ms mv "add_step n g descr (ec_steps c)"]
    by (auto simp: context_ok_def add_step_def drew_snoc flagged_def)
  moreover have "ec_intervention_required (flagged ?v (stepped n g descr c)) =
      drew ms mv {PendingApprovalError} (add_step n g descr (ec_steps c))"
    using assms verdict_cases [of ms mv "add_step n g descr (ec_steps c)"]
    by (auto simp: context_ok_def add_step_def drew_snoc flagged_def)
  ultimately show ?thesis
    using assms by (simp add: context_ok_def) (simp add: add_step_def)
qed

lemma detector_ok_put:
  "detector_ok d \<Longrightarrow> context_ok (lp_max_agent_steps d) (lp_max_token_velocity d) sid c \<Longrightarrow>
     detector_ok (put_ctx sid c l d)"
  by (simp add: detector_ok_def)

lemma create_context_eq:
  "\<exists>l. create_context sid agent_type d =
     (Inr (new_execution_context sid agent_type), put_ctx sid (new_execution_context sid agent_type) l d)"
  by (simp add: create_context_def Let_def loop_defs put_ctx_def) blast

lemma new_context_ok: "context_ok ms mv sid (new_execution_context sid agent_type)"
  by (simp add: context_ok_def new_execution_context_def)

lemma restore_eq:
  "unsnap_context n = Inr c \<Longrightarrow> restore n d = (Inr c, put_ctx (ec_session_id c) c (lp_audit d) d)"
  by (simp add: restore_def loop_defs put_ctx_def)

lemma parse_signal_value [simp]: "parse_signal (signal_value g) = Inr g"
  by (cases g) (simp_all add: parse_signal_def)

lemma unsnap_snap_steps [simp]: "unsnap_steps (map snap_step ss) = Inr ss"
  by (induction ss) (simp_all add: snap_step_def unsnap_step_def)

interpretation loop_codec: snapshot_codec snap_context unsnap_context "\<lambda>c. uuid_ok (ec_session_id c)"
  by unfold_locales (simp add: snap_context_def unsnap_context_def)

lemma checkpoint_context:
  "checkpoint sid d = (Inr n, d') \<Longrightarrow> \<exists>c. lp_contexts d sid = Some c \<and> n = snap_context c"
  by (cases "lp_contexts d sid") (auto simp: checkpoint_def require_context_def get_context_def getE_def bindE_def raiseE_def returnE_def)

text \<open>
  The detectors of an installation with one pair of limits: what the operations make of new ones, where
  a context is restored from any checkpoint that another such detector has made.
\<close>

inductive detectors :: "int \<Rightarrow> int \<Rightarrow> loop_detector \<Rightarrow> bool" for ms mv where
  det_new: "d = new_loop_detector cfg steps velocity l \<Longrightarrow> lp_max_agent_steps d = ms \<Longrightarrow> lp_max_token_velocity d = mv \<Longrightarrow> detectors ms mv d"
| det_create: "detectors ms mv d \<Longrightarrow> uuid_ok sid \<Longrightarrow> detectors ms mv (snd (create_context sid agent_type d))"
| det_record: "detectors ms mv d \<Longrightarrow> detectors ms mv (snd (record_step sid n g descr d))"
| det_restore: "detectors ms mv d \<Longrightarrow> detectors ms mv e \<Longrightarrow> checkpoint sid e = (Inr n, e') \<Longrightarrow> detectors ms mv (snd (restore n d))"

definition detector_inv :: "int \<Rightarrow> int \<Rightarrow> loop_detector \<Rightarrow> bool" where
  "detector_inv ms mv d \<longleftrightarrow> detector_ok d \<and> lp_max_agent_steps d = ms \<and> lp_max_token_velocity d = mv \<and> (\<forall>sid \<in> dom (lp_contexts d). uuid_ok sid)"

lemma detector_inv_put:
  "detector_inv ms mv d \<Longrightarrow> context_ok ms mv sid c \<Longrightarrow> uuid_ok sid \<Longrightarrow> detector_inv ms mv (put_ctx sid c l d)"
  by (auto simp: detector_inv_def detector_ok_put)

lemma record_step_inv:
  assumes "detector_inv ms mv d"
  shows "detector_inv ms mv (snd (record_step sid n g descr d))"
proof (cases "lp_contexts d sid")
  case None
  then show ?thesis using assms by (simp add: record_step_missing)
next
  case (Some c)
  then have "context_ok ms mv sid c" "uuid_ok sid" "lp_max_agent_steps d = ms" "lp_max_token_velocity d = mv"
    using assms by (auto simp: detector_inv_def detector_ok_def)
  then show ?thesis
    using record_step_verdict [OF Some, of n g descr] detector_inv_put [OF assms stepped_ok] by auto
qed

lemma detectors_inv: "detectors ms mv d \<Longrightarrow> detector_inv ms mv d"
proof (induction rule: detectors.induct)
  case (det_new d cfg steps velocity l)
  then show ?case by (simp add: new_loop_detector_def detector_inv_def detector_ok_def)
next
  case (det_create d sid agent_type)
  then show ?case
    using create_context_eq [of sid agent_type d] detector_inv_put [OF _ new_context_ok] by auto
next
  case (det_restore d e sid n e')
  then obtain c where c: "lp_contexts e sid = Some c" "n = snap_context c"
    using checkpoint_context by blast
  then have ok: "context_ok ms mv sid c" "uuid_ok sid"
    using det_restore.IH(2) by (auto simp: detector_inv_def detector_ok_def)
  then have "restore n d = (Inr c, put_ctx sid c (lp_audit d) d)"
    using c(2) loop_codec.roundtrip [of c] restore_eq [of n c d] by (simp add: context_ok_def)
  then show ?case
    using detector_inv_put [OF det_restore.IH(1) ok] by simp
qed (simp add: record_step_inv)

text \<open>
  (C31) In every detector of an installation whose detectors share their limits, contexts restored from
  checkpoints of each other included, and for every session: steps are numbered 1, 2, 3, ...,
  \<open>total_tokens\<close> is the sum of the recorded deltas, \<open>loop_detected\<close> is set exactly if some
  recorded step exceeded the token velocity or completed a streak of \<open>max_agent_steps\<close>, and
  \<open>intervention_required\<close> exactly if some step within the velocity limit asked for a human.
\<close>

theorem detector_flags_exact:
  assumes "detectors ms mv d" and "lp_contexts d sid = Some c"
  shows "map sr_step_number (ec_steps c) = map int [1..<Suc (length (ec_steps c))] \<and>
     ec_total_tokens c = sum_list (map sr_token_delta (ec_steps c)) \<and>
     (ec_loop_detected c \<longleftrightarrow> (\<exists>k \<in> {1..length (ec_steps c)}.
        verdict_of d (take k (ec_steps c)) \<in> {Some TokenVelocityError, Some LoopDetectedError})) \<and>
     (ec_intervention_required c \<longleftrightarrow> (\<exists>k \<in> {1..length (ec_steps c)}.
        verdict_of d (take k (ec_steps c)) = Some PendingApprovalError))"
  using detectors_inv [OF assms(1)] assms(2)
  by (auto simp: detector_inv_def detector_ok_def context_ok_def drew_def)

text \<open>A detector with limits 2 and 100 after a step without progress, a fast step and progress.\<close>

definition demo_sid :: uuid where
  "demo_sid = UUID ''00000000000040008000000000000002''"

definition demo_detector :: loop_detector where
  "demo_detector =
     snd (record_step demo_sid 500 NO_PROGRESS ''b''
     (snd (record_step demo_sid 10 PROGRESS ''a''
     (snd (create_context demo_sid ''general''
        (new_loop_detector default_settings (Some 2) (Some 100)
           (new_audit_logger ''loop'' (\<lambda>_. 0) no_span)))))))"

lemma demo_sid_ok: "uuid_ok demo_sid"
  by (simp add: uuid_ok_def demo_sid_def hex_chars_def)

lemma demo_detector_made: "detectors 2 100 demo_detector"
  unfolding demo_detector_def
  by (intro det_record det_create det_new [OF refl] demo_sid_ok) (simp_all add: new_loop_detector_def)

lemma demo_detector_context:
  "\<exists>c. lp_contexts demo_detector demo_sid = Some c \<and> ec_loop_detected c \<and> ec_total_tokens c = 510"
  unfolding demo_detector_def
  by (simp add: create_context_def record_step_eval new_loop_detector_def trailing_def
      new_execution_context_def)

text \<open>The same context restored in a new detector from its checkpoint.\<close>

theorem detector_flags_exact_witness:
  "\<exists>n c k. checkpoint demo_sid demo_detector = (Inr n, demo_detector) \<and>
     lp_contexts (snd (restore n (new_loop_detector default_settings (Some 2) (Some 100) (new_audit_logger ''loop'' (\<lambda>_. 0) no_span)))) demo_sid = Some c \<and> ec_total_tokens c = 510 \<and>
     verdict 2 100 (take k (ec_steps c)) \<in> {Some TokenVelocityError, Some LoopDetectedError}"
proof -
  let ?new = "new_loop_detector default_settings (Some 2) (Some 100) (new_audit_logger ''loop'' (\<lambda>_. 0) no_span)"
  obtain c where c: "lp_contexts demo_detector demo_sid = Some c" "ec_loop_detected c" "ec_total_tokens c = 510"
    using demo_detector_context by blast
  have n: "checkpoint demo_sid demo_detector = (Inr (snap_context c), demo_detector)"
    using c(1) by (simp add: checkpoint_def bindE_def require_context_found returnE_def)
  have "ec_session_id c = demo_sid"
    using detectors_inv [OF demo_detector_made] c(1) by (auto simp: detector_inv_def detector_ok_def context_ok_def)
  then have r: "restore (snap_context c) ?new = (Inr c, put_ctx demo_sid c (lp_audit ?new) ?new)"
    using loop_codec.roundtrip [of c] restore_eq [of "snap_context c" c ?new] demo_sid_ok by simp
  have "detectors 2 100 ?new"
    by (rule det_new [OF refl]) (simp_all add: new_loop_detector_def)
  from detector_flags_exact [OF det_restore [OF this demo_detector_made n], of demo_sid c] show ?thesis
    using n r c(2,3) by (auto simp: new_loop_detector_def)
qed


section \<open>Runs of steps\<close>

text \<open>A caller that records a list of steps and notes the class of each exception.\<close>

definition raised :: "exn + 'a \<Rightarrow> exc_class option" where
  "raised r = (case r of Inl e \<Rightarrow> Some (exc_cls e) | Inr _ \<Rightarrow> None)"

fun record_all :: "uuid \<Rightarrow> (int \<times> loop_signal \<times> string) list \<Rightarrow> loop_detector
    \<Rightarrow> exc_class option list \<times> loop_detector" where
  "record_all sid [] d = ([], d)"
| "record_all sid ((n, g, descr) # xs) d =
     (let (r, d1) = record_step sid n g descr d; (rs, d2) = record_all sid xs d1 in (raised r # rs, d2))"

fun add_steps :: "(int \<times> loop_signal \<times> string) list \<Rightarrow> step_record list \<Rightarrow> step_record list" where
  "add_steps [] steps = steps"
| "add_steps ((n, g, descr) # xs) steps = add_steps xs (add_step n g descr steps)"

fun run_context :: "int \<Rightarrow> int \<Rightarrow> (int \<times> loop_signal \<times> string) list \<Rightarrow> execution_context \<Rightarrow> execution_context" where
  "run_context ms mv [] c = c"
| "run_context ms mv ((n, g, descr) # xs) c =
     run_context ms mv xs (flagged (verdict ms mv (add_step n g descr (ec_steps c))) (stepped n g descr c))"

lemma record_all_run:
  assumes "lp_contexts d sid = Some c"
  shows "\<exists>l. record_all sid xs d =
    (map (\<lambda>k. verdict_of d (add_steps (take k xs) (ec_steps c))) [1..<Suc (length xs)],
     put_ctx sid (run_context (lp_max_agent_steps d) (lp_max_token_velocity d) xs c) l d)"
  using assms
proof (induction xs arbitrary: d c)
  case Nil
  then show ?case by (auto simp: put_ctx_def map_upd_triv intro!: exI [of _ "lp_audit d"])
next
  case (Cons x xs)
  obtain n g descr where x: "x = (n, g, descr)" by (cases x)
  let ?steps = "add_step n g descr (ec_steps c)"
  let ?c = "flagged (verdict_of d ?steps) (stepped n g descr c)"
  obtain m l where step: "record_step sid n g descr d =
      (case verdict_of d ?steps of None \<Rightarrow> Inr (stepped n g descr c) | Some k \<Rightarrow> Inl (exn_of k m), put_ctx sid ?c l d)"
    using record_step_verdict [OF Cons.prems, of n g descr] by auto
  have raised: "raised (case verdict_of d ?steps of None \<Rightarrow> Inr (stepped n g descr c) | Some k \<Rightarrow> Inl (exn_of k m))
      = verdict_of d ?steps"
    by (simp add: raised_def split: option.splits)
  have upt: "[Suc 0..<Suc (Suc (length xs))] = Suc 0 # map Suc [Suc 0..<Suc (length xs)]"
    using upt_conv_Cons [of "Suc 0" "Suc (Suc (length xs))"] by (simp only: map_Suc_upt)
  have put: "put_ctx sid b l' (put_ctx sid ?c l d) = put_ctx sid b l' d" for b l'
    by (simp add: put_ctx_def)
  obtain l' where "record_all sid xs (put_ctx sid ?c l d) =
      (map (\<lambda>k. verdict_of d (add_steps (take k xs) ?steps)) [Suc 0..<Suc (length xs)],
       put_ctx sid (run_context (lp_max_agent_steps d) (lp_max_token_velocity d) xs ?c) l' d)"
    using Cons.IH [of "put_ctx sid ?c l d" ?c] by (auto simp: put simp del: upt_Suc)
  then show ?case
    by (intro exI [of _ l']) (simp add: x step raised upt comp_def del: upt_Suc)
qed

lemma trailing_add_step [simp]:
  "trailing (add_step n g descr steps) = (if g = NO_PROGRESS then Suc (trailing steps) else 0)"
  by (simp add: trailing_def add_step_def)

lemma add_steps_no_progress:
  "list_all (\<lambda>(n, g, _). g = NO_PROGRESS) xs \<Longrightarrow> trailing (add_steps xs steps) = length xs + trailing steps"
  by (induction xs steps rule: add_steps.induct) auto

lemma last_add_steps:
  "xs \<noteq> [] \<Longrightarrow> \<exists>descr. (sr_token_delta (last (add_steps xs steps)), sr_signal (last (add_steps xs steps)), descr)
     = last xs"
proof (induction xs steps rule: add_steps.induct)
  case (2 n g descr xs steps)
  then show ?case by (cases "xs = []") (auto simp: add_step_def)
qed simp

lemma verdict_no_progress:
  assumes "list_all (\<lambda>(n, g, _). g = NO_PROGRESS \<and> n \<le> mv) xs" "xs \<noteq> []"
  shows "verdict ms mv (add_steps xs steps) =
    (if ms \<le> int (length xs + trailing steps) then Some LoopDetectedError else None)"
proof -
  have "list_all (\<lambda>(n, g, _). g = NO_PROGRESS) xs"
    using assms(1) by (auto simp: list_all_iff)
  moreover have "last xs \<in> set xs" using assms(2) by simp
  ultimately show ?thesis
    using last_add_steps [OF assms(2), of steps] assms(1)
    by (auto simp: verdict_def add_steps_no_progress list_all_iff)
qed

text \<open>
  (C9) The circuit breaker trips at the limit, not before and not after: from a context with no
  trailing stalled step, a run of \<open>NO_PROGRESS\<close> steps within the token velocity is accepted up to
  step \<open>max_agent_steps - 1\<close>, and every step from number \<open>max_agent_steps\<close> on raises
  \<open>LoopDetectedError\<close>.
\<close>

theorem circuit_breaker_trips_at_limit:
  assumes "lp_contexts d sid = Some c" and "trailing (ec_steps c) = 0"
    and "list_all (\<lambda>(n, g, _). g = NO_PROGRESS \<and> n \<le> lp_max_token_velocity d) xs"
  shows "fst (record_all sid xs d) =
    map (\<lambda>k. if int k < lp_max_agent_steps d then None else Some LoopDetectedError) [1..<Suc (length xs)]"
proof -
  have "verdict_of d (add_steps (take k xs) (ec_steps c)) =
      (if int k < lp_max_agent_steps d then None else Some LoopDetectedError)"
    if "k \<in> set [1..<Suc (length xs)]" for k
  proof -
    have "list_all (\<lambda>(n, g, _). g = NO_PROGRESS \<and> n \<le> lp_max_token_velocity d) (take k xs)" "take k xs \<noteq> []"
      using that assms(3) by (auto simp: list_all_iff dest: in_set_takeD)
    from verdict_no_progress [OF this, of "lp_max_agent_steps d" "ec_steps c"] that assms(2)
    show ?thesis by auto
  qed
  then show ?thesis
    using record_all_run [OF assms(1), of xs] by (auto simp del: upt_Suc)
qed

theorem circuit_breaker_trips_at_limit_witness:
  "fst (record_all demo_sid (replicate 3 (7, NO_PROGRESS, ''''))
     (snd (create_context demo_sid ''general'' demo_detector)))
   = [None, Some LoopDetectedError, Some LoopDetectedError]"
proof -
  let ?c = "new_execution_context demo_sid ''general''"
  obtain l where e: "snd (create_context demo_sid ''general'' demo_detector) = put_ctx demo_sid ?c l demo_detector"
    using create_context_eq [of demo_sid "''general''" demo_detector] by auto
  have "lp_max_agent_steps demo_detector = 2" "lp_max_token_velocity demo_detector = 100"
    by (simp_all add: demo_detector_def create_context_def record_step_eval new_loop_detector_def
        trailing_def new_execution_context_def)
  moreover have "trailing (ec_steps ?c) = 0" by (simp add: trailing_def new_execution_context_def)
  ultimately show ?thesis
    using circuit_breaker_trips_at_limit [of "put_ctx demo_sid ?c l demo_detector" demo_sid ?c
        "replicate 3 (7, NO_PROGRESS, '''')"]
    by (simp add: e upt_rec list_all_iff)
qed


section \<open>Checkpoints\<close>

text \<open>
  Interruption is invisible: a context checkpointed in one detector and restored in another
  with the same limits gives, for every further sequence of steps, the same exceptions and the same
  final context as the detector that was never interrupted.
\<close>

theorem checkpoint_resume_equivalent:
  assumes "lp_contexts d sid = Some c" and "ec_session_id c = sid" and "uuid_ok sid"
    and "lp_max_agent_steps e = lp_max_agent_steps d"
    and "lp_max_token_velocity e = lp_max_token_velocity d"
  shows "\<exists>n e'. checkpoint sid d = (Inr n, d) \<and> restore n e = (Inr c, e') \<and>
    fst (record_all sid xs e') = fst (record_all sid xs d) \<and>
    lp_contexts (snd (record_all sid xs e')) sid = lp_contexts (snd (record_all sid xs d)) sid"
proof -
  let ?e = "put_ctx sid c (lp_audit e) e"
  have "checkpoint sid d = (Inr (snap_context c), d)"
    using assms(1) by (simp add: checkpoint_def bindE_def require_context_found returnE_def)
  moreover have "restore (snap_context c) e = (Inr c, ?e)"
    using restore_eq [of "snap_context c" c e] loop_codec.roundtrip [of c] assms(2,3) by simp
  moreover have "fst (record_all sid xs ?e) = fst (record_all sid xs d) \<and>
      lp_contexts (snd (record_all sid xs ?e)) sid = lp_contexts (snd (record_all sid xs d)) sid"
    using record_all_run [OF assms(1), of xs] record_all_run [of ?e sid c xs] assms(4,5) by auto
  ultimately show ?thesis by blast
qed

theorem checkpoint_resume_equivalent_witness:
  "\<exists>n e'. checkpoint demo_sid demo_detector = (Inr n, demo_detector) \<and>
    isl (fst (restore n (demo_detector\<lparr>lp_contexts := Map.empty\<rparr>))) = False \<and>
    fst (record_all demo_sid [(3, NO_PROGRESS, ''x'')] e') =
      fst (record_all demo_sid [(3, NO_PROGRESS, ''x'')] demo_detector)"
proof -
  obtain c where c: "lp_contexts demo_detector demo_sid = Some c"
    using demo_detector_context by blast
  then have "ec_session_id c = demo_sid"
    using detectors_inv [OF demo_detector_made]
    by (auto simp: detector_inv_def detector_ok_def context_ok_def)
  moreover note demo_sid_ok
  ultimately show ?thesis
    using checkpoint_resume_equivalent [OF c, of "demo_detector\<lparr>lp_contexts := Map.empty\<rparr>"
        "[(3, NO_PROGRESS, ''x'')]"] by fastforce
qed

end
