(* ===== verification/SessionSecurity.thy ===== *)
theory SessionSecurity
  imports SessionManager
begin

text \<open>
  What the session manager guarantees: issued tokens validate to their claims until they expire,
  revoked and rotated tokens stay refused, sender-constrained tokens are accepted only with a fresh
  proof by the holder of their key, and the encodings of proofs and keys are inverted. The documented
  behaviour of the JWT library is the hypothesis \<open>jose_documented\<close>; \<open>table_libs\<close> at the end of each
  group is a library that has it.
\<close>

section \<open>What the libraries are relied on for\<close>

text \<open>
  The documented behaviour of \<open>python-jose\<close> that the proofs use, for signing and verification keys
  related by \<open>pair\<close>. The claims and the header of an encoded token can be read back. \<open>jwt.decode\<close> without an
  audience or an access token checks the registered claims: \<open>iat\<close>, \<open>nbf\<close> and \<open>exp\<close> are read with \<open>int()\<close>, \<open>nbf\<close>
  must not lie ahead, \<open>sub\<close> and \<open>jti\<close> are strings, and a payload with \<open>aud\<close> or \<open>at_hash\<close> is refused. Nothing is
  assumed of payloads that fail one of these checks; one that passes them decodes to itself until the whole second of its
  \<open>exp\<close> has passed, and is refused as expired afterwards.
\<close>

text \<open>\<open>int(q)\<close>.\<close>

definition trunc :: "rat \<Rightarrow> int" where
  "trunc q = (if 0 \<le> q then \<lfloor>q\<rfloor> else \<lceil>q\<rceil>)"

lemma trunc_nonneg [simp]: "0 \<le> q \<Longrightarrow> trunc q = \<lfloor>q\<rfloor>"
  by (simp add: trunc_def)

definition live_at :: "json dict \<Rightarrow> rat \<Rightarrow> bool" where
  "live_at claims now \<longleftrightarrow> (case map_of claims ''exp'' of Some (JNum e) \<Rightarrow> \<lfloor>now\<rfloor> \<le> trunc e | _ \<Rightarrow> True)"

definition claims_valid :: "json dict \<Rightarrow> rat \<Rightarrow> bool" where
  "claims_valid claims now \<longleftrightarrow> distinct (map fst claims) \<and> map_of claims ''aud'' = None \<and> map_of claims ''at_hash'' = None \<and>
     (case map_of claims ''nbf'' of None \<Rightarrow> True | Some (JNum n) \<Rightarrow> trunc n \<le> \<lfloor>now\<rfloor> | _ \<Rightarrow> False) \<and>
     list_all (\<lambda>k. case map_of claims k of None \<Rightarrow> True | Some (JNum _) \<Rightarrow> True | _ \<Rightarrow> False) [''iat'', ''exp''] \<and>
     list_all (\<lambda>k. case map_of claims k of None \<Rightarrow> True | Some (JStr _) \<Rightarrow> True | _ \<Rightarrow> False) [''sub'', ''jti'']"

definition jose_documented :: "'r token_libs \<Rightarrow> (string \<Rightarrow> string \<Rightarrow> string \<Rightarrow> bool) \<Rightarrow> bool" where
  "jose_documented lib pair \<longleftrightarrow>
     (\<forall>claims key alg hs token. jwt_encode lib claims key alg hs = Inr token \<longrightarrow>
        jwt_get_unverified_claims lib token = Inr claims \<and>
        jwt_get_unverified_header lib token
          = Inr (dict_update [(''alg'', JStr alg), (''typ'', JStr ''JWT'')] hs) \<and>
        (\<forall>vk now. pair key vk alg \<and> claims_valid claims now \<longrightarrow>
           (if live_at claims now then jwt_decode lib token vk alg now = Inr claims
            else \<exists>m. jwt_decode lib token vk alg now = Inl (exn_of ExpiredSignatureError m))))"

definition keys_ready :: "'r token_libs \<Rightarrow> settings \<Rightarrow> (string \<Rightarrow> string \<Rightarrow> string \<Rightarrow> bool) \<Rightarrow> bool" where
  "keys_ready lib cfg pair \<longleftrightarrow>
     (\<exists>k vk. signing_key cfg = Inr k \<and> verification_key lib cfg = Inr vk \<and> pair k vk (token_algorithm cfg))"


section \<open>Validation, branch by branch\<close>

lemmas session_defs = time_now_def uuid4_def purge_expired_revocations_def is_revoked_def prog_simps

text \<open>The manager after a validation has read the clock three times and purged twice.\<close>

definition after_validation :: "'r session_manager \<Rightarrow> 'r session_manager" where
  "after_validation m = m\<lparr>sm_ticks := Suc (Suc (Suc (sm_ticks m))),
     sm_revoked_jtis := drop_expired (sm_clock m (Suc (Suc (sm_ticks m))))
       (drop_expired (sm_clock m (Suc (sm_ticks m))) (sm_revoked_jtis m))\<rparr>"

lemma validate_token_decoded:
  assumes "verification_key lib cfg = Inr vk"
    and "jwt_decode lib token vk (token_algorithm cfg) (sm_clock m (sm_ticks m)) = Inr p"
    and "map_of p ''jti'' = Some (JStr j)"
  shows "validate_token lib cfg token m =
    (if sm_revoked_jtis (after_validation m) j \<noteq> None
     then Inl (exn_of TokenRevokedError (''Session token jti='' @ py_repr j @ '' has been revoked''))
     else token_claims_of lib (JStr j) p, after_validation m)"
  using assms
  by (simp add: validate_token_def session_defs dict_get_def revocation_test_def after_validation_def)

lemma validate_token_expired:
  assumes "verification_key lib cfg = Inr vk"
    and "jwt_decode lib token vk (token_algorithm cfg) (sm_clock m (sm_ticks m)) = Inl (exn_of ExpiredSignatureError msg)"
  shows "\<exists>c. validate_token lib cfg token m =
    (Inl (Exn TokenExpiredError ''Session token has expired'' c), m\<lparr>sm_ticks := Suc (sm_ticks m)\<rparr>)"
  using assms by (simp add: validate_token_def session_defs)

lemma validate_token_Inr:
  assumes "validate_token lib cfg token m = (Inr c, m')"
  obtains vk p v where "verification_key lib cfg = Inr vk"
    "jwt_decode lib token vk (token_algorithm cfg) (sm_clock m (sm_ticks m)) = Inr p"
    "map_of p ''jti'' = Some v" "token_claims_of lib v p = Inr c"
  using assms unfolding validate_token_def
  by (auto simp: bindE_Inr thenE_def tryE_def liftE_def raiseE_def time_now_def dict_get_def
      split: sum.splits option.splits if_splits prod.splits)

lemma v_strs_JStr [simp]: "v_strs (map JStr ss) = Inr ss"
  by (induction ss) (simp_all add: v_str_def)

lemma v_str_items_JStr [simp]: "v_str_items (map (map_prod id JStr) d) = Inr d"
  by (induction d) (auto simp: v_str_def)

lemma v_opt_str_opt_str [simp]: "v_opt_str (Some (opt_str x)) = Inr x"
  by (cases x) (simp_all add: v_opt_str_def opt_str_def)

definition claims_for :: "token_request \<Rightarrow> string \<Rightarrow> rat \<Rightarrow> int \<Rightarrow> string option \<Rightarrow> token_claims" where
  "claims_for q jti now expiry cnf =
     \<lparr>tc_jti = jti, tc_sub = rq_requester_id q, tc_agent_type = rq_agent_type q,
      tc_session_id = rq_session_id q, tc_task_id = rq_task_id q,
      tc_allowed_actions = rq_allowed_actions q, tc_role = rq_role q, tc_issued_at = now,
      tc_expires_at = now + of_int expiry, tc_metadata = rq_metadata q, tc_cnf = cnf\<rparr>"

definition full_payload :: "token_request \<Rightarrow> string \<Rightarrow> rat \<Rightarrow> int \<Rightarrow> string option \<Rightarrow> json dict" where
  "full_payload q jti now expiry cnf =
     (case cnf of None \<Rightarrow> token_payload q jti now expiry
      | Some t \<Rightarrow> dict_set ''cnf'' (JObj [(''jkt'', JStr t)]) (token_payload q jti now expiry))"

lemma map_of_full_payload:
  "map_of (full_payload q jti now expiry cnf) =
     (case cnf of None \<Rightarrow> map_of (token_payload q jti now expiry)
      | Some t \<Rightarrow> (map_of (token_payload q jti now expiry))(''cnf'' \<mapsto> JObj [(''jkt'', JStr t)]))"
  by (simp add: full_payload_def split: option.splits)

lemma full_payload_simps [simp]:
  "map_of (full_payload q jti now expiry cnf) ''jti'' = Some (JStr jti)"
  "map_of (full_payload q jti now expiry cnf) ''exp'' = Some (JNum (now + of_int expiry))"
  by (simp_all add: map_of_full_payload token_payload_def split: option.splits)

lemma token_claims_of_payload:
  "token_claims_of lib (JStr jti) (full_payload q jti now expiry cnf) = Inr (claims_for q jti now expiry cnf)"
  by (cases cnf)
     (simp_all add: token_claims_of_def map_of_full_payload token_payload_def dict_get_def py_list_def
        v_str_def v_cnf_def v_float_def v_str_dict_def claims_for_def)


definition expiry_of :: "settings \<Rightarrow> token_request \<Rightarrow> int" where
  "expiry_of cfg q = (case rq_expires_in_seconds q of Some n \<Rightarrow> n | None \<Rightarrow> token_expiry_seconds cfg)"

definition thumbprint_of :: "'r token_libs \<Rightarrow> token_request \<Rightarrow> exn + string option" where
  "thumbprint_of lib q =
     (case rq_confirmation_jwk q of None \<Rightarrow> Inr None
      | Some jwk \<Rightarrow> (case public_jwk_thumbprint lib jwk of Inl e \<Rightarrow> Inl e | Inr t \<Rightarrow> Inr (Some t)))"

text \<open>The revocation of the token that the rotation key stood for.\<close>

definition rotate_out :: "settings \<Rightarrow> token_request \<Rightarrow> ('r session_manager, unit) prog" where
  "rotate_out cfg q = bindE (getE sm_rotation_index) (\<lambda>index.
     case rq_rotation_key q of None \<Rightarrow> returnE ()
     | Some k \<Rightarrow> (case index k of None \<Rightarrow> returnE () | Some old \<Rightarrow> revoke_jti cfg old None))"

definition rotate_in :: "token_request \<Rightarrow> string \<Rightarrow> ('r session_manager, unit) prog" where
  "rotate_in q jti = (case rq_rotation_key q of None \<Rightarrow> returnE ()
     | Some k \<Rightarrow> modifyE (\<lambda>m. m\<lparr>sm_rotation_index := (sm_rotation_index m)(k \<mapsto> jti)\<rparr>))"

lemma issue_token_steps:
  assumes "rq_agent_type q \<noteq> ''''" "rq_requester_id q \<noteq> ''''"
  shows "issue_token lib cfg q =
    bindE time_now (\<lambda>now. thenE (purge_expired_revocations now)
   (thenE (rotate_out cfg q) (bindE uuid4 (\<lambda>u.
    bindE (liftE (thumbprint_of lib q)) (\<lambda>cnf.
    bindE (liftE (signing_key cfg)) (\<lambda>key.
    bindE (liftE (jwt_encode lib (full_payload q (str_uuid u) now (expiry_of cfg q) cnf) key (token_algorithm cfg) [])) (\<lambda>token.
    thenE (rotate_in q (str_uuid u)) (returnE token))))))))"
proof -
  have cnf: "bindE (case rq_confirmation_jwk q of None \<Rightarrow> returnE c
               | Some jwk \<Rightarrow> bindE (liftE (public_jwk_thumbprint lib jwk)) (\<lambda>t.
                   returnE (dict_set ''cnf'' (JObj [(''jkt'', JStr t)]) c))) f
     = bindE (liftE (thumbprint_of lib q)) (\<lambda>cnf. f (case cnf of None \<Rightarrow> c
         | Some t \<Rightarrow> dict_set ''cnf'' (JObj [(''jkt'', JStr t)]) c))"
    for c and f :: "json dict \<Rightarrow> ('r session_manager, string) prog"
    by (auto simp: thumbprint_of_def bindE_def liftE_def returnE_def split: option.splits sum.splits)
  have out: "bindE (getE sm_rotation_index) (\<lambda>index.
        thenE (case rq_rotation_key q of None \<Rightarrow> returnE ()
               | Some k \<Rightarrow> (case index k of None \<Rightarrow> returnE () | Some old \<Rightarrow> revoke_jti cfg old None)) p)
     = thenE (rotate_out cfg q) p" for p :: "('r session_manager, string) prog"
    by (simp add: rotate_out_def thenE_def bindE_assoc)
  show ?thesis
    using assms unfolding issue_token_def cnf out rotate_in_def [symmetric] expiry_of_def [symmetric]
      full_payload_def [symmetric] Let_def by simp
qed

lemma session_reads:
  "bindE time_now f m = f (sm_clock m (sm_ticks m)) (m\<lparr>sm_ticks := Suc (sm_ticks m)\<rparr>)"
  "bindE uuid4 g m = g (sm_uuids m (sm_uuid_ticks m)) (snd (uuid4 m))"
  "thenE (purge_expired_revocations now) p m = p (m\<lparr>sm_revoked_jtis := drop_expired now (sm_revoked_jtis m)\<rparr>)"
  by (simp_all add: session_defs)

lemma issue_token_Inr:
  assumes "issue_token lib cfg q m = (Inr token, m')"
  obtains key cnf u where "signing_key cfg = Inr key" "thumbprint_of lib q = Inr cnf"
    "u = sm_uuids m (sm_uuid_ticks m)"
    "jwt_encode lib (full_payload q (str_uuid u) (sm_clock m (sm_ticks m)) (expiry_of cfg q) cnf)
       key (token_algorithm cfg) [] = Inr token"
    "m' = snd (rotate_in q (str_uuid u) (snd (uuid4 (snd (rotate_out cfg q
       (m\<lparr>sm_ticks := Suc (sm_ticks m), sm_revoked_jtis := drop_expired (sm_clock m (sm_ticks m)) (sm_revoked_jtis m)\<rparr>))))))"
proof -
  have ne: "rq_agent_type q \<noteq> '''' \<and> rq_requester_id q \<noteq> ''''"
    using assms by (auto simp: issue_token_def raiseE_def split: if_splits)
  let ?m = "m\<lparr>sm_ticks := Suc (sm_ticks m), sm_revoked_jtis := drop_expired (sm_clock m (sm_ticks m)) (sm_revoked_jtis m)\<rparr>"
  obtain m2 where m2: "rotate_out cfg q ?m = (Inr (), m2)"
    by (cases "rq_rotation_key q"; cases "sm_rotation_index m (the (rq_rotation_key q))")
       (simp_all add: rotate_out_def revoke_jti_def session_defs)
  have same: "sm_uuids m2 (sm_uuid_ticks m2) = sm_uuids m (sm_uuid_ticks m)"
    using m2 by (cases "rq_rotation_key q"; cases "sm_rotation_index m (the (rq_rotation_key q))")
       (auto simp: rotate_out_def revoke_jti_def session_defs)
  have "bindE (liftE (thumbprint_of lib q)) (\<lambda>cnf.
      bindE (liftE (signing_key cfg)) (\<lambda>key.
      bindE (liftE (jwt_encode lib (full_payload q (str_uuid (sm_uuids m (sm_uuid_ticks m))) (sm_clock m (sm_ticks m))
          (expiry_of cfg q) cnf) key (token_algorithm cfg) [])) (\<lambda>token.
      thenE (rotate_in q (str_uuid (sm_uuids m (sm_uuid_ticks m)))) (returnE token)))) (snd (uuid4 m2)) = (Inr token, m')"
    using assms ne m2 same
    by (simp add: issue_token_steps session_reads thenE_ok)
  then obtain cnf key where "thumbprint_of lib q = Inr cnf" "signing_key cfg = Inr key"
      "jwt_encode lib (full_payload q (str_uuid (sm_uuids m (sm_uuid_ticks m))) (sm_clock m (sm_ticks m))
          (expiry_of cfg q) cnf) key (token_algorithm cfg) [] = Inr token"
      "m' = snd (rotate_in q (str_uuid (sm_uuids m (sm_uuid_ticks m))) (snd (uuid4 m2)))"
    by (auto simp: bindE_Inr thenE_def liftE_def returnE_def)
  with that [of key cnf] m2 show ?thesis by simp
qed


lemma drop_expired_None [simp]: "entries k = None \<Longrightarrow> drop_expired now entries k = None"
  by (simp add: drop_expired_def)

lemma drop_expired_live: "entries k = Some e \<Longrightarrow> now < e \<Longrightarrow> drop_expired now entries k = Some e"
  by (simp add: drop_expired_def)

lemma full_payload_valid: "claims_valid (full_payload q jti t n cnf) now"
  by (cases cnf) (simp_all add: claims_valid_def full_payload_def token_payload_def)

text \<open>What the library decodes an issued token to.\<close>

lemma issued_token_decodes:
  assumes "jose_documented lib pair" "keys_ready lib cfg pair" "issue_token lib cfg q m = (Inr token, m1)"
  defines "p \<equiv> full_payload q (str_uuid (sm_uuids m (sm_uuid_ticks m))) (sm_clock m (sm_ticks m)) (expiry_of cfg q)"
  obtains cnf vk where "thumbprint_of lib q = Inr cnf" "verification_key lib cfg = Inr vk"
    "\<And>now. \<lfloor>now\<rfloor> \<le> trunc (sm_clock m (sm_ticks m) + of_int (expiry_of cfg q)) \<Longrightarrow>
       jwt_decode lib token vk (token_algorithm cfg) now = Inr (p cnf)"
    "\<And>now. \<not> \<lfloor>now\<rfloor> \<le> trunc (sm_clock m (sm_ticks m) + of_int (expiry_of cfg q)) \<Longrightarrow>
       \<exists>msg. jwt_decode lib token vk (token_algorithm cfg) now = Inl (exn_of ExpiredSignatureError msg)"
proof -
  obtain key cnf where issue: "signing_key cfg = Inr key" "thumbprint_of lib q = Inr cnf"
      "jwt_encode lib (p cnf) key (token_algorithm cfg) [] = Inr token"
    using issue_token_Inr [OF assms(3)] unfolding p_def by metis
  obtain vk where vk: "verification_key lib cfg = Inr vk" "pair key vk (token_algorithm cfg)"
    using assms(2) issue(1) by (auto simp: keys_ready_def)
  have dec: "if live_at (p cnf) now then jwt_decode lib token vk (token_algorithm cfg) now = Inr (p cnf)
      else \<exists>m. jwt_decode lib token vk (token_algorithm cfg) now = Inl (exn_of ExpiredSignatureError m)" for now
    using assms(1) issue(3) vk(2) full_payload_valid unfolding jose_documented_def p_def by blast
  have live: "live_at (p cnf) now \<longleftrightarrow> \<lfloor>now\<rfloor> \<le> trunc (sm_clock m (sm_ticks m) + of_int (expiry_of cfg q))" for now
    by (simp add: live_at_def p_def)
  show ?thesis
    using that [OF issue(2) vk(1)] dec unfolding live by presburger
qed

text \<open>
  (C28) A token that was issued and is not revoked validates, at any later manager, to exactly the
  claims that were requested, with a fresh identifier, the time of issue and the requested (or
  default) expiry, until the whole second of its expiry has passed; from then on it is refused with
  \<open>TokenExpiredError\<close>. The JWT library is assumed to behave as documented, checks of the registered
  claims included, which an issued payload passes at every time.
\<close>

theorem issued_token_validates:
  assumes "jose_documented lib pair" and "keys_ready lib cfg pair"
    and "issue_token lib cfg q m = (Inr token, m1)"
    and "sm_revoked_jtis m2 (str_uuid (sm_uuids m (sm_uuid_ticks m))) = None"
  shows "\<exists>cnf. thumbprint_of lib q = Inr cnf \<and>
    (if \<lfloor>sm_clock m2 (sm_ticks m2)\<rfloor> \<le> trunc (sm_clock m (sm_ticks m) + of_int (expiry_of cfg q))
     then validate_token lib cfg token m2 =
       (Inr (claims_for q (str_uuid (sm_uuids m (sm_uuid_ticks m))) (sm_clock m (sm_ticks m))
          (expiry_of cfg q) cnf), after_validation m2)
     else \<exists>c. fst (validate_token lib cfg token m2)
        = Inl (Exn TokenExpiredError ''Session token has expired'' c))"
proof -
  obtain cnf vk where d: "thumbprint_of lib q = Inr cnf" "verification_key lib cfg = Inr vk"
      "\<And>now. \<lfloor>now\<rfloor> \<le> trunc (sm_clock m (sm_ticks m) + of_int (expiry_of cfg q)) \<Longrightarrow> jwt_decode lib token vk (token_algorithm cfg) now =
        Inr (full_payload q (str_uuid (sm_uuids m (sm_uuid_ticks m))) (sm_clock m (sm_ticks m)) (expiry_of cfg q) cnf)"
      "\<And>now. \<not> \<lfloor>now\<rfloor> \<le> trunc (sm_clock m (sm_ticks m) + of_int (expiry_of cfg q)) \<Longrightarrow>
        \<exists>msg. jwt_decode lib token vk (token_algorithm cfg) now = Inl (exn_of ExpiredSignatureError msg)"
    using issued_token_decodes [OF assms(1-3)] by metis
  let ?now = "sm_clock m2 (sm_ticks m2)"
  show ?thesis
  proof (cases "\<lfloor>?now\<rfloor> \<le> trunc (sm_clock m (sm_ticks m) + of_int (expiry_of cfg q))")
    case True
    then show ?thesis
      using d(1) assms(4) validate_token_decoded [OF d(2) d(3) [OF True], of "str_uuid (sm_uuids m (sm_uuid_ticks m))"]
      by (simp add: token_claims_of_payload) (simp add: after_validation_def)
  next
    case False
    then show ?thesis
      using d(1) d(4) [OF False] validate_token_expired [OF d(2), of token m2] by fastforce
  qed
qed


section \<open>Revocation holds until the token's end\<close>

text \<open>The operations of a manager as data, and what running one leaves, whether it returns or raises.\<close>

datatype session_op =
    Issue token_request
  | Validate string
  | IssueProof string "json dict" string string "string option" "string option" "int option" "string option"
  | ValidateProof string string string "string option" "string option" "rat option"
  | ValidateSender string string string string "string option" "rat option"
  | IsRevoked string
  | RevokeJti string "rat option"
  | RevokeToken string

fun run_session :: "'r token_libs \<Rightarrow> settings \<Rightarrow> session_op \<Rightarrow> 'r session_manager \<Rightarrow> 'r session_manager" where
  "run_session lib cfg (Issue q) m = snd (issue_token lib cfg q m)"
| "run_session lib cfg (Validate token) m = snd (validate_token lib cfg token m)"
| "run_session lib cfg (IssueProof pem jwk meth url tok nonce iat pj) m = snd (issue_dpop_proof lib pem jwk meth url tok nonce iat pj m)"
| "run_session lib cfg (ValidateProof prf meth url tok nonce now) m = snd (validate_dpop_proof lib cfg prf meth url tok nonce now m)"
| "run_session lib cfg (ValidateSender token prf meth url nonce now) m =
     snd (validate_sender_constrained_token lib cfg token prf meth url nonce now m)"
| "run_session lib cfg (IsRevoked j) m = snd (is_revoked j m)"
| "run_session lib cfg (RevokeJti j x) m = snd (revoke_jti cfg j x m)"
| "run_session lib cfg (RevokeToken token) m = snd (revoke_token lib cfg token m)"

definition session_step :: "'r token_libs \<Rightarrow> settings \<Rightarrow> 'r session_manager \<Rightarrow> 'r session_manager \<Rightarrow> bool" where
  "session_step lib cfg m m' \<longleftrightarrow> (\<exists>x. m' = run_session lib cfg x m)"

text \<open>
  The revocations that overwrite the entry of \<open>jti\<close> with an end before \<open>e\<close>: \<open>revoke_jti\<close> with an earlier end, and
  \<open>revoke_token\<close> of a token that names \<open>jti\<close> and does not carry an \<open>exp\<close> of at least \<open>e\<close>.
\<close>

fun shortens :: "'r token_libs \<Rightarrow> string \<Rightarrow> rat \<Rightarrow> session_op \<Rightarrow> bool" where
  "shortens lib jti e (RevokeJti j x) \<longleftrightarrow> j = jti \<and> (\<exists>t. x = Some t \<and> t < e)"
| "shortens lib jti e (RevokeToken token) \<longleftrightarrow> (\<exists>c v. jwt_get_unverified_claims lib token = Inr c \<and> map_of c ''jti'' = Some v \<and>
     json_str (float_repr lib) v = jti \<and> \<not> (\<exists>x. map_of c ''exp'' = Some (JNum x) \<and> e \<le> x))"
| "shortens lib jti e _ \<longleftrightarrow> False"

definition refused_until :: "settings \<Rightarrow> string \<Rightarrow> rat \<Rightarrow> 'r session_manager \<Rightarrow> bool" where
  "refused_until cfg jti e m \<longleftrightarrow> mono (sm_clock m) \<and>
     (e \<le> sm_clock m (sm_ticks m) \<or>
      (\<exists>x. sm_revoked_jtis m jti = Some x \<and> e \<le> x) \<and>
      e \<le> sm_clock m (sm_ticks m) + of_int (token_expiry_seconds cfg))"

lemma clock_tick: "mono c \<Longrightarrow> (c :: nat \<Rightarrow> rat) n \<le> c (Suc n)"
  by (simp add: monoD)

lemma refused_tick:
  "refused_until cfg jti e m \<Longrightarrow> refused_until cfg jti e (m\<lparr>sm_ticks := Suc (sm_ticks m)\<rparr>)"
  using clock_tick [of "sm_clock m" "sm_ticks m"] unfolding refused_until_def by auto

lemma refused_purge:
  assumes "refused_until cfg jti e m"
  shows "refused_until cfg jti e (m\<lparr>sm_ticks := Suc (sm_ticks m),
     sm_revoked_jtis := drop_expired (sm_clock m (sm_ticks m)) (sm_revoked_jtis m)\<rparr>)"
proof (cases "e \<le> sm_clock m (sm_ticks m)")
  case True
  then show ?thesis
    using assms clock_tick [of "sm_clock m" "sm_ticks m"] unfolding refused_until_def by auto
next
  case False
  then obtain x where "sm_revoked_jtis m jti = Some x" "e \<le> x"
    using assms by (auto simp: refused_until_def)
  then show ?thesis
    using assms False clock_tick [of "sm_clock m" "sm_ticks m"] drop_expired_live [of "sm_revoked_jtis m" jti x]
    unfolding refused_until_def by auto
qed

lemma refused_time_now: "keepsE (refused_until cfg jti e) time_now"
  by (simp add: keepsE_def time_now_def refused_tick)

lemma refused_uuid4: "keepsE (refused_until cfg jti e) uuid4"
  by (simp add: keepsE_def uuid4_def refused_until_def)

lemma refused_time_purge:
  fixes f :: "rat \<Rightarrow> ('r session_manager, 'x) prog"
  assumes "\<And>now. keepsE (refused_until cfg jti e) (f now)"
  shows "keepsE (refused_until cfg jti e) (bindE time_now (\<lambda>now. thenE (purge_expired_revocations now) (f now)))"
  unfolding keepsE_def
proof (intro allI impI)
  fix m :: "'r session_manager"
  assume "refused_until cfg jti e m"
  from refused_purge [OF this] keepsE_D [OF assms]
  show "refused_until cfg jti e (snd (bindE time_now (\<lambda>now. thenE (purge_expired_revocations now) (f now)) m))"
    by (simp add: session_reads)
qed

lemma refused_revoke_jti: "keepsE (refused_until cfg jti e) (revoke_jti cfg j None)"
  unfolding keepsE_def
proof (intro allI impI)
  fix m
  assume m: "refused_until cfg jti e m"
  then have "e \<le> sm_clock m (sm_ticks m) \<or> e \<le> sm_clock m (sm_ticks m) + of_int (token_expiry_seconds cfg)"
    by (auto simp: refused_until_def)
  then show "refused_until cfg jti e (snd (revoke_jti cfg j None m))"
    using refused_tick [OF m]
    by (auto simp: revoke_jti_def session_defs refused_until_def)
qed

lemma refused_revoke_later:
  "(j = jti \<Longrightarrow> e \<le> x) \<Longrightarrow> keepsE (refused_until cfg jti e) (revoke_jti cfg j (Some x))"
  by (auto simp: keepsE_def revoke_jti_def session_defs refused_until_def)

lemma refused_store [simp]: "refused_until cfg jti e (m\<lparr>sm_replay_store := st\<rparr>) = refused_until cfg jti e m"
  by (simp add: refused_until_def)

lemma refused_replay: "keepsE (refused_until cfg jti e) (replay_register lib j ttl)"
proof -
  have "refused_until cfg jti e (m\<lparr>sm_replay_store := st, sm_ticks := Suc (sm_ticks m)\<rparr>)"
    if "refused_until cfg jti e m" for m st
    using refused_tick [of cfg jti e "m\<lparr>sm_replay_store := st\<rparr>"] that by simp
  then show ?thesis
    by (auto simp: keepsE_def replay_register_def Let_def split: prod.splits replay_store.splits)
qed

lemmas refused_intros = keeps_intros refused_time_purge refused_time_now refused_uuid4 refused_revoke_jti refused_replay

lemma refused_is_revoked: "keepsE (refused_until cfg jti e) (is_revoked j)"
  unfolding is_revoked_def by (intro refused_time_purge keeps_intros)

lemma refused_rotate: "keepsE (refused_until cfg jti e) (rotate_out cfg q)" "keepsE (refused_until cfg jti e) (rotate_in q j)"
  unfolding rotate_out_def rotate_in_def
  by (intro refused_revoke_jti keeps_intros; simp add: refused_until_def)+

lemma refused_issue: "keepsE (refused_until cfg jti e) (issue_token lib cfg q)"
proof (cases "rq_agent_type q = [] \<or> rq_requester_id q = []")
  case True
  then show ?thesis by (simp add: issue_token_def keepsE_pure)
next
  case False
  then show ?thesis
    by (simp only: issue_token_steps de_Morgan_disj not_False_eq_True)
       (intro refused_time_purge refused_rotate refused_uuid4 keeps_intros)
qed

lemma refused_validate: "keepsE (refused_until cfg jti e) (validate_token lib cfg token)"
proof -
  have "keepsE (refused_until cfg jti e) (revocation_test v)" for v
    unfolding revocation_test_def by (cases v) (auto intro!: refused_is_revoked keeps_intros)
  then show ?thesis
    unfolding validate_token_def by (intro refused_time_purge refused_time_now keeps_intros)
qed

lemma refused_proof: "keepsE (refused_until cfg jti e) (issue_dpop_proof lib pem jwk meth url tok nonce iat pj)"
  unfolding issue_dpop_proof_def
  by (auto intro!: refused_time_now refused_uuid4 keeps_intros split: option.splits list.splits)

lemma refused_dpop: "keepsE (refused_until cfg jti e) (validate_dpop_proof lib cfg prf meth url tok nonce now)"
  unfolding validate_dpop_proof_def proof_error_def Let_def
  by (intro refused_time_now refused_replay keeps_intros)

lemma refused_sender:
  "keepsE (refused_until cfg jti e) (validate_sender_constrained_token lib cfg token prf meth url nonce now)"
  unfolding validate_sender_constrained_token_def
  by (intro refused_validate refused_dpop keeps_intros)

lemma refused_revoke_token:
  assumes "\<not> shortens lib jti e (RevokeToken token)"
  shows "keepsE (refused_until cfg jti e) (revoke_token lib cfg token)"
proof (cases "\<exists>c v. jwt_get_unverified_claims lib token = Inr c \<and> map_of c ''jti'' = Some v \<and> json_str (float_repr lib) v = jti")
  case True
  then obtain c v x where "jwt_get_unverified_claims lib token = Inr c" "map_of c ''jti'' = Some v"
      "map_of c ''exp'' = Some (JNum x)" "e \<le> x"
    using assms by auto
  then show ?thesis
    by (auto intro!: refused_time_now refused_revoke_later keeps_intros simp: revoke_token_def dict_get_def py_float_def Let_def)
next
  case False
  then show ?thesis
    unfolding revoke_token_def Let_def
    by (auto intro!: refused_time_now refused_revoke_later keeps_intros simp: dict_get_def split: sum.splits option.splits)
qed

lemma refused_op:
  assumes "refused_until cfg jti e m" and "\<not> shortens lib jti e x"
  shows "refused_until cfg jti e (run_session lib cfg x m)"
proof (cases x)
  case (RevokeJti j t)
  then show ?thesis
    using assms keepsE_D [OF refused_revoke_jti] keepsE_D [OF refused_revoke_later] by (cases t) fastforce+
qed (use assms in \<open>auto intro: keepsE_D refused_issue refused_validate refused_proof refused_dpop refused_sender
      refused_is_revoked refused_revoke_token simp del: shortens.simps(2)\<close>)

interpretation session_sys: invariant_system "\<lambda>m. refused_until cfg jti e m"
  "\<lambda>m m'. \<exists>x. \<not> shortens lib jti e x \<and> m' = run_session lib cfg x m" "refused_until cfg jti e"
  for lib cfg jti e
  by unfold_locales (auto intro: refused_op)

lemma refused_ops:
  "refused_until cfg jti e m \<Longrightarrow> list_all (\<lambda>x. \<not> shortens lib jti e x) ops \<Longrightarrow> refused_until cfg jti e (fold (run_session lib cfg) ops m)"
  by (induction ops arbitrary: m) (auto intro: refused_op)


text \<open>Whatever the token decodes to carries the identifier \<open>jti\<close>.\<close>

definition token_names :: "'r token_libs \<Rightarrow> settings \<Rightarrow> string \<Rightarrow> string \<Rightarrow> bool" where
  "token_names lib cfg token jti \<longleftrightarrow> (\<forall>vk t p. jwt_decode lib token vk (token_algorithm cfg) t = Inr p \<longrightarrow>
     map_of p ''jti'' = Some (JStr jti))"

lemma refused_validation_fails:
  assumes "refused_until cfg jti e m" and "sm_clock m (Suc (Suc (sm_ticks m))) < e"
    and "token_names lib cfg token jti"
  shows "\<exists>err. fst (validate_token lib cfg token m) = Inl err"
proof (cases "\<exists>vk p. verification_key lib cfg = Inr vk \<and>
    jwt_decode lib token vk (token_algorithm cfg) (sm_clock m (sm_ticks m)) = Inr p")
  case True
  then obtain vk p where dec: "verification_key lib cfg = Inr vk"
      "jwt_decode lib token vk (token_algorithm cfg) (sm_clock m (sm_ticks m)) = Inr p" by blast
  have mono: "sm_clock m (sm_ticks m) \<le> sm_clock m (Suc (sm_ticks m))"
      "sm_clock m (Suc (sm_ticks m)) \<le> sm_clock m (Suc (Suc (sm_ticks m)))"
    using assms(1) by (simp_all add: refused_until_def clock_tick)
  then obtain x where x: "sm_revoked_jtis m jti = Some x" "e \<le> x"
    using assms(1,2) by (auto simp: refused_until_def)
  have "drop_expired (sm_clock m (Suc (sm_ticks m))) (sm_revoked_jtis m) jti = Some x"
    using x mono assms(2) by (intro drop_expired_live) auto
  then have "sm_revoked_jtis (after_validation m) jti \<noteq> None"
    using x mono assms(2) by (simp add: after_validation_def drop_expired_live)
  then show ?thesis using validate_token_decoded [OF dec] dec(2) assms(3) by (simp add: token_names_def)
next
  case False
  then show ?thesis
    using validate_token_Inr [of lib cfg token m]
    by (metis (no_types, lifting) old.sum.exhaust prod.collapse)
qed

text \<open>
  (C27) A revoked token stays refused. Let its identifier be on the revocation list until \<open>e\<close> or later,
  where \<open>e\<close> is at most one default token lifetime ahead (a revocation without an end of its own, as
  rotation makes it, sets the end to that). Then no sequence of operations of the manager without a
  revocation of the same identifier that ends before \<open>e\<close> lets the token validate before the clock
  reaches \<open>e\<close>. (Such a revocation does, as is shown below.)
\<close>

theorem revoked_token_stays_refused:
  assumes "mono (sm_clock m)" and "sm_revoked_jtis m jti = Some x" and "e \<le> x"
    and "e \<le> sm_clock m (sm_ticks m) + of_int (token_expiry_seconds cfg)"
    and "list_all (\<lambda>op. \<not> shortens lib jti e op) ops" and "m' = fold (run_session lib cfg) ops m"
    and "sm_clock m' (Suc (Suc (sm_ticks m'))) < e"
    and "token_names lib cfg token jti"
  shows "\<exists>err. fst (validate_token lib cfg token m') = Inl err"
proof -
  have "refused_until cfg jti e m"
    using assms(1-4) by (auto simp: refused_until_def)
  then show ?thesis
    using refused_validation_fails [OF _ assms(7,8)] refused_ops [OF _ assms(5)] assms(6) by blast
qed

lemma rotation_step:
  assumes "mono (sm_clock m)" and "rq_rotation_key q = Some k" and "sm_rotation_index m k = Some old"
    and "issue_token lib cfg q m = (Inr token, m1)"
  shows "refused_until cfg old (sm_clock m (Suc (sm_ticks m)) + of_int (token_expiry_seconds cfg)) m1
    \<and> sm_rotation_index m1 k = Some (str_uuid (sm_uuids m (sm_uuid_ticks m)))"
proof -
  obtain u where u: "u = sm_uuids m (sm_uuid_ticks m)" and m1: "m1 = snd (rotate_in q (str_uuid u) (snd (uuid4 (snd (rotate_out cfg q
       (m\<lparr>sm_ticks := Suc (sm_ticks m), sm_revoked_jtis := drop_expired (sm_clock m (sm_ticks m)) (sm_revoked_jtis m)\<rparr>))))))"
    using issue_token_Inr [OF assms(4)] by metis
  have "sm_clock m (Suc (sm_ticks m)) \<le> sm_clock m (Suc (Suc (sm_ticks m)))"
    using assms(1) by (simp add: clock_tick)
  then show ?thesis
    using assms(1-3) u m1
    by (simp add: rotate_in_def rotate_out_def revoke_jti_def session_defs refused_until_def)
qed

text \<open>
  Rotation: issuing with a rotation key that stands for an earlier token makes the key stand
  for the new one, and the earlier token is refused for the default token lifetime from then on, unless
  a revocation shortens that.
\<close>

theorem rotation_refuses_previous:
  assumes "mono (sm_clock m)" and "rq_rotation_key q = Some k" and "sm_rotation_index m k = Some old"
    and "issue_token lib cfg q m = (Inr token, m1)"
    and "list_all (\<lambda>op. \<not> shortens lib old (sm_clock m (Suc (sm_ticks m)) + of_int (token_expiry_seconds cfg)) op) ops"
    and "m' = fold (run_session lib cfg) ops m1"
    and "sm_clock m' (Suc (Suc (sm_ticks m'))) < sm_clock m (Suc (sm_ticks m)) + of_int (token_expiry_seconds cfg)"
    and "token_names lib cfg old_token old"
  shows "sm_rotation_index m1 k = Some (str_uuid (sm_uuids m (sm_uuid_ticks m))) \<and>
    (\<exists>err. fst (validate_token lib cfg old_token m') = Inl err)"
  using rotation_step [OF assms(1-4)] refused_validation_fails [OF _ assms(7,8)] refused_ops [OF _ assms(5)] assms(6) by blast

text \<open>
  (C38) A revocation can be lifted by anyone who knows the identifier: \<open>revoke_token\<close> reads \<open>jti\<close> and
  \<open>exp\<close> without checking a signature and overwrites the entry, so a made-up token with the same
  \<open>jti\<close> and an \<open>exp\<close> in the past ends the revocation at once.
\<close>

theorem unsigned_revocation_lifts:
  assumes "sm_revoked_jtis m jti = Some x" and "jwt_get_unverified_claims lib forged = Inr c"
    and "map_of c ''jti'' = Some (JStr jti)" and "map_of c ''exp'' = Some (JNum y)"
    and "y \<le> sm_clock m (Suc (sm_ticks m))"
  shows "fst (thenE (revoke_token lib cfg forged) (is_revoked jti) m) = Inr False"
  using assms
  by (simp add: revoke_token_def revoke_jti_def session_defs dict_get_def json_str_def py_float_def
      drop_expired_def)


section \<open>A library with the documented behaviour\<close>

text \<open>
  A JWT library over a fixed table of tokens \<open>(token, claims, signing key, algorithm, headers)\<close>, for
  the witnesses. HS keys verify themselves; the public half of \<open>k\<close> is \<open>pub-k\<close>.
\<close>

type_synonym jwt_table = "(string \<times> json dict \<times> string \<times> string \<times> json dict) list"

definition demo_pair :: "string \<Rightarrow> string \<Rightarrow> string \<Rightarrow> bool" where
  "demo_pair k vk alg \<longleftrightarrow> vk = (if starts_with_HS alg then k else ''pub-'' @ k)"

definition table_libs :: "jwt_table \<Rightarrow> (string \<rightharpoonup> rat) token_libs" where
  "table_libs tbl =
     \<lparr>jwt_encode = (\<lambda>c k a h. case find (\<lambda>(t, x). x = (c, k, a, h)) tbl of
        Some (t, _) \<Rightarrow> Inr t | None \<Rightarrow> Inl (exn_of JWTError ''table'')),
      jwt_decode = (\<lambda>t vk a now. case map_of tbl t of
        Some (c, k, a', h) \<Rightarrow> if a = a' \<and> demo_pair k vk a
          then (if live_at c now then Inr c else Inl (exn_of ExpiredSignatureError ''Signature has expired.''))
          else Inl (exn_of JWTError ''Signature verification failed.'')
      | None \<Rightarrow> Inl (exn_of JWTError ''table'')),
      jwt_get_unverified_header = (\<lambda>t. case map_of tbl t of
        Some (c, k, a, h) \<Rightarrow> Inr (dict_update [(''alg'', JStr a), (''typ'', JStr ''JWT'')] h)
      | None \<Rightarrow> Inl (exn_of JWTError ''table'')),
      jwt_get_unverified_claims = (\<lambda>t. case map_of tbl t of
        Some (c, _) \<Rightarrow> Inr c | None \<Rightarrow> Inl (exn_of JWTError ''table'')),
      ec_public_pem = (\<lambda>curve x y. Inr ''pub-k''),
      rsa_public_pem = (\<lambda>e n. Inr ''pub-k''),
      public_pem_of_private = (\<lambda>k. Inr (''pub-'' @ k)),
      float_of_string = (\<lambda>_. None), float_repr = (\<lambda>q. show_int \<lfloor>q\<rfloor>),
      redis_client_set = map_redis_set\<rparr>"

lemma find_Some_in: "find P xs = Some x \<Longrightarrow> x \<in> set xs \<and> P x"
  by (auto simp: find_Some_iff)

lemma table_libs_documented: "distinct (map fst tbl) \<Longrightarrow> jose_documented (table_libs tbl) demo_pair"
proof -
  assume d: "distinct (map fst tbl)"
  have look: "map_of tbl token = Some (claims, key, alg, hs)"
    if "jwt_encode (table_libs tbl) claims key alg hs = Inr token" for claims key alg hs token
    using that map_of_eq_Some_iff [OF d]
    by (auto simp: table_libs_def split: option.splits dest!: find_Some_in)
  show ?thesis
    unfolding jose_documented_def
  proof (intro allI impI)
    fix claims key alg hs token
    assume "jwt_encode (table_libs tbl) claims key alg hs = Inr token"
    from look [OF this] show "jwt_get_unverified_claims (table_libs tbl) token = Inr claims \<and>
        jwt_get_unverified_header (table_libs tbl) token
          = Inr (dict_update [(''alg'', JStr alg), (''typ'', JStr ''JWT'')] hs) \<and>
        (\<forall>vk now. demo_pair key vk alg \<and> claims_valid claims now \<longrightarrow>
           (if live_at claims now then jwt_decode (table_libs tbl) token vk alg now = Inr claims
            else \<exists>m. jwt_decode (table_libs tbl) token vk alg now = Inl (exn_of ExpiredSignatureError m)))"
      by (simp add: table_libs_def)
  qed
qed

text \<open>Two requests with one rotation key, and a clock that advances ten seconds per reading.\<close>

definition demo_uuids :: "nat \<Rightarrow> uuid" where
  "demo_uuids n = UUID (if n = 0 then ''00000000000040008000000000000001'' else ''00000000000040008000000000000002'')"

definition demo_request :: token_request where
  "demo_request = \<lparr>rq_agent_type = ''hr'', rq_requester_id = ''alice'', rq_metadata = [], rq_session_id = None,
     rq_allowed_actions = [''llm.complete''], rq_role = None, rq_expires_in_seconds = None,
     rq_rotation_key = Some ''llm:t1'', rq_task_id = Some ''t1'', rq_confirmation_jwk = None\<rparr>"

definition demo_manager :: "(string \<rightharpoonup> rat) session_manager" where
  "demo_manager = \<lparr>sm_revoked_jtis = Map.empty, sm_rotation_index = Map.empty,
     sm_replay_store = InMemoryDPoPReplayStore Map.empty, sm_clock = (\<lambda>n. 10 * of_nat n), sm_ticks = 0,
     sm_uuids = demo_uuids, sm_uuid_ticks = 0\<rparr>"

definition demo_table :: jwt_table where
  "demo_table =
     [(''tok-1'', token_payload demo_request (str_uuid (demo_uuids 0)) 0 900, token_secret_key default_settings, ''HS256'', []),
      (''tok-2'', token_payload demo_request (str_uuid (demo_uuids 1)) 10 900, token_secret_key default_settings, ''HS256'', []),
      (''forged'', [(''jti'', JStr (str_uuid (demo_uuids 0))), (''exp'', JNum 0)], ''other'', ''HS256'', [])]"

abbreviation demo_libs :: "(string \<rightharpoonup> rat) token_libs" where
  "demo_libs \<equiv> table_libs demo_table"

lemma demo_mono: "mono (\<lambda>n. 10 * of_nat n :: rat)"
  by (simp add: mono_def)

lemma demo_libs_documented: "jose_documented demo_libs demo_pair"
  by (rule table_libs_documented) (simp add: demo_table_def)

lemma demo_keys: "keys_ready demo_libs default_settings demo_pair"
  by (simp add: keys_ready_def signing_key_def verification_key_def default_settings_def starts_with_HS_def demo_pair_def)

lemma demo_encode:
  "jwt_encode demo_libs (token_payload demo_request (str_uuid (demo_uuids 0)) 0 900)
     (token_secret_key default_settings) ''HS256'' [] = Inr ''tok-1''"
  "jwt_encode demo_libs (token_payload demo_request (str_uuid (demo_uuids 1)) 10 900)
     (token_secret_key default_settings) ''HS256'' [] = Inr ''tok-2''"
proof -
  have "token_payload demo_request (str_uuid (demo_uuids 0)) 0 900 \<noteq> token_payload demo_request (str_uuid (demo_uuids 1)) 10 900"
    by (simp add: token_payload_def)
  then show "jwt_encode demo_libs (token_payload demo_request (str_uuid (demo_uuids 0)) 0 900)
     (token_secret_key default_settings) ''HS256'' [] = Inr ''tok-1''"
    "jwt_encode demo_libs (token_payload demo_request (str_uuid (demo_uuids 1)) 10 900)
     (token_secret_key default_settings) ''HS256'' [] = Inr ''tok-2''"
    by (simp_all add: table_libs_def demo_table_def)
qed

text \<open>The manager after the first issue, and after the second.\<close>

definition demo_issued :: "(string \<rightharpoonup> rat) session_manager" where
  "demo_issued = demo_manager\<lparr>sm_ticks := 1, sm_uuid_ticks := 1,
     sm_rotation_index := [''llm:t1'' \<mapsto> str_uuid (demo_uuids 0)]\<rparr>"

definition demo_rotated :: "(string \<rightharpoonup> rat) session_manager" where
  "demo_rotated = demo_manager\<lparr>sm_ticks := 3, sm_uuid_ticks := 2,
     sm_revoked_jtis := [str_uuid (demo_uuids 0) \<mapsto> 920],
     sm_rotation_index := [''llm:t1'' \<mapsto> str_uuid (demo_uuids 1)]\<rparr>"

lemma drop_expired_empty [simp]: "drop_expired now Map.empty = Map.empty"
  by (simp add: drop_expired_def fun_eq_iff)

lemma demo_issue: "issue_token demo_libs default_settings demo_request demo_manager = (Inr ''tok-1'', demo_issued)"
proof -
  have "rq_agent_type demo_request \<noteq> []" "rq_requester_id demo_request \<noteq> []"
    by (simp_all add: demo_request_def)
  moreover have "thumbprint_of demo_libs demo_request = Inr None" "expiry_of default_settings demo_request = 900"
      "signing_key default_settings = Inr (token_secret_key default_settings)" "token_algorithm default_settings = ''HS256''"
    by (simp_all add: thumbprint_of_def expiry_of_def demo_request_def default_settings_def signing_key_def starts_with_HS_def)
  ultimately show ?thesis
    using demo_encode(1)
    by (simp add: issue_token_steps demo_manager_def demo_issued_def rotate_out_def rotate_in_def session_defs
        full_payload_def demo_request_def [THEN arg_cong [where f = rq_rotation_key]])
qed

lemma demo_rotate: "issue_token demo_libs default_settings demo_request demo_issued = (Inr ''tok-2'', demo_rotated)"
proof -
  have "rq_agent_type demo_request \<noteq> []" "rq_requester_id demo_request \<noteq> []"
    by (simp_all add: demo_request_def)
  moreover have "thumbprint_of demo_libs demo_request = Inr None" "expiry_of default_settings demo_request = 900"
      "signing_key default_settings = Inr (token_secret_key default_settings)" "token_algorithm default_settings = ''HS256''"
      "token_expiry_seconds default_settings = 900"
    by (simp_all add: thumbprint_of_def expiry_of_def demo_request_def default_settings_def signing_key_def starts_with_HS_def)
  ultimately show ?thesis
    using demo_encode(2)
    by (simp add: issue_token_steps demo_manager_def demo_issued_def demo_rotated_def rotate_out_def rotate_in_def
        revoke_jti_def session_defs full_payload_def demo_request_def [THEN arg_cong [where f = rq_rotation_key]])
qed

lemma demo_names: "token_names demo_libs default_settings ''tok-1'' (str_uuid (demo_uuids 0))"
  by (simp add: token_names_def table_libs_def demo_table_def token_payload_def)

theorem issued_token_validates_witness:
  "validate_token demo_libs default_settings ''tok-1'' demo_issued =
     (Inr (claims_for demo_request (str_uuid (demo_uuids 0)) 0 900 None), after_validation demo_issued)"
proof -
  have "thumbprint_of demo_libs demo_request = Inr None" "expiry_of default_settings demo_request = 900"
    by (simp_all add: thumbprint_of_def expiry_of_def demo_request_def default_settings_def)
  then show ?thesis
    using issued_token_validates [OF demo_libs_documented demo_keys demo_issue, of demo_issued]
    by (simp add: demo_manager_def demo_issued_def)
qed

theorem revoked_token_stays_refused_witness:
  "\<exists>err. fst (validate_token demo_libs default_settings ''tok-1''
     (fold (run_session demo_libs default_settings) [IsRevoked ''x'', RevokeJti ''y'' (Some 0)] demo_rotated)) = Inl err"
  by (rule revoked_token_stays_refused [where m = demo_rotated and x = 920 and e = 910
        and ops = "[IsRevoked ''x'', RevokeJti ''y'' (Some 0)]", OF _ _ _ _ _ refl _ demo_names])
     (simp_all add: demo_rotated_def demo_manager_def demo_mono default_settings_def session_defs revoke_jti_def str_uuid_def demo_uuids_def Let_def)

theorem rotation_refuses_previous_witness:
  "sm_rotation_index demo_rotated ''llm:t1'' = Some (str_uuid (demo_uuids 1)) \<and>
    (\<exists>err. fst (validate_token demo_libs default_settings ''tok-1'' demo_rotated) = Inl err)"
proof -
  have "rq_rotation_key demo_request = Some ''llm:t1''" "mono (sm_clock demo_issued)"
      "sm_rotation_index demo_issued ''llm:t1'' = Some (str_uuid (demo_uuids 0))"
    by (simp_all add: demo_request_def demo_issued_def demo_manager_def demo_mono)
  from rotation_refuses_previous [OF this(2,1,3) demo_rotate, of "[]", OF _ refl _ demo_names]
  show ?thesis by (simp add: demo_rotated_def demo_issued_def demo_manager_def default_settings_def)
qed

theorem unsigned_revocation_lifts_witness:
  "fst (thenE (revoke_token demo_libs default_settings ''forged'') (is_revoked (str_uuid (demo_uuids 0))) demo_rotated)
     = Inr False"
  by (rule unsigned_revocation_lifts [where x = 920 and y = 0
        and c = "[(''jti'', JStr (str_uuid (demo_uuids 0))), (''exp'', JNum 0)]"])
     (simp_all add: demo_rotated_def demo_manager_def table_libs_def demo_table_def)


section \<open>Sender-constrained tokens\<close>

text \<open>What \<open>validate_dpop_proof\<close> has established when it returns.\<close>

definition proof_accepted ::
  "'r token_libs \<Rightarrow> settings \<Rightarrow> string \<Rightarrow> string \<Rightarrow> string \<Rightarrow> string option \<Rightarrow> string option \<Rightarrow> rat \<Rightarrow> json dict
     \<Rightarrow> dpop_proof_claims \<Rightarrow> bool" where
  "proof_accepted lib cfg prf http_method http_url access_token nonce current_time jwk c \<longleftrightarrow>
     (\<exists>header pem alg t payload. jwt_get_unverified_header lib prf = Inr header \<and>
        map_of header ''typ'' = Some (JStr ''dpop+jwt'') \<and> map_of header ''jwk'' = Some (JObj jwk) \<and>
        public_pem_from_jwk lib jwk = Inr pem \<and> jwt_decode lib prf pem alg t = Inr payload \<and>
        proof_claims_of lib payload = Inr c) \<and>
     upper (dp_htm c) = upper http_method \<and> dp_htu c = http_url \<and>
     current_time - of_int (dpop_proof_ttl_seconds cfg) \<le> of_int (dp_iat c) \<and>
     of_int (dp_iat c) \<le> current_time + of_int (dpop_clock_skew_seconds cfg) \<and>
     (nonce \<noteq> None \<longrightarrow> dp_nonce c = nonce) \<and>
     (\<forall>tok. access_token = Some tok \<longrightarrow> dp_ath c = Some (access_token_hash tok))"

lemma proof_problem_None:
  "proof_problem cfg c meth url tok nonce t = None \<longleftrightarrow>
     upper (dp_htm c) = upper meth \<and> dp_htu c = url \<and>
     t - of_int (dpop_proof_ttl_seconds cfg) \<le> of_int (dp_iat c) \<and>
     of_int (dp_iat c) \<le> t + of_int (dpop_clock_skew_seconds cfg) \<and>
     (nonce \<noteq> None \<longrightarrow> dp_nonce c = nonce) \<and>
     (\<forall>x. tok = Some x \<longrightarrow> dp_ath c = Some (access_token_hash x))"
  by (auto simp: proof_problem_def not_less)

lemma header_jwk_Inr: "header_jwk h = Inr d \<longleftrightarrow> map_of h ''jwk'' = Some (JObj d)"
  by (auto simp: header_jwk_def split: option.splits json.splits)

lemma unverified_header_Inr: "unverified_header lib prf = Inr h \<longleftrightarrow> jwt_get_unverified_header lib prf = Inr h"
  by (auto simp: unverified_header_def split: sum.splits if_splits)

text \<open>The time that a call with \<open>now\<close> works with, and the manager after reading it.\<close>

definition proof_time :: "rat option \<Rightarrow> 'r session_manager \<Rightarrow> rat" where
  "proof_time now m = (case now of Some t \<Rightarrow> t | None \<Rightarrow> sm_clock m (sm_ticks m))"

definition proof_start :: "rat option \<Rightarrow> 'r session_manager \<Rightarrow> 'r session_manager" where
  "proof_start now m = (case now of Some t \<Rightarrow> m | None \<Rightarrow> m\<lparr>sm_ticks := Suc (sm_ticks m)\<rparr>)"

lemma tryE_Inr_raise:
  "tryE p (\<lambda>e. if b e then raiseE (f e) else if d e then raiseE (g e) else raiseE e) s = (Inr x, t) \<longleftrightarrow> p s = (Inr x, t)"
  by (auto simp: tryE_def raiseE_def split: prod.splits sum.splits)

lemma validate_dpop_proof_Inr:
  assumes "validate_dpop_proof lib cfg prf meth url tok nonce now m = (Inr c, m')"
  shows "\<exists>jwk. proof_accepted lib cfg prf meth url tok nonce (proof_time now m) jwk c \<and>
     (\<exists>header. jwt_get_unverified_header lib prf = Inr header \<and> map_of header ''jwk'' = Some (JObj jwk)) \<and>
     replay_register lib (dp_jti c) (dpop_proof_ttl_seconds cfg)
       ((proof_start now m)\<lparr>sm_ticks := Suc (sm_ticks (proof_start now m))\<rparr>) = (Inr True, m')"
proof -
  have start: "(case now of Some t \<Rightarrow> returnE t | None \<Rightarrow> time_now) m = (Inr (proof_time now m), proof_start now m)"
    by (cases now) (simp_all add: proof_time_def proof_start_def time_now_def returnE_def)
  let ?m = "(proof_start now m)\<lparr>sm_ticks := Suc (sm_ticks (proof_start now m))\<rparr>"
  obtain header where header: "jwt_get_unverified_header lib prf = Inr header" "map_of header ''typ'' = Some (JStr ''dpop+jwt'')"
    and 1: "bindE (liftE (header_jwk header)) (\<lambda>public_jwk.
       bindE (liftE (public_pem_from_jwk lib public_jwk)) (\<lambda>public_pem.
       bindE (tryE (bindE time_now (\<lambda>t. liftE (jwt_decode lib prf public_pem (case map_of header ''alg'' of None \<Rightarrow> ''ES256'' | Some v \<Rightarrow> json_str (float_repr lib) v) t)))
               (\<lambda>e. if isinstance e ExpiredSignatureError then raiseE (Exn DPoPProofError ''DPoP proof has expired'' (Some e))
                    else if isinstance e JWTError then raiseE (Exn DPoPProofError ''DPoP proof signature validation failed'' (Some e))
                    else raiseE e)) (\<lambda>payload.
       bindE (liftE (proof_claims_of lib payload)) (\<lambda>c.
       case proof_problem cfg c meth url tok nonce (proof_time now m) of
         Some msg \<Rightarrow> proof_error msg
       | None \<Rightarrow>
           bindE (replay_register lib (dp_jti c) (dpop_proof_ttl_seconds cfg)) (\<lambda>fresh.
           if fresh then returnE c
           else raiseE (exn_of DPoPReplayError (''DPoP proof jti='' @ py_repr (dp_jti c) @ '' has already been used''))))))) (proof_start now m) = (Inr c, m')"
    using assms unfolding validate_dpop_proof_def Let_def
      bindE_ok [of "case now of Some t \<Rightarrow> returnE t | None \<Rightarrow> time_now" m, OF start]
    by (auto simp: bindE_Inr liftE_def unverified_header_Inr proof_error_def raiseE_def split: if_splits)
  obtain jwk pem t payload where more: "map_of header ''jwk'' = Some (JObj jwk)" "public_pem_from_jwk lib jwk = Inr pem"
      "jwt_decode lib prf pem (case map_of header ''alg'' of None \<Rightarrow> ''ES256'' | Some v \<Rightarrow> json_str (float_repr lib) v) t = Inr payload"
    and 2: "bindE (liftE (proof_claims_of lib payload)) (\<lambda>c.
       case proof_problem cfg c meth url tok nonce (proof_time now m) of
         Some msg \<Rightarrow> proof_error msg
       | None \<Rightarrow>
           bindE (replay_register lib (dp_jti c) (dpop_proof_ttl_seconds cfg)) (\<lambda>fresh.
           if fresh then returnE c
           else raiseE (exn_of DPoPReplayError (''DPoP proof jti='' @ py_repr (dp_jti c) @ '' has already been used'')))) ?m = (Inr c, m')"
    using 1 by (auto simp: bindE_Inr liftE_def header_jwk_Inr tryE_Inr_raise time_now_def)
  have "proof_claims_of lib payload = Inr c" "proof_problem cfg c meth url tok nonce (proof_time now m) = None"
      "replay_register lib (dp_jti c) (dpop_proof_ttl_seconds cfg) ?m = (Inr True, m')"
    using 2 by (auto simp: bindE_Inr liftE_def proof_error_def raiseE_def returnE_def split: option.splits if_splits)
  then show ?thesis
    using header more unfolding proof_accepted_def proof_problem_None by blast
qed

lemma validate_token_store: "keepsE (\<lambda>m. sm_replay_store m = st) (validate_token lib cfg token)"
proof -
  let ?I = "\<lambda>m. sm_replay_store m = st"
  have purge: "keepsE ?I time_now" "keepsE ?I (purge_expired_revocations t)" for t
    by (simp_all add: keepsE_def time_now_def purge_expired_revocations_def modifyE_def)
  moreover have "keepsE ?I (revocation_test v)" for v
    unfolding revocation_test_def is_revoked_def by (cases v) (auto intro!: purge keeps_intros)
  ultimately show ?thesis
    unfolding validate_token_def by (intro keeps_intros)
qed

lemma sender_constrained_Inr:
  assumes "validate_sender_constrained_token lib cfg token prf meth url nonce now m = (Inr claims, m')"
  shows "\<exists>jkt jwk c m1. tc_cnf claims = Some jkt \<and> public_jwk_thumbprint lib jwk = Inr jkt \<and>
     fst (validate_token lib cfg token m) = Inr claims \<and>
     proof_accepted lib cfg prf meth url (Some token) nonce (proof_time now (snd (validate_token lib cfg token m))) jwk c \<and>
     sm_replay_store m1 = sm_replay_store m \<and>
     replay_register lib (dp_jti c) (dpop_proof_ttl_seconds cfg) m1 = (Inr True, m')"
proof -
  obtain m0 jkt header jwk where tok: "validate_token lib cfg token m = (Inr claims, m0)" "tc_cnf claims = Some jkt"
      "jwt_get_unverified_header lib prf = Inr header" "map_of header ''jwk'' = Some (JObj jwk)"
      "public_jwk_thumbprint lib jwk = Inr jkt"
    and "\<exists>c. validate_dpop_proof lib cfg prf meth url (Some token) nonce now m0 = (Inr c, m')"
    using assms unfolding validate_sender_constrained_token_def
    by (auto simp: bindE_Inr thenE_def liftE_def raiseE_def returnE_def unverified_header_Inr header_jwk_Inr
        split: option.splits if_splits)
  then obtain c where c: "validate_dpop_proof lib cfg prf meth url (Some token) nonce now m0 = (Inr c, m')" by blast
  have "sm_replay_store m0 = sm_replay_store m"
    using keepsE_D [OF validate_token_store [of "sm_replay_store m" lib cfg token], of m] tok by simp
  let ?m1 = "(proof_start now m0)\<lparr>sm_ticks := Suc (sm_ticks (proof_start now m0))\<rparr>"
  have st: "sm_replay_store ?m1 = sm_replay_store m"
    using \<open>sm_replay_store m0 = _\<close> by (simp add: proof_start_def split: option.splits)
  have "proof_accepted lib cfg prf meth url (Some token) nonce (proof_time now m0) jwk c"
      "replay_register lib (dp_jti c) (dpop_proof_ttl_seconds cfg) ?m1 = (Inr True, m')"
    using validate_dpop_proof_Inr [OF c] tok by auto
  then show ?thesis
    using st tok by (metis fst_conv snd_conv)
qed

text \<open>
  (C25) A sender-constrained token is accepted only from the holder of its key: when the call
  returns, the token carries a thumbprint, the proof is a DPoP JWT whose embedded public key has
  that thumbprint and verifies its signature, it was made for this method, URL and access token
  (and nonce, if one is demanded), its time of issue lies in the window, and its identifier was
  unused in the replay store.
\<close>

theorem sender_constrained_sound:
  assumes "validate_sender_constrained_token lib cfg token prf meth url nonce now m = (Inr claims, m')"
  shows "\<exists>jkt jwk c m1. tc_cnf claims = Some jkt \<and> public_jwk_thumbprint lib jwk = Inr jkt \<and>
     fst (validate_token lib cfg token m) = Inr claims \<and>
     proof_accepted lib cfg prf meth url (Some token) nonce (proof_time now (snd (validate_token lib cfg token m))) jwk c \<and>
     sm_replay_store m1 = sm_replay_store m \<and>
     replay_register lib (dp_jti c) (dpop_proof_ttl_seconds cfg) m1 = (Inr True, m')"
  using assms by (rule sender_constrained_Inr)


section \<open>Single use of proofs\<close>

definition spent_until :: "string \<Rightarrow> rat \<Rightarrow> 'r session_manager \<Rightarrow> bool" where
  "spent_until jti e m \<longleftrightarrow> mono (sm_clock m) \<and>
     (\<exists>entries. sm_replay_store m = InMemoryDPoPReplayStore entries \<and>
        (e \<le> sm_clock m (sm_ticks m) \<or> (\<exists>x. entries jti = Some x \<and> e \<le> x)))"

lemma spent_tick: "spent_until jti e m \<Longrightarrow> spent_until jti e (m\<lparr>sm_ticks := Suc (sm_ticks m)\<rparr>)"
  using clock_tick [of "sm_clock m" "sm_ticks m"] unfolding spent_until_def by auto

lemma spent_other [simp]:
  "spent_until jti e (m\<lparr>sm_revoked_jtis := r\<rparr>) = spent_until jti e m"
  "spent_until jti e (m\<lparr>sm_rotation_index := i\<rparr>) = spent_until jti e m"
  "spent_until jti e (m\<lparr>sm_uuid_ticks := n\<rparr>) = spent_until jti e m"
  by (simp_all add: spent_until_def)

lemma spent_time_now: "keepsE (spent_until jti e) time_now"
  by (simp add: keepsE_def time_now_def spent_tick)

lemma spent_basic:
  "keepsE (spent_until jti e) uuid4" "keepsE (spent_until jti e) (purge_expired_revocations now)"
  "keepsE (spent_until jti e) (revoke_jti cfg j x)"
proof -
  show "keepsE (spent_until jti e) (revoke_jti cfg j x)"
    unfolding revoke_jti_def by (intro keeps_intros spent_time_now) simp
qed (simp_all add: keepsE_def uuid4_def purge_expired_revocations_def modifyE_def)

lemma spent_replay:
  fixes lib :: "'r token_libs"
  shows "keepsE (spent_until jti e) (replay_register lib j ttl)"
  unfolding keepsE_def
proof (intro allI impI)
  fix m :: "'r session_manager"
  assume m: "spent_until jti e m"
  then obtain entries where st: "sm_replay_store m = InMemoryDPoPReplayStore entries"
    by (auto simp: spent_until_def)
  let ?t = "sm_clock m (sm_ticks m)"
  have "e \<le> ?t \<or> (\<exists>x. snd (register_in_memory j ttl ?t entries) jti = Some x \<and> e \<le> x)"
    using m st unfolding spent_until_def register_in_memory_def
    by (cases "e \<le> ?t") (auto simp: drop_expired_def split: option.splits if_splits)
  then show "spent_until jti e (snd (replay_register lib j ttl m))"
    using m st clock_tick [of "sm_clock m" "sm_ticks m"]
    by (auto simp: replay_register_def register_if_unused_def spent_until_def split_beta)
qed

lemma spent_is_revoked: "keepsE (spent_until jti e) (is_revoked j)"
  unfolding is_revoked_def by (intro spent_time_now spent_basic keeps_intros)

lemma spent_issue: "keepsE (spent_until jti e) (issue_token lib cfg q)"
  unfolding issue_token_def Let_def by (intro spent_time_now spent_basic keeps_intros) simp_all

lemma spent_validate: "keepsE (spent_until jti e) (validate_token lib cfg token)"
proof -
  have "keepsE (spent_until jti e) (revocation_test v)" for v
    unfolding revocation_test_def by (cases v) (auto intro!: spent_is_revoked keeps_intros)
  then show ?thesis
    unfolding validate_token_def by (intro spent_time_now spent_basic keeps_intros)
qed

lemma spent_proof: "keepsE (spent_until jti e) (issue_dpop_proof lib pem jwk meth url tok nonce iat pj)"
  unfolding issue_dpop_proof_def
  by (auto intro!: spent_time_now spent_basic keeps_intros split: option.splits list.splits)

lemma spent_dpop: "keepsE (spent_until jti e) (validate_dpop_proof lib cfg prf meth url tok nonce now)"
  unfolding validate_dpop_proof_def proof_error_def Let_def
  by (intro spent_time_now spent_replay keeps_intros)

lemma spent_sender:
  "keepsE (spent_until jti e) (validate_sender_constrained_token lib cfg token prf meth url nonce now)"
  unfolding validate_sender_constrained_token_def
  by (intro spent_validate spent_dpop keeps_intros)

lemma spent_revoke_token: "keepsE (spent_until jti e) (revoke_token lib cfg token)"
  unfolding revoke_token_def Let_def by (intro spent_time_now spent_basic keeps_intros)

interpretation spent_sys: invariant_system "\<lambda>m. spent_until jti e m" "session_step lib cfg" "spent_until jti e"
  for lib cfg jti e
proof
  fix m m'
  assume m: "spent_until jti e m" and "session_step lib cfg m m'"
  then obtain x where "m' = run_session lib cfg x m"
    by (auto simp: session_step_def)
  then show "spent_until jti e m'"
    using m by (cases x) (auto intro: keepsE_D spent_issue spent_validate spent_proof spent_dpop spent_sender
        spent_is_revoked spent_basic spent_revoke_token)
qed

lemma replay_register_spent:
  assumes "spent_until jti e m" "sm_clock m (sm_ticks m) < e"
  shows "fst (replay_register lib jti ttl m) = Inr False"
  using assms
  by (auto simp: spent_until_def replay_register_def register_if_unused_def register_in_memory_def
      drop_expired_def Let_def split: option.splits)

lemma replay_register_spends:
  assumes "replay_register lib jti ttl m = (Inr True, m')" "mono (sm_clock m)"
    and "sm_replay_store m = InMemoryDPoPReplayStore entries"
  shows "spent_until jti (sm_clock m (sm_ticks m) + of_int ttl) m'"
  using assms
  by (auto simp: spent_until_def replay_register_def register_if_unused_def register_in_memory_def
      Let_def split: if_splits)

text \<open>The reading of the clock at which the replay store records an accepted proof.\<close>

definition register_tick :: "rat option \<Rightarrow> 'r session_manager \<Rightarrow> nat" where
  "register_tick now m = Suc (sm_ticks (proof_start now m))"

lemma proof_start_simps [simp]:
  "sm_clock (proof_start now m) = sm_clock m" "sm_replay_store (proof_start now m) = sm_replay_store m"
  "spent_until jti e m \<Longrightarrow> spent_until jti e (proof_start now m)"
  by (simp_all add: proof_start_def spent_tick split: option.splits)

text \<open>
  (C26) A DPoP proof is good for one use: with the in-memory store and a clock that does not run
  backwards, once a proof has been accepted and registered at time \<open>t\<close>, no later call accepts a
  proof with the same identifier while the clock is before \<open>t + dpop_proof_ttl_seconds\<close>, whatever
  other operations of the manager run in between.
\<close>

theorem dpop_proof_single_use:
  assumes "mono (sm_clock m)" and "sm_replay_store m = InMemoryDPoPReplayStore entries"
    and "validate_dpop_proof lib cfg prf meth url tok nonce now m = (Inr c, m1)"
    and "(session_step lib cfg)\<^sup>*\<^sup>* m1 m2"
    and "sm_clock m2 (register_tick now' m2)
       < sm_clock m (register_tick now m) + of_int (dpop_proof_ttl_seconds cfg)"
    and "validate_dpop_proof lib cfg prf' meth' url' tok' nonce' now' m2 = (Inr c', m3)"
  shows "dp_jti c' \<noteq> dp_jti c"
proof
  assume same: "dp_jti c' = dp_jti c"
  let ?e = "sm_clock m (register_tick now m) + of_int (dpop_proof_ttl_seconds cfg)"
  have "spent_until (dp_jti c) ?e m1"
    using validate_dpop_proof_Inr [OF assms(3)] assms(1,2) replay_register_spends
    by (fastforce simp: register_tick_def)
  then have "spent_until (dp_jti c) ?e m2"
    using spent_sys.steps_inv [OF assms(4)] by blast
  then have "spent_until (dp_jti c) ?e ((proof_start now' m2)\<lparr>sm_ticks := register_tick now' m2\<rparr>)"
    by (simp add: register_tick_def spent_tick)
  then have "fst (replay_register lib (dp_jti c) (dpop_proof_ttl_seconds cfg)
      ((proof_start now' m2)\<lparr>sm_ticks := register_tick now' m2\<rparr>)) = Inr False"
    using assms(5) by (intro replay_register_spent) simp_all
  then show False
    using validate_dpop_proof_Inr [OF assms(6)] same by (auto simp: register_tick_def)
qed


section \<open>Proofs and keys made by the manager\<close>

lemma upper_char_idem [simp]: "upper_char (upper_char c) = upper_char c"
proof (cases "97 \<le> (of_char c :: nat) \<and> (of_char c :: nat) \<le> 122")
  case True
  then have "((of_char c :: nat) - 32) mod 256 = of_char c - 32" by (intro mod_less) linarith
  moreover have "\<not> 97 \<le> (of_char c :: nat) - 32" using True by linarith
  ultimately show ?thesis using True by (simp add: upper_char_def Let_def)
next
  case False
  then show ?thesis by (simp only: upper_char_def Let_def if_False)
qed

lemma upper_idem [simp]: "upper (upper s) = upper s"
  by (simp add: upper_def)

text \<open>The time and the identifier that a proof is made with, and when a store lets an identifier pass.\<close>

definition proof_iat :: "int option \<Rightarrow> 'r session_manager \<Rightarrow> int" where
  "proof_iat issued_at m = (case issued_at of Some t \<Rightarrow> t | None \<Rightarrow> \<lfloor>sm_clock m (sm_ticks m)\<rfloor>)"

definition proof_id :: "string option \<Rightarrow> 'r session_manager \<Rightarrow> string" where
  "proof_id proof_jti m = (case proof_jti of Some (c # cs) \<Rightarrow> c # cs | _ \<Rightarrow> str_uuid (sm_uuids m (sm_uuid_ticks m)))"

definition store_lacks :: "'r token_libs \<Rightarrow> string \<Rightarrow> int \<Rightarrow> rat \<Rightarrow> 'r replay_store \<Rightarrow> bool" where
  "store_lacks lib jti ttl t st = (case st of
     InMemoryDPoPReplayStore entries \<Rightarrow> jti \<notin> used_in_memory entries t
   | RedisDPoPReplayStore ns client \<Rightarrow> fst (redis_client_set lib (ns @ '':'' @ jti) ''1'' ttl True t client))"

definition proof_payload :: "string \<Rightarrow> string \<Rightarrow> string \<Rightarrow> int \<Rightarrow> string option \<Rightarrow> string option \<Rightarrow> json dict" where
  "proof_payload jti meth url iat tok nonce =
     [(''jti'', JStr jti), (''htm'', JStr (upper meth)), (''htu'', JStr url), (''iat'', JNum (of_int iat))]
      @ (case tok of None \<Rightarrow> [] | Some t \<Rightarrow> [(''ath'', JStr (access_token_hash t))])
      @ (case nonce of None \<Rightarrow> [] | Some n \<Rightarrow> [(''nonce'', JStr n)])"

lemma issue_dpop_proof_encodes:
  assumes "issue_dpop_proof lib key jwk meth url tok nonce issued_at proof_jti m = (Inr prf, m1)"
  shows "jwt_encode lib (proof_payload (proof_id proof_jti m) meth url (proof_iat issued_at m) tok nonce) key ''ES256'' (dpop_headers jwk) = Inr prf"
  using assms
  by (simp add: issue_dpop_proof_def proof_payload_def proof_iat_def proof_id_def bindE_def returnE_def liftE_def time_now_def uuid4_def
      thenE_def getE_def modifyE_def split: option.splits list.splits)

lemma proof_payload_valid: "claims_valid (proof_payload jti meth url iat tok nonce) now" "live_at (proof_payload jti meth url iat tok nonce) now"
  by (cases tok; cases nonce; simp add: claims_valid_def live_at_def proof_payload_def)+

lemma replay_register_accepts:
  "store_lacks lib jti ttl (sm_clock m (sm_ticks m)) (sm_replay_store m) \<Longrightarrow> fst (replay_register lib jti ttl m) = Inr True"
  using memory_store.accept_iff
  by (auto simp: store_lacks_def replay_register_def register_if_unused_def register_redis_def split_beta split: replay_store.splits)

text \<open>
  (C29) Round trip of DPoP proofs: a proof made by \<open>issue_dpop_proof\<close> for a request, with the time and the
  identifier given or with the default ones (the clock and a new UUID), is accepted by
  \<open>validate_dpop_proof\<close> for the same URL, access token and nonce, and the same method in any case,
  at the time given or that of the clock, by every manager for which that time is in the window of the
  time of issue and whose store, in memory or Redis, does not hold the identifier; the claims returned are those it was made with.
\<close>

theorem dpop_proof_roundtrip:
  assumes "jose_documented lib pair" and "public_pem_from_jwk lib jwk = Inr pem" and "pair key pem ''ES256''"
    and "issue_dpop_proof lib key jwk meth url tok nonce issued_at proof_jti m = (Inr prf, m1)"
    and "upper meth' = upper meth"
    and "proof_time now m2 - of_int (dpop_proof_ttl_seconds cfg) \<le> of_int (proof_iat issued_at m)"
    and "of_int (proof_iat issued_at m) \<le> proof_time now m2 + of_int (dpop_clock_skew_seconds cfg)"
    and "store_lacks lib (proof_id proof_jti m) (dpop_proof_ttl_seconds cfg) (sm_clock m2 (register_tick now m2)) (sm_replay_store m2)"
  shows "fst (validate_dpop_proof lib cfg prf meth' url tok nonce now m2) =
    Inr \<lparr>dp_jti = proof_id proof_jti m, dp_htm = upper meth, dp_htu = url, dp_iat = proof_iat issued_at m,
         dp_ath = map_option access_token_hash tok, dp_nonce = nonce\<rparr>"
proof -
  let ?jti = "proof_id proof_jti m" and ?iat = "proof_iat issued_at m"
  let ?c = "\<lparr>dp_jti = ?jti, dp_htm = upper meth, dp_htu = url, dp_iat = ?iat,
         dp_ath = map_option access_token_hash tok, dp_nonce = nonce\<rparr>"
  let ?claims = "proof_payload ?jti meth url ?iat tok nonce" and ?m = "proof_start now m2"
  note enc = issue_dpop_proof_encodes [OF assms(4)]
  have header: "jwt_get_unverified_header lib prf
      = Inr (dict_update [(''alg'', JStr ''ES256''), (''typ'', JStr ''JWT'')] (dpop_headers jwk))"
    and dec: "jwt_decode lib prf pem ''ES256'' u = Inr ?claims" for u
    using assms(1,3) enc proof_payload_valid unfolding jose_documented_def by metis+
  have claims: "proof_claims_of lib ?claims = Inr ?c"
    by (cases tok; cases nonce) (simp_all add: proof_payload_def proof_claims_of_def v_opt_str_def v_int_def v_float_def)
  have ok: "proof_problem cfg ?c meth' url tok nonce (proof_time now m2) = None"
    using assms(5,6,7) by (auto simp: proof_problem_None)
  have "fst (replay_register lib ?jti (dpop_proof_ttl_seconds cfg) (?m\<lparr>sm_ticks := Suc (sm_ticks ?m)\<rparr>)) = Inr True"
    using assms(8) by (intro replay_register_accepts) (simp add: register_tick_def)
  then obtain m3 where reg: "replay_register lib ?jti (dpop_proof_ttl_seconds cfg) (?m\<lparr>sm_ticks := Suc (sm_ticks ?m)\<rparr>) = (Inr True, m3)"
    by (metis prod.collapse)
  have start: "bindE (case now of Some t \<Rightarrow> returnE t | None \<Rightarrow> time_now) f m2 = f (proof_time now m2) ?m" for f :: "rat \<Rightarrow> ('a session_manager, dpop_proof_claims) prog"
    by (simp add: proof_time_def proof_start_def time_now_def returnE_def bindE_def thenE_def getE_def modifyE_def split: option.splits)
  show ?thesis
    unfolding validate_dpop_proof_def start using claims ok reg
    by (simp add: unverified_header_def header header_jwk_def dpop_headers_def dict_update_def
        assms(2) json_str_def dec tryE_def bindE_def liftE_def returnE_def time_now_def)
qed

text \<open>
  A generated DPoP key survives its JWK encoding: for every point with 256-bit coordinates the
  public JWK of \<open>generate_dpop_key_pair\<close> is converted back to the PEM of exactly that point.
\<close>

theorem dpop_jwk_roundtrip:
  assumes "0 \<le> x" and "x < 2 ^ 256" and "0 \<le> y" and "y < 2 ^ 256"
  shows "public_pem_from_jwk lib (dpop_public_jwk x y) = ec_public_pem lib ''P-256'' x y"
proof -
  have "b64url_decode (b64url_encode (to_bytes 32 n)) = Inr (to_bytes 32 n)" for n
    by (rule b64url_roundtrip [OF to_bytes_ok])
  moreover have "(2::int) ^ 256 = 256 ^ 32" by simp
  ultimately show ?thesis
    using assms
    by (simp add: public_pem_from_jwk_def dpop_public_jwk_def dict_get_def curve_from_name_def v_str_def b64url_uint_def
        from_to_bytes)
qed

text \<open>A token bound to a key, a proof for it, and a proof issued thirty seconds ahead.\<close>

definition demo_jwk :: "json dict" where
  "demo_jwk = dpop_public_jwk 1 2"

definition demo_jkt :: string where
  "demo_jkt = projr (public_jwk_thumbprint (table_libs []) demo_jwk)"

definition dpop_table :: jwt_table where
  "dpop_table =
     [(''tok-s'', full_payload demo_request ''j1'' 0 900 (Some demo_jkt), token_secret_key default_settings, ''HS256'', []),
      (''prf'', [(''jti'', JStr ''p1''), (''htm'', JStr ''POST''), (''htu'', JStr ''https://a/x''), (''iat'', JNum (of_int 0)),
                (''ath'', JStr (access_token_hash ''tok-s''))], ''k'', ''ES256'', dpop_headers demo_jwk),
      (''ahead'', [(''jti'', JStr ''p2''), (''htm'', JStr ''GET''), (''htu'', JStr ''https://a/x''), (''iat'', JNum (of_int 30))],
         ''k'', ''ES256'', dpop_headers demo_jwk)]"

lemma demo_pem: "public_pem_from_jwk (table_libs tbl) demo_jwk = Inr ''pub-k''"
  using b64url_roundtrip [OF to_bytes_ok, of 32]
  by (simp add: demo_jwk_def public_pem_from_jwk_def dpop_public_jwk_def dict_get_def curve_from_name_def v_str_def
      b64url_uint_def) (simp add: table_libs_def)

lemma demo_thumbprint: "public_jwk_thumbprint (table_libs tbl) demo_jwk = Inr demo_jkt"
  by (simp add: demo_jkt_def public_jwk_thumbprint_def required_jwk_fields_def demo_jwk_def dpop_public_jwk_def
      dict_get_def)

lemma dpop_documented: "jose_documented (table_libs dpop_table) demo_pair"
  by (rule table_libs_documented) (simp add: dpop_table_def)

lemma dpop_lookup:
  "jwt_get_unverified_header (table_libs dpop_table) ''prf''
     = Inr (dict_update [(''alg'', JStr ''ES256''), (''typ'', JStr ''JWT'')] (dpop_headers demo_jwk))"
  "jwt_get_unverified_header (table_libs dpop_table) ''ahead''
     = Inr (dict_update [(''alg'', JStr ''ES256''), (''typ'', JStr ''JWT'')] (dpop_headers demo_jwk))"
  "jwt_decode (table_libs dpop_table) ''prf'' ''pub-k'' ''ES256'' t = Inr [(''jti'', JStr ''p1''), (''htm'', JStr ''POST''),
     (''htu'', JStr ''https://a/x''), (''iat'', JNum (of_int 0)), (''ath'', JStr (access_token_hash ''tok-s''))]"
  "jwt_decode (table_libs dpop_table) ''ahead'' ''pub-k'' ''ES256'' t = Inr [(''jti'', JStr ''p2''), (''htm'', JStr ''GET''),
     (''htu'', JStr ''https://a/x''), (''iat'', JNum (of_int 30))]"
  by (simp_all add: table_libs_def dpop_table_def demo_pair_def starts_with_HS_def live_at_def)

lemma upper_demo: "upper ''POST'' = ''POST''" "upper ''GET'' = ''GET''"
  by (simp_all add: upper_def upper_char_def)

lemma dpop_accept:
  assumes "sm_replay_store m = InMemoryDPoPReplayStore entries"
    and "\<And>x. entries ''p1'' = Some x \<Longrightarrow> x \<le> sm_clock m (Suc (sm_ticks m))"
  shows "\<exists>m'. validate_dpop_proof (table_libs dpop_table) default_settings ''prf'' ''POST'' ''https://a/x'' (Some ''tok-s'') None (Some 30) m
    = (Inr \<lparr>dp_jti = ''p1'', dp_htm = ''POST'', dp_htu = ''https://a/x'', dp_iat = 0,
           dp_ath = Some (access_token_hash ''tok-s''), dp_nonce = None\<rparr>, m')"
  using assms
  by (simp add: validate_dpop_proof_def unverified_header_def dpop_lookup header_jwk_def dpop_headers_def dict_update_def
      demo_pem json_str_def prog_simps time_now_def proof_claims_of_def v_opt_str_def v_int_def v_float_def
      proof_problem_def upper_demo default_settings_def replay_register_def register_if_unused_def
      register_in_memory_def drop_expired_def Let_def split: option.splits)

theorem sender_constrained_sound_witness:
  "\<exists>(claims :: token_claims) c. tc_cnf claims = Some demo_jkt \<and>
     proof_accepted (table_libs dpop_table) default_settings ''prf'' ''POST'' ''https://a/x'' (Some ''tok-s'') None 30 demo_jwk c"
proof -
  let ?lib = "table_libs dpop_table" and ?m = "after_validation demo_manager"
  let ?claims = "claims_for demo_request ''j1'' 0 900 (Some demo_jkt)"
  have vk: "verification_key ?lib default_settings = Inr (token_secret_key default_settings)"
    by (simp add: verification_key_def default_settings_def starts_with_HS_def)
  have dec: "jwt_decode ?lib ''tok-s'' (token_secret_key default_settings) (token_algorithm default_settings)
      (sm_clock demo_manager (sm_ticks demo_manager)) = Inr (full_payload demo_request ''j1'' 0 900 (Some demo_jkt))"
    by (simp add: table_libs_def dpop_table_def demo_pair_def starts_with_HS_def live_at_def default_settings_def demo_manager_def)
  have val: "validate_token ?lib default_settings ''tok-s'' demo_manager = (Inr ?claims, ?m)"
    using validate_token_decoded [OF vk dec, of "''j1''"]
    by (simp add: token_claims_of_payload) (simp add: after_validation_def demo_manager_def)
  have st: "sm_replay_store ?m = InMemoryDPoPReplayStore Map.empty"
    by (simp add: after_validation_def demo_manager_def)
  obtain c m' where "validate_dpop_proof ?lib default_settings ''prf'' ''POST'' ''https://a/x'' (Some ''tok-s'') None (Some 30) ?m = (Inr c, m')"
    using dpop_accept [OF st] by auto
  then have "validate_sender_constrained_token ?lib default_settings ''tok-s'' ''prf'' ''POST'' ''https://a/x'' None (Some 30) demo_manager
      = (Inr ?claims, m')"
    by (simp add: validate_sender_constrained_token_def val claims_for_def
        unverified_header_def dpop_lookup header_jwk_def dpop_headers_def dict_update_def demo_thumbprint
        thenE_def bindE_def returnE_def liftE_def)
  from sender_constrained_sound [OF this]
  obtain jkt jwk c' where acc: "tc_cnf ?claims = Some jkt"
      "proof_accepted ?lib default_settings ''prf'' ''POST'' ''https://a/x'' (Some ''tok-s'') None (proof_time (Some 30) ?m) jwk c'"
    using val by auto
  moreover have "jwk = demo_jwk"
    using acc(2) by (auto simp: proof_accepted_def dpop_lookup dpop_headers_def dict_update_def)
  ultimately have "tc_cnf ?claims = Some demo_jkt \<and>
      proof_accepted ?lib default_settings ''prf'' ''POST'' ''https://a/x'' (Some ''tok-s'') None 30 demo_jwk c'"
    by (simp add: proof_time_def claims_for_def)
  then show ?thesis by blast
qed

theorem dpop_proof_single_use_witness:
  "\<exists>m1 c. validate_dpop_proof (table_libs dpop_table) default_settings ''prf'' ''POST'' ''https://a/x'' (Some ''tok-s'') None (Some 30) demo_manager
       = (Inr c, m1) \<and> \<not> isl (fst (validate_dpop_proof (table_libs dpop_table) default_settings ''ahead'' ''GET'' ''https://a/x'' None None (Some 30) m1))
     \<and> (\<forall>c' m3. validate_dpop_proof (table_libs dpop_table) default_settings ''ahead'' ''GET'' ''https://a/x'' None None (Some 30) m1 = (Inr c', m3)
          \<longrightarrow> dp_jti c' \<noteq> ''p1'')"
proof -
  let ?lib = "table_libs dpop_table"
  have st: "sm_replay_store demo_manager = InMemoryDPoPReplayStore Map.empty" "mono (sm_clock demo_manager)"
    by (simp_all add: demo_manager_def demo_mono)
  obtain m1 where m1: "validate_dpop_proof ?lib default_settings ''prf'' ''POST'' ''https://a/x'' (Some ''tok-s'') None (Some 30) demo_manager
      = (Inr \<lparr>dp_jti = ''p1'', dp_htm = ''POST'', dp_htu = ''https://a/x'', dp_iat = 0,
           dp_ath = Some (access_token_hash ''tok-s''), dp_nonce = None\<rparr>, m1)"
    using dpop_accept [OF st(1)] by auto
  then have reg: "m1 = snd (replay_register ?lib ''p1'' 300 (demo_manager\<lparr>sm_ticks := 1\<rparr>))"
    using validate_dpop_proof_Inr [OF m1] by (auto simp: default_settings_def proof_start_def demo_manager_def)
  have clock: "sm_clock m1 (register_tick (Some 30) m1) < sm_clock demo_manager (register_tick (Some 30) demo_manager)
      + of_int (dpop_proof_ttl_seconds default_settings)"
    by (simp add: reg replay_register_def register_if_unused_def split_beta register_tick_def proof_start_def
        demo_manager_def default_settings_def)
  have "\<not> isl (fst (validate_dpop_proof ?lib default_settings ''ahead'' ''GET'' ''https://a/x'' None None (Some 30) m1))"
    by (simp add: reg validate_dpop_proof_def unverified_header_def dpop_lookup header_jwk_def dpop_headers_def dict_update_def
      demo_pem json_str_def prog_simps time_now_def proof_claims_of_def v_opt_str_def v_int_def v_float_def
      proof_problem_def upper_demo default_settings_def replay_register_def register_if_unused_def
      register_in_memory_def drop_expired_def Let_def demo_manager_def)
  moreover have "dp_jti c' \<noteq> ''p1''"
    if "validate_dpop_proof ?lib default_settings ''ahead'' ''GET'' ''https://a/x'' None None (Some 30) m1 = (Inr c', m3)" for c' m3
    using dpop_proof_single_use [OF st(2,1) m1 rtranclp.rtrancl_refl clock that] by simp
  ultimately show ?thesis using m1 by blast
qed

theorem dpop_proof_roundtrip_witness:
  "fst (validate_dpop_proof (table_libs dpop_table) default_settings ''prf'' ''post'' ''https://a/x'' (Some ''tok-s'') None None demo_manager) =
    Inr \<lparr>dp_jti = ''p1'', dp_htm = upper ''post'', dp_htu = ''https://a/x'', dp_iat = 0,
         dp_ath = map_option access_token_hash (Some ''tok-s''), dp_nonce = None\<rparr>"
proof -
  have "upper ''post'' = ''POST''" by code_simp
  then obtain m1 where "issue_dpop_proof (table_libs dpop_table) ''k'' demo_jwk ''post'' ''https://a/x'' (Some ''tok-s'') None None (Some ''p1'') demo_manager
      = (Inr ''prf'', m1)"
    by (simp add: issue_dpop_proof_def prog_simps table_libs_def dpop_table_def time_now_def demo_manager_def)
  from dpop_proof_roundtrip [OF dpop_documented demo_pem _ this, of "''post''" None demo_manager default_settings] show ?thesis
    by (simp add: demo_pair_def starts_with_HS_def default_settings_def demo_manager_def used_in_memory_def store_lacks_def proof_iat_def
        proof_id_def proof_time_def)
qed

theorem dpop_jwk_roundtrip_witness:
  "public_pem_from_jwk (table_libs []) (dpop_public_jwk 1 (2 ^ 200)) = Inr ''pub-k''"
  using dpop_jwk_roundtrip [of 1 "2 ^ 200" "table_libs []"] by (simp add: table_libs_def)

text \<open>
  The replay window is shorter than the validity window: the store forgets a proof
  \<open>dpop_proof_ttl_seconds\<close> after its acceptance, but a proof whose \<open>iat\<close> lies ahead by the permitted
  clock skew is still within its time window then. Here a proof with \<open>iat = 30\<close> is accepted at
  time 0 and the same proof is accepted again at time 310.
\<close>

theorem dpop_proof_replayed_after_ttl:
  "\<exists>c m1. validate_dpop_proof (table_libs dpop_table) default_settings ''ahead'' ''GET'' ''https://a/x'' None None None
       (demo_manager\<lparr>sm_clock := \<lambda>n. if n < 3 then 0 else 310\<rparr>) = (Inr c, m1) \<and>
     fst (validate_dpop_proof (table_libs dpop_table) default_settings ''ahead'' ''GET'' ''https://a/x'' None None None m1) = Inr c"
  by (simp add: validate_dpop_proof_def unverified_header_def dpop_lookup header_jwk_def dpop_headers_def dict_update_def
      demo_pem json_str_def prog_simps time_now_def proof_claims_of_def v_opt_str_def v_int_def v_float_def
      proof_problem_def upper_demo default_settings_def replay_register_def register_if_unused_def
      register_in_memory_def drop_expired_def Let_def demo_manager_def)

end
