(* ===== verification/Services.thy ===== *)
theory Services
  imports OpaClient Guardrails BudgetEnforcer LoopDetector SessionSecurity
begin

text \<open>
  The objects that the control plane wires together. \<open>create_worker\<close> (\<open>src/control_plane/worker.py\<close>)
  gives one audit logger and one session manager to the activities, the adapter and the budget
  enforcer; \<open>services\<close> is that object graph, so a component that logs writes to the shared logger.
  Beside it stand the HTTP client, the per-stage error counter, the OpenTelemetry spans and the keys
  that \<open>generate_dpop_key_pair\<close> will generate.

  What does not change is in \<open>deps\<close>: libraries, settings, the Unicode database, the OPA address and
  the adapter.
\<close>

section \<open>State\<close>

record span_record =
  sp_name :: string
  sp_attributes :: "log_value dict"
  sp_error :: "exn option"

record 'r services =
  sv_session :: "'r session_manager"
  sv_budget :: budget_enforcer
  sv_loops :: loop_detector
  sv_audit :: audit_logger
  sv_http :: http
  sv_errors :: "(string \<times> string) list"
  sv_spans :: "span_record list"
  sv_new_span :: "nat \<Rightarrow> span_context"
  sv_keys :: "nat \<Rightarrow> string \<times> int \<times> int"
  sv_key_ticks :: nat

datatype adapter =
    OpenAIAdapter string string
  | AnthropicAdapter string string
  | LocalLlamaAdapter string string

record 'r deps =
  dp_libs :: "'r token_libs"
  dp_cfg :: settings
  dp_db :: unicode_db
  dp_opa :: string
  dp_adapter :: adapter

definition on_session :: "('r session_manager, 'a) prog \<Rightarrow> ('r services, 'a) prog" where
  "on_session = zoomE sv_session (\<lambda>m w. w\<lparr>sv_session := m\<rparr>)"

definition on_audit :: "(audit_logger, 'a) prog \<Rightarrow> ('r services, 'a) prog" where
  "on_audit = zoomE sv_audit (\<lambda>l w. w\<lparr>sv_audit := l\<rparr>)"

definition on_http :: "(http, 'a) prog \<Rightarrow> ('r services, 'a) prog" where
  "on_http = zoomE sv_http (\<lambda>h w. w\<lparr>sv_http := h\<rparr>)"

text \<open>The enforcer and the detector hold a reference to the shared logger.\<close>

definition on_budget :: "(budget_enforcer, 'a) prog \<Rightarrow> ('r services, 'a) prog" where
  "on_budget = zoomE (\<lambda>w. (sv_budget w)\<lparr>be_audit := sv_audit w\<rparr>)
     (\<lambda>b w. w\<lparr>sv_budget := b, sv_audit := be_audit b\<rparr>)"

definition on_loops :: "(loop_detector, 'a) prog \<Rightarrow> ('r services, 'a) prog" where
  "on_loops = zoomE (\<lambda>w. (sv_loops w)\<lparr>lp_audit := sv_audit w\<rparr>)
     (\<lambda>d w. w\<lparr>sv_loops := d, sv_audit := lp_audit d\<rparr>)"

text \<open>\<open>generate_dpop_key_pair\<close>.\<close>

definition generate_dpop_key_pair :: "('r services, string \<times> json dict) prog" where
  "generate_dpop_key_pair = (\<lambda>w. let (pem, x, y) = sv_keys w (sv_key_ticks w) in
     (Inr (pem, dpop_public_jwk x y), w\<lparr>sv_key_ticks := Suc (sv_key_ticks w)\<rparr>))"


section \<open>Spans\<close>

text \<open>
  \<open>start_as_current_span\<close>: the new span is current inside the block, which is what
  \<open>current_traceparent\<close> reads; the previous one is current again afterwards.
\<close>

definition set_span :: "span_context \<Rightarrow> ('r services, unit) prog" where
  "set_span sc = on_audit (modifyE (\<lambda>l. l\<lparr>al_span := sc\<rparr>))"

definition record_span :: "string \<Rightarrow> log_value dict \<Rightarrow> exn option \<Rightarrow> ('r services, unit) prog" where
  "record_span name attrs err =
     modifyE (\<lambda>w. w\<lparr>sv_spans := sv_spans w @ [\<lparr>sp_name = name, sp_attributes = attrs, sp_error = err\<rparr>]\<rparr>)"

definition ok_attributes :: "log_value dict" where
  "ok_attributes = [(''span.status'', VStr ''OK'')]"

definition error_attributes :: "exn \<Rightarrow> log_value dict" where
  "error_attributes e = [(''span.status'', VStr ''ERROR''), (''error'', VBool True), (''error.message'', VStr (str_exn e))]"

text \<open>\<open>ok\<close> and \<open>err\<close> are the attributes the block sets when it ends normally or by an exception.\<close>

definition in_span ::
  "string \<Rightarrow> log_value dict \<Rightarrow> (exn \<Rightarrow> log_value dict) \<Rightarrow> (exn \<Rightarrow> ('r services, unit) prog) \<Rightarrow> ('r services, 'a) prog
     \<Rightarrow> ('r services, 'a) prog" where
  "in_span name ok err on_error body =
     bindE (getE (\<lambda>w. (al_span (sv_audit w), sv_new_span w (length (sv_spans w))))) (\<lambda>(outer, inner).
     thenE (set_span inner)
    (bindE (tryE body (\<lambda>e. thenE (on_error e)
              (thenE (record_span name (err e) (Some e)) (thenE (set_span outer) (raiseE e))))) (\<lambda>x.
     thenE (record_span name ok None) (thenE (set_span outer) (returnE x)))))"

definition stage_attributes :: "string \<Rightarrow> string \<Rightarrow> log_value dict" where
  "stage_attributes task_id agent_type = [(''task_id'', VStr task_id), (''agent_type'', VStr agent_type)]"


section \<open>The events of a log\<close>

text \<open>Event names and levels, without the warnings that the logger adds on a backward clock movement.\<close>

definition events :: "audit_logger \<Rightarrow> (string \<times> level) list" where
  "events l = map (\<lambda>e. (lg_event e, lg_level e)) (filter (\<lambda>e. lg_event e \<noteq> ''audit.clock_skew_warning'') (al_log l))"

lemma emit_events:
  "fst (emit lv ev fs l) = Inr ()"
  "ev \<noteq> ''audit.clock_skew_warning'' \<Longrightarrow> events (snd (emit lv ev fs l)) = events l @ [(ev, lv)]"
  "ev = ''audit.clock_skew_warning'' \<Longrightarrow> events (snd (emit lv ev fs l)) = events l"
  "al_span (snd (emit lv ev fs l)) = al_span l"
  by (auto simp: emit_def add_timestamp_if_missing_def utcnow_def prog_simps events_def)

lemma emit_run: "\<exists>l'. emit lv ev fs l = (Inr (), l') \<and> al_span l' = al_span l \<and>
    events l' = (if ev = ''audit.clock_skew_warning'' then events l else events l @ [(ev, lv)])"
  using emit_events [where lv = lv and ev = ev and fs = fs and l = l] by (cases "emit lv ev fs l") auto

lemma reserve_events:
  "\<exists>x l'. reserve_task_event_metadata t None l = (Inr x, l') \<and> events l' = events l \<and> al_span l' = al_span l"
  by (auto simp: reserve_task_event_metadata_def utcnow_def prog_simps events_def Let_def)

lemma task_emission_events:
  assumes "ev \<noteq> ''audit.clock_skew_warning''"
  shows "\<exists>l'. task_emission (emit lv ev) t agent_type stage None head kw l = (Inr (), l') \<and>
    events l' = events l @ [(ev, lv)] \<and> al_span l' = al_span l"
proof -
  obtain n ts wp l1 where r: "reserve_task_event_metadata t None l = (Inr (n, ts, wp), l1)" and l1: "events l1 = events l" "al_span l1 = al_span l"
    using reserve_events [of t l] by (metis prod_cases3)
  let ?warn = "\<lambda>p. emit_clock_skew_warning t agent_type stage (current_traceparent (al_span l)) p"
  obtain l2 where l2: "(case wp of None \<Rightarrow> returnE () | Some p \<Rightarrow> ?warn p) l1 = (Inr (), l2)" "events l2 = events l" "al_span l2 = al_span l"
  proof (cases wp)
    case None
    then show ?thesis using that [of l1] l1 by (simp add: returnE_def)
  next
    case (Some p)
    then show ?thesis
      using that emit_run [of Warning "''audit.clock_skew_warning''"] l1
      by (fastforce simp: emit_clock_skew_warning_def warning_def)
  qed
  let ?fs = "dict_update (head @ [(''sequence_number'', VInt (int n)), (''traceparent'', VStr (current_traceparent (al_span l))),
      (''timestamp'', VTime ts)]) kw"
  obtain l3 where "emit lv ev ?fs l2 = (Inr (), l3)" "events l3 = events l @ [(ev, lv)]" "al_span l3 = al_span l"
    using emit_run [of lv ev ?fs l2] l2 assms by auto
  then show ?thesis
    using r l2 by (simp add: task_emission_def bindE_def thenE_def getE_def)
qed

lemma stage_event_run:
  assumes "ev \<noteq> ''audit.clock_skew_warning''"
  shows "\<exists>l'. stage_event ev outcome stage t agent_type None kw l = (Inr (), l') \<and>
    events l' = events l @ [(ev, stage_level outcome)] \<and> al_span l' = al_span l"
  using task_emission_events [OF assms] by (simp add: stage_event_emission)

lemma lifecycle_event_run:
  assumes "ev \<noteq> ''audit.clock_skew_warning''"
  shows "\<exists>l'. lifecycle_event_log ev et t agent_type sid ws stage None kw l = (Inr (), l') \<and>
    events l' = events l @ [(ev, lifecycle_level et)] \<and> al_span l' = al_span l"
  using task_emission_events [OF assms] by (simp add: lifecycle_event_emission)

text \<open>The services after a stage event, and after a lifecycle event, that the logger dates itself.\<close>

definition staged :: "string \<Rightarrow> string \<Rightarrow> string \<Rightarrow> string \<Rightarrow> string \<Rightarrow> log_value dict \<Rightarrow> 'r services \<Rightarrow> 'r services" where
  "staged ev outcome stage t agent_type kw w =
     w\<lparr>sv_audit := snd (stage_event ev outcome stage t agent_type None kw (sv_audit w))\<rparr>"

definition lifecycled ::
  "string \<Rightarrow> string \<Rightarrow> string \<Rightarrow> string \<Rightarrow> string option \<Rightarrow> string \<Rightarrow> string \<Rightarrow> log_value dict \<Rightarrow> 'r services \<Rightarrow> 'r services" where
  "lifecycled ev et t agent_type sid ws stage kw w =
     w\<lparr>sv_audit := snd (lifecycle_event_log ev et t agent_type sid ws stage None kw (sv_audit w))\<rparr>"

definition audit_name :: "string \<Rightarrow> bool" where
  "audit_name ev \<longleftrightarrow> ev \<noteq> ''audit.clock_skew_warning''"

lemma on_audit_stage:
  "audit_name ev \<Longrightarrow>
     on_audit (stage_event ev outcome stage t agent_type None kw) w = (Inr (), staged ev outcome stage t agent_type kw w)"
  using stage_event_run [of ev outcome stage t agent_type kw "sv_audit w"]
  by (auto simp: on_audit_def zoomE_def staged_def audit_name_def)

lemma on_audit_lifecycle:
  "audit_name ev \<Longrightarrow>
     on_audit (lifecycle_event_log ev et t agent_type sid ws stage None kw) w
       = (Inr (), lifecycled ev et t agent_type sid ws stage kw w)"
  using lifecycle_event_run [of ev et t agent_type sid ws stage kw "sv_audit w"]
  by (auto simp: on_audit_def zoomE_def lifecycled_def audit_name_def)

lemma staged_simps [simp]:
  "sv_session (staged ev oc st t a kw w) = sv_session w" "sv_budget (staged ev oc st t a kw w) = sv_budget w"
  "sv_loops (staged ev oc st t a kw w) = sv_loops w" "sv_http (staged ev oc st t a kw w) = sv_http w"
  "sv_errors (staged ev oc st t a kw w) = sv_errors w" "sv_spans (staged ev oc st t a kw w) = sv_spans w"
  "sv_new_span (staged ev oc st t a kw w) = sv_new_span w" "sv_keys (staged ev oc st t a kw w) = sv_keys w"
  "sv_key_ticks (staged ev oc st t a kw w) = sv_key_ticks w"
  by (simp_all add: staged_def)

lemma staged_events [simp]:
  "audit_name ev \<Longrightarrow> events (sv_audit (staged ev oc st t a kw w)) = events (sv_audit w) @ [(ev, stage_level oc)]"
  "audit_name ev \<Longrightarrow> al_span (sv_audit (staged ev oc st t a kw w)) = al_span (sv_audit w)"
  using stage_event_run [of ev oc st t a kw "sv_audit w"] by (auto simp: staged_def audit_name_def)

lemma lifecycled_simps [simp]:
  "sv_session (lifecycled ev et t a sid ws st kw w) = sv_session w" "sv_budget (lifecycled ev et t a sid ws st kw w) = sv_budget w"
  "sv_loops (lifecycled ev et t a sid ws st kw w) = sv_loops w" "sv_http (lifecycled ev et t a sid ws st kw w) = sv_http w"
  "sv_errors (lifecycled ev et t a sid ws st kw w) = sv_errors w" "sv_spans (lifecycled ev et t a sid ws st kw w) = sv_spans w"
  "sv_new_span (lifecycled ev et t a sid ws st kw w) = sv_new_span w" "sv_keys (lifecycled ev et t a sid ws st kw w) = sv_keys w"
  "sv_key_ticks (lifecycled ev et t a sid ws st kw w) = sv_key_ticks w"
  by (simp_all add: lifecycled_def)

lemma lifecycled_events [simp]:
  "audit_name ev \<Longrightarrow> events (sv_audit (lifecycled ev et t a sid ws st kw w)) = events (sv_audit w) @ [(ev, lifecycle_level et)]"
  "audit_name ev \<Longrightarrow> al_span (sv_audit (lifecycled ev et t a sid ws st kw w)) = al_span (sv_audit w)"
  using lifecycle_event_run [of ev et t a sid ws st kw "sv_audit w"] by (auto simp: lifecycled_def audit_name_def)

end
