(* ===== verification/Adapters.thy ===== *)
theory Adapters
  imports Services
begin

text \<open>
  \<open>src/adapters\<close>: the request and response types, the guard that protected requests pass before any
  I/O, and the three providers. The HTTP client is the one of \<open>OpaClient\<close>; free text (prompts and
  completions) is a list of code points.

  The main results: a protected request leaves the process only with a valid, fresh proof by the key
  the token is bound to, and what is sent to a provider does not depend on the request's metadata.
\<close>

section \<open>Requests\<close>

record llm_request =
  lq_prompt :: utext
  lq_model :: string
  lq_max_tokens :: int
  lq_temperature :: rat
  lq_system_prompt :: utext
  lq_metadata :: "string dict"

record llm_response =
  lr_content :: utext
  lr_tokens_used :: int
  lr_model :: string
  lr_provider :: string
  lr_finish_reason :: string

definition provider_name :: "adapter \<Rightarrow> string" where
  "provider_name a = (case a of OpenAIAdapter _ _ \<Rightarrow> ''openai'' | AnthropicAdapter _ _ \<Rightarrow> ''anthropic''
     | LocalLlamaAdapter _ _ \<Rightarrow> ''local_llama'')"

definition outbound_request_binding :: "adapter \<Rightarrow> llm_request \<Rightarrow> (string \<times> string) option" where
  "outbound_request_binding a q =
     (case a of
        OpenAIAdapter _ _ \<Rightarrow> Some (''POST'', ''https://api.openai.com/v1/chat/completions'')
      | AnthropicAdapter _ _ \<Rightarrow> Some (''POST'', ''https://api.anthropic.com/v1/messages'')
      | LocalLlamaAdapter base_url _ \<Rightarrow> Some (''POST'', base_url @ ''/chat/completions''))"

text \<open>\<open>base_url.rstrip("/")\<close> at construction.\<close>

definition new_local_llama :: "string \<Rightarrow> string \<Rightarrow> adapter" where
  "new_local_llama base_url default_model =
     LocalLlamaAdapter (rev (dropWhile (\<lambda>c. c = CHR ''/'') (rev base_url))) default_model"


section \<open>The guard\<close>

definition meta_get :: "llm_request \<Rightarrow> string \<Rightarrow> string" where
  "meta_get q k = (case map_of (lq_metadata q) k of Some v \<Rightarrow> v | None \<Rightarrow> '''')"

definition protected :: "settings \<Rightarrow> llm_request \<Rightarrow> bool" where
  "protected cfg q \<longleftrightarrow> map_of (lq_metadata q) ''aegis_protected'' = Some ''true'' \<or> require_sender_constrained_tokens cfg"

definition require_sender_constrained_request ::
  "'r token_libs \<Rightarrow> settings \<Rightarrow> llm_request \<Rightarrow> string \<Rightarrow> string \<Rightarrow> ('r session_manager, token_claims option) prog" where
  "require_sender_constrained_request lib cfg q http_method http_url =
     (if \<not> protected cfg q then returnE None
      else
        let token = meta_get q ''aegis_token''; prf = meta_get q ''aegis_dpop_proof'' in
        if token = '''' \<or> prf = '''' then
          raiseE (exn_of AdapterSecurityError
            ''Protected outbound LLM requests must include both aegis_token and aegis_dpop_proof metadata'')
        else
          tryE (bindE (validate_sender_constrained_token lib cfg token prf http_method http_url None None)
                  (\<lambda>c. returnE (Some c)))
            (\<lambda>e. if isinstance_any e [DPoPReplayError, DPoPProofError, TokenBindingError]
                 then raiseE (Exn AdapterSecurityError (str_exn e) (Some e)) else raiseE e))"

text \<open>The claims that the refusal event names: those of the token, if it validates at all.\<close>

definition refusal_claims :: "'r token_libs \<Rightarrow> settings \<Rightarrow> string \<Rightarrow> ('r session_manager, string \<times> string) prog" where
  "refusal_claims lib cfg token =
     (if token = '''' then returnE (''unknown'', ''unknown'')
      else tryE (bindE (validate_token lib cfg token) (\<lambda>c.
               returnE (case tc_task_id c of Some (x # s) \<Rightarrow> x # s | _ \<Rightarrow> ''unknown'', tc_agent_type c)))
             (\<lambda>_. returnE (''unknown'', ''unknown'')))"

definition is_replay :: "exn \<Rightarrow> bool" where
  "is_replay e = (case exc_cause e of Some c \<Rightarrow> isinstance c DPoPReplayError | None \<Rightarrow> False)"

text \<open>The first part of every \<open>complete\<close>.\<close>

definition authorize_outbound :: "'r deps \<Rightarrow> adapter \<Rightarrow> llm_request \<Rightarrow> string \<times> string \<Rightarrow> ('r services, unit) prog" where
  "authorize_outbound D a q binding =
     bindE (tryE (on_session (require_sender_constrained_request (dp_libs D) (dp_cfg D) q (fst binding) (snd binding)))
        (\<lambda>e. if isinstance e AdapterSecurityError then
               bindE (on_session (refusal_claims (dp_libs D) (dp_cfg D) (meta_get q ''aegis_token''))) (\<lambda>(task_id, agent_type).
               thenE (on_audit (stage_event (if is_replay e then ''dpop.proof.replayed'' else ''dpop.proof.rejected'')
                        ''deny'' ''llm-invoke'' task_id agent_type None
                        [(''provider'', VStr (provider_name a)), (''error_message'', VStr (str_exn e))]))
                 (raiseE e))
             else raiseE e)) (\<lambda>claims.
     case claims of None \<Rightarrow> returnE ()
     | Some c \<Rightarrow> on_audit (stage_event ''dpop.proof.validated'' ''allow'' ''llm-invoke''
         (case tc_task_id c of Some (x # s) \<Rightarrow> x # s | _ \<Rightarrow> ''unknown'') (tc_agent_type c) None
         [(''provider'', VStr (provider_name a)), (''jti'', VStr (tc_jti c))]))"


section \<open>Reading a completion\<close>

text \<open>\<open>v[k]\<close> and \<open>v[0]\<close>.\<close>

definition json_item :: "json \<Rightarrow> string \<Rightarrow> exn + json" where
  "json_item v k = (case v of JObj d \<Rightarrow> dict_get d k | _ \<Rightarrow> Inl (exn_of TypeError ''object is not subscriptable by a string''))"

definition json_first :: "json \<Rightarrow> exn + json" where
  "json_first v =
     (case v of JList [] \<Rightarrow> Inl (exn_of IndexError ''list index out of range'') | JList (x # _) \<Rightarrow> Inr x
      | JStr [] \<Rightarrow> Inl (exn_of IndexError ''string index out of range'') | JStr (c # _) \<Rightarrow> Inr (JStr [c])
      | JText [] \<Rightarrow> Inl (exn_of IndexError ''string index out of range'') | JText (c # _) \<Rightarrow> Inr (JText [c])
      | JObj _ \<Rightarrow> Inl (exn_of KeyError ''0'')
      | _ \<Rightarrow> Inl (exn_of TypeError ''object is not subscriptable''))"

definition v_text :: "json \<Rightarrow> exn + utext" where
  "v_text v = (case v of JText t \<Rightarrow> Inr t | JStr s \<Rightarrow> Inr (asc s) | _ \<Rightarrow> invalid)"

text \<open>\<open>a + b\<close>.\<close>

definition json_num :: "json \<Rightarrow> rat option" where
  "json_num v = (case v of JNum q \<Rightarrow> Some q | JBool b \<Rightarrow> Some (if b then 1 else 0) | _ \<Rightarrow> None)"

definition json_add :: "json \<Rightarrow> json \<Rightarrow> exn + json" where
  "json_add a b =
     (case (json_num a, json_num b) of (Some x, Some y) \<Rightarrow> Inr (JNum (x + y))
      | _ \<Rightarrow> (case (a, b) of (JStr s, JStr t) \<Rightarrow> Inr (JStr (s @ t)) | (JText s, JText t) \<Rightarrow> Inr (JText (s @ t))
               | (JStr s, JText t) \<Rightarrow> Inr (JText (asc s @ t)) | (JText s, JStr t) \<Rightarrow> Inr (JText (s @ asc t))
               | (JList s, JList t) \<Rightarrow> Inr (JList (s @ t))
               | _ \<Rightarrow> Inl (exn_of TypeError ''unsupported operand types for +'')))"

text \<open>\<open>LLMResponse(...)\<close>: the fields of the reply are validated together.\<close>

definition llm_response_of :: "'r token_libs \<Rightarrow> json \<Rightarrow> json \<Rightarrow> string \<Rightarrow> string \<Rightarrow> json \<Rightarrow> exn + llm_response" where
  "llm_response_of lib content tokens_used model provider finish_reason =
     (case (v_text content, v_int lib tokens_used, v_str finish_reason) of
        (Inr c, Inr n, Inr f) \<Rightarrow>
          Inr \<lparr>lr_content = c, lr_tokens_used = n, lr_model = model, lr_provider = provider, lr_finish_reason = f\<rparr>
      | _ \<Rightarrow> invalid)"

definition message :: "string \<Rightarrow> utext \<Rightarrow> json" where
  "message role content = JObj [(''role'', JStr role), (''content'', JText content)]"

definition chosen_model :: "llm_request \<Rightarrow> string \<Rightarrow> string" where
  "chosen_model q default_model = (if lq_model q = '''' then default_model else lq_model q)"

text \<open>\<open>client.post\<close>, \<open>raise_for_status\<close>, \<open>json\<close>.\<close>

definition post_json :: "http_request \<Rightarrow> ('r services, json) prog" where
  "post_json q =
     on_http (bindE (http_post q) (\<lambda>r. bindE (liftE (raise_for_status r)) (\<lambda>_. liftE (hs_json r))))"


section \<open>Providers\<close>

definition chat_payload :: "llm_request \<Rightarrow> string \<Rightarrow> json" where
  "chat_payload q model =
     JObj [(''model'', JStr model),
           (''messages'', JList ((if lq_system_prompt q = [] then [] else [message ''system'' (lq_system_prompt q)])
                                 @ [message ''user'' (lq_prompt q)])),
           (''max_tokens'', JNum (of_int (lq_max_tokens q))), (''temperature'', JNum (lq_temperature q))]"

text \<open>The reading of \<open>choices[0]\<close>, with the token count.\<close>

definition chat_response :: "'r token_libs \<Rightarrow> json \<Rightarrow> (exn + json) \<Rightarrow> string \<Rightarrow> string \<Rightarrow> json \<Rightarrow> exn + llm_response" where
  "chat_response lib choice tokens model provider body =
     (case json_item choice ''message'' of Inl e \<Rightarrow> Inl e | Inr msg \<Rightarrow>
      (case json_item msg ''content'' of Inl e \<Rightarrow> Inl e | Inr content \<Rightarrow>
      (case tokens of Inl e \<Rightarrow> Inl e | Inr n \<Rightarrow>
      (case json_get choice ''finish_reason'' (JStr ''stop'') of Inl e \<Rightarrow> Inl e | Inr f \<Rightarrow>
         llm_response_of lib content n model provider f))))"

definition first_choice :: "json \<Rightarrow> exn + json" where
  "first_choice body = (case json_item body ''choices'' of Inl e \<Rightarrow> Inl e | Inr cs \<Rightarrow> json_first cs)"

definition openai_request :: "string \<Rightarrow> string \<Rightarrow> llm_request \<Rightarrow> http_request" where
  "openai_request api_key default_model q =
     \<lparr>hq_url = ''https://api.openai.com/v1/chat/completions'',
      hq_json = chat_payload q (chosen_model q default_model),
      hq_headers = [(''Authorization'', ''Bearer '' @ api_key)], hq_timeout = 30\<rparr>"

definition openai_response :: "'r token_libs \<Rightarrow> string \<Rightarrow> json \<Rightarrow> exn + llm_response" where
  "openai_response lib model body =
     (case first_choice body of Inl e \<Rightarrow> Inl e | Inr choice \<Rightarrow>
        chat_response lib choice
          (case json_item body ''usage'' of Inl e \<Rightarrow> Inl e | Inr u \<Rightarrow> json_item u ''total_tokens'') model ''openai'' body)"

definition complete_openai :: "'r deps \<Rightarrow> string \<Rightarrow> string \<Rightarrow> llm_request \<Rightarrow> ('r services, llm_response) prog" where
  "complete_openai D api_key default_model q =
     thenE (authorize_outbound D (OpenAIAdapter api_key default_model) q
              (the (outbound_request_binding (OpenAIAdapter api_key default_model) q)))
    (bindE (post_json (openai_request api_key default_model q)) (\<lambda>body.
       liftE (openai_response (dp_libs D) (chosen_model q default_model) body)))"

definition anthropic_payload :: "llm_request \<Rightarrow> string \<Rightarrow> json" where
  "anthropic_payload q model =
     JObj ([(''model'', JStr model), (''max_tokens'', JNum (of_int (lq_max_tokens q))),
            (''messages'', JList [message ''user'' (lq_prompt q)])]
           @ (if lq_system_prompt q = [] then [] else [(''system'', JText (lq_system_prompt q))]))"

definition anthropic_request :: "string \<Rightarrow> string \<Rightarrow> llm_request \<Rightarrow> http_request" where
  "anthropic_request api_key default_model q =
     \<lparr>hq_url = ''https://api.anthropic.com/v1/messages'',
      hq_json = anthropic_payload q (chosen_model q default_model),
      hq_headers = [(''x-api-key'', api_key), (''anthropic-version'', ''2023-06-01'')], hq_timeout = 30\<rparr>"

definition anthropic_response :: "'r token_libs \<Rightarrow> string \<Rightarrow> json \<Rightarrow> exn + llm_response" where
  "anthropic_response lib model body =
     (case json_item body ''content'' of Inl e \<Rightarrow> Inl e | Inr blocks \<Rightarrow>
      (case json_first blocks of Inl e \<Rightarrow> Inl e | Inr block \<Rightarrow>
      (case json_get body ''usage'' (JObj []) of Inl e \<Rightarrow> Inl e | Inr usage \<Rightarrow>
      (case json_get usage ''input_tokens'' (JNum 0) of Inl e \<Rightarrow> Inl e | Inr i \<Rightarrow>
      (case json_get usage ''output_tokens'' (JNum 0) of Inl e \<Rightarrow> Inl e | Inr o' \<Rightarrow>
      (case json_add i o' of Inl e \<Rightarrow> Inl e | Inr n \<Rightarrow>
      (case json_item block ''text'' of Inl e \<Rightarrow> Inl e | Inr t \<Rightarrow>
      (case json_get body ''stop_reason'' (JStr ''stop'') of Inl e \<Rightarrow> Inl e | Inr f \<Rightarrow>
         llm_response_of lib t n model ''anthropic'' f))))))))"

definition complete_anthropic :: "'r deps \<Rightarrow> string \<Rightarrow> string \<Rightarrow> llm_request \<Rightarrow> ('r services, llm_response) prog" where
  "complete_anthropic D api_key default_model q =
     thenE (authorize_outbound D (AnthropicAdapter api_key default_model) q
              (the (outbound_request_binding (AnthropicAdapter api_key default_model) q)))
    (bindE (post_json (anthropic_request api_key default_model q)) (\<lambda>body.
       liftE (anthropic_response (dp_libs D) (chosen_model q default_model) body)))"

definition local_llama_request :: "string \<Rightarrow> string \<Rightarrow> llm_request \<Rightarrow> http_request" where
  "local_llama_request base_url default_model q =
     \<lparr>hq_url = base_url @ ''/chat/completions'', hq_json = chat_payload q (chosen_model q default_model),
      hq_headers = [], hq_timeout = 120\<rparr>"

definition local_llama_response :: "'r token_libs \<Rightarrow> string \<Rightarrow> json \<Rightarrow> exn + llm_response" where
  "local_llama_response lib model body =
     (case first_choice body of Inl e \<Rightarrow> Inl e | Inr choice \<Rightarrow>
      (case json_get body ''usage'' (JObj []) of Inl e \<Rightarrow> Inl e | Inr usage \<Rightarrow>
      (case json_get usage ''total_tokens'' (JNum 0) of Inl e \<Rightarrow> Inl e | Inr n \<Rightarrow>
        chat_response lib choice (Inr n) model ''local_llama'' body)))"

definition complete_local_llama :: "'r deps \<Rightarrow> string \<Rightarrow> string \<Rightarrow> llm_request \<Rightarrow> ('r services, llm_response) prog" where
  "complete_local_llama D base_url default_model q =
     thenE (authorize_outbound D (LocalLlamaAdapter base_url default_model) q
              (the (outbound_request_binding (LocalLlamaAdapter base_url default_model) q)))
    (bindE (post_json (local_llama_request base_url default_model q)) (\<lambda>body.
       liftE (local_llama_response (dp_libs D) (chosen_model q default_model) body)))"

text \<open>The dynamic dispatch of \<open>adapter.complete\<close>, and the request each adapter would send.\<close>

definition complete :: "'r deps \<Rightarrow> llm_request \<Rightarrow> ('r services, llm_response) prog" where
  "complete D q =
     (case dp_adapter D of
        OpenAIAdapter api_key m \<Rightarrow> complete_openai D api_key m q
      | AnthropicAdapter api_key m \<Rightarrow> complete_anthropic D api_key m q
      | LocalLlamaAdapter base_url m \<Rightarrow> complete_local_llama D base_url m q)"

definition outbound_request :: "adapter \<Rightarrow> llm_request \<Rightarrow> http_request" where
  "outbound_request a q =
     (case a of
        OpenAIAdapter api_key m \<Rightarrow> openai_request api_key m q
      | AnthropicAdapter api_key m \<Rightarrow> anthropic_request api_key m q
      | LocalLlamaAdapter base_url m \<Rightarrow> local_llama_request base_url m q)"

definition outbound_response :: "'r token_libs \<Rightarrow> adapter \<Rightarrow> llm_request \<Rightarrow> json \<Rightarrow> exn + llm_response" where
  "outbound_response lib a q body =
     (case a of
        OpenAIAdapter api_key m \<Rightarrow> openai_response lib (chosen_model q m) body
      | AnthropicAdapter api_key m \<Rightarrow> anthropic_response lib (chosen_model q m) body
      | LocalLlamaAdapter base_url m \<Rightarrow> local_llama_response lib (chosen_model q m) body)"


section \<open>What an adapter sends\<close>

lemma on_session_http: "keepsE (\<lambda>w. sv_http w = h) (on_session p)"
  unfolding on_session_def by (rule keepsE_zoomE) simp

lemma on_audit_http: "keepsE (\<lambda>w. sv_http w = h) (on_audit p)"
  unfolding on_audit_def by (rule keepsE_zoomE) simp

lemma authorize_http: "keepsE (\<lambda>w. sv_http w = h) (authorize_outbound D a q b)"
  unfolding authorize_outbound_def by (intro keeps_intros on_session_http on_audit_http)

lemma authorize_http_eq: "sv_http (snd (authorize_outbound D a q b w)) = sv_http w"
  using keepsE_D [OF authorize_http [of "sv_http w"]] by blast

lemma post_json_state: "snd (post_json q w) = w\<lparr>sv_http := (sv_http w)\<lparr>ht_sent := ht_sent (sv_http w) @ [q]\<rparr>\<rparr>"
  by (auto simp: post_json_def on_http_def prog_simps http_post_def split: sum.splits prod.splits)

text \<open>A request that is protected passes the guard only with a token and a proof that validate.\<close>

lemma require_Inr:
  assumes "require_sender_constrained_request lib cfg q meth url m = (Inr c, m')" "protected cfg q"
  shows "\<exists>claims. c = Some claims \<and>
    validate_sender_constrained_token lib cfg (meta_get q ''aegis_token'') (meta_get q ''aegis_dpop_proof'') meth url None None m
      = (Inr claims, m')"
  using assms
  by (auto simp: require_sender_constrained_request_def Let_def tryE_def bindE_def returnE_def raiseE_def
      split: if_splits prod.splits sum.splits)

definition authorised :: "'r deps \<Rightarrow> adapter \<Rightarrow> llm_request \<Rightarrow> 'r services \<Rightarrow> bool" where
  "authorised D a q w \<longleftrightarrow> (protected (dp_cfg D) q \<longrightarrow>
     (\<exists>claims m'. validate_sender_constrained_token (dp_libs D) (dp_cfg D) (meta_get q ''aegis_token'')
        (meta_get q ''aegis_dpop_proof'') ''POST'' (hq_url (outbound_request a q)) None None (sv_session w) = (Inr claims, m')))"

lemma authorize_Inr:
  assumes "authorize_outbound D a q (''POST'', hq_url (outbound_request a q)) w = (Inr u, w')"
  shows "authorised D a q w"
  unfolding authorised_def
proof
  assume p: "protected (dp_cfg D) q"
  obtain c w1 where "tryE (on_session (require_sender_constrained_request (dp_libs D) (dp_cfg D) q ''POST'' (hq_url (outbound_request a q))))
      (\<lambda>e. if isinstance e AdapterSecurityError then
               bindE (on_session (refusal_claims (dp_libs D) (dp_cfg D) (meta_get q ''aegis_token''))) (\<lambda>(task_id, agent_type).
               thenE (on_audit (stage_event (if is_replay e then ''dpop.proof.replayed'' else ''dpop.proof.rejected'')
                        ''deny'' ''llm-invoke'' task_id agent_type None
                        [(''provider'', VStr (provider_name a)), (''error_message'', VStr (str_exn e))]))
                 (raiseE e))
             else raiseE e) w = (Inr c, w1)"
    using assms unfolding authorize_outbound_def by (auto simp: bindE_Inr)
  then have "\<exists>m'. require_sender_constrained_request (dp_libs D) (dp_cfg D) q ''POST'' (hq_url (outbound_request a q)) (sv_session w) = (Inr c, m')"
    by (auto simp: tryE_def on_session_def zoomE_def bindE_def thenE_def raiseE_def split: prod.splits sum.splits if_splits)
  then show "\<exists>claims m'. validate_sender_constrained_token (dp_libs D) (dp_cfg D) (meta_get q ''aegis_token'')
        (meta_get q ''aegis_dpop_proof'') ''POST'' (hq_url (outbound_request a q)) None None (sv_session w) = (Inr claims, m')"
    using require_Inr p by blast
qed

text \<open>
  The shape that all adapters share, as an interface: authorise, post one request to the bound URL,
  read the reply. The request is made from the model, the prompts and the parameters only.
\<close>

locale outbound_adapter =
  fixes D :: "'r deps" and a :: adapter
    and run :: "llm_request \<Rightarrow> ('r services, llm_response) prog"
  assumes run_eq: "run q = thenE (authorize_outbound D a q (''POST'', hq_url (outbound_request a q)))
      (bindE (post_json (outbound_request a q)) (\<lambda>body. liftE (outbound_response (dp_libs D) a q body)))"
begin

lemma run_sends:
  "ht_sent (sv_http (snd (run q w))) = ht_sent (sv_http w) \<or>
   ht_sent (sv_http (snd (run q w))) = ht_sent (sv_http w) @ [outbound_request a q] \<and> authorised D a q w"
proof (cases "authorize_outbound D a q (''POST'', hq_url (outbound_request a q)) w")
  case (Pair r w1)
  have http: "sv_http w1 = sv_http w"
    using authorize_http_eq [of D a q _ w] Pair by (metis snd_conv)
  show ?thesis
  proof (cases r)
    case (Inl e)
    then show ?thesis
      using Pair http by (simp add: run_eq thenE_err)
  next
    case (Inr u)
    have "snd (run q w) = snd (post_json (outbound_request a q) w1)"
      using Pair Inr by (auto simp: run_eq thenE_def bindE_def liftE_def split: prod.splits sum.splits)
    then show ?thesis
      using authorize_Inr [OF Pair [unfolded Inr]] http by (simp add: post_json_state)
  qed
qed

lemma run_Inr:
  assumes "run q w = (Inr r, w')"
  shows "\<exists>w1 resp body. authorize_outbound D a q (''POST'', hq_url (outbound_request a q)) w = (Inr (), w1) \<and>
     ht_reply (sv_http w) (length (ht_sent (sv_http w))) (outbound_request a q) = Inr resp \<and>
     200 \<le> hs_status resp \<and> hs_status resp < 300 \<and> hs_json resp = Inr body \<and> outbound_response (dp_libs D) a q body = Inr r"
proof -
  obtain w1 where w1: "authorize_outbound D a q (''POST'', hq_url (outbound_request a q)) w = (Inr (), w1)"
    and rest: "bindE (post_json (outbound_request a q)) (\<lambda>body. liftE (outbound_response (dp_libs D) a q body)) w1 = (Inr r, w')"
    using assms unfolding run_eq thenE_def by (auto simp: bindE_Inr)
  have "sv_http w1 = sv_http w"
    using authorize_http_eq [of D a q _ w] w1 by (metis snd_conv)
  then show ?thesis
    using w1 rest
    by (auto simp: bindE_Inr post_json_def on_http_def zoomE_def http_post_def liftE_def raise_for_status_def bindE_def
        split: prod.splits sum.splits if_splits)
qed

end

interpretation openai: outbound_adapter D "OpenAIAdapter k m" "complete_openai D k m" for D :: "'r deps" and k m
  by unfold_locales (simp add: complete_openai_def outbound_request_def outbound_response_def openai_request_def
      outbound_request_binding_def)

interpretation anthropic: outbound_adapter D "AnthropicAdapter k m" "complete_anthropic D k m" for D :: "'r deps" and k m
  by unfold_locales (simp add: complete_anthropic_def outbound_request_def outbound_response_def anthropic_request_def
      outbound_request_binding_def)

interpretation local_llama: outbound_adapter D "LocalLlamaAdapter u m" "complete_local_llama D u m" for D :: "'r deps" and u m
  by unfold_locales (simp add: complete_local_llama_def outbound_request_def outbound_response_def local_llama_request_def
      outbound_request_binding_def)

interpretation any_adapter: outbound_adapter D "dp_adapter D" "complete D" for D :: "'r deps"
  by unfold_locales
    (simp add: complete_def openai.run_eq anthropic.run_eq local_llama.run_eq split: adapter.split)

lemma outbound_metadata: "outbound_request a (q\<lparr>lq_metadata := md\<rparr>) = outbound_request a q"
  by (simp add: outbound_request_def openai_request_def anthropic_request_def local_llama_request_def
      chat_payload_def anthropic_payload_def chosen_model_def split: adapter.split)

text \<open>
  (C22) A protected request reaches a provider only with a sender-constrained token: if \<open>complete\<close> sends
  anything, it is the one request of the adapter, and the metadata holds a token bound to a key and a
  DPoP proof by that key for exactly the URL contacted and this token, inside its time window, whose
  identifier the replay store had not seen.
\<close>

theorem protected_request_needs_proof:
  assumes "protected (dp_cfg D) q"
    and "ht_sent (sv_http (snd (complete D q w))) \<noteq> ht_sent (sv_http w)"
  shows "ht_sent (sv_http (snd (complete D q w))) = ht_sent (sv_http w) @ [outbound_request (dp_adapter D) q] \<and>
    (\<exists>claims jkt jwk c m1 m'. fst (validate_token (dp_libs D) (dp_cfg D) (meta_get q ''aegis_token'') (sv_session w)) = Inr claims \<and>
       tc_cnf claims = Some jkt \<and> public_jwk_thumbprint (dp_libs D) jwk = Inr jkt \<and>
       proof_accepted (dp_libs D) (dp_cfg D) (meta_get q ''aegis_dpop_proof'') ''POST'' (hq_url (outbound_request (dp_adapter D) q))
         (Some (meta_get q ''aegis_token'')) None
         (proof_time None (snd (validate_token (dp_libs D) (dp_cfg D) (meta_get q ''aegis_token'') (sv_session w)))) jwk c \<and>
       sm_replay_store m1 = sm_replay_store (sv_session w) \<and>
       replay_register (dp_libs D) (dp_jti c) (dpop_proof_ttl_seconds (dp_cfg D)) m1 = (Inr True, m'))"
proof -
  have sent: "ht_sent (sv_http (snd (complete D q w))) = ht_sent (sv_http w) @ [outbound_request (dp_adapter D) q]"
    and "authorised D (dp_adapter D) q w"
    using any_adapter.run_sends [of D q w] assms(2) by auto
  then obtain claims m' where v: "validate_sender_constrained_token (dp_libs D) (dp_cfg D) (meta_get q ''aegis_token'')
      (meta_get q ''aegis_dpop_proof'') ''POST'' (hq_url (outbound_request (dp_adapter D) q)) None None (sv_session w) = (Inr claims, m')"
    using assms(1) unfolding authorised_def by blast
  show ?thesis
    using sent sender_constrained_Inr [OF v] by blast
qed

text \<open>
  Nothing of a request's metadata, where the session token and the proof travel, is sent to a
  provider: whatever \<open>complete\<close> sends is determined by the model, the prompts and the parameters.
\<close>

theorem adapter_hides_metadata:
  "set (drop (length (ht_sent (sv_http w))) (ht_sent (sv_http (snd (complete D q w)))))
     \<subseteq> {outbound_request (dp_adapter D) (q\<lparr>lq_metadata := md\<rparr>)}"
  using any_adapter.run_sends [of D q w] by (auto simp: outbound_metadata)

lemma refusal_claims_run: "\<exists>x m'. refusal_claims lib cfg tok m = (Inr x, m')"
  by (auto simp: refusal_claims_def tryE_def returnE_def split: prod.splits sum.splits)

lemma authorize_refused:
  assumes "require_sender_constrained_request (dp_libs D) (dp_cfg D) q (fst b) (snd b) (sv_session w) = (Inl e, m)"
    and "isinstance e AdapterSecurityError"
  shows "\<exists>w'. authorize_outbound D a q b w = (Inl e, w') \<and> sv_http w' = sv_http w \<and>
    events (sv_audit w') = events (sv_audit w) @ [(if is_replay e then ''dpop.proof.replayed'' else ''dpop.proof.rejected'', Warning)]"
proof -
  obtain t at' m' where claims: "refusal_claims (dp_libs D) (dp_cfg D) (meta_get q ''aegis_token'') m = (Inr (t, at'), m')"
    using refusal_claims_run by fast
  have "audit_name (if is_replay e then ''dpop.proof.replayed'' else ''dpop.proof.rejected'')"
    by (simp add: audit_name_def)
  note stage = on_audit_stage [OF this] staged_events(1) [OF this]
  let ?w = "staged (if is_replay e then ''dpop.proof.replayed'' else ''dpop.proof.rejected'') ''deny'' ''llm-invoke'' t at'
      [(''provider'', VStr (provider_name a)), (''error_message'', VStr (str_exn e))] (w\<lparr>sv_session := m'\<rparr>)"
  have "authorize_outbound D a q b w = (Inl e, ?w)"
    using assms claims
    by (simp add: authorize_outbound_def tryE_def on_session_def zoomE_def bindE_def thenE_def raiseE_def stage(1))
  then show ?thesis
    by (simp add: stage(2) stage_level_def)
qed

text \<open>
  A protected request without a token or without a proof is refused before any I/O:
  \<open>AdapterSecurityError\<close> is raised, nothing is sent, and \<open>dpop.proof.rejected\<close> is logged as a warning.
\<close>

theorem unproved_request_refused:
  assumes "protected (dp_cfg D) q" and "meta_get q ''aegis_token'' = [] \<or> meta_get q ''aegis_dpop_proof'' = []"
  shows "\<exists>e w'. complete D q w = (Inl e, w') \<and> exc_cls e = AdapterSecurityError \<and> sv_http w' = sv_http w \<and>
    events (sv_audit w') = events (sv_audit w) @ [(''dpop.proof.rejected'', Warning)]"
proof -
  let ?b = "(''POST'', hq_url (outbound_request (dp_adapter D) q))"
  obtain e where e: "require_sender_constrained_request (dp_libs D) (dp_cfg D) q (fst ?b) (snd ?b) (sv_session w) = (Inl e, sv_session w)"
    "exc_cls e = AdapterSecurityError" "exc_cause e = None"
    using assms by (auto simp: require_sender_constrained_request_def Let_def raiseE_def)
  then have "isinstance e AdapterSecurityError" "\<not> is_replay e"
    by (simp_all add: isinstance_def is_replay_def)
  then obtain w' where "authorize_outbound D (dp_adapter D) q ?b w = (Inl e, w')" "sv_http w' = sv_http w"
    "events (sv_audit w') = events (sv_audit w) @ [(''dpop.proof.rejected'', Warning)]"
    using authorize_refused [OF e(1)] by fastforce
  then show ?thesis
    using e(2) by (simp add: any_adapter.run_eq thenE_def bindE_def)
qed

text \<open>A service graph for the witnesses: a local model, a token bound to a key and a proof for its URL.\<close>

definition wire_table :: jwt_table where
  "wire_table =
     [(''tok-s'', full_payload demo_request ''j1'' 0 900 (Some demo_jkt), token_secret_key default_settings, ''HS256'', []),
      (''prf'', [(''jti'', JStr ''p1''), (''htm'', JStr ''POST''), (''htu'', JStr ''http://l/chat/completions''), (''iat'', JNum (of_int 0)),
                (''ath'', JStr (access_token_hash ''tok-s''))], ''k'', ''ES256'', dpop_headers demo_jwk)]"

definition demo_span :: span_context where
  "demo_span = \<lparr>sc_valid = False, sc_trace_id = 0, sc_span_id = 0, sc_flags = 0\<rparr>"

definition demo_services :: "(nat \<Rightarrow> http_request \<Rightarrow> exn + http_response) \<Rightarrow> (string \<rightharpoonup> rat) services" where
  "demo_services reply =
     \<lparr>sv_session = demo_manager,
      sv_budget = new_budget_enforcer (new_audit_logger ''demo'' int demo_span),
      sv_loops = new_loop_detector default_settings None None (new_audit_logger ''demo'' int demo_span),
      sv_audit = new_audit_logger ''demo'' int demo_span,
      sv_http = \<lparr>ht_reply = reply, ht_sent = []\<rparr>,
      sv_errors = [], sv_spans = [], sv_new_span = (\<lambda>_. demo_span),
      sv_keys = (\<lambda>_. (''k'', 1, 2)), sv_key_ticks = 0\<rparr>"

definition demo_deps :: "jwt_table \<Rightarrow> (string \<rightharpoonup> rat) deps" where
  "demo_deps tbl = \<lparr>dp_libs = table_libs tbl, dp_cfg = default_settings, dp_db = ascii_db, dp_opa = ''http://opa'',
     dp_adapter = LocalLlamaAdapter ''http://l'' ''m''\<rparr>"

definition demo_llm_request :: "string dict \<Rightarrow> llm_request" where
  "demo_llm_request md = \<lparr>lq_prompt = asc ''hi'', lq_model = ''m'', lq_max_tokens = 10, lq_temperature = 0,
     lq_system_prompt = [], lq_metadata = md\<rparr>"

lemma wire_lookup:
  "jwt_get_unverified_header (table_libs wire_table) ''prf''
     = Inr (dict_update [(''alg'', JStr ''ES256''), (''typ'', JStr ''JWT'')] (dpop_headers demo_jwk))"
  "jwt_decode (table_libs wire_table) ''prf'' ''pub-k'' ''ES256'' t = Inr [(''jti'', JStr ''p1''), (''htm'', JStr ''POST''),
     (''htu'', JStr ''http://l/chat/completions''), (''iat'', JNum (of_int 0)), (''ath'', JStr (access_token_hash ''tok-s''))]"
  by (simp_all add: table_libs_def wire_table_def demo_pair_def starts_with_HS_def live_at_def)

lemma wire_accept:
  "\<exists>claims m'. validate_sender_constrained_token (table_libs wire_table) default_settings ''tok-s'' ''prf'' ''POST''
     ''http://l/chat/completions'' None None demo_manager = (Inr claims, m')"
proof -
  let ?lib = "table_libs wire_table" and ?m = "after_validation demo_manager"
  let ?claims = "claims_for demo_request ''j1'' 0 900 (Some demo_jkt)"
  have vk: "verification_key ?lib default_settings = Inr (token_secret_key default_settings)"
    by (simp add: verification_key_def default_settings_def starts_with_HS_def)
  have dec: "jwt_decode ?lib ''tok-s'' (token_secret_key default_settings) (token_algorithm default_settings)
      (sm_clock demo_manager (sm_ticks demo_manager)) = Inr (full_payload demo_request ''j1'' 0 900 (Some demo_jkt))"
    by (simp add: table_libs_def wire_table_def demo_pair_def starts_with_HS_def live_at_def default_settings_def demo_manager_def)
  have val: "validate_token ?lib default_settings ''tok-s'' demo_manager = (Inr ?claims, ?m)"
    using validate_token_decoded [OF vk dec, of "''j1''"]
    by (simp add: token_claims_of_payload) (simp add: after_validation_def demo_manager_def)
  have "\<exists>c m'. validate_dpop_proof ?lib default_settings ''prf'' ''POST'' ''http://l/chat/completions'' (Some ''tok-s'') None None ?m = (Inr c, m')"
    by (simp add: after_validation_def demo_manager_def validate_dpop_proof_def unverified_header_def wire_lookup header_jwk_def
        dpop_headers_def dict_update_def demo_pem json_str_def prog_simps time_now_def proof_claims_of_def v_opt_str_def v_int_def
        v_float_def proof_problem_def upper_demo default_settings_def replay_register_def register_if_unused_def
        register_in_memory_def drop_expired_def Let_def split: option.splits)
  then show ?thesis
    by (auto simp: validate_sender_constrained_token_def val claims_for_def unverified_header_def wire_lookup header_jwk_def
        dpop_headers_def dict_update_def demo_thumbprint thenE_def bindE_def returnE_def liftE_def)
qed

definition wire_request :: llm_request where
  "wire_request = demo_llm_request [(''aegis_protected'', ''true''), (''aegis_token'', ''tok-s''), (''aegis_dpop_proof'', ''prf'')]"

lemma wire_meta: "protected default_settings wire_request" "meta_get wire_request ''aegis_token'' = ''tok-s''"
  "meta_get wire_request ''aegis_dpop_proof'' = ''prf''"
  "outbound_request (LocalLlamaAdapter ''http://l'' ''m'') wire_request = local_llama_request ''http://l'' ''m'' wire_request"
  "hq_url (local_llama_request ''http://l'' ''m'' wire_request) = ''http://l/chat/completions''"
  by (simp_all add: protected_def wire_request_def demo_llm_request_def meta_get_def outbound_request_def local_llama_request_def)

lemma wire_authorize:
  "\<exists>w'. authorize_outbound (demo_deps wire_table) (LocalLlamaAdapter ''http://l'' ''m'') wire_request (''POST'', ''http://l/chat/completions'')
     (demo_services reply) = (Inr (), w')"
proof -
  obtain claims m' where v: "validate_sender_constrained_token (table_libs wire_table) default_settings ''tok-s'' ''prf'' ''POST''
     ''http://l/chat/completions'' None None demo_manager = (Inr claims, m')"
    using wire_accept by blast
  have "require_sender_constrained_request (table_libs wire_table) default_settings wire_request ''POST'' ''http://l/chat/completions''
      demo_manager = (Inr (Some claims), m')"
    by (simp add: require_sender_constrained_request_def wire_meta v tryE_def bindE_def returnE_def)
  then show ?thesis
    by (simp add: authorize_outbound_def demo_deps_def demo_services_def tryE_def on_session_def zoomE_def bindE_def
        on_audit_stage audit_name_def)
qed

theorem protected_request_needs_proof_witness:
  "\<exists>(claims :: token_claims) jkt jwk c t. tc_cnf claims = Some jkt \<and> public_jwk_thumbprint (table_libs wire_table) jwk = Inr jkt \<and>
     proof_accepted (table_libs wire_table) default_settings ''prf'' ''POST'' ''http://l/chat/completions'' (Some ''tok-s'') None t jwk c"
proof -
  let ?D = "demo_deps wire_table" and ?w = "demo_services (\<lambda>_ _. Inl (exn_of ConnectError []))"
  obtain w1 where w1: "authorize_outbound ?D (LocalLlamaAdapter ''http://l'' ''m'') wire_request (''POST'', ''http://l/chat/completions'') ?w
      = (Inr (), w1)"
    using wire_authorize by blast
  have D: "dp_adapter ?D = LocalLlamaAdapter ''http://l'' ''m''" "dp_cfg ?D = default_settings" "dp_libs ?D = table_libs wire_table"
    by (simp_all add: demo_deps_def)
  have "sv_http w1 = sv_http ?w"
    using authorize_http_eq [of ?D _ wire_request _ ?w] w1 by (metis snd_conv)
  then have "ht_sent (sv_http (snd (complete ?D wire_request ?w))) \<noteq> ht_sent (sv_http ?w)"
    using w1 unfolding any_adapter.run_eq D wire_meta
    by (simp add: thenE_def bindE_def liftE_def post_json_def on_http_def zoomE_def http_post_def demo_services_def
        split: prod.splits sum.splits)
  from protected_request_needs_proof [OF _ this] show ?thesis
    unfolding D wire_meta by (simp add: wire_meta(1)) blast
qed

theorem unproved_request_refused_witness:
  "\<exists>e w'. complete (demo_deps []) (demo_llm_request [(''aegis_protected'', ''true''), (''aegis_token'', ''t'')])
      (demo_services (\<lambda>_ _. Inl (exn_of ConnectError []))) = (Inl e, w') \<and> exc_cls e = AdapterSecurityError \<and> ht_sent (sv_http w') = []"
proof -
  let ?q = "demo_llm_request [(''aegis_protected'', ''true''), (''aegis_token'', ''t'')]"
  have "protected (dp_cfg (demo_deps [])) ?q" "meta_get ?q ''aegis_dpop_proof'' = []"
    by (simp_all add: protected_def demo_llm_request_def meta_get_def)
  then show ?thesis
    using unproved_request_refused [of "demo_deps []" ?q "demo_services (\<lambda>_ _. Inl (exn_of ConnectError []))"]
    by (fastforce simp: demo_services_def)
qed

end
