(* ===== verification/Orchestrator.thy ===== *)
theory Orchestrator
  imports Adapters
begin

text \<open>
  \<open>src/control_plane/orchestrator.py\<close>: the five-stage pipeline, one definition per stage and
  \<open>run\<close> composed of them in the order of the code. Dashes in messages are written as hyphens. The
  call of the standard \<open>logging\<close> module at the end of a run is not modelled.

  Theory \<open>Pipeline\<close> shows: what a run sends is the policy request and then at most the one completion request,
  the latter only after every check has passed; a run that returns has sanitised its prompt and its
  response; a run that raises has counted one error and logged an event.
\<close>

section \<open>Requests\<close>

record orchestrator_request =
  or_task_id :: "uuid option"
  or_prompt :: utext
  or_agent_type :: string
  or_requester_id :: string
  or_session_token :: "string option"
  or_model :: string
  or_max_tokens :: int
  or_temperature :: rat
  or_system_prompt :: utext
  or_metadata :: "string dict"
  or_protect_outbound_request :: bool
  or_budget_session_id :: "uuid option"
  or_cost_per_token :: decimal
  or_loop_session_id :: "uuid option"
  or_loop_signal :: loop_signal
  or_loop_token_delta :: "int option"

record orchestrator_result =
  os_task_id :: uuid
  os_response :: llm_response
  os_session_token :: string
  os_sanitized_prompt :: utext
  os_pii_found_in_prompt :: "string list"
  os_pii_found_in_response :: "string list"

text \<open>The object: its dependencies, and whether an enforcer and a detector were injected.\<close>

record 'r orchestrator =
  oc_deps :: "'r deps"
  oc_budget_enforcer :: bool
  oc_loop_detector :: bool


section \<open>Stages as spans\<close>

definition count_error :: "string \<Rightarrow> string \<Rightarrow> ('r services, unit) prog" where
  "count_error stage agent_type = modifyE (\<lambda>w. w\<lparr>sv_errors := sv_errors w @ [(stage, agent_type)]\<rparr>)"

definition stage_error_guard :: "string \<Rightarrow> string \<Rightarrow> ('r services, 'a) prog \<Rightarrow> ('r services, 'a) prog" where
  "stage_error_guard stage agent_type body =
     tryE body (\<lambda>e. thenE (count_error stage agent_type) (raiseE e))"

definition controlled_exc :: "exc_class list" where
  "controlled_exc = [PolicyDeniedError, TokenExpiredError, TokenRevokedError, TokenScopeError, BudgetLimitError,
     LoopHaltError, LoopVelocityError, LoopApprovalError]"

definition span_stage ::
  "string \<Rightarrow> string \<Rightarrow> string \<Rightarrow> string \<Rightarrow> ('r services, 'a) prog \<Rightarrow> ('r services, 'a) prog" where
  "span_stage span_name stage_key agent_type task_id body =
     in_span span_name (stage_attributes task_id agent_type @ ok_attributes)
       (\<lambda>e. stage_attributes task_id agent_type @ error_attributes e)
       (\<lambda>e. thenE (count_error stage_key agent_type)
          (if isinstance_any e controlled_exc then returnE ()
           else on_audit (stage_event ''stage.error'' ''error'' span_name task_id agent_type None
                  [(''error_message'', VStr (str_exn e))])))
       body"

text \<open>\<open>self._audit.stage_event(...)\<close> with the request's task and agent type.\<close>

definition log_stage :: "orchestrator_request \<Rightarrow> string \<Rightarrow> string \<Rightarrow> string \<Rightarrow> string \<Rightarrow> log_value dict \<Rightarrow> ('r services, unit) prog" where
  "log_stage q t ev outcome stage kw = on_audit (stage_event ev outcome stage t (or_agent_type q) None kw)"

definition show_strs :: "string list \<Rightarrow> string" where
  "show_strs ss = ''['' @ join '', '' (map py_repr ss) @ '']''"


section \<open>Stages 1 and 2: guardrails and policy\<close>

definition pre_sanitize :: "'r deps \<Rightarrow> orchestrator_request \<Rightarrow> string \<Rightarrow> ('r services, utext \<times> string list) prog" where
  "pre_sanitize D q t =
     thenE (liftE (check_prompt_injection (dp_db D) (or_prompt q)))
       (let pre_mask = mask_pii (dp_db D) (or_prompt q);
            pii_in_prompt = mr_found_types pre_mask
        in thenE (log_stage q t ''guardrails.pre_sanitize'' (if pii_in_prompt \<noteq> [] then ''redact'' else ''allow'')
                    ''pre-pii-scrub'' [(''pii_types'', VStrs pii_in_prompt)])
             (returnE (mr_text pre_mask, pii_in_prompt)))"

definition request_policy_input :: "orchestrator_request \<Rightarrow> policy_input" where
  "request_policy_input q =
     \<lparr>pin_agent_type = or_agent_type q, pin_requester_id = or_requester_id q, pin_action = ''llm.complete'',
      pin_resource = ''model:'' @ or_model q, pin_metadata = or_metadata q, pin_principal_role = None,
      pin_token_expired = False\<rparr>"

definition policy_stage :: "'r deps \<Rightarrow> orchestrator_request \<Rightarrow> string \<Rightarrow> ('r services, policy_result) prog" where
  "policy_stage D q t =
     bindE (tryE (on_http (evaluate (dp_opa D) ''agent_access'' (request_policy_input q)))
        (\<lambda>e. if isinstance e OpaUnavailableError then
               thenE (log_stage q t ''policy.opa_unavailable'' ''error'' ''policy-eval''
                        [(''requester_id'', VStr (or_requester_id q)), (''error_message'', VStr (str_exn e))])
                 (raiseE (Exn PolicyDeniedError ''OPA unavailable - request denied (fail-closed)'' (Some e)))
             else raiseE e)) (\<lambda>result.
     if \<not> pr_allowed result \<or> pr_action result = ''reject'' then
       thenE (log_stage q t ''policy.denied'' ''deny'' ''policy-eval''
                [(''requester_id'', VStr (or_requester_id q)), (''reasons'', VStrs (pr_reasons result))])
         (raiseE (exn_of PolicyDeniedError
            (''OPA denied request for agent_type='' @ py_repr (or_agent_type q) @ '': '' @ show_strs (pr_reasons result))))
     else thenE (log_stage q t ''policy.allowed'' ''allow'' ''policy-eval'' []) (returnE result))"

definition merge_types :: "string list \<Rightarrow> string list \<Rightarrow> string list" where
  "merge_types acc ts = fold (\<lambda>x acc. if x \<in> set acc then acc else acc @ [x]) ts acc"

fun mask_fields :: "unicode_db \<Rightarrow> string list \<Rightarrow> utext \<times> string list \<Rightarrow> utext \<times> string list" where
  "mask_fields db [] x = x"
| "mask_fields db (f # fs) (prompt, pii) =
     (if f = ''prompt''
      then let r = scrub db prompt in mask_fields db fs (mr_text r, merge_types pii (mr_found_types r))
      else mask_fields db fs (prompt, pii))"

definition policy_mask ::
  "'r deps \<Rightarrow> orchestrator_request \<Rightarrow> string \<Rightarrow> policy_result \<Rightarrow> utext \<times> string list \<Rightarrow> ('r services, utext \<times> string list) prog" where
  "policy_mask D q t result x =
     (let y = mask_fields (dp_db D) (pr_fields result) x in
      thenE (log_stage q t ''policy.mask_applied'' ''redact'' ''policy-eval'' [(''fields'', VStrs (pr_fields result))])
        (returnE y))"


section \<open>Stage 3: session token\<close>

definition deny_token :: "orchestrator_request \<Rightarrow> string \<Rightarrow> string \<Rightarrow> exn \<Rightarrow> ('r services, 'a) prog" where
  "deny_token q t ev e =
     thenE (log_stage q t ev ''deny'' ''jit-token-issue'' [(''requester_id'', VStr (or_requester_id q))]) (raiseE e)"

definition supplied_token :: "'r deps \<Rightarrow> orchestrator_request \<Rightarrow> string \<Rightarrow> string \<Rightarrow> ('r services, string) prog" where
  "supplied_token D q t token =
     bindE (tryE (on_session (validate_token (dp_libs D) (dp_cfg D) token))
        (\<lambda>e. if isinstance e TokenExpiredError then
               deny_token q t ''token.expired'' (Exn TokenExpiredError ''Session token has expired'' (Some e))
             else if isinstance e TokenRevokedError then
               deny_token q t ''token.revoked'' (Exn PermissionError ''Session token has been revoked'' (Some e))
             else raiseE e)) (\<lambda>claims.
     bindE (on_session (is_expired claims)) (\<lambda>expired.
     if expired then deny_token q t ''token.expired'' (exn_of TokenExpiredError ''Session token has expired'')
     else if tc_agent_type claims \<noteq> or_agent_type q then
       deny_token q t ''token.scope_violation'' (exn_of TokenScopeError
         (''Token is scoped to agent_type='' @ py_repr (tc_agent_type claims)
          @ '' but request declares agent_type='' @ py_repr (or_agent_type q)))
     else thenE (log_stage q t ''token.validated'' ''allow'' ''jit-token-issue'' []) (returnE token)))"

definition base_token_request :: "orchestrator_request \<Rightarrow> string \<Rightarrow> token_request" where
  "base_token_request q t =
     \<lparr>rq_agent_type = or_agent_type q, rq_requester_id = or_requester_id q, rq_metadata = or_metadata q,
      rq_session_id = None, rq_allowed_actions = [], rq_role = None, rq_expires_in_seconds = None,
      rq_rotation_key = None, rq_task_id = Some t, rq_confirmation_jwk = None\<rparr>"

definition fresh_token :: "'r deps \<Rightarrow> orchestrator_request \<Rightarrow> string \<Rightarrow> ('r services, string) prog" where
  "fresh_token D q t =
     bindE (on_session (issue_token (dp_libs D) (dp_cfg D) (base_token_request q t))) (\<lambda>token.
     bindE (on_session (validate_token (dp_libs D) (dp_cfg D) token)) (\<lambda>claims.
     thenE (log_stage q t ''token.issued'' ''allow'' ''jit-token-issue''
              [(''jti'', VStr (tc_jti claims)), (''requester_id'', VStr (or_requester_id q))])
       (returnE token)))"

definition llm_request_of :: "orchestrator_request \<Rightarrow> utext \<Rightarrow> string dict \<Rightarrow> llm_request" where
  "llm_request_of q prompt md =
     \<lparr>lq_prompt = prompt, lq_model = or_model q, lq_max_tokens = or_max_tokens q, lq_temperature = or_temperature q,
      lq_system_prompt = or_system_prompt q, lq_metadata = md\<rparr>"

text \<open>The protected flow: a key pair, a token bound to it, a proof for the adapter's URL.\<close>

definition protect_request ::
  "'r deps \<Rightarrow> orchestrator_request \<Rightarrow> string \<Rightarrow> utext \<Rightarrow> string \<Rightarrow> ('r services, string \<times> string) prog" where
  "protect_request D q t prompt token =
     (case outbound_request_binding (dp_adapter D) (llm_request_of q prompt [(''aegis_token'', token)]) of
        None \<Rightarrow> raiseE (exn_of ValueError (''Adapter '' @ py_repr (provider_name (dp_adapter D))
          @ '' does not expose an outbound request binding for protected flows''))
      | Some (http_method, http_url) \<Rightarrow>
          bindE generate_dpop_key_pair (\<lambda>(private_key_pem, public_jwk).
          bindE (on_session (issue_sender_constrained_token (dp_libs D) (dp_cfg D)
                   ((base_token_request q t)\<lparr>rq_allowed_actions := [''llm.invoke''],
                      rq_rotation_key := Some (''adapter:'' @ t)\<rparr>) public_jwk)) (\<lambda>adapter_token.
          bindE (on_session (issue_dpop_proof (dp_libs D) private_key_pem public_jwk http_method http_url
                   (Some adapter_token) None None None)) (\<lambda>prf.
          bindE (on_session (validate_token (dp_libs D) (dp_cfg D) adapter_token)) (\<lambda>claims.
          thenE (log_stage q t ''token.sender_constrained_issued'' ''allow'' ''jit-token-issue''
                   [(''jti'', VStr (tc_jti claims)), (''requester_id'', VStr (or_requester_id q))])
            (returnE (adapter_token, prf)))))))"

text \<open>The result: the session token, the token for the adapter and the proof.\<close>

definition token_stage ::
  "'r deps \<Rightarrow> orchestrator_request \<Rightarrow> string \<Rightarrow> utext \<Rightarrow> ('r services, string \<times> string \<times> string option) prog" where
  "token_stage D q t prompt =
     bindE (case or_session_token q of Some (c # s) \<Rightarrow> supplied_token D q t (c # s) | _ \<Rightarrow> fresh_token D q t) (\<lambda>token.
     if or_protect_outbound_request q
     then bindE (protect_request D q t prompt token) (\<lambda>(adapter_token, prf). returnE (token, adapter_token, Some prf))
     else returnE (token, token, None))"


section \<open>Stages 3.5 to 4.6: watchdog and completion\<close>

definition budget_guard :: "orchestrator_request \<Rightarrow> string \<Rightarrow> uuid \<Rightarrow> ('r services, unit) prog" where
  "budget_guard q t sid =
     thenE (tryE (on_budget (check_budget sid))
        (\<lambda>e. if isinstance e BudgetExceededError then
               thenE (log_stage q t ''budget.exceeded'' ''deny'' ''watchdog.pre-llm''
                        [(''budget_session_id'', VStr (str_uuid sid)), (''error_message'', VStr (str_exn e))])
                 (raiseE (Exn BudgetLimitError (str_exn e) (Some e)))
             else raiseE e))
       (log_stage q t ''budget.pre_check'' ''allow'' ''watchdog.pre-llm'' [(''budget_session_id'', VStr (str_uuid sid))])"

definition adapter_metadata :: "string \<Rightarrow> string option \<Rightarrow> string dict" where
  "adapter_metadata adapter_token prf =
     dict_update [(''aegis_token'', adapter_token)]
       (case prf of Some p \<Rightarrow> [(''aegis_dpop_proof'', p), (''aegis_protected'', ''true'')] | None \<Rightarrow> [])"

definition llm_stage ::
  "'r deps \<Rightarrow> orchestrator_request \<Rightarrow> string \<Rightarrow> utext \<Rightarrow> string \<times> string option \<Rightarrow> ('r services, llm_response) prog" where
  "llm_stage D q t prompt x =
     bindE (complete D (llm_request_of q prompt (adapter_metadata (fst x) (snd x)))) (\<lambda>resp.
     thenE (log_stage q t ''llm.completed'' ''allow'' ''llm-invoke''
              [(''model'', VStr (or_model q)), (''tokens_used'', VInt (lr_tokens_used resp))])
       (returnE resp))"

definition spend_stage :: "orchestrator_request \<Rightarrow> string \<Rightarrow> uuid \<Rightarrow> llm_response \<Rightarrow> ('r services, unit) prog" where
  "spend_stage q t sid resp =
     (let spend = dmul (dec_of_int (lr_tokens_used resp)) (or_cost_per_token q) in
      thenE (tryE (thenE (on_budget (record_spend sid spend None)) (returnE ()))
        (\<lambda>e. if isinstance e BudgetExceededError then
               thenE (log_stage q t ''budget.exceeded_on_record'' ''deny'' ''watchdog.record-spend''
                        [(''error_message'', VStr (str_exn e))])
                 (raiseE (Exn BudgetLimitError (str_exn e) (Some e)))
             else raiseE e))
       (log_stage q t ''budget.spend_recorded'' ''allow'' ''watchdog.record-spend'' []))"

definition halt_loop :: "orchestrator_request \<Rightarrow> string \<Rightarrow> exn \<Rightarrow> string \<Rightarrow> exc_class \<Rightarrow> ('r services, 'a) prog" where
  "halt_loop q t e ev c =
     thenE (log_stage q t ev ''deny'' ''watchdog.loop-detect'' [(''error_message'', VStr (str_exn e))])
       (raiseE (Exn c (str_exn e) (Some e)))"

definition loop_stage :: "orchestrator_request \<Rightarrow> string \<Rightarrow> uuid \<Rightarrow> llm_response \<Rightarrow> ('r services, unit) prog" where
  "loop_stage q t sid resp =
     (let token_delta = (case or_loop_token_delta q of Some n \<Rightarrow> n | None \<Rightarrow> lr_tokens_used resp) in
      thenE (tryE (thenE (on_loops (record_step sid token_delta (or_loop_signal q) [])) (returnE ()))
        (\<lambda>e. if isinstance e LoopDetectedError then halt_loop q t e ''loop.halted'' LoopHaltError
             else if isinstance e TokenVelocityError then halt_loop q t e ''loop.velocity_exceeded'' LoopVelocityError
             else if isinstance e PendingApprovalError then halt_loop q t e ''loop.pending_approval'' LoopApprovalError
             else raiseE e))
       (log_stage q t ''loop.step_recorded'' ''allow'' ''watchdog.loop-detect'' []))"


section \<open>Stage 5 and the pipeline\<close>

definition post_sanitize_stage ::
  "'r deps \<Rightarrow> orchestrator_request \<Rightarrow> string \<Rightarrow> llm_response \<Rightarrow> ('r services, llm_response \<times> string list) prog" where
  "post_sanitize_stage D q t resp =
     (let post_mask = mask_pii (dp_db D) (lr_content resp);
          pii_in_response = mr_found_types post_mask
      in thenE (log_stage q t ''guardrails.post_sanitize'' (if pii_in_response \<noteq> [] then ''redact'' else ''allow'')
                  ''post-sanitize'' [(''pii_types'', VStrs pii_in_response)])
           (returnE (resp\<lparr>lr_content := mr_text post_mask\<rparr>, pii_in_response)))"

text \<open>The stages that a run passes before the adapter is called.\<close>

definition govern ::
  "'r orchestrator \<Rightarrow> orchestrator_request \<Rightarrow> string \<Rightarrow> ('r services, (utext \<times> string list) \<times> string \<times> string \<times> string option) prog" where
  "govern C q t =
     (let D = oc_deps C; agent = or_agent_type q in
      bindE (span_stage ''pre-pii-scrub'' ''pre_pii_scrub'' agent t (pre_sanitize D q t)) (\<lambda>x.
      bindE (span_stage ''policy-eval'' ''policy_eval'' agent t (policy_stage D q t)) (\<lambda>result.
      bindE (if pr_action result = ''mask''
             then span_stage ''policy-mask'' ''policy_mask'' agent t (policy_mask D q t result x) else returnE x) (\<lambda>y.
      bindE (span_stage ''jit-token-issue'' ''jit_token_issue'' agent t (token_stage D q t (fst y))) (\<lambda>tokens.
      thenE (case or_budget_session_id q of
               Some sid \<Rightarrow> if oc_budget_enforcer C
                 then span_stage ''watchdog.pre-llm'' ''watchdog_pre'' agent t (budget_guard q t sid) else returnE ()
             | None \<Rightarrow> returnE ())
        (returnE (y, tokens)))))))"

definition account ::
  "'r orchestrator \<Rightarrow> orchestrator_request \<Rightarrow> string \<Rightarrow> llm_response \<Rightarrow> ('r services, unit) prog" where
  "account C q t resp =
     (let agent = or_agent_type q in
      thenE (case or_budget_session_id q of
               Some sid \<Rightarrow> if oc_budget_enforcer C
                 then span_stage ''watchdog.record-spend'' ''watchdog_record'' agent t (spend_stage q t sid resp) else returnE ()
             | None \<Rightarrow> returnE ())
        (case or_loop_session_id q of
           Some sid \<Rightarrow> if oc_loop_detector C
             then span_stage ''watchdog.loop-detect'' ''watchdog_loop'' agent t (loop_stage q t sid resp) else returnE ()
         | None \<Rightarrow> returnE ()))"

definition pipeline :: "'r orchestrator \<Rightarrow> orchestrator_request \<Rightarrow> uuid \<Rightarrow> ('r services, orchestrator_result) prog" where
  "pipeline C q task_id =
     (let t = str_uuid task_id; D = oc_deps C; agent = or_agent_type q in
      bindE (govern C q t) (\<lambda>(y, token, x).
      bindE (span_stage ''llm-invoke'' ''llm_invoke'' agent t (llm_stage D q t (fst y) x)) (\<lambda>resp.
      thenE (account C q t resp)
     (bindE (span_stage ''post-sanitize'' ''post_sanitize'' agent t (post_sanitize_stage D q t resp)) (\<lambda>(final, pii).
        returnE \<lparr>os_task_id = task_id, os_response = final, os_session_token = token,
                 os_sanitized_prompt = fst y, os_pii_found_in_prompt = snd y, os_pii_found_in_response = pii\<rparr>)))))"

definition root_attributes :: "orchestrator_request \<Rightarrow> string \<Rightarrow> log_value dict" where
  "root_attributes q t = stage_attributes t (or_agent_type q) @ [(''requester_id'', VStr (or_requester_id q))]"

definition run :: "'r orchestrator \<Rightarrow> orchestrator_request \<Rightarrow> ('r services, orchestrator_result) prog" where
  "run C q =
     (case or_task_id q of
        None \<Rightarrow> raiseE (exn_of MissingTaskIdError
          ''task_id must not be None - every pipeline request requires a unique task identifier for audit correlation'')
      | Some task_id \<Rightarrow>
          in_span ''orchestrator.run'' (root_attributes q (str_uuid task_id)) (\<lambda>_. root_attributes q (str_uuid task_id))
            (\<lambda>_. returnE ()) (pipeline C q task_id))"

end
