(* ===== verification/Activities.thy ===== *)
theory Activities
  imports Orchestrator
begin

text \<open>
  \<open>src/control_plane/scheduler.py\<close>, first part: the inputs and outputs of the Temporal activities,
  the retry policy of \<open>LLMInvoke\<close>, and the classes \<open>AegisActivities\<close> and \<open>WorkflowAuditActivities\<close>,
  one definition per method. What \<open>activity.info()\<close> returns is an argument, \<open>activity_info\<close>.

  An activity input whose \<open>task_id\<close> was lost is modelled by the empty string, which the code treats
  in the same way. \<open>_trace_context_from_traceparent\<close> only chooses the parent of the new span, which
  the OpenTelemetry SDK assigns (\<open>sv_new_span\<close>).
\<close>

section \<open>Inputs and outputs\<close>

datatype workflow_status = PENDING | RUNNING | WCOMPLETED | WFAILED | HUMAN_INTERVENTION_REQUIRED

fun workflow_status_value :: "workflow_status \<Rightarrow> string" where
  "workflow_status_value PENDING = ''pending''"
| "workflow_status_value RUNNING = ''running''"
| "workflow_status_value WCOMPLETED = ''completed''"
| "workflow_status_value WFAILED = ''failed''"
| "workflow_status_value HUMAN_INTERVENTION_REQUIRED = ''human_intervention_required''"

record workflow_input =
  wi_task_id :: string
  wi_prompt :: utext
  wi_agent_type :: string
  wi_requester_id :: string
  wi_model :: string
  wi_max_tokens :: int
  wi_temperature :: rat
  wi_system_prompt :: utext
  wi_protect_outbound_request :: bool
  wi_session_id :: "string option"
  wi_budget_session_id :: "string option"
  wi_budget_limit_usd :: "string option"
  wi_cost_per_token_usd :: string
  wi_loop_session_id :: "string option"
  wi_loop_signal :: loop_signal
  wi_loop_token_delta :: "int option"
  wi_loop_max_agent_steps :: "int option"
  wi_loop_max_token_velocity :: "int option"
  wi_projected_spend_usd :: string
  wi_approval_timeout_seconds :: int
  wi_traceparent :: "string option"

record pre_pii_scrub_result =
  ps_sanitized_prompt :: utext
  ps_pii_types :: "string list"

record policy_eval_input =
  pe_task_id :: string
  pe_sanitized_prompt :: utext
  pe_agent_type :: string
  pe_requester_id :: string
  pe_model :: string
  pe_traceparent :: "string option"

record policy_eval_result =
  per_allowed :: bool
  per_action :: string
  per_fields :: "string list"
  per_sanitized_prompt :: utext
  per_extra_pii_types :: "string list"

record jit_token_input =
  jt_agent_type :: string
  jt_requester_id :: string
  jt_task_id :: string
  jt_protect_outbound_request :: bool
  jt_session_id :: "string option"
  jt_allowed_actions :: "string list"
  jt_role :: "string option"
  jt_rotation_key :: "string option"
  jt_traceparent :: "string option"

record jit_token_result =
  jr_token :: string
  jr_jti :: string
  jr_protected_private_key_pem :: "string option"
  jr_protected_public_jwk :: "json dict option"

record llm_invoke_input =
  iv_task_id :: string
  iv_token :: string
  iv_sanitized_prompt :: utext
  iv_agent_type :: string
  iv_requester_id :: string
  iv_model :: string
  iv_max_tokens :: int
  iv_temperature :: rat
  iv_system_prompt :: utext
  iv_protect_outbound_request :: bool
  iv_session_id :: "string option"
  iv_allowed_actions :: "string list"
  iv_role :: "string option"
  iv_rotation_key :: "string option"
  iv_protected_private_key_pem :: "string option"
  iv_protected_public_jwk :: "json dict option"
  iv_traceparent :: "string option"

record llm_invoke_result =
  ir_content :: utext
  ir_tokens_used :: int
  ir_model :: string
  ir_provider :: string
  ir_retry_count :: int

record post_sanitize_input =
  po_task_id :: string
  po_agent_type :: string
  po_content :: utext
  po_tokens_used :: int
  po_model :: string
  po_provider :: string
  po_session_id :: "string option"
  po_total_retries :: int
  po_traceparent :: "string option"

record post_sanitize_result =
  pos_sanitized_content :: utext
  pos_pii_types :: "string list"

record workflow_audit_input =
  wa_event :: string
  wa_outcome :: string
  wa_stage :: string
  wa_task_id :: string
  wa_agent_type :: string
  wa_session_id :: "string option"
  wa_workflow_status :: string
  wa_event_type :: "string option"
  wa_details :: "log_value dict"
  wa_traceparent :: "string option"

record budget_pre_check_input =
  bp_task_id :: string
  bp_agent_type :: string
  bp_budget_session_id :: string
  bp_budget_limit_usd :: string
  bp_history :: "budget_history_entry list"
  bp_traceparent :: "string option"

record budget_record_input =
  br_task_id :: string
  br_agent_type :: string
  br_budget_session_id :: string
  br_budget_limit_usd :: string
  br_tokens_used :: int
  br_cost_per_token_usd :: string
  br_history :: "budget_history_entry list"
  br_traceparent :: "string option"

record budget_record_result =
  brr_snapshot :: budget_session_snapshot
  brr_history :: "budget_history_entry list"

record loop_record_input =
  lo_task_id :: string
  lo_agent_type :: string
  lo_loop_session_id :: string
  lo_token_delta :: int
  lo_signal :: loop_signal
  lo_description :: string
  lo_checkpoint :: "execution_checkpoint option"
  lo_max_agent_steps :: "int option"
  lo_max_token_velocity :: "int option"
  lo_traceparent :: "string option"

record loop_record_result =
  lor_checkpoint :: execution_checkpoint
  lor_step_count :: int
  lor_total_tokens :: int
  lor_loop_detected :: bool
  lor_intervention_required :: bool

record activity_info =
  ai_attempt :: int
  ai_workflow_id :: "string option"
  ai_activity_id :: string

text \<open>\<open>RetryPolicy\<close>, with Temporal's defaults: 1 s, factor 2, no bound on the attempts (0).\<close>

record retry_policy =
  rp_initial_interval :: rat
  rp_backoff_coefficient :: rat
  rp_maximum_attempts :: nat
  rp_non_retryable_error_types :: "string list"

definition retry_policy_of :: "nat \<Rightarrow> string list \<Rightarrow> retry_policy" where
  "retry_policy_of n types = \<lparr>rp_initial_interval = 1, rp_backoff_coefficient = 2, rp_maximum_attempts = n,
     rp_non_retryable_error_types = types\<rparr>"

definition LLM_RETRY_POLICY :: retry_policy where
  "LLM_RETRY_POLICY = \<lparr>rp_initial_interval = 1, rp_backoff_coefficient = 2, rp_maximum_attempts = 5, rp_non_retryable_error_types =
     [''PolicyDeniedError'', ''TokenScopeError'', ''TokenExpiredError'', ''HITLEscalationError'']\<rparr>"


section \<open>Helpers\<close>

definition require_task_id :: "string \<Rightarrow> string \<Rightarrow> string \<Rightarrow> ('r services, string) prog" where
  "require_task_id task_id stage agent_type =
     (if task_id \<noteq> '''' then returnE task_id
      else thenE (on_audit (error ''audit.propagation_error''
                    [(''stage'', VStr stage), (''task_id'', VStr ''missing-task-id''), (''agent_type'', VStr agent_type),
                     (''error_message'', VStr ''Temporal activity input is missing task_id'')]))
             (raiseE (exn_of MissingTaskIdError
                (''Temporal activity input for stage '' @ py_repr stage @ '' is missing task_id''))))"

text \<open>
  The span around an activity, with the attributes of \<open>_attach_span_context\<close>, \<open>_mark_span_success\<close>
  and \<open>_mark_span_error\<close>. A watchdog activity marks the span with the exception it caught, the cause
  of the \<open>ApplicationError\<close> it raises (\<open>marked\<close>). An exception outside its \<open>try\<close> block is not marked.
\<close>

definition marked :: "exn \<Rightarrow> exn" where
  "marked e = (case e of Exn (ApplicationError _ _) _ (Some c) \<Rightarrow> c | _ \<Rightarrow> e)"

definition activity_span ::
  "string \<Rightarrow> string \<Rightarrow> string \<Rightarrow> (exn \<Rightarrow> exn option) \<Rightarrow> ('r services, 'a) prog \<Rightarrow> ('r services, 'a) prog" where
  "activity_span name task_id agent_type mark body =
     in_span name (stage_attributes task_id agent_type @ ok_attributes)
       (\<lambda>e. stage_attributes task_id agent_type @ (case mark e of Some c \<Rightarrow> error_attributes c | None \<Rightarrow> []))
       (\<lambda>_. returnE ()) body"

definition stage_log :: "string \<Rightarrow> string \<Rightarrow> string \<Rightarrow> string \<Rightarrow> string \<Rightarrow> log_value dict \<Rightarrow> ('r services, unit) prog" where
  "stage_log t agent_type ev outcome stage kw = on_audit (stage_event ev outcome stage t agent_type None kw)"

definition lifecycle_log ::
  "string \<Rightarrow> string \<Rightarrow> string option \<Rightarrow> string \<Rightarrow> lifecycle_event \<Rightarrow> workflow_status \<Rightarrow> string \<Rightarrow> log_value dict
     \<Rightarrow> ('r services, unit) prog" where
  "lifecycle_log t agent_type session_id ev et ws stage kw =
     on_audit (lifecycle_event_log ev (lifecycle_value et) t agent_type session_id (workflow_status_value ws) stage None kw)"

text \<open>\<open>ApplicationError(msg, type=ty, non_retryable=True)\<close>, raised from \<open>cause\<close>.\<close>

definition application_error :: "string \<Rightarrow> string \<Rightarrow> exn option \<Rightarrow> exn" where
  "application_error ty msg cause = Exn (ApplicationError ty True) msg cause"


section \<open>Guardrails, policy and token activities\<close>

definition pre_pii_scrub :: "'r deps \<Rightarrow> workflow_input \<Rightarrow> ('r services, pre_pii_scrub_result) prog" where
  "pre_pii_scrub D i =
     bindE (require_task_id (wi_task_id i) ''pre-pii-scrub'' (wi_agent_type i)) (\<lambda>t.
     activity_span ''pre-pii-scrub'' t (wi_agent_type i) Some
       (thenE (lifecycle_log t (wi_agent_type i) (wi_session_id i) ''workflow.started'' STARTED RUNNING ''workflow-lifecycle'' [])
       (thenE (liftE (check_prompt_injection (dp_db D) (wi_prompt i)))
       (let r = mask_pii (dp_db D) (wi_prompt i) in
        thenE (stage_log t (wi_agent_type i) ''guardrails.pre_sanitize'' (if mr_found_types r \<noteq> [] then ''redact'' else ''allow'')
                 ''pre-pii-scrub'' [(''pii_types'', VStrs (mr_found_types r))])
          (returnE \<lparr>ps_sanitized_prompt = mr_text r, ps_pii_types = mr_found_types r\<rparr>)))))"

definition activity_policy_input :: "policy_eval_input \<Rightarrow> policy_input" where
  "activity_policy_input i =
     \<lparr>pin_agent_type = pe_agent_type i, pin_requester_id = pe_requester_id i, pin_action = ''llm.complete'',
      pin_resource = ''model:'' @ pe_model i, pin_metadata = [], pin_principal_role = None, pin_token_expired = False\<rparr>"

text \<open>The loop over \<open>result.fields\<close>; unlike the orchestrator's it keeps repeated types.\<close>

fun scrub_fields :: "unicode_db \<Rightarrow> string list \<Rightarrow> utext \<times> string list \<Rightarrow> utext \<times> string list" where
  "scrub_fields db [] x = x"
| "scrub_fields db (f # fs) (prompt, extra) =
     (if f = ''prompt''
      then let r = scrub db prompt in scrub_fields db fs (mr_text r, extra @ mr_found_types r)
      else scrub_fields db fs (prompt, extra))"

definition policy_decision :: "'r deps \<Rightarrow> policy_eval_input \<Rightarrow> string \<Rightarrow> ('r services, policy_result) prog" where
  "policy_decision D i t =
     (let log = stage_log t (pe_agent_type i) in
      bindE (tryE (on_http (evaluate (dp_opa D) ''agent_access'' (activity_policy_input i)))
        (\<lambda>e. if isinstance e OpaUnavailableError then
               thenE (log ''policy.opa_unavailable'' ''error'' ''policy-eval'' [(''error_message'', VStr (str_exn e))])
                 (raiseE (application_error ''PolicyDeniedError'' ''OPA unavailable - request denied (fail-closed)'' (Some e)))
             else raiseE e)) (\<lambda>result.
      if \<not> pr_allowed result \<or> pr_action result = ''reject'' then
        thenE (log ''policy.denied'' ''deny'' ''policy-eval'' [(''reasons'', VStrs (pr_reasons result))])
          (raiseE (application_error ''PolicyDeniedError''
             (''OPA denied request for agent_type='' @ py_repr (pe_agent_type i) @ '': '' @ show_strs (pr_reasons result)) None))
      else thenE (log ''policy.allowed'' ''allow'' ''policy-eval'' []) (returnE result)))"

definition policy_eval :: "'r deps \<Rightarrow> policy_eval_input \<Rightarrow> ('r services, policy_eval_result) prog" where
  "policy_eval D i =
     bindE (require_task_id (pe_task_id i) ''policy-eval'' (pe_agent_type i)) (\<lambda>t.
     activity_span ''policy-eval'' t (pe_agent_type i) Some
       (bindE (policy_decision D i t) (\<lambda>result.
        let masked = pr_action result = ''mask'';
            (prompt, extra) = (if masked then scrub_fields (dp_db D) (pr_fields result) (pe_sanitized_prompt i, [])
                               else (pe_sanitized_prompt i, []))
        in thenE (whenE masked (stage_log t (pe_agent_type i) ''policy.mask_applied'' ''redact'' ''policy-eval''
                                  [(''fields'', VStrs (pr_fields result))]))
             (returnE \<lparr>per_allowed = pr_allowed result, per_action = pr_action result, per_fields = pr_fields result,
                       per_sanitized_prompt = prompt, per_extra_pii_types = extra\<rparr>))))"

definition scoped_token_request ::
  "string \<Rightarrow> string \<Rightarrow> string option \<Rightarrow> string list \<Rightarrow> string option \<Rightarrow> string option \<Rightarrow> string option \<Rightarrow> token_request" where
  "scoped_token_request agent_type requester_id session_id actions role rotation_key task_id =
     \<lparr>rq_agent_type = agent_type, rq_requester_id = requester_id, rq_metadata = [], rq_session_id = session_id,
      rq_allowed_actions = actions, rq_role = role, rq_expires_in_seconds = None, rq_rotation_key = rotation_key,
      rq_task_id = task_id, rq_confirmation_jwk = None\<rparr>"

definition jit_token_issue :: "'r deps \<Rightarrow> jit_token_input \<Rightarrow> ('r services, jit_token_result) prog" where
  "jit_token_issue D i =
     bindE (require_task_id (jt_task_id i) ''jit-token-issue'' (jt_agent_type i)) (\<lambda>t.
     activity_span ''jit-token-issue'' t (jt_agent_type i) Some
       (bindE (if jt_protect_outbound_request i
               then bindE generate_dpop_key_pair (\<lambda>(pem, jwk). returnE (Some pem, Some jwk))
               else returnE (None, None)) (\<lambda>(pem, jwk).
        bindE (on_session (issue_token (dp_libs D) (dp_cfg D)
                 (scoped_token_request (jt_agent_type i) (jt_requester_id i) (jt_session_id i) (jt_allowed_actions i)
                    (jt_role i) (jt_rotation_key i) None))) (\<lambda>token.
        bindE (on_session (validate_token (dp_libs D) (dp_cfg D) token)) (\<lambda>claims.
        thenE (stage_log t (jt_agent_type i) ''token.issued'' ''allow'' ''jit-token-issue'' [(''jti'', VStr (tc_jti claims))])
          (returnE \<lparr>jr_token = token, jr_jti = tc_jti claims, jr_protected_private_key_pem = pem,
                    jr_protected_public_jwk = jwk\<rparr>))))))"


section \<open>Watchdog activities\<close>

definition restore_budget_session ::
  "string \<Rightarrow> string \<Rightarrow> string \<Rightarrow> budget_history_entry list \<Rightarrow> ('r services, uuid \<times> budget_session) prog" where
  "restore_budget_session budget_session_id agent_type limit_usd history =
     bindE (liftE (parse_uuid budget_session_id)) (\<lambda>session_id.
     bindE (liftE (parse_decimal limit_usd)) (\<lambda>limit.
     bindE (on_budget (restore_from_history session_id agent_type limit history)) (\<lambda>restored.
     returnE (session_id, restored))))"

text \<open>The \<open>except BudgetExceededError\<close> clause of both budget activities.\<close>

definition budget_refusal :: "string \<Rightarrow> string \<Rightarrow> string \<Rightarrow> string \<Rightarrow> string \<Rightarrow> exn \<Rightarrow> ('r services, 'a) prog" where
  "budget_refusal t agent_type sid ev stage e =
     (if isinstance e BudgetExceededError then
        thenE (stage_log t agent_type ev ''deny'' stage
                 [(''budget_session_id'', VStr sid), (''error_message'', VStr (str_exn e))])
          (raiseE (application_error ''BudgetExceededError'' (str_exn e) (Some e)))
      else raiseE e)"

definition budget_pre_check :: "budget_pre_check_input \<Rightarrow> ('r services, budget_session_snapshot) prog" where
  "budget_pre_check i =
     bindE (require_task_id (bp_task_id i) ''watchdog.pre-llm'' (bp_agent_type i)) (\<lambda>t.
     activity_span ''watchdog.pre-llm'' t (bp_agent_type i) (Some \<circ> marked)
       (tryE
          (bindE (restore_budget_session (bp_budget_session_id i) (bp_agent_type i) (bp_budget_limit_usd i) (bp_history i))
             (\<lambda>(session_id, restored).
           thenE (on_budget (check_budget session_id))
          (thenE (stage_log t (bp_agent_type i) ''budget.pre_check'' ''allow'' ''watchdog.pre-llm''
                    [(''budget_session_id'', VStr (bp_budget_session_id i)),
                     (''spent_usd'', VStr (dec_to_string (bs_cost_usd restored)))])
             (returnE (serialize restored)))))
          (budget_refusal t (bp_agent_type i) (bp_budget_session_id i) ''budget.exceeded'' ''watchdog.pre-llm'')))"

definition operation_id :: "activity_info \<Rightarrow> string" where
  "operation_id nfo = (case ai_workflow_id nfo of Some w \<Rightarrow> w @ '':'' @ ai_activity_id nfo | None \<Rightarrow> ai_activity_id nfo)"

definition budget_record_spend :: "activity_info \<Rightarrow> budget_record_input \<Rightarrow> ('r services, budget_record_result) prog" where
  "budget_record_spend nfo i =
     bindE (require_task_id (br_task_id i) ''watchdog.record-spend'' (br_agent_type i)) (\<lambda>t.
     activity_span ''watchdog.record-spend'' t (br_agent_type i) (Some \<circ> marked)
       (tryE
          (bindE (restore_budget_session (br_budget_session_id i) (br_agent_type i) (br_budget_limit_usd i) (br_history i))
             (\<lambda>(session_id, restored).
           bindE (liftE (parse_decimal (br_cost_per_token_usd i))) (\<lambda>cost.
           bindE (on_budget (record_tokens session_id (br_tokens_used i) cost (Some (operation_id nfo)))) (\<lambda>session.
           let history = (if operation_id nfo \<in> bs_applied_operation_ids restored then br_history i
                          else br_history i @ [\<lparr>bh_operation_id = operation_id nfo,
                                 bh_amount_usd = dec_to_string (dmul cost (dec_of_int (br_tokens_used i))),
                                 bh_tokens_used = br_tokens_used i\<rparr>])
           in thenE (stage_log t (br_agent_type i) ''budget.spend_recorded'' ''allow'' ''watchdog.record-spend''
                       [(''budget_session_id'', VStr (br_budget_session_id i)),
                        (''spent_usd'', VStr (dec_to_string (bs_cost_usd session)))])
                (returnE \<lparr>brr_snapshot = serialize session, brr_history = history\<rparr>)))))
          (budget_refusal t (br_agent_type i) (br_budget_session_id i) ''budget.exceeded_on_record'' ''watchdog.record-spend'')))"

text \<open>
  A method of the detector that \<open>_build_loop_detector\<close> made; it writes to the shared logger, and its
  state outlives an exception, since the \<open>except\<close> clauses read it.
\<close>

definition on_detector ::
  "loop_detector \<Rightarrow> (loop_detector, 'a) prog \<Rightarrow> ('r services, (exn + 'a) \<times> loop_detector) prog" where
  "on_detector d p =
     (\<lambda>w. let (r, d') = p (d\<lparr>lp_audit := sv_audit w\<rparr>) in (Inr (r, d'), w\<lparr>sv_audit := lp_audit d'\<rparr>))"

definition build_loop_detector :: "'r deps \<Rightarrow> loop_record_input \<Rightarrow> ('r services, loop_detector) prog" where
  "build_loop_detector D i =
     getE (\<lambda>w. new_loop_detector (dp_cfg D) (lo_max_agent_steps i) (lo_max_token_velocity i) (sv_audit w))"

definition detector_step :: "loop_record_input \<Rightarrow> uuid \<Rightarrow> (loop_detector, execution_context) prog" where
  "detector_step i sid =
     thenE (case lo_checkpoint i of None \<Rightarrow> create_context sid (lo_agent_type i) | Some c \<Rightarrow> restore c)
       (record_step sid (lo_token_delta i) (lo_signal i) (lo_description i))"

definition loop_refusal :: "string \<Rightarrow> loop_record_input \<Rightarrow> uuid \<Rightarrow> loop_detector \<Rightarrow> exn \<Rightarrow> ('r services, 'a) prog" where
  "loop_refusal t i sid d e =
     (let (steps, tokens) = (case lp_contexts d sid of Some c \<Rightarrow> (int (length (ec_steps c)), ec_total_tokens c) | None \<Rightarrow> (0, 0));
          refuse = (\<lambda>ev ty. thenE (stage_log t (lo_agent_type i) ev ''deny'' ''watchdog.loop-detect''
                                     [(''error_message'', VStr (str_exn e))])
             (raiseE (application_error ty (str_exn e @ '' [step_count='' @ show_int steps @ '' total_tokens=''
                @ show_int tokens @ '']'') (Some e))))
      in if isinstance e LoopDetectedError then refuse ''loop.halted'' ''LoopDetectedError''
         else if isinstance e TokenVelocityError then refuse ''loop.velocity_exceeded'' ''TokenVelocityError''
         else if isinstance e PendingApprovalError then refuse ''loop.pending_approval'' ''PendingApprovalError''
         else raiseE e)"

definition loop_record_step :: "'r deps \<Rightarrow> loop_record_input \<Rightarrow> ('r services, loop_record_result) prog" where
  "loop_record_step D i =
     bindE (require_task_id (lo_task_id i) ''watchdog.loop-detect'' (lo_agent_type i)) (\<lambda>t.
     activity_span ''watchdog.loop-detect'' t (lo_agent_type i)
       (\<lambda>e. if isl (parse_uuid (lo_loop_session_id i)) then None else Some (marked e))
       (bindE (liftE (parse_uuid (lo_loop_session_id i))) (\<lambda>sid.
        bindE (build_loop_detector D i) (\<lambda>d.
        bindE (on_detector d (detector_step i sid)) (\<lambda>(r, d1).
        case r of
          Inl e \<Rightarrow> loop_refusal t i sid d1 e
        | Inr ctx \<Rightarrow>
            thenE (stage_log t (lo_agent_type i) ''loop.step_recorded'' ''allow'' ''watchdog.loop-detect''
                     [(''step'', VStr (show_nat (length (ec_steps ctx)))), (''signal'', VStr (signal_value (lo_signal i)))])
           (bindE (on_detector d1 (checkpoint sid)) (\<lambda>(c, d2).
            bindE (liftE c) (\<lambda>c.
            returnE \<lparr>lor_checkpoint = c, lor_step_count = int (length (ec_steps ctx)), lor_total_tokens = ec_total_tokens ctx,
                     lor_loop_detected = ec_loop_detected ctx, lor_intervention_required = ec_intervention_required ctx\<rparr>)))))))) "


section \<open>Completion and sanitisation\<close>

definition invoke_request :: "llm_invoke_input \<Rightarrow> string dict \<Rightarrow> llm_request" where
  "invoke_request i md =
     \<lparr>lq_prompt = iv_sanitized_prompt i, lq_model = iv_model i, lq_max_tokens = iv_max_tokens i,
      lq_temperature = iv_temperature i, lq_system_prompt = iv_system_prompt i, lq_metadata = md\<rparr>"

text \<open>The token of an attempt after the first.\<close>

definition reissue_token :: "'r deps \<Rightarrow> activity_info \<Rightarrow> llm_invoke_input \<Rightarrow> string \<Rightarrow> ('r services, string) prog" where
  "reissue_token D nfo i t =
     (let log = stage_log t (iv_agent_type i) in
      bindE (on_session (issue_token (dp_libs D) (dp_cfg D)
               (scoped_token_request (iv_agent_type i) (iv_requester_id i) (iv_session_id i) (iv_allowed_actions i)
                  (iv_role i) (iv_rotation_key i) None))) (\<lambda>token.
      bindE (on_session (validate_token (dp_libs D) (dp_cfg D) token)) (\<lambda>claims.
      thenE (log ''token.reissued'' ''allow'' ''jit-token-issue''
               [(''attempt'', VInt (ai_attempt nfo)), (''jti'', VStr (tc_jti claims))])
     (thenE (log ''llm.retried'' ''retried'' ''llm-invoke'' [(''attempt'', VInt (ai_attempt nfo))])
     (thenE (lifecycle_log t (iv_agent_type i) (iv_session_id i) ''llm.retried'' RETRIED RUNNING ''llm-invoke''
               [(''retry_count'', VInt (ai_attempt nfo - 1))])
        (returnE token))))))"

definition protect_invocation ::
  "'r deps \<Rightarrow> llm_invoke_input \<Rightarrow> string \<Rightarrow> string \<Rightarrow> ('r services, string \<times> string option) prog" where
  "protect_invocation D i t token =
     (case (iv_protected_private_key_pem i, iv_protected_public_jwk i) of
        (Some pem, Some jwk) \<Rightarrow>
          (case outbound_request_binding (dp_adapter D) (invoke_request i [(''aegis_token'', token)]) of
             None \<Rightarrow> raiseE (exn_of ValueError (''Adapter '' @ py_repr (provider_name (dp_adapter D))
               @ '' does not expose an outbound request binding for protected flows''))
           | Some (http_method, http_url) \<Rightarrow>
               bindE (on_session (issue_sender_constrained_token (dp_libs D) (dp_cfg D)
                        (scoped_token_request (iv_agent_type i) (iv_requester_id i) (iv_session_id i) [''llm.invoke'']
                           (iv_role i) (Some (''scheduler-adapter:'' @ t)) (Some t)) jwk)) (\<lambda>adapter_token.
               bindE (on_session (issue_dpop_proof (dp_libs D) pem jwk http_method http_url (Some adapter_token)
                        None None None)) (\<lambda>prf.
               bindE (on_session (validate_token (dp_libs D) (dp_cfg D) adapter_token)) (\<lambda>claims.
               thenE (stage_log t (iv_agent_type i) ''token.sender_constrained_issued'' ''allow'' ''jit-token-issue''
                        [(''jti'', VStr (tc_jti claims))])
                 (returnE (adapter_token, Some prf))))))
      | _ \<Rightarrow> raiseE (exn_of ValueError ''Protected outbound requests require DPoP key material from JITTokenIssue''))"

definition llm_invoke :: "'r deps \<Rightarrow> activity_info \<Rightarrow> llm_invoke_input \<Rightarrow> ('r services, llm_invoke_result) prog" where
  "llm_invoke D nfo i =
     bindE (require_task_id (iv_task_id i) ''llm-invoke'' (iv_agent_type i)) (\<lambda>t.
     activity_span ''llm-invoke'' t (iv_agent_type i) Some
       (bindE (if 1 < ai_attempt nfo then reissue_token D nfo i t else returnE (iv_token i)) (\<lambda>token.
        bindE (if iv_protect_outbound_request i then protect_invocation D i t token else returnE (token, None))
          (\<lambda>(adapter_token, prf).
        bindE (complete D (invoke_request i (adapter_metadata adapter_token prf))) (\<lambda>resp.
        thenE (stage_log t (iv_agent_type i) ''llm.completed'' ''allow'' ''llm-invoke''
                 [(''model'', VStr (lr_model resp)), (''tokens_used'', VInt (lr_tokens_used resp))])
          (returnE \<lparr>ir_content = lr_content resp, ir_tokens_used = lr_tokens_used resp, ir_model = lr_model resp,
                    ir_provider = lr_provider resp, ir_retry_count = ai_attempt nfo - 1\<rparr>))))))"

definition post_sanitize :: "'r deps \<Rightarrow> post_sanitize_input \<Rightarrow> ('r services, post_sanitize_result) prog" where
  "post_sanitize D i =
     bindE (require_task_id (po_task_id i) ''post-sanitize'' (po_agent_type i)) (\<lambda>t.
     activity_span ''post-sanitize'' t (po_agent_type i) Some
       (let r = mask_pii (dp_db D) (po_content i) in
        thenE (stage_log t (po_agent_type i) ''guardrails.post_sanitize'' (if mr_found_types r \<noteq> [] then ''redact'' else ''allow'')
                 ''post-sanitize'' [(''pii_types'', VStrs (mr_found_types r))])
       (thenE (lifecycle_log t (po_agent_type i) (po_session_id i) ''workflow.completed'' COMPLETED WCOMPLETED
                 ''workflow-lifecycle'' [(''total_retries'', VInt (po_total_retries i))])
          (returnE \<lparr>pos_sanitized_content = mr_text r, pos_pii_types = mr_found_types r\<rparr>))))"


section \<open>Workflow audit\<close>

text \<open>\<open>WorkflowAuditActivities.record_event\<close>. The details it is given never repeat a named argument.\<close>

definition record_event :: "workflow_audit_input \<Rightarrow> ('r services, unit) prog" where
  "record_event i =
     (let named = [(''task_id'', VStr (wa_task_id i)), (''agent_type'', VStr (wa_agent_type i))] @ wa_details i in
      case wa_event_type i of
        Some et \<Rightarrow> on_audit (lifecycle_event_log (wa_event i) et (wa_task_id i) (wa_agent_type i) (wa_session_id i)
                     (wa_workflow_status i) (wa_stage i) None (wa_details i))
      | None \<Rightarrow>
          if wa_outcome i = ''deny'' then on_audit (warning (wa_event i) named)
          else if wa_outcome i = ''error'' then on_audit (error (wa_event i) named)
          else on_audit (info (wa_event i) named))"

end
