(* ===== verification/Workflow.thy ===== *)
theory Workflow
  imports Activities
begin

text \<open>
  \<open>src/control_plane/scheduler.py\<close>, second part: the Temporal workflow \<open>AgentTaskWorkflow\<close> and the
  in-memory \<open>AgentScheduler\<close>.

  Temporal itself is a parameter. \<open>execute_activity\<close> is an argument \<open>ex\<close> of the workflow, which is
  given the retry policy and the activity as a function of the attempt number; the locale \<open>temporal\<close> (theory \<open>Temporal\<close>)
  states what Temporal documents of it. The signals that reach the workflow while it waits are a
  function of the number of the wait (\<open>kw_inbox\<close>), one list for every activation; the worker that runs
  the workflow delivers the signals of an activation before the workflow code continues.
  \<open>workflow.now()\<close> and the activity ids are functions of that number too.
\<close>

section \<open>State\<close>

datatype pending_approval_state = NOT_REQUIRED | AWAITING_APPROVAL | APPROVAL_APPROVED | APPROVAL_DENIED | TIMED_OUT

fun approval_value :: "pending_approval_state \<Rightarrow> string" where
  "approval_value NOT_REQUIRED = ''not-required''"
| "approval_value AWAITING_APPROVAL = ''awaiting-approval''"
| "approval_value APPROVAL_APPROVED = ''approved''"
| "approval_value APPROVAL_DENIED = ''denied''"
| "approval_value TIMED_OUT = ''timed-out''"

record approval_signal_payload =
  sg_approver_id :: string
  sg_reason :: string
  sg_approved :: bool

record approval_status_snapshot =
  ap_task_id :: string
  ap_session_id :: "string option"
  ap_agent_type :: string
  ap_workflow_status :: string
  ap_approval_state :: string
  ap_pending_since :: "rat option"

record agent_task_workflow =
  tw_task_id :: string
  tw_session_id :: "string option"
  tw_agent_type :: string
  tw_workflow_status :: string
  tw_approval_state :: pending_approval_state
  tw_approval_signal :: "approval_signal_payload option"
  tw_pending_since :: "rat option"

definition new_agent_task_workflow :: agent_task_workflow where
  "new_agent_task_workflow =
     \<lparr>tw_task_id = '''', tw_session_id = None, tw_agent_type = ''general'',
      tw_workflow_status = workflow_status_value PENDING, tw_approval_state = NOT_REQUIRED,
      tw_approval_signal = None, tw_pending_since = None\<rparr>"

record workflow_output =
  wo_task_id :: string
  wo_content :: utext
  wo_sanitized_prompt :: utext
  wo_pii_types :: "string list"
  wo_tokens_used :: int
  wo_model :: string
  wo_workflow_status :: string
  wo_approval_state :: string
  wo_approver_id :: "string option"
  wo_reason :: "string option"
  wo_budget_spent_usd :: "string option"


section \<open>Signals and queries\<close>

definition approve :: "approval_signal_payload \<Rightarrow> agent_task_workflow \<Rightarrow> agent_task_workflow" where
  "approve d s = (if tw_approval_state s = AWAITING_APPROVAL then s\<lparr>tw_approval_signal := Some d\<rparr> else s)"

definition deny :: "approval_signal_payload \<Rightarrow> agent_task_workflow \<Rightarrow> agent_task_workflow" where
  "deny d s = (if tw_approval_state s = AWAITING_APPROVAL then s\<lparr>tw_approval_signal := Some d\<rparr> else s)"

definition approval_status :: "agent_task_workflow \<Rightarrow> approval_status_snapshot" where
  "approval_status s =
     \<lparr>ap_task_id = tw_task_id s, ap_session_id = tw_session_id s, ap_agent_type = tw_agent_type s,
      ap_workflow_status = tw_workflow_status s, ap_approval_state = approval_value (tw_approval_state s),
      ap_pending_since = tw_pending_since s\<rparr>"

datatype signal = Approve approval_signal_payload | Deny approval_signal_payload

fun receive :: "signal \<Rightarrow> agent_task_workflow \<Rightarrow> agent_task_workflow" where
  "receive (Approve d) s = approve d s"
| "receive (Deny d) s = deny d s"


section \<open>Activities by name\<close>

text \<open>The activities that \<open>create_worker\<close> registers, with their inputs, and what they return.\<close>

datatype activity_call =
    PrePIIScrub workflow_input | PolicyEval policy_eval_input | BudgetPreCheck budget_pre_check_input
  | LoopRecordStep loop_record_input | JITTokenIssue jit_token_input | LLMInvoke llm_invoke_input
  | BudgetRecordSpend budget_record_input | PostSanitize post_sanitize_input | WorkflowAudit workflow_audit_input

datatype activity_result =
    PrePIIScrubResult pre_pii_scrub_result | PolicyEvalResult policy_eval_result
  | BudgetPreCheckResult budget_session_snapshot | LoopRecordResult loop_record_result
  | JITTokenResult jit_token_result | LLMInvokeResult llm_invoke_result
  | BudgetRecordResult budget_record_result | PostSanitizeResult post_sanitize_result | NoResult

definition mapE_result :: "('a \<Rightarrow> 'b) \<Rightarrow> ('s, 'a) prog \<Rightarrow> ('s, 'b) prog" where
  "mapE_result f p = bindE p (\<lambda>x. returnE (f x))"

fun perform :: "'r deps \<Rightarrow> activity_info \<Rightarrow> activity_call \<Rightarrow> ('r services, activity_result) prog" where
  "perform D nfo (PrePIIScrub i) = mapE_result PrePIIScrubResult (pre_pii_scrub D i)"
| "perform D nfo (PolicyEval i) = mapE_result PolicyEvalResult (policy_eval D i)"
| "perform D nfo (BudgetPreCheck i) = mapE_result BudgetPreCheckResult (budget_pre_check i)"
| "perform D nfo (LoopRecordStep i) = mapE_result LoopRecordResult (loop_record_step D i)"
| "perform D nfo (JITTokenIssue i) = mapE_result JITTokenResult (jit_token_issue D i)"
| "perform D nfo (LLMInvoke i) = mapE_result LLMInvokeResult (llm_invoke D nfo i)"
| "perform D nfo (BudgetRecordSpend i) = mapE_result BudgetRecordResult (budget_record_spend nfo i)"
| "perform D nfo (PostSanitize i) = mapE_result PostSanitizeResult (post_sanitize D i)"
| "perform D nfo (WorkflowAudit i) = mapE_result (\<lambda>_. NoResult) (record_event i)"

type_synonym 'r executor =
  "retry_policy \<Rightarrow> (nat \<Rightarrow> ('r services, activity_result) prog) \<Rightarrow> ('r services, activity_result) prog"

record 'r task_world =
  kw_services :: "'r services"
  kw_self :: agent_task_workflow
  kw_waits :: nat
  kw_inbox :: "nat \<Rightarrow> signal list list"
  kw_after :: "nat \<Rightarrow> nat \<Rightarrow> rat"
  kw_now :: "nat \<Rightarrow> rat"
  kw_workflow_id :: string
  kw_activity_id :: "nat \<Rightarrow> string"

text \<open>\<open>await workflow.execute_activity(...)\<close>: the signals of the wait are delivered when it is over.\<close>

definition execute_activity ::
  "'r executor \<Rightarrow> 'r deps \<Rightarrow> retry_policy \<Rightarrow> activity_call \<Rightarrow> ('r task_world, activity_result) prog" where
  "execute_activity ex D pol c =
     (\<lambda>k. let n = kw_waits k;
              nfo = (\<lambda>attempt. \<lparr>ai_attempt = int attempt, ai_workflow_id = Some (kw_workflow_id k),
                                ai_activity_id = kw_activity_id k n\<rparr>);
              (r, s) = ex pol (\<lambda>attempt. perform D (nfo attempt) c) (kw_services k)
          in (r, k\<lparr>kw_services := s, kw_waits := Suc n, kw_self := fold receive (concat (kw_inbox k n)) (kw_self k)\<rparr>))"

definition modify_self :: "(agent_task_workflow \<Rightarrow> agent_task_workflow) \<Rightarrow> ('r task_world, unit) prog" where
  "modify_self f = modifyE (\<lambda>k. k\<lparr>kw_self := f (kw_self k)\<rparr>)"

text \<open>
  \<open>workflow.wait_condition(lambda: self._approval_signal is not None, timeout=...)\<close>: the condition is
  tested after every activation; the \<open>j\<close>-th activation of the \<open>n\<close>-th wait comes \<open>kw_after n j\<close> seconds after the wait
  began. Those that come when the timer has fired are too late, and \<open>TimeoutError\<close> is raised. (What they
  bring is delivered later, to a workflow that is no longer awaiting approval and drops it.)
\<close>

definition in_time :: "rat \<Rightarrow> (nat \<Rightarrow> rat) \<Rightarrow> signal list list \<Rightarrow> signal list list" where
  "in_time timeout after bs = map snd (takeWhile (\<lambda>(j, b). after j < timeout) (enumerate 0 bs))"

fun wait_activations :: "signal list list \<Rightarrow> agent_task_workflow \<Rightarrow> agent_task_workflow" where
  "wait_activations [] s = s"
| "wait_activations (b # bs) s =
     (if tw_approval_signal s \<noteq> None then s else wait_activations bs (fold receive b s))"

definition wait_for_signal :: "rat \<Rightarrow> ('r task_world, unit) prog" where
  "wait_for_signal timeout =
     (\<lambda>k. let n = kw_waits k;
              s = wait_activations (in_time timeout (kw_after k n) (kw_inbox k n)) (kw_self k);
              k' = k\<lparr>kw_self := s, kw_waits := Suc n\<rparr>
          in if tw_approval_signal s \<noteq> None then (Inr (), k') else (Inl (exn_of TimeoutError ''''), k'))"

text \<open>The conversion of a result to its \<open>result_type\<close>.\<close>

definition wrong_result :: "exn + 'a" where
  "wrong_result = Inl (exn_of TypeError ''activity result of another type'')"

definition as_scrub :: "activity_result \<Rightarrow> exn + pre_pii_scrub_result" where
  "as_scrub r = (case r of PrePIIScrubResult x \<Rightarrow> Inr x | _ \<Rightarrow> wrong_result)"

definition as_policy :: "activity_result \<Rightarrow> exn + policy_eval_result" where
  "as_policy r = (case r of PolicyEvalResult x \<Rightarrow> Inr x | _ \<Rightarrow> wrong_result)"

definition as_token :: "activity_result \<Rightarrow> exn + jit_token_result" where
  "as_token r = (case r of JITTokenResult x \<Rightarrow> Inr x | _ \<Rightarrow> wrong_result)"

definition as_precheck :: "activity_result \<Rightarrow> exn + budget_session_snapshot" where
  "as_precheck r = (case r of BudgetPreCheckResult x \<Rightarrow> Inr x | _ \<Rightarrow> wrong_result)"

definition as_llm :: "activity_result \<Rightarrow> exn + llm_invoke_result" where
  "as_llm r = (case r of LLMInvokeResult x \<Rightarrow> Inr x | _ \<Rightarrow> wrong_result)"

definition as_record :: "activity_result \<Rightarrow> exn + budget_record_result" where
  "as_record r = (case r of BudgetRecordResult x \<Rightarrow> Inr x | _ \<Rightarrow> wrong_result)"

definition as_post :: "activity_result \<Rightarrow> exn + post_sanitize_result" where
  "as_post r = (case r of PostSanitizeResult x \<Rightarrow> Inr x | _ \<Rightarrow> wrong_result)"


section \<open>The approval gate\<close>

text \<open>The calls of \<open>WorkflowAudit\<close>, with the status of the workflow at that time.\<close>

definition audit_call ::
  "'r executor \<Rightarrow> 'r deps \<Rightarrow> workflow_input \<Rightarrow> string \<Rightarrow> string \<Rightarrow> string \<Rightarrow> lifecycle_event option \<Rightarrow> log_value dict
     \<Rightarrow> ('r task_world, unit) prog" where
  "audit_call ex D i ev outcome stage et details =
     bindE (getE (\<lambda>k. tw_workflow_status (kw_self k))) (\<lambda>status.
     thenE (execute_activity ex D (retry_policy_of 3 [])
              (WorkflowAudit \<lparr>wa_event = ev, wa_outcome = outcome, wa_stage = stage, wa_task_id = wi_task_id i,
                 wa_agent_type = wi_agent_type i, wa_session_id = wi_session_id i, wa_workflow_status = status,
                 wa_event_type = map_option lifecycle_value et, wa_details = details, wa_traceparent = None\<rparr>))
       (returnE ()))"

definition timed_out :: "'r executor \<Rightarrow> 'r deps \<Rightarrow> workflow_input \<Rightarrow> ('r task_world, approval_signal_payload) prog" where
  "timed_out ex D i =
     thenE (modify_self (\<lambda>s. s\<lparr>tw_approval_state := TIMED_OUT, tw_workflow_status := approval_value TIMED_OUT,
              tw_pending_since := None\<rparr>))
    (thenE (audit_call ex D i ''workflow.timed_out'' ''deny'' ''pending-approval'' (Some DENIED)
              [(''approver_id'', VStr ''timeout'')])
     (returnE \<lparr>sg_approver_id = ''timeout'', sg_reason = ''Approval timed out'', sg_approved = False\<rparr>))"

definition decided ::
  "'r executor \<Rightarrow> 'r deps \<Rightarrow> workflow_input \<Rightarrow> approval_signal_payload \<Rightarrow> ('r task_world, approval_signal_payload) prog" where
  "decided ex D i sg =
     thenE (modify_self (\<lambda>s. s\<lparr>tw_approval_state := (if sg_approved sg then APPROVAL_APPROVED else APPROVAL_DENIED),
              tw_workflow_status := (if sg_approved sg then workflow_status_value RUNNING else approval_value APPROVAL_DENIED),
              tw_pending_since := None\<rparr>))
    (thenE (audit_call ex D i (if sg_approved sg then ''workflow.approved'' else ''workflow.denied'')
              (if sg_approved sg then ''allow'' else ''deny'') ''pending-approval''
              (Some (if sg_approved sg then APPROVED else DENIED))
              [(''approver_id'', VStr (sg_approver_id sg)), (''reason'', VStr (sg_reason sg))])
     (returnE sg))"

definition await_pending_approval ::
  "'r executor \<Rightarrow> 'r deps \<Rightarrow> workflow_input \<Rightarrow> ('r task_world, approval_signal_payload) prog" where
  "await_pending_approval ex D i =
     bindE (getE (\<lambda>k. kw_now k (kw_waits k))) (\<lambda>now.
     thenE (modify_self (\<lambda>s. s\<lparr>tw_approval_state := AWAITING_APPROVAL,
              tw_workflow_status := workflow_status_value HUMAN_INTERVENTION_REQUIRED, tw_pending_since := Some now\<rparr>))
    (thenE (audit_call ex D i ''workflow.pending_approval'' ''allow'' ''pending-approval'' (Some PENDING_APPROVAL)
              [(''projected_spend_usd'', VStr (wi_projected_spend_usd i))])
    (bindE (tryE (bindE (wait_for_signal (of_int (wi_approval_timeout_seconds i))) (\<lambda>_. getE (\<lambda>k. tw_approval_signal (kw_self k))))
              (\<lambda>e. if isinstance e TimeoutError then returnE None else raiseE e)) (\<lambda>sg.
     case sg of None \<Rightarrow> timed_out ex D i | Some d \<Rightarrow> decided ex D i d))))"


section \<open>The workflow\<close>

definition is_activity_error :: "exn \<Rightarrow> bool" where
  "is_activity_error e = (case exc_cls e of ActivityError _ \<Rightarrow> True | _ \<Rightarrow> False)"

definition fatal_types :: "string list" where
  "fatal_types = [''PolicyDeniedError'', ''TokenScopeError'', ''TokenExpiredError'']"

text \<open>The two ends of the \<open>except ActivityError\<close> clause of \<open>LLMInvoke\<close>.\<close>

definition fail_workflow ::
  "'r executor \<Rightarrow> 'r deps \<Rightarrow> workflow_input \<Rightarrow> exn \<Rightarrow> exn \<Rightarrow> string \<Rightarrow> ('r task_world, 'a) prog" where
  "fail_workflow ex D i e cause ty =
     thenE (modify_self (\<lambda>s. s\<lparr>tw_workflow_status := workflow_status_value WFAILED\<rparr>))
    (thenE (audit_call ex D i ''workflow.failed'' ''error'' ''llm-invoke'' (Some FAILED)
              [(''error_type'', VStr ty), (''reason'', VStr (exc_msg cause))])
       (raiseE (Exn (exc_cls cause) (exc_msg cause) (Some e))))"

definition retry_state :: "exn \<Rightarrow> string" where
  "retry_state e = (case exc_cls e of ActivityError st \<Rightarrow> st | _ \<Rightarrow> '''')"

definition escalate :: "'r executor \<Rightarrow> 'r deps \<Rightarrow> workflow_input \<Rightarrow> exn \<Rightarrow> ('r task_world, 'a) prog" where
  "escalate ex D i e =
     thenE (modify_self (\<lambda>s. s\<lparr>tw_workflow_status := workflow_status_value HUMAN_INTERVENTION_REQUIRED\<rparr>))
    (thenE (audit_call ex D i ''workflow.hitl_required'' ''error'' ''llm-invoke'' None
              [(''maximum_attempts'', VStr (show_nat (rp_maximum_attempts LLM_RETRY_POLICY))),
               (''retry_state'', VStr (retry_state e))])
       (raiseE (Exn HITLEscalationError
          (''LLMInvoke exhausted '' @ show_nat (rp_maximum_attempts LLM_RETRY_POLICY) @ '' attempts for task_id=''
             @ wi_task_id i @ '': '' @ str_exn e) (Some e))))"

definition fatal_type :: "exn option \<Rightarrow> string option" where
  "fatal_type c =
     (case c of
        Some x \<Rightarrow> (case exc_cls x of ApplicationError ty _ \<Rightarrow> if ty \<in> set fatal_types then Some ty else None | _ \<Rightarrow> None)
      | None \<Rightarrow> None)"

definition llm_failed :: "'r executor \<Rightarrow> 'r deps \<Rightarrow> workflow_input \<Rightarrow> exn \<Rightarrow> ('r task_world, 'a) prog" where
  "llm_failed ex D i e =
     (if \<not> is_activity_error e then raiseE e
      else case fatal_type (exc_cause e) of
             Some ty \<Rightarrow> fail_workflow ex D i e (the (exc_cause e)) ty
           | None \<Rightarrow> escalate ex D i e)"

text \<open>An activity with the conversion of its result.\<close>

definition call_activity ::
  "'r executor \<Rightarrow> 'r deps \<Rightarrow> retry_policy \<Rightarrow> activity_call \<Rightarrow> (activity_result \<Rightarrow> exn + 'a) \<Rightarrow> ('r task_world, 'a) prog" where
  "call_activity ex D pol c conv = bindE (execute_activity ex D pol c) (\<lambda>r. liftE (conv r))"

definition start_workflow :: "workflow_input \<Rightarrow> agent_task_workflow \<Rightarrow> agent_task_workflow" where
  "start_workflow i s = s\<lparr>tw_task_id := wi_task_id i, tw_session_id := wi_session_id i, tw_agent_type := wi_agent_type i,
     tw_workflow_status := workflow_status_value RUNNING, tw_pending_since := None\<rparr>"

definition policy_call :: "workflow_input \<Rightarrow> pre_pii_scrub_result \<Rightarrow> policy_eval_input" where
  "policy_call i scrubbed =
     \<lparr>pe_task_id = wi_task_id i, pe_sanitized_prompt = ps_sanitized_prompt scrubbed, pe_agent_type = wi_agent_type i,
      pe_requester_id = wi_requester_id i, pe_model = wi_model i, pe_traceparent = wi_traceparent i\<rparr>"

definition token_call :: "workflow_input \<Rightarrow> jit_token_input" where
  "token_call i =
     \<lparr>jt_agent_type = wi_agent_type i, jt_requester_id = wi_requester_id i, jt_task_id = wi_task_id i,
      jt_protect_outbound_request = wi_protect_outbound_request i, jt_session_id = wi_session_id i,
      jt_allowed_actions = [''llm:complete''], jt_role = None, jt_rotation_key = Some (''llm:'' @ wi_task_id i),
      jt_traceparent = wi_traceparent i\<rparr>"

definition llm_call :: "workflow_input \<Rightarrow> policy_eval_result \<Rightarrow> jit_token_result \<Rightarrow> llm_invoke_input" where
  "llm_call i pol tok =
     \<lparr>iv_task_id = wi_task_id i, iv_token = jr_token tok, iv_sanitized_prompt = per_sanitized_prompt pol,
      iv_agent_type = wi_agent_type i, iv_requester_id = wi_requester_id i, iv_model = wi_model i,
      iv_max_tokens = wi_max_tokens i, iv_temperature = wi_temperature i, iv_system_prompt = wi_system_prompt i,
      iv_protect_outbound_request = wi_protect_outbound_request i, iv_session_id = wi_session_id i,
      iv_allowed_actions = [''llm:complete''], iv_role = None, iv_rotation_key = Some (''llm:'' @ wi_task_id i),
      iv_protected_private_key_pem = jr_protected_private_key_pem tok,
      iv_protected_public_jwk = jr_protected_public_jwk tok, iv_traceparent = wi_traceparent i\<rparr>"

definition post_call :: "workflow_input \<Rightarrow> llm_invoke_result \<Rightarrow> post_sanitize_input" where
  "post_call i r =
     \<lparr>po_task_id = wi_task_id i, po_agent_type = wi_agent_type i, po_content = ir_content r,
      po_tokens_used = ir_tokens_used r, po_model = ir_model r, po_provider = ir_provider r,
      po_session_id = wi_session_id i, po_total_retries = ir_retry_count r, po_traceparent = wi_traceparent i\<rparr>"

text \<open>Stages 1 to 3.\<close>

definition prepare_task ::
  "'r executor \<Rightarrow> 'r deps \<Rightarrow> workflow_input \<Rightarrow> ('r task_world, pre_pii_scrub_result \<times> policy_eval_result \<times> jit_token_result) prog" where
  "prepare_task ex D i =
     bindE (call_activity ex D (retry_policy_of 3 []) (PrePIIScrub i) as_scrub) (\<lambda>scrubbed.
     bindE (call_activity ex D (retry_policy_of 1 [''PolicyDeniedError'']) (PolicyEval (policy_call i scrubbed)) as_policy) (\<lambda>pol.
     bindE (call_activity ex D (retry_policy_of 3 []) (JITTokenIssue (token_call i)) as_token) (\<lambda>tok.
     returnE (scrubbed, pol, tok))))"

text \<open>The budget pre-check, with the empty history that every run starts with.\<close>

definition budget_gate :: "'r executor \<Rightarrow> 'r deps \<Rightarrow> workflow_input \<Rightarrow> ('r task_world, string option) prog" where
  "budget_gate ex D i =
     (case (wi_budget_session_id i, wi_budget_limit_usd i) of
        (Some sid, Some limit) \<Rightarrow>
          bindE (call_activity ex D (retry_policy_of 1 [''BudgetExceededError''])
                   (BudgetPreCheck \<lparr>bp_task_id = wi_task_id i, bp_agent_type = wi_agent_type i, bp_budget_session_id = sid,
                      bp_budget_limit_usd = limit, bp_history = [], bp_traceparent = wi_traceparent i\<rparr>) as_precheck) (\<lambda>n.
          returnE (Some (bn_cost_usd n)))
      | _ \<Rightarrow> returnE None)"

definition invoke_llm ::
  "'r executor \<Rightarrow> 'r deps \<Rightarrow> workflow_input \<Rightarrow> policy_eval_result \<Rightarrow> jit_token_result \<Rightarrow> ('r task_world, llm_invoke_result) prog" where
  "invoke_llm ex D i pol tok =
     tryE (call_activity ex D LLM_RETRY_POLICY (LLMInvoke (llm_call i pol tok)) as_llm) (llm_failed ex D i)"

definition record_budget ::
  "'r executor \<Rightarrow> 'r deps \<Rightarrow> workflow_input \<Rightarrow> llm_invoke_result \<Rightarrow> string option \<Rightarrow> ('r task_world, string option) prog" where
  "record_budget ex D i r spent =
     (case (wi_budget_session_id i, wi_budget_limit_usd i) of
        (Some sid, Some limit) \<Rightarrow>
          bindE (call_activity ex D (retry_policy_of 3 [''BudgetExceededError''])
                   (BudgetRecordSpend \<lparr>br_task_id = wi_task_id i, br_agent_type = wi_agent_type i, br_budget_session_id = sid,
                      br_budget_limit_usd = limit, br_tokens_used = ir_tokens_used r,
                      br_cost_per_token_usd = wi_cost_per_token_usd i, br_history = [], br_traceparent = wi_traceparent i\<rparr>)
                   as_record) (\<lambda>b.
          returnE (Some (bn_cost_usd (brr_snapshot b))))
      | _ \<Rightarrow> returnE spent)"

definition complete_task ::
  "'r executor \<Rightarrow> 'r deps \<Rightarrow> workflow_input \<Rightarrow> pre_pii_scrub_result \<Rightarrow> policy_eval_result \<Rightarrow> jit_token_result
     \<Rightarrow> ('r task_world, workflow_output) prog" where
  "complete_task ex D i scrubbed pol tok =
     bindE (budget_gate ex D i) (\<lambda>checked.
     bindE (invoke_llm ex D i pol tok) (\<lambda>r.
     bindE (record_budget ex D i r checked) (\<lambda>spent.
     bindE (call_activity ex D (retry_policy_of 3 []) (PostSanitize (post_call i r)) as_post) (\<lambda>post.
     thenE (modify_self (\<lambda>s. s\<lparr>tw_workflow_status := workflow_status_value WCOMPLETED\<rparr>))
    (bindE (getE (\<lambda>k. tw_approval_state (kw_self k))) (\<lambda>st.
     returnE \<lparr>wo_task_id = wi_task_id i, wo_content = pos_sanitized_content post,
              wo_sanitized_prompt = per_sanitized_prompt pol,
              wo_pii_types = merge_types (merge_types (ps_pii_types scrubbed) (per_extra_pii_types pol)) (pos_pii_types post),
              wo_tokens_used = ir_tokens_used r, wo_model = ir_model r, wo_workflow_status = ''completed'',
              wo_approval_state = approval_value st, wo_approver_id = None, wo_reason = None,
              wo_budget_spent_usd = spent\<rparr>))))))"

definition refused_output ::
  "workflow_input \<Rightarrow> pre_pii_scrub_result \<Rightarrow> policy_eval_result \<Rightarrow> approval_signal_payload \<Rightarrow> agent_task_workflow \<Rightarrow> workflow_output" where
  "refused_output i scrubbed pol d s =
     \<lparr>wo_task_id = wi_task_id i, wo_content = [], wo_sanitized_prompt = per_sanitized_prompt pol,
      wo_pii_types = ps_pii_types scrubbed, wo_tokens_used = 0, wo_model = wi_model i,
      wo_workflow_status = tw_workflow_status s, wo_approval_state = approval_value (tw_approval_state s),
      wo_approver_id = Some (sg_approver_id d), wo_reason = Some (sg_reason d), wo_budget_spent_usd = None\<rparr>"

definition approval_threshold :: decimal where
  "approval_threshold = Dec 5000 (- 2)"

definition run_workflow_task :: "'r executor \<Rightarrow> 'r deps \<Rightarrow> workflow_input \<Rightarrow> ('r task_world, workflow_output) prog" where
  "run_workflow_task ex D i =
     thenE (modify_self (start_workflow i))
    (bindE (prepare_task ex D i) (\<lambda>(scrubbed, pol, tok).
     bindE (liftE (parse_decimal (wi_projected_spend_usd i))) (\<lambda>projected.
     if dless approval_threshold projected then
       bindE (await_pending_approval ex D i) (\<lambda>d.
       if sg_approved d then complete_task ex D i scrubbed pol tok
       else getE (\<lambda>k. refused_output i scrubbed pol d (kw_self k)))
     else complete_task ex D i scrubbed pol tok)))"


section \<open>The in-memory scheduler\<close>

record workflow_handle =
  wh_workflow_id :: uuid
  wh_status :: workflow_status
  wh_agent_type :: string
  wh_task_description :: string
  wh_step_count :: int
  wh_token_count :: int

text \<open>
  \<open>AgentScheduler\<close> with the logger of the module. Handles are shared objects: the registry holds the
  handle that \<open>schedule\<close> returned, so an update through either is seen by both. \<open>ash_uuids\<close> is what
  \<open>uuid4\<close> will return.
\<close>

record agent_scheduler =
  ash_workflows :: "uuid \<rightharpoonup> workflow_handle"
  ash_logger :: audit_logger
  ash_uuids :: "nat \<Rightarrow> uuid"
  ash_ticks :: nat

definition sched_log :: "string \<Rightarrow> log_value dict \<Rightarrow> (agent_scheduler, unit) prog" where
  "sched_log ev fs = zoomE ash_logger (\<lambda>l a. a\<lparr>ash_logger := l\<rparr>) (info ev fs)"

definition schedule :: "string \<Rightarrow> string \<Rightarrow> (agent_scheduler, workflow_handle) prog" where
  "schedule agent_type task_description =
     bindE (getE (\<lambda>a. ash_uuids a (ash_ticks a))) (\<lambda>u.
     let h = \<lparr>wh_workflow_id = u, wh_status = PENDING, wh_agent_type = agent_type,
              wh_task_description = task_description, wh_step_count = 0, wh_token_count = 0\<rparr>
     in thenE (modifyE (\<lambda>a. a\<lparr>ash_ticks := Suc (ash_ticks a), ash_workflows := (ash_workflows a)(u \<mapsto> h)\<rparr>))
       (thenE (sched_log ''workflow.scheduled'' [(''workflow_id'', VStr (str_uuid u)), (''agent_type'', VStr agent_type)])
          (returnE h)))"

definition get_workflow :: "uuid \<Rightarrow> (agent_scheduler, workflow_handle option) prog" where
  "get_workflow u = getE (\<lambda>a. ash_workflows a u)"

definition set_status :: "uuid \<Rightarrow> workflow_status \<Rightarrow> (agent_scheduler, unit) prog" where
  "set_status u st = modifyE (\<lambda>a. a\<lparr>ash_workflows :=
     (ash_workflows a)(u := map_option (\<lambda>h. h\<lparr>wh_status := st\<rparr>) (ash_workflows a u))\<rparr>)"

definition update_status :: "uuid \<Rightarrow> workflow_status \<Rightarrow> (agent_scheduler, unit) prog" where
  "update_status u st =
     bindE (get_workflow u) (\<lambda>r. case r of
       None \<Rightarrow> raiseE (exn_of KeyError (''Workflow '' @ str_uuid u @ '' not found''))
     | Some h \<Rightarrow> thenE (set_status u st)
         (sched_log ''workflow.status_updated''
            [(''workflow_id'', VStr (str_uuid u)), (''status'', VStr (workflow_status_value st))]))"

definition run_workflow :: "workflow_handle \<Rightarrow> (agent_scheduler, workflow_handle) prog" where
  "run_workflow h =
     (let u = wh_workflow_id h in
      thenE (set_status u RUNNING)
     (thenE (sched_log ''workflow.started'' [(''workflow_id'', VStr (str_uuid u))])
     (thenE (set_status u WCOMPLETED)
     (thenE (sched_log ''workflow.completed'' [(''workflow_id'', VStr (str_uuid u))])
        (returnE (h\<lparr>wh_status := WCOMPLETED\<rparr>))))))"

end
