(* ===== verification/Pipeline.thy ===== *)
theory Pipeline
  imports Orchestrator
begin

text \<open>
  Theorems about the orchestrator: what a run sends, what it has checked by then, what it returns and
  what it reports.
\<close>

section \<open>Spans change nothing but the span bookkeeping\<close>

definition like :: "'r services \<Rightarrow> 'r services \<Rightarrow> bool" where
  "like w v \<longleftrightarrow> (\<exists>a s. v = w\<lparr>sv_audit := a, sv_spans := s\<rparr> \<and> events a = events (sv_audit w))"

lemma like_simps:
  assumes "like w v"
  shows "sv_session v = sv_session w" "sv_budget v = sv_budget w" "sv_loops v = sv_loops w" "sv_http v = sv_http w"
    "sv_errors v = sv_errors w" "sv_keys v = sv_keys w" "sv_key_ticks v = sv_key_ticks w"
    "events (sv_audit v) = events (sv_audit w)"
  using assms by (auto simp: like_def)

lemma set_span_run: "set_span sc w = (Inr (), w\<lparr>sv_audit := (sv_audit w)\<lparr>al_span := sc\<rparr>\<rparr>)"
  by (simp add: set_span_def on_audit_def zoomE_def modifyE_def)

lemma events_span [simp]: "events (l\<lparr>al_span := sc\<rparr>) = events l"
  by (simp add: events_def)

definition opened :: "'r services \<Rightarrow> 'r services" where
  "opened w = w\<lparr>sv_audit := (sv_audit w)\<lparr>al_span := sv_new_span w (length (sv_spans w))\<rparr>\<rparr>"

definition ended :: "string \<Rightarrow> log_value dict \<Rightarrow> exn option \<Rightarrow> 'r services \<Rightarrow> 'r services \<Rightarrow> 'r services" where
  "ended name attrs err w w' =
     w'\<lparr>sv_audit := (sv_audit w')\<lparr>al_span := al_span (sv_audit w)\<rparr>,
        sv_spans := sv_spans w' @ [\<lparr>sp_name = name, sp_attributes = attrs, sp_error = err\<rparr>]\<rparr>"

lemma like_opened: "like w (opened w)"
  unfolding like_def opened_def
  by (intro exI [of _ "(sv_audit w)\<lparr>al_span := sv_new_span w (length (sv_spans w))\<rparr>"] exI [of _ "sv_spans w"]) simp

lemma like_ended: "like w' (ended name attrs err w w')"
  unfolding like_def ended_def by (intro exI conjI) (rule refl, simp)

lemma in_span_ok:
  "body (opened w) = (Inr x, w1) \<Longrightarrow> in_span name ok err oe body w = (Inr x, ended name ok None w w1)"
  by (simp add: in_span_def opened_def ended_def bindE_def thenE_def getE_def set_span_run tryE_def record_span_def
      modifyE_def returnE_def)

lemma in_span_err:
  "body (opened w) = (Inl e, w1) \<Longrightarrow> oe e w1 = (Inr (), w2) \<Longrightarrow>
     in_span name ok err oe body w = (Inl e, ended name (err e) (Some e) w w2)"
  by (simp add: in_span_def opened_def ended_def bindE_def thenE_def getE_def set_span_run tryE_def record_span_def
      modifyE_def raiseE_def)

text \<open>What \<open>_span_stage\<close> does with an exception.\<close>

definition reported :: "string \<Rightarrow> string \<Rightarrow> string \<Rightarrow> string \<Rightarrow> exn \<Rightarrow> 'r services \<Rightarrow> 'r services" where
  "reported span_name stage_key agent t e w =
     (let v = w\<lparr>sv_errors := sv_errors w @ [(stage_key, agent)]\<rparr> in
      if isinstance_any e controlled_exc then v
      else staged ''stage.error'' ''error'' span_name t agent [(''error_message'', VStr (str_exn e))] v)"

lemma span_stage_run:
  "span_stage name key agent t body w =
     (case body (opened w) of
        (Inr x, w1) \<Rightarrow> (Inr x, ended name (stage_attributes t agent @ ok_attributes) None w w1)
      | (Inl e, w1) \<Rightarrow> (Inl e, ended name (stage_attributes t agent @ error_attributes e) (Some e) w (reported name key agent t e w1)))"
proof (cases "body (opened w)")
  case (Pair r w1)
  show ?thesis
  proof (cases r)
    case (Inl e)
    have "span_stage name key agent t body w = (Inl e, ended name (stage_attributes t agent @ error_attributes e) (Some e) w
        (reported name key agent t e w1))"
      unfolding span_stage_def
      by (rule in_span_err [of _ _ _ w1])
        (simp_all add: Pair Inl count_error_def thenE_def bindE_def modifyE_def returnE_def on_audit_stage audit_name_def reported_def)
    then show ?thesis
      using Pair Inl by simp
  next
    case (Inr y)
    then show ?thesis
      unfolding span_stage_def using Pair by (simp add: in_span_ok)
  qed
qed

lemma span_stage_Inr:
  assumes "span_stage name key agent t body w = (Inr x, w')"
  obtains v v' where "body v = (Inr x, v')" "like w v" "like v' w'"
  using assms that like_opened like_ended unfolding span_stage_run by (fastforce split: prod.splits sum.splits)

lemma span_stage_Inl:
  assumes "span_stage name key agent t body w = (Inl e, w')"
  obtains v v' where "body v = (Inl e, v')" "like w v" "like (reported name key agent t e v') w'"
  using assms that like_opened like_ended unfolding span_stage_run by (fastforce split: prod.splits sum.splits)

lemma reported_simps [simp]:
  "sv_session (reported n k a t e w) = sv_session w" "sv_budget (reported n k a t e w) = sv_budget w"
  "sv_loops (reported n k a t e w) = sv_loops w" "sv_http (reported n k a t e w) = sv_http w"
  "sv_errors (reported n k a t e w) = sv_errors w @ [(k, a)]"
  "events (sv_audit (reported n k a t e w)) =
     events (sv_audit w) @ (if isinstance_any e controlled_exc then [] else [(''stage.error'', Error)])"
  by (auto simp: reported_def Let_def audit_name_def stage_level_def)


section \<open>What the stages leave alone\<close>

text \<open>A part of the services that tokens, keys and log entries do not touch.\<close>

definition quiet :: "('r services \<Rightarrow> 'c) \<Rightarrow> bool" where
  "quiet g \<longleftrightarrow> (\<forall>w m. g (w\<lparr>sv_session := m\<rparr>) = g w) \<and> (\<forall>w a. g (w\<lparr>sv_audit := a\<rparr>) = g w) \<and>
     (\<forall>w k. g (w\<lparr>sv_key_ticks := k\<rparr>) = g w)"

lemma quiet_parts: "quiet sv_http" "quiet sv_budget" "quiet sv_errors" "quiet sv_loops"
  by (simp_all add: quiet_def)

lemma keeps_session: "quiet g \<Longrightarrow> keepsE (\<lambda>w. g w = c) (on_session p)"
  unfolding on_session_def by (rule keepsE_zoomE) (simp add: quiet_def)

lemma keeps_audit: "quiet g \<Longrightarrow> keepsE (\<lambda>w. g w = c) (on_audit p)"
  unfolding on_audit_def by (rule keepsE_zoomE) (simp add: quiet_def)

lemma keeps_keys: "quiet g \<Longrightarrow> keepsE (\<lambda>w. g w = c) generate_dpop_key_pair"
  by (simp add: keepsE_def generate_dpop_key_pair_def quiet_def split: prod.split)

lemma keeps_log: "quiet g \<Longrightarrow> keepsE (\<lambda>w. g w = c) (log_stage q t ev oc st kw)"
  unfolding log_stage_def by (rule keeps_audit)

lemmas quiet_intros = keeps_intros keeps_session keeps_audit keeps_keys keeps_log

lemma keeps_pre_sanitize: "quiet g \<Longrightarrow> keepsE (\<lambda>w. g w = c) (pre_sanitize D q t)"
  unfolding pre_sanitize_def by (intro quiet_intros)

lemma keeps_policy_mask: "quiet g \<Longrightarrow> keepsE (\<lambda>w. g w = c) (policy_mask D q t r x)"
  unfolding policy_mask_def by (intro quiet_intros)

lemma keeps_deny: "quiet g \<Longrightarrow> keepsE (\<lambda>w. g w = c) (deny_token q t ev e)"
  unfolding deny_token_def by (intro quiet_intros)

lemma keeps_supplied: "quiet g \<Longrightarrow> keepsE (\<lambda>w. g w = c) (supplied_token D q t token)"
  unfolding supplied_token_def by (intro quiet_intros keeps_deny)

lemma keeps_fresh: "quiet g \<Longrightarrow> keepsE (\<lambda>w. g w = c) (fresh_token D q t)"
  unfolding fresh_token_def by (intro quiet_intros)

lemma keeps_protect: "quiet g \<Longrightarrow> keepsE (\<lambda>w. g w = c) (protect_request D q t prompt token)"
  unfolding protect_request_def by (intro quiet_intros)

lemma keeps_token_source:
  "quiet g \<Longrightarrow> keepsE (\<lambda>w. g w = c) (case or_session_token q of Some (x # s) \<Rightarrow> supplied_token D q t (x # s) | _ \<Rightarrow> fresh_token D q t)"
  by (simp add: keeps_supplied keeps_fresh split: option.split list.split)

lemma keeps_token_stage: "quiet g \<Longrightarrow> keepsE (\<lambda>w. g w = c) (token_stage D q t prompt)"
  unfolding token_stage_def by (intro quiet_intros keeps_protect keeps_token_source)

lemma keeps_post: "quiet g \<Longrightarrow> keepsE (\<lambda>w. g w = c) (post_sanitize_stage D q t resp)"
  unfolding post_sanitize_stage_def by (intro quiet_intros)

text \<open>The watchdog stages leave the HTTP client and the error counter alone, the policy stage all but the client.\<close>

lemma keeps_on_budget: "keepsE (\<lambda>w. sv_http w = c) (on_budget p)" "keepsE (\<lambda>w. sv_errors w = e) (on_budget p)"
  unfolding on_budget_def by (rule keepsE_zoomE, simp)+

lemma keeps_on_loops: "keepsE (\<lambda>w. sv_http w = c) (on_loops p)" "keepsE (\<lambda>w. sv_errors w = e) (on_loops p)"
  unfolding on_loops_def by (rule keepsE_zoomE, simp)+

lemma keeps_on_http: "keepsE (\<lambda>w. sv_errors w = e) (on_http p)" "keepsE (\<lambda>w. sv_budget w = b) (on_http p)"
  unfolding on_http_def by (rule keepsE_zoomE, simp)+

lemmas watchdog_intros = quiet_intros quiet_parts keeps_on_budget keeps_on_loops keeps_on_http

lemma keeps_budget_guard: "keepsE (\<lambda>w. sv_http w = c) (budget_guard q t sid)" "keepsE (\<lambda>w. sv_errors w = e) (budget_guard q t sid)"
  unfolding budget_guard_def by (intro watchdog_intros)+

lemma keeps_spend: "keepsE (\<lambda>w. sv_http w = c) (spend_stage q t sid r)" "keepsE (\<lambda>w. sv_errors w = e) (spend_stage q t sid r)"
  unfolding spend_stage_def by (intro watchdog_intros)+

lemma keeps_loop: "keepsE (\<lambda>w. sv_http w = c) (loop_stage q t sid r)" "keepsE (\<lambda>w. sv_errors w = e) (loop_stage q t sid r)"
  unfolding loop_stage_def halt_loop_def by (intro watchdog_intros)+

lemma keeps_policy: "keepsE (\<lambda>w. sv_errors w = e) (policy_stage D q t)" "keepsE (\<lambda>w. sv_budget w = b) (policy_stage D q t)"
  unfolding policy_stage_def by (intro watchdog_intros)+

lemma keeps_llm: "keepsE (\<lambda>w. sv_errors w = e) (llm_stage D q t prompt x)"
  unfolding llm_stage_def any_adapter.run_eq authorize_outbound_def post_json_def by (intro watchdog_intros)


section \<open>Every failure is counted once\<close>

text \<open>The spans of the stages and the labels under which their errors are counted.\<close>

definition stage_labels :: "(string \<times> string) list" where
  "stage_labels = [(''pre-pii-scrub'', ''pre_pii_scrub''), (''policy-eval'', ''policy_eval''), (''policy-mask'', ''policy_mask''),
     (''jit-token-issue'', ''jit_token_issue''), (''watchdog.pre-llm'', ''watchdog_pre''), (''llm-invoke'', ''llm_invoke''),
     (''watchdog.record-spend'', ''watchdog_record''), (''watchdog.loop-detect'', ''watchdog_loop''), (''post-sanitize'', ''post_sanitize'')]"

text \<open>One error counted for the stage whose span ended last, with the exception that it ended with.\<close>

definition counted :: "string \<Rightarrow> exn \<Rightarrow> 'r services \<Rightarrow> 'r services \<Rightarrow> bool" where
  "counted agent e w w' \<longleftrightarrow> (\<exists>stage key ss x. (stage, key) \<in> set stage_labels \<and> sv_errors w' = sv_errors w @ [(key, agent)] \<and>
     sv_spans w' = ss @ [x] \<and> sp_name x = stage \<and> sp_error x = Some e) \<and>
     (\<not> isinstance_any e controlled_exc \<longrightarrow> (\<exists>es. events (sv_audit w') = es @ [(''stage.error'', Error)]))"

definition reports :: "string \<Rightarrow> ('r services, 'a) prog \<Rightarrow> bool" where
  "reports agent p \<longleftrightarrow> (\<forall>w. case p w of (Inr _, w') \<Rightarrow> sv_errors w' = sv_errors w | (Inl e, w') \<Rightarrow> counted agent e w w')"

lemma reports_stage:
  assumes "\<And>c. keepsE (\<lambda>w. sv_errors w = c) body" and "(name, key) \<in> set stage_labels"
  shows "reports agent (span_stage name key agent t body)"
  unfolding reports_def
proof
  fix w
  have body: "sv_errors (snd (body (opened w))) = sv_errors (opened w)"
    using keepsE_D [OF assms(1)] by blast
  show "case span_stage name key agent t body w of (Inr _, w') \<Rightarrow> sv_errors w' = sv_errors w | (Inl e, w') \<Rightarrow> counted agent e w w'"
  proof (cases "body (opened w)")
    case (Pair r w1)
    then show ?thesis
      using body like_simps(5) [OF like_opened, of w] assms(2)
      by (cases r) (auto simp: span_stage_run like_simps [OF like_ended] counted_def ended_def)
  qed
qed

lemma counted_cong: "sv_errors v = sv_errors w \<Longrightarrow> counted agent e v w' = counted agent e w w'"
  by (simp add: counted_def)

lemma reports_bind:
  assumes p: "reports agent p" and f: "\<And>x. reports agent (f x)"
  shows "reports agent (bindE p f)"
  unfolding reports_def
proof
  fix w
  obtain r w1 where pw: "p w = (r, w1)"
    by fastforce
  note head = p [unfolded reports_def, rule_format, of w, unfolded pw]
  show "case bindE p f w of (Inr _, w') \<Rightarrow> sv_errors w' = sv_errors w | (Inl e, w') \<Rightarrow> counted agent e w w'"
  proof (cases r)
    case (Inl e)
    then show ?thesis
      using pw head by (simp add: bindE_def)
  next
    case (Inr x)
    then show ?thesis
      using pw head f [of x, unfolded reports_def, rule_format, of w1] counted_cong [of w1 w]
      by (auto simp: bindE_def split: prod.splits sum.splits)
  qed
qed

lemma reports_pure: "reports agent (returnE x)"
  by (simp add: reports_def returnE_def)

lemma reports_then: "reports agent p \<Longrightarrow> reports agent q \<Longrightarrow> reports agent (thenE p q)"
  by (simp add: thenE_def reports_bind)

lemma reports_guarded:
  "(\<And>s. reports agent (f s)) \<Longrightarrow> reports agent (case x of Some s \<Rightarrow> if b then f s else returnE () | None \<Rightarrow> returnE ())"
  by (simp add: reports_pure split: option.split)

lemma stage_labels_in:
  "(''pre-pii-scrub'', ''pre_pii_scrub'') \<in> set stage_labels" "(''policy-eval'', ''policy_eval'') \<in> set stage_labels"
  "(''policy-mask'', ''policy_mask'') \<in> set stage_labels" "(''jit-token-issue'', ''jit_token_issue'') \<in> set stage_labels"
  "(''watchdog.pre-llm'', ''watchdog_pre'') \<in> set stage_labels" "(''llm-invoke'', ''llm_invoke'') \<in> set stage_labels"
  "(''watchdog.record-spend'', ''watchdog_record'') \<in> set stage_labels" "(''watchdog.loop-detect'', ''watchdog_loop'') \<in> set stage_labels"
  "(''post-sanitize'', ''post_sanitize'') \<in> set stage_labels"
  by (simp_all add: stage_labels_def)

lemma reports_pipeline: "reports (or_agent_type q) (pipeline C q task_id)"
proof -
  have govern: "reports (or_agent_type q) (govern C q t)" for t
    unfolding govern_def Let_def
    by (intro reports_bind reports_then reports_pure reports_guarded reports_stage stage_labels_in keeps_pre_sanitize keeps_policy
        keeps_token_stage keeps_budget_guard quiet_parts)
      (simp add: reports_pure reports_stage stage_labels_in keeps_policy_mask quiet_parts)
  have account: "reports (or_agent_type q) (account C q t r)" for t r
    unfolding account_def Let_def
    by (intro reports_then reports_guarded reports_stage stage_labels_in keeps_spend keeps_loop)
  show ?thesis
    unfolding pipeline_def Let_def split_beta
    by (intro reports_bind reports_then govern account reports_pure reports_stage stage_labels_in keeps_llm keeps_post quiet_parts)
qed

lemma run_pipeline:
  assumes "or_task_id q = Some task_id"
  shows "run C q w =
     (case pipeline C q task_id (opened w) of
        (Inr x, w1) \<Rightarrow> (Inr x, ended ''orchestrator.run'' (root_attributes q (str_uuid task_id)) None w w1)
      | (Inl e, w1) \<Rightarrow> (Inl e, ended ''orchestrator.run'' (root_attributes q (str_uuid task_id)) (Some e) w w1))"
proof (cases "pipeline C q task_id (opened w)")
  case (Pair r w1)
  then show ?thesis
    using assms by (cases r) (simp_all add: run_def in_span_ok in_span_err returnE_def)
qed

text \<open>
  (C18) Error accounting: a run that returns counts no error. A run without a task identifier raises
  \<open>MissingTaskIdError\<close> and does nothing else, so it counts none either. Every other run that raises
  increments \<open>orchestrator_errors\<close> exactly once, under the agent type of the request and the label of
  the stage whose span ended last before that of the run and with this exception; and unless the
  exception is one of the governance decisions of \<open>_CONTROLLED_EXC\<close>, the last event of the audit log
  is a \<open>stage.error\<close> at level error.
\<close>

theorem run_counts_errors:
  "case run C q w of
     (Inr _, w') \<Rightarrow> sv_errors w' = sv_errors w
   | (Inl e, w') \<Rightarrow>
       if or_task_id q = None then exc_cls e = MissingTaskIdError \<and> w' = w
       else (\<exists>stage key ss x root. (stage, key) \<in> set stage_labels \<and> sv_errors w' = sv_errors w @ [(key, or_agent_type q)] \<and>
           sv_spans w' = ss @ [x, root] \<and> sp_name x = stage \<and> sp_error x = Some e \<and> sp_name root = ''orchestrator.run'') \<and>
         (isinstance_any e controlled_exc \<or> (\<exists>es. events (sv_audit w') = es @ [(''stage.error'', Error)]))"
proof (cases "or_task_id q")
  case None
  then show ?thesis
    by (simp add: run_def raiseE_def)
next
  case (Some task_id)
  show ?thesis
  proof (cases "pipeline C q task_id (opened w)")
    case (Pair r w1)
    note rep = reports_pipeline [of q C task_id, unfolded reports_def, rule_format, of "opened w", unfolded Pair]
    show ?thesis
    proof (cases r)
      case (Inl e)
      then obtain stage key ss x where "(stage, key) \<in> set stage_labels" "sv_errors w1 = sv_errors w @ [(key, or_agent_type q)]"
          "sv_spans w1 = ss @ [x]" "sp_name x = stage" "sp_error x = Some e"
        using rep by (auto simp: counted_def like_simps [OF like_opened])
      then show ?thesis
        using rep Inl Some
        by (auto simp: run_pipeline [OF Some] Pair like_simps [OF like_ended] counted_def ended_def)
    qed (use rep Some in \<open>simp add: run_pipeline [OF Some] Pair like_simps [OF like_ended] like_simps [OF like_opened]\<close>)
  qed
qed


section \<open>What has been checked when a stage returns\<close>

definition pii_free :: "unicode_db \<Rightarrow> utext \<Rightarrow> bool" where
  "pii_free db text \<longleftrightarrow> (\<forall>(label, body, ic) \<in> set pii_patterns. \<not> re_search db ic (bounded body) text)"

definition injection_free :: "unicode_db \<Rightarrow> utext \<Rightarrow> bool" where
  "injection_free db text \<longleftrightarrow> (\<forall>(source, r) \<in> set injection_patterns. \<not> re_search db True r text)"

lemma mask_pii_free: "unicode_ok db \<Longrightarrow> pii_free db (mr_text (mask_pii db text))"
  using mask_pii_clean by (auto simp: pii_free_def)

lemma mask_fields_free: "unicode_ok db \<Longrightarrow> pii_free db (fst x) \<Longrightarrow> pii_free db (fst (mask_fields db fs x))"
  by (induction db fs x rule: mask_fields.induct) (auto simp: Let_def scrub_def mask_pii_free)

lemma log_stage_run:
  "audit_name ev \<Longrightarrow> log_stage q t ev oc st kw w = (Inr (), staged ev oc st t (or_agent_type q) kw w)"
  by (simp add: log_stage_def on_audit_stage)

lemma pre_sanitize_run:
  "pre_sanitize D q t w =
     (case check_prompt_injection (dp_db D) (or_prompt q) of Inl e \<Rightarrow> (Inl e, w)
      | Inr _ \<Rightarrow> let m = mask_pii (dp_db D) (or_prompt q) in
          (Inr (mr_text m, mr_found_types m),
           staged ''guardrails.pre_sanitize'' (if mr_found_types m \<noteq> [] then ''redact'' else ''allow'') ''pre-pii-scrub'' t
             (or_agent_type q) [(''pii_types'', VStrs (mr_found_types m))] w))"
  by (simp add: pre_sanitize_def thenE_def bindE_def liftE_def log_stage_run audit_name_def returnE_def Let_def
      split: sum.split)

lemma pre_sanitize_Inr:
  assumes "pre_sanitize D q t w = (Inr x, w')"
  shows "injection_free (dp_db D) (or_prompt q)" "fst x = mr_text (mask_pii (dp_db D) (or_prompt q))"
    "\<exists>kw. w' = staged ''guardrails.pre_sanitize'' (if snd x \<noteq> [] then ''redact'' else ''allow'') ''pre-pii-scrub'' t (or_agent_type q) kw w"
  using assms injection_loop_ok [of "dp_db D" injection_patterns "or_prompt q"]
  by (auto simp: pre_sanitize_run injection_free_def check_prompt_injection_def Let_def split: sum.splits)

lemma policy_stage_Inr:
  assumes "policy_stage D q t w = (Inr r, w')"
  shows "\<exists>h. evaluate (dp_opa D) ''agent_access'' (request_policy_input q) (sv_http w) = (Inr r, h) \<and>
    pr_allowed r \<and> pr_action r \<noteq> ''reject'' \<and>
    w' = staged ''policy.allowed'' ''allow'' ''policy-eval'' t (or_agent_type q) [] (w\<lparr>sv_http := h\<rparr>)"
  using assms
  by (auto simp: policy_stage_def tryE_def bindE_def thenE_def on_http_def zoomE_def raiseE_def returnE_def log_stage_run
      audit_name_def split: prod.splits sum.splits if_splits)

lemma policy_stage_http:
  "sv_http (snd (policy_stage D q t w)) = snd (evaluate (dp_opa D) ''agent_access'' (request_policy_input q) (sv_http w))"
  by (auto simp: policy_stage_def tryE_def bindE_def thenE_def on_http_def zoomE_def raiseE_def returnE_def log_stage_run
      audit_name_def split: prod.splits sum.splits if_splits)

lemma policy_mask_run:
  "policy_mask D q t r x w =
     (Inr (mask_fields (dp_db D) (pr_fields r) x),
      staged ''policy.mask_applied'' ''redact'' ''policy-eval'' t (or_agent_type q) [(''fields'', VStrs (pr_fields r))] w)"
  by (simp add: policy_mask_def thenE_def bindE_def returnE_def log_stage_run audit_name_def)

lemma supplied_token_Inr:
  assumes "supplied_token D q t tok w = (Inr x, w')"
  shows "\<exists>claims m. validate_token (dp_libs D) (dp_cfg D) tok (sv_session w) = (Inr claims, m) \<and>
    \<not> tc_expires_at claims < sm_clock m (sm_ticks m) \<and> tc_agent_type claims = or_agent_type q"
  using assms
  by (auto simp: supplied_token_def deny_token_def tryE_def bindE_def thenE_def on_session_def zoomE_def raiseE_def returnE_def
      log_stage_run audit_name_def is_expired_def time_now_def split: prod.splits sum.splits if_splits)

lemma fresh_token_Inr:
  assumes "fresh_token D q t w = (Inr x, w')"
  shows "\<exists>m. issue_token (dp_libs D) (dp_cfg D) (base_token_request q t) (sv_session w) = (Inr x, m)"
  using assms
  by (auto simp: fresh_token_def bindE_def thenE_def on_session_def zoomE_def returnE_def log_stage_run audit_name_def
      split: prod.splits sum.splits)

definition token_checked :: "'r deps \<Rightarrow> orchestrator_request \<Rightarrow> string \<Rightarrow> 'r session_manager \<Rightarrow> bool" where
  "token_checked D q t m \<longleftrightarrow>
     (case or_session_token q of
        Some (c # s) \<Rightarrow> \<exists>claims m'. validate_token (dp_libs D) (dp_cfg D) (c # s) m = (Inr claims, m') \<and>
          \<not> tc_expires_at claims < sm_clock m' (sm_ticks m') \<and> tc_agent_type claims = or_agent_type q
      | _ \<Rightarrow> \<exists>token m'. issue_token (dp_libs D) (dp_cfg D) (base_token_request q t) m = (Inr token, m'))"

lemma token_stage_Inr:
  assumes "token_stage D q t prompt w = (Inr x, w')"
  shows "token_checked D q t (sv_session w)"
proof -
  obtain tok w1 where "(case or_session_token q of Some (c # s) \<Rightarrow> supplied_token D q t (c # s) | _ \<Rightarrow> fresh_token D q t) w = (Inr tok, w1)"
    using assms unfolding token_stage_def by (auto simp: bindE_Inr)
  then show ?thesis
    unfolding token_checked_def
    by (auto dest: supplied_token_Inr fresh_token_Inr split: option.splits list.splits)
qed

lemma budget_guard_Inr:
  assumes "budget_guard q t sid w = (Inr x, w')"
  shows "\<exists>s. be_sessions (sv_budget w) sid = Some s \<and> \<not> exhausted s"
proof (cases "be_sessions (sv_budget w) sid")
  case None
  then show ?thesis
    using assms check_budget_missing [of "(sv_budget w)\<lparr>be_audit := sv_audit w\<rparr>" sid]
    by (simp add: budget_guard_def tryE_def bindE_def thenE_def on_budget_def zoomE_def raiseE_def isinstance_def)
next
  case (Some s)
  then show ?thesis
    using assms check_budget_exhausted [of "(sv_budget w)\<lparr>be_audit := sv_audit w\<rparr>" sid s]
    by (cases "exhausted s")
      (auto simp: budget_guard_def tryE_def bindE_def thenE_def on_budget_def zoomE_def raiseE_def log_stage_run audit_name_def)
qed


section \<open>No completion without governance\<close>

text \<open>All that a request must have passed before the adapter is called, read off the initial services.\<close>

definition cleared :: "'r orchestrator \<Rightarrow> orchestrator_request \<Rightarrow> string \<Rightarrow> 'r services \<Rightarrow> bool" where
  "cleared C q t w \<longleftrightarrow>
     injection_free (dp_db (oc_deps C)) (or_prompt q) \<and>
     (\<exists>resp. ht_reply (sv_http w) (length (ht_sent (sv_http w)))
         (policy_request (dp_opa (oc_deps C)) ''agent_access'' (request_policy_input q)) = Inr resp \<and> reply_allows resp) \<and>
     token_checked (oc_deps C) q t (sv_session w) \<and>
     (\<forall>sid. oc_budget_enforcer C \<and> or_budget_session_id q = Some sid \<longrightarrow>
        (\<exists>s. be_sessions (sv_budget w) sid = Some s \<and> \<not> exhausted s))"

lemma evaluate_allows:
  assumes "evaluate opa name i h = (Inr r, h')" "pr_allowed r"
  shows "\<exists>resp. ht_reply h (length (ht_sent h)) (policy_request opa name i) = Inr resp \<and> reply_allows resp"
proof -
  obtain resp body where "ht_reply h (length (ht_sent h)) (policy_request opa name i) = Inr resp"
    "200 \<le> hs_status resp" "hs_status resp < 300" "hs_json resp = Inr body" "policy_result_of body = Inr r"
    using evaluate_Inr [OF assms(1)] by metis
  then show ?thesis
    using policy_result_allowed [of body r] assms(2) by (auto simp: reply_allows_def)
qed

lemma quiet_stage:
  assumes "span_stage name key agent t body w = (r, w')" "\<And>c. keepsE (\<lambda>w. g w = c) body"
    and "\<And>w v. like w v \<Longrightarrow> g v = g w" "\<And>e w. g (reported name key agent t e w) = g w"
  shows "g w' = g w"
proof (cases r)
  case (Inl e)
  obtain v v' where v: "body v = (Inl e, v')" "like w v" "like (reported name key agent t e v') w'"
    using span_stage_Inl [OF assms(1) [unfolded Inl]] by blast
  have "g v' = g v"
    using keepsE_D [OF assms(2) [of "g v"], of v] v(1) by simp
  then show ?thesis
    using assms(3) [OF v(2)] assms(3) [OF v(3)] assms(4) by simp
next
  case (Inr x)
  obtain v v' where v: "body v = (Inr x, v')" "like w v" "like v' w'"
    using span_stage_Inr [OF assms(1) [unfolded Inr]] by blast
  have "g v' = g v"
    using keepsE_D [OF assms(2) [of "g v"], of v] v(1) by simp
  then show ?thesis
    using assms(3) [OF v(2)] assms(3) [OF v(3)] by simp
qed

lemma http_stage:
  "span_stage name key agent t body w = (r, w') \<Longrightarrow> (\<And>c. keepsE (\<lambda>w. sv_http w = c) body) \<Longrightarrow> sv_http w' = sv_http w"
  by (rule quiet_stage [where g = sv_http]) (simp_all add: like_simps)

lemma budget_stage:
  "span_stage name key agent t body w = (r, w') \<Longrightarrow> (\<And>c. keepsE (\<lambda>w. sv_budget w = c) body) \<Longrightarrow> sv_budget w' = sv_budget w"
  by (rule quiet_stage [where g = sv_budget]) (simp_all add: like_simps)

text \<open>The policy stage sends the policy request, and nothing else.\<close>

lemma policy_span_http:
  assumes "span_stage name key agent t (policy_stage D q t) w = (r, w')"
  shows "ht_sent (sv_http w') = ht_sent (sv_http w) @ [policy_request (dp_opa D) ''agent_access'' (request_policy_input q)]"
proof -
  have body: "ht_sent (sv_http (snd (policy_stage D q t (opened w))))
      = ht_sent (sv_http w) @ [policy_request (dp_opa D) ''agent_access'' (request_policy_input q)]"
    by (simp add: policy_stage_http evaluate_state like_simps [OF like_opened])
  show ?thesis
    using assms body unfolding span_stage_run
    by (cases "policy_stage D q t (opened w)"; cases "fst (policy_stage D q t (opened w))")
      (auto simp: like_simps [OF like_ended])
qed

text \<open>The stages before the adapter: they return only for a cleared request, with a sanitised prompt.\<close>

lemma pre_sanitize_span:
  assumes "span_stage name key agent t (pre_sanitize D q t) w = (Inr x, w')"
  shows "injection_free (dp_db D) (or_prompt q)" "fst x = mr_text (mask_pii (dp_db D) (or_prompt q))"
    "sv_session w' = sv_session w" "sv_budget w' = sv_budget w" "sv_http w' = sv_http w"
proof -
  obtain v v' where v: "pre_sanitize D q t v = (Inr x, v')" "like w v" "like v' w'"
    using span_stage_Inr [OF assms] by blast
  show "injection_free (dp_db D) (or_prompt q)" "fst x = mr_text (mask_pii (dp_db D) (or_prompt q))"
    using pre_sanitize_Inr(1,2) [OF v(1)] by auto
  show "sv_session w' = sv_session w" "sv_budget w' = sv_budget w" "sv_http w' = sv_http w"
    using pre_sanitize_Inr(3) [OF v(1)] like_simps [OF v(2)] like_simps [OF v(3)] by auto
qed

lemma policy_span:
  assumes "span_stage name key agent t (policy_stage D q t) w = (Inr r, w')"
  shows "\<exists>resp. ht_reply (sv_http w) (length (ht_sent (sv_http w)))
      (policy_request (dp_opa D) ''agent_access'' (request_policy_input q)) = Inr resp \<and> reply_allows resp"
    "sv_session w' = sv_session w" "sv_budget w' = sv_budget w"
proof -
  obtain v v' where v: "policy_stage D q t v = (Inr r, v')" "like w v" "like v' w'"
    using span_stage_Inr [OF assms] by blast
  then obtain h where h: "evaluate (dp_opa D) ''agent_access'' (request_policy_input q) (sv_http v) = (Inr r, h)" "pr_allowed r"
    "v' = staged ''policy.allowed'' ''allow'' ''policy-eval'' t (or_agent_type q) [] (v\<lparr>sv_http := h\<rparr>)"
    using policy_stage_Inr by blast
  then show "sv_session w' = sv_session w" "sv_budget w' = sv_budget w"
    using like_simps [OF v(2)] like_simps [OF v(3)] by auto
  show "\<exists>resp. ht_reply (sv_http w) (length (ht_sent (sv_http w)))
      (policy_request (dp_opa D) ''agent_access'' (request_policy_input q)) = Inr resp \<and> reply_allows resp"
    using evaluate_allows [OF h(1,2)] like_simps [OF v(2)] by simp
qed

lemma mask_span:
  assumes "(if b then span_stage name key agent t (policy_mask D q t r x) else returnE x) w = (Inr y, w')"
  shows "sv_session w' = sv_session w" "sv_budget w' = sv_budget w" "sv_http w' = sv_http w"
    "y = x \<or> y = mask_fields (dp_db D) (pr_fields r) x"
  using assms
  by (auto simp: returnE_def span_stage_run policy_mask_run like_simps [OF like_ended] like_simps [OF like_opened]
      split: if_splits)

lemma token_span:
  assumes "span_stage name key agent t (token_stage D q t prompt) w = (Inr x, w')"
  shows "token_checked D q t (sv_session w)" "sv_http w' = sv_http w" "sv_budget w' = sv_budget w"
proof -
  obtain v v' where v: "token_stage D q t prompt v = (Inr x, v')" "like w v"
    using span_stage_Inr [OF assms] by blast
  show "token_checked D q t (sv_session w)"
    using token_stage_Inr [OF v(1)] like_simps(1) [OF v(2)] by simp
  show "sv_http w' = sv_http w" "sv_budget w' = sv_budget w"
    using http_stage [OF assms keeps_token_stage [OF quiet_parts(1)]] budget_stage [OF assms keeps_token_stage [OF quiet_parts(2)]]
    by auto
qed

lemma guard_span:
  assumes "(case sid' of Some sid \<Rightarrow> if b then span_stage name key agent t (budget_guard q t sid) else returnE () | None \<Rightarrow> returnE ()) w
      = (r, w')"
  shows "sv_http w' = sv_http w"
    "r = Inr u \<Longrightarrow> b \<Longrightarrow> sid' = Some sid \<Longrightarrow> \<exists>s. be_sessions (sv_budget w) sid = Some s \<and> \<not> exhausted s"
proof -
  show "sv_http w' = sv_http w"
    using assms http_stage [OF _ keeps_budget_guard(1)] by (auto simp: returnE_def split: option.splits if_splits)
  assume "r = Inr u" "b" "sid' = Some sid"
  then have "span_stage name key agent t (budget_guard q t sid) w = (Inr u, w')"
    using assms by simp
  then obtain v v' where "budget_guard q t sid v = (Inr u, v')" "like w v"
    by (rule span_stage_Inr) blast
  then show "\<exists>s. be_sessions (sv_budget w) sid = Some s \<and> \<not> exhausted s"
    using budget_guard_Inr like_simps(2) by metis
qed

lemma govern_Inr:
  assumes ok: "unicode_ok (dp_db (oc_deps C))" and g: "govern C q t w = (Inr (y, tokens), w')"
  shows "pii_free (dp_db (oc_deps C)) (fst y) \<and> cleared C q t w \<and>
    ht_sent (sv_http w') = ht_sent (sv_http w) @ [policy_request (dp_opa (oc_deps C)) ''agent_access'' (request_policy_input q)]"
proof -
  let ?D = "oc_deps C" and ?a = "or_agent_type q"
  obtain x w1 r w2 w3 w4 where
      s1: "span_stage ''pre-pii-scrub'' ''pre_pii_scrub'' ?a t (pre_sanitize ?D q t) w = (Inr x, w1)"
    and s2: "span_stage ''policy-eval'' ''policy_eval'' ?a t (policy_stage ?D q t) w1 = (Inr r, w2)"
    and s3: "(if pr_action r = ''mask'' then span_stage ''policy-mask'' ''policy_mask'' ?a t (policy_mask ?D q t r x)
        else returnE x) w2 = (Inr y, w3)"
    and s4: "span_stage ''jit-token-issue'' ''jit_token_issue'' ?a t (token_stage ?D q t (fst y)) w3 = (Inr tokens, w4)"
    and s5: "(case or_budget_session_id q of
        Some sid \<Rightarrow> if oc_budget_enforcer C then span_stage ''watchdog.pre-llm'' ''watchdog_pre'' ?a t (budget_guard q t sid) else returnE ()
      | None \<Rightarrow> returnE ()) w4 = (Inr (), w')"
    using g unfolding govern_def Let_def thenE_def by (auto simp: bindE_Inr returnE_def)
  note steps = pre_sanitize_span [OF s1] policy_span [OF s2] mask_span [OF s3] token_span [OF s4] guard_span(1) [OF s5]
  have "pii_free (dp_db ?D) (fst y)"
    using steps(2) mask_span(4) [OF s3] mask_pii_free [OF ok] mask_fields_free [OF ok] by metis
  moreover have "cleared C q t w"
    unfolding cleared_def using steps guard_span(2) [OF s5 refl] by auto
  moreover have "ht_sent (sv_http w') = ht_sent (sv_http w) @ [policy_request (dp_opa ?D) ''agent_access'' (request_policy_input q)]"
    using policy_span_http [OF s2] steps by simp
  ultimately show ?thesis
    by blast
qed

lemma keeps_span: "(\<And>c. keepsE (\<lambda>w. sv_http w = c) body) \<Longrightarrow> keepsE (\<lambda>w. sv_http w = c) (span_stage name key agent t body)"
  unfolding keepsE_def using http_stage by (metis (no_types, lifting) keepsE_def prod.collapse)

lemma snd_bindE_keeps:
  "(\<And>x c. keepsE (\<lambda>w. sv_http w = c) (f x)) \<Longrightarrow> sv_http (snd (bindE p f w)) = sv_http (snd (p w))"
  by (auto simp: bindE_def keepsE_def split: prod.split sum.split)

lemma keeps_account: "keepsE (\<lambda>w. sv_http w = c) (account C q t resp)"
  unfolding account_def Let_def by (intro keeps_intros keeps_span keeps_spend keeps_loop)

lemma govern_http:
  "ht_sent (sv_http (snd (govern C q t w))) = ht_sent (sv_http w) \<or>
   ht_sent (sv_http (snd (govern C q t w))) = ht_sent (sv_http w) @ [policy_request (dp_opa (oc_deps C)) ''agent_access'' (request_policy_input q)]"
proof -
  let ?D = "oc_deps C" and ?a = "or_agent_type q"
  let ?s1 = "span_stage ''pre-pii-scrub'' ''pre_pii_scrub'' ?a t (pre_sanitize ?D q t)"
    and ?s2 = "span_stage ''policy-eval'' ''policy_eval'' ?a t (policy_stage ?D q t)"
  define rest where "rest = (\<lambda>x result. bindE (if pr_action result = ''mask''
             then span_stage ''policy-mask'' ''policy_mask'' ?a t (policy_mask ?D q t result x) else returnE x) (\<lambda>y.
      bindE (span_stage ''jit-token-issue'' ''jit_token_issue'' ?a t (token_stage ?D q t (fst y))) (\<lambda>tokens.
      thenE (case or_budget_session_id q of
               Some sid \<Rightarrow> if oc_budget_enforcer C
                 then span_stage ''watchdog.pre-llm'' ''watchdog_pre'' ?a t (budget_guard q t sid) else returnE ()
             | None \<Rightarrow> returnE ())
        (returnE (y, tokens)))))"
  have govern: "govern C q t = bindE ?s1 (\<lambda>x. bindE ?s2 (rest x))"
    unfolding govern_def rest_def Let_def ..
  have rest: "keepsE (\<lambda>w. sv_http w = c) (rest x r)" for c x r
    unfolding rest_def by (intro keeps_intros keeps_span keeps_policy_mask keeps_token_stage keeps_budget_guard quiet_parts)
  obtain r w1 where s1: "?s1 w = (r, w1)"
    by fastforce
  have "sv_http w1 = sv_http w"
    by (rule http_stage [OF s1 keeps_pre_sanitize [OF quiet_parts(1)]])
  moreover have "ht_sent (sv_http (snd (bindE ?s2 (rest x) w1))) = ht_sent (sv_http w1) @ [policy_request (dp_opa ?D) ''agent_access'' (request_policy_input q)]" for x
    using snd_bindE_keeps [of "rest x" ?s2 w1, OF rest] policy_span_http [of "''policy-eval''" "''policy_eval''" ?a t ?D q w1]
    by (metis prod.collapse)
  ultimately show ?thesis
    using s1 by (cases r) (simp_all add: govern bindE_def)
qed

lemma llm_span_http:
  "ht_sent (sv_http (snd (span_stage name key agent t (llm_stage D q t prompt x) w))) = ht_sent (sv_http w) \<or>
   (\<exists>md. ht_sent (sv_http (snd (span_stage name key agent t (llm_stage D q t prompt x) w)))
      = ht_sent (sv_http w) @ [outbound_request (dp_adapter D) (llm_request_of q prompt md)])"
proof -
  let ?q = "llm_request_of q prompt (adapter_metadata (fst x) (snd x))"
  have "sv_http (snd (llm_stage D q t prompt x (opened w))) = sv_http (snd (complete D ?q (opened w)))"
    unfolding llm_stage_def by (rule snd_bindE_keeps) (intro watchdog_intros)
  then have "ht_sent (sv_http (snd (llm_stage D q t prompt x (opened w)))) = ht_sent (sv_http w) \<or>
     ht_sent (sv_http (snd (llm_stage D q t prompt x (opened w)))) = ht_sent (sv_http w) @ [outbound_request (dp_adapter D) ?q]"
    using any_adapter.run_sends [of D ?q "opened w"] like_simps(4) [OF like_opened, of w] by auto
  then show ?thesis
    unfolding span_stage_run
    by (cases "llm_stage D q t prompt x (opened w)"; cases "fst (llm_stage D q t prompt x (opened w))")
      (auto simp: like_simps [OF like_ended])
qed

text \<open>
  (C4) No completion without governance. Whatever a run sends, it sends in this order and nothing else:
  the policy request, then at most one completion request to the adapter's provider. If the
  completion request is sent, no injection pattern matched the prompt, the policy server's reply to
  this request allowed it, the supplied token was valid, unexpired and issued for this agent type (or
  a fresh one was issued), the budget session exists and is not exhausted where a budget is enforced,
  and the prompt sent holds no PII.
\<close>

theorem no_completion_without_governance:
  assumes "unicode_ok (dp_db (oc_deps C))" and "or_task_id q = Some task_id"
    and "P = policy_request (dp_opa (oc_deps C)) ''agent_access'' (request_policy_input q)"
  shows "ht_sent (sv_http (snd (run C q w))) = ht_sent (sv_http w) \<or>
    ht_sent (sv_http (snd (run C q w))) = ht_sent (sv_http w) @ [P] \<or>
    (\<exists>prompt md. ht_sent (sv_http (snd (run C q w)))
        = ht_sent (sv_http w) @ [P, outbound_request (dp_adapter (oc_deps C)) (llm_request_of q prompt md)] \<and>
      pii_free (dp_db (oc_deps C)) prompt \<and> cleared C q (str_uuid task_id) w)"
proof -
  let ?t = "str_uuid task_id"
  have http: "sv_http (snd (run C q w)) = sv_http (snd (pipeline C q task_id (opened w)))"
    by (cases "pipeline C q task_id (opened w)"; cases "fst (pipeline C q task_id (opened w))")
      (auto simp: run_pipeline [OF assms(2)] like_simps [OF like_ended])
  obtain r w1 where g: "govern C q ?t (opened w) = (r, w1)"
    by fastforce
  show ?thesis
  proof (cases r)
    case (Inl e)
    then have "sv_http (snd (pipeline C q task_id (opened w))) = sv_http w1"
      using g by (simp add: pipeline_def bindE_def Let_def)
    then show ?thesis
      using govern_http [of C q ?t "opened w"] g http assms(3) by (simp add: like_simps [OF like_opened]) blast
  next
    case (Inr x)
    obtain y token z where x: "x = (y, token, z)"
      by (metis prod_cases3)
    note facts = govern_Inr [OF assms(1) g [unfolded Inr x]]
    let ?llm = "span_stage ''llm-invoke'' ''llm_invoke'' (or_agent_type q) ?t (llm_stage (oc_deps C) q ?t (fst y) z)"
    have "sv_http (snd (pipeline C q task_id (opened w))) = sv_http (snd (?llm w1))"
      unfolding pipeline_def Let_def bindE_ok [of "govern C q ?t" "opened w", OF g [unfolded Inr x]] split
      by (rule snd_bindE_keeps) (intro keeps_intros keeps_account keeps_span keeps_post quiet_parts)
    then show ?thesis
      using llm_span_http [of "''llm-invoke''" "''llm_invoke''" "or_agent_type q" ?t "oc_deps C" q "fst y" z w1] facts http assms(3)
      by (auto simp: like_simps [OF like_opened] cleared_def)
  qed
qed


section \<open>What a completed run has done\<close>

definition registry :: "'r services \<Rightarrow> uuid \<rightharpoonup> budget_session" where
  "registry w = be_sessions (sv_budget w)"

lemma quiet_registry: "quiet registry"
  by (simp add: quiet_def registry_def)

lemma keeps_registry_span:
  assumes "\<And>c. keepsE (\<lambda>w. registry w = c) body"
  shows "keepsE (\<lambda>w. registry w = c) (span_stage name key agent t body)"
proof -
  have "registry (snd (span_stage name key agent t body w)) = registry w" for w
  proof (cases "span_stage name key agent t body w")
    case (Pair r w')
    show ?thesis
      using quiet_stage [where g = registry, OF Pair assms] Pair by (simp add: registry_def like_simps)
  qed
  then show ?thesis
    by (simp add: keepsE_def)
qed

lemma keeps_registry_http: "keepsE (\<lambda>w. registry w = c) (on_http p)"
  unfolding on_http_def by (rule keepsE_zoomE) (simp add: registry_def)

lemma keeps_registry_loops: "keepsE (\<lambda>w. registry w = c) (on_loops p)"
  unfolding on_loops_def by (rule keepsE_zoomE) (simp add: registry_def)

lemma keeps_registry_check: "keepsE (\<lambda>w. registry w = c) (on_budget (check_budget sid))"
  unfolding on_budget_def by (rule keepsE_zoomE) (simp add: registry_def check_budget_sessions)

lemmas registry_intros = quiet_intros quiet_registry keeps_registry_span keeps_registry_http keeps_registry_loops keeps_registry_check

lemma keeps_registry_policy: "keepsE (\<lambda>w. registry w = c) (policy_stage D q t)"
  unfolding policy_stage_def by (intro registry_intros)

lemma keeps_registry_guard: "keepsE (\<lambda>w. registry w = c) (budget_guard q t sid)"
  unfolding budget_guard_def by (intro registry_intros)

lemma keeps_registry_govern: "keepsE (\<lambda>w. registry w = c) (govern C q t)"
  unfolding govern_def Let_def
  by (intro keeps_intros keeps_registry_span keeps_pre_sanitize keeps_policy_mask keeps_token_stage keeps_registry_policy
      keeps_registry_guard quiet_registry)

lemma keeps_registry_llm: "keepsE (\<lambda>w. registry w = c) (span_stage n k a t (llm_stage D q t prompt x))"
  unfolding llm_stage_def any_adapter.run_eq authorize_outbound_def post_json_def by (intro registry_intros)

lemma keeps_registry_loop_stage: "keepsE (\<lambda>w. registry w = c) (loop_stage q t sid resp)"
  unfolding loop_stage_def halt_loop_def by (intro registry_intros)

text \<open>The debit of a run: the tokens used at the request's price, charged once.\<close>

definition debit :: "orchestrator_request \<Rightarrow> llm_response \<Rightarrow> decimal" where
  "debit q resp = dmul (dec_of_int (lr_tokens_used resp)) (or_cost_per_token q)"

lemma spend_stage_Inr:
  assumes "spend_stage q t sid resp w = (Inr u, w')"
  shows "\<exists>s. registry w sid = Some s \<and> \<not> over_limit (charged s (debit q resp) None) \<and>
    registry w' = (registry w)(sid \<mapsto> charged s (debit q resp) None)"
proof -
  let ?b = "(sv_budget w)\<lparr>be_audit := sv_audit w\<rparr>"
  have step: "(case record_spend sid (debit q resp) None ?b of
      (Inl e, b') \<Rightarrow> False | (Inr x, b') \<Rightarrow> registry w' = be_sessions b')"
    using assms unfolding spend_stage_def Let_def debit_def [symmetric]
    by (cases "record_spend sid (debit q resp) None ?b"; cases "fst (record_spend sid (debit q resp) None ?b)")
      (auto simp: tryE_def bindE_def thenE_def on_budget_def zoomE_def raiseE_def returnE_def log_stage_run audit_name_def
        registry_def split: if_splits)
  obtain s where s: "be_sessions ?b sid = Some s"
    using step record_spend_missing [of ?b sid "debit q resp" None] by (cases "be_sessions ?b sid") auto
  have dup: "\<not> is_duplicate_operation s None"
    by (simp add: is_duplicate_operation_def)
  have within: "\<not> over_limit (charged s (debit q resp) None)"
    using record_spend_over [OF s dup] step by fastforce
  show ?thesis
    using record_spend_within [OF s dup within] s within step by (simp add: registry_def)
qed

lemma account_Inr:
  assumes "account C q t resp w = (Inr u, w')"
  shows "case or_budget_session_id q of
      Some sid \<Rightarrow> if oc_budget_enforcer C
        then \<exists>s. registry w sid = Some s \<and> \<not> over_limit (charged s (debit q resp) None) \<and>
          registry w' = (registry w)(sid \<mapsto> charged s (debit q resp) None)
        else registry w' = registry w
    | None \<Rightarrow> registry w' = registry w"
proof -
  let ?a = "or_agent_type q"
  obtain w1 where s1: "(case or_budget_session_id q of
        Some sid \<Rightarrow> if oc_budget_enforcer C
          then span_stage ''watchdog.record-spend'' ''watchdog_record'' ?a t (spend_stage q t sid resp) else returnE ()
      | None \<Rightarrow> returnE ()) w = (Inr (), w1)"
    and s2: "(case or_loop_session_id q of
        Some sid \<Rightarrow> if oc_loop_detector C
          then span_stage ''watchdog.loop-detect'' ''watchdog_loop'' ?a t (loop_stage q t sid resp) else returnE ()
      | None \<Rightarrow> returnE ()) w1 = (Inr u, w')"
    using assms unfolding account_def Let_def thenE_def by (auto simp: bindE_Inr)
  have "keepsE (\<lambda>v. registry v = registry w1) (case or_loop_session_id q of
        Some sid \<Rightarrow> if oc_loop_detector C
          then span_stage ''watchdog.loop-detect'' ''watchdog_loop'' ?a t (loop_stage q t sid resp) else returnE ()
      | None \<Rightarrow> returnE ())"
    by (intro registry_intros keeps_registry_loop_stage)
  then have reg: "registry w' = registry w1"
    using s2 by (auto dest: keepsE_D)
  have spend: "\<exists>s. registry w sid = Some s \<and> \<not> over_limit (charged s (debit q resp) None) \<and>
      registry w1 = (registry w)(sid \<mapsto> charged s (debit q resp) None)"
    if sp: "span_stage ''watchdog.record-spend'' ''watchdog_record'' ?a t (spend_stage q t sid resp) w = (Inr (), w1)" for sid
  proof -
    obtain v v' where v: "spend_stage q t sid resp v = (Inr (), v')" "like w v" "like v' w1"
      using span_stage_Inr [OF sp] by blast
    show ?thesis
      using spend_stage_Inr [OF v(1)] like_simps(2) [OF v(2)] like_simps(2) [OF v(3)] by (simp add: registry_def)
  qed
  show ?thesis
    using s1 reg spend by (auto simp: returnE_def split: option.splits if_splits)
qed

lemma complete_sends:
  assumes "complete D q w = (Inr r, w')"
  shows "ht_sent (sv_http w') = ht_sent (sv_http w) @ [outbound_request (dp_adapter D) q]"
proof -
  obtain w1 where w1: "authorize_outbound D (dp_adapter D) q (''POST'', hq_url (outbound_request (dp_adapter D) q)) w = (Inr (), w1)"
    and "w' = snd (post_json (outbound_request (dp_adapter D) q) w1)"
    using assms unfolding any_adapter.run_eq thenE_def
    by (auto simp: bindE_def liftE_def split: prod.splits sum.splits)
  moreover have "sv_http w1 = sv_http w"
    using authorize_http_eq [of D "dp_adapter D" q _ w] w1 by (metis snd_conv)
  ultimately show ?thesis
    by (simp add: post_json_state)
qed

lemma llm_span_Inr:
  assumes "span_stage n k a t (llm_stage D q t prompt x) w = (Inr resp, w')"
  shows "\<exists>md. ht_sent (sv_http w') = ht_sent (sv_http w) @ [outbound_request (dp_adapter D) (llm_request_of q prompt md)]"
proof -
  let ?q = "llm_request_of q prompt (adapter_metadata (fst x) (snd x))"
  obtain v v' where v: "llm_stage D q t prompt x v = (Inr resp, v')" "like w v" "like v' w'"
    using span_stage_Inr [OF assms] by blast
  then obtain v1 where "complete D ?q v = (Inr resp, v1)" "sv_http v' = sv_http v1"
    unfolding llm_stage_def
    by (auto simp: thenE_def log_stage_run audit_name_def bindE_def returnE_def split: prod.splits sum.splits)
  then show ?thesis
    using complete_sends [of D ?q v resp v1] like_simps(4) [OF v(2)] like_simps(4) [OF v(3)] by auto
qed

lemma post_span_Inr:
  assumes "span_stage n k a t (post_sanitize_stage D q t resp) w = (Inr x, w')"
  shows "fst x = resp\<lparr>lr_content := mr_text (mask_pii (dp_db D) (lr_content resp))\<rparr>" "sv_http w' = sv_http w" "registry w' = registry w"
proof -
  obtain v v' where v: "post_sanitize_stage D q t resp v = (Inr x, v')" "like w v" "like v' w'"
    using span_stage_Inr [OF assms] by blast
  then have x: "fst x = resp\<lparr>lr_content := mr_text (mask_pii (dp_db D) (lr_content resp))\<rparr>" "sv_http v' = sv_http v" "registry v' = registry v"
    by (auto simp: post_sanitize_stage_def Let_def thenE_def bindE_def returnE_def log_stage_run audit_name_def registry_def)
  then show "fst x = resp\<lparr>lr_content := mr_text (mask_pii (dp_db D) (lr_content resp))\<rparr>" "sv_http w' = sv_http w" "registry w' = registry w"
    using like_simps [OF v(2)] like_simps [OF v(3)] by (auto simp: registry_def)
qed

lemma account_http: "account C q t resp w = (r, w') \<Longrightarrow> sv_http w' = sv_http w"
  using keepsE_D [OF keeps_account [of "sv_http w" C q t resp], of w] by simp

lemma pipeline_Inr:
  assumes "pipeline C q task_id w = (Inr res, w')"
  obtains y token x w1 resp w2 w3 final pii where
    "govern C q (str_uuid task_id) w = (Inr (y, token, x), w1)"
    "span_stage ''llm-invoke'' ''llm_invoke'' (or_agent_type q) (str_uuid task_id) (llm_stage (oc_deps C) q (str_uuid task_id) (fst y) x) w1
       = (Inr resp, w2)"
    "account C q (str_uuid task_id) resp w2 = (Inr (), w3)"
    "span_stage ''post-sanitize'' ''post_sanitize'' (or_agent_type q) (str_uuid task_id) (post_sanitize_stage (oc_deps C) q (str_uuid task_id) resp) w3
       = (Inr (final, pii), w')"
    "res = \<lparr>os_task_id = task_id, os_response = final, os_session_token = token,
                 os_sanitized_prompt = fst y, os_pii_found_in_prompt = snd y, os_pii_found_in_response = pii\<rparr>"
  using assms unfolding pipeline_def Let_def thenE_def by (auto simp: bindE_Inr returnE_def)

lemma completed_run:
  assumes "unicode_ok (dp_db (oc_deps C))" and "or_task_id q = Some task_id" and "run C q w = (Inr res, w')"
  shows "os_task_id res = task_id \<and> cleared C q (str_uuid task_id) w \<and>
    pii_free (dp_db (oc_deps C)) (os_sanitized_prompt res) \<and> pii_free (dp_db (oc_deps C)) (lr_content (os_response res)) \<and>
    (\<exists>md. ht_sent (sv_http w') = ht_sent (sv_http w) @
       [policy_request (dp_opa (oc_deps C)) ''agent_access'' (request_policy_input q),
        outbound_request (dp_adapter (oc_deps C)) (llm_request_of q (os_sanitized_prompt res) md)]) \<and>
    (\<forall>sid. oc_budget_enforcer C \<and> or_budget_session_id q = Some sid \<longrightarrow>
       (\<exists>s. registry w sid = Some s \<and> registry w' sid = Some (charged s (debit q (os_response res)) None) \<and>
          \<not> over_limit (charged s (debit q (os_response res)) None)))"
proof -
  let ?t = "str_uuid task_id" and ?D = "oc_deps C"
  obtain v' where pipe: "pipeline C q task_id (opened w) = (Inr res, v')" and like': "like v' w'"
    using assms(3) like_ended unfolding run_pipeline [OF assms(2)] by (fastforce split: prod.splits sum.splits)
  from pipeline_Inr [OF pipe] obtain y token x w1 resp w2 w3 final pii where
      g: "govern C q ?t (opened w) = (Inr (y, token, x), w1)"
    and llm: "span_stage ''llm-invoke'' ''llm_invoke'' (or_agent_type q) ?t (llm_stage ?D q ?t (fst y) x) w1 = (Inr resp, w2)"
    and acc: "account C q ?t resp w2 = (Inr (), w3)"
    and post: "span_stage ''post-sanitize'' ''post_sanitize'' (or_agent_type q) ?t (post_sanitize_stage ?D q ?t resp) w3 = (Inr (final, pii), v')"
    and res: "res = \<lparr>os_task_id = task_id, os_response = final, os_session_token = token,
                 os_sanitized_prompt = fst y, os_pii_found_in_prompt = snd y, os_pii_found_in_response = pii\<rparr>"
    by metis
  note opened = like_simps [OF like_opened, of w]
  have final: "final = resp\<lparr>lr_content := mr_text (mask_pii (dp_db ?D) (lr_content resp))\<rparr>"
    using post_span_Inr(1) [OF post] by simp
  have "cleared C q ?t w" "pii_free (dp_db ?D) (fst y)"
    using govern_Inr [OF assms(1) g] opened by (simp_all add: cleared_def)
  moreover have "pii_free (dp_db ?D) (lr_content final)"
    using final mask_pii_free [OF assms(1)] by simp
  moreover have "\<exists>md. ht_sent (sv_http w') = ht_sent (sv_http w) @
       [policy_request (dp_opa ?D) ''agent_access'' (request_policy_input q),
        outbound_request (dp_adapter ?D) (llm_request_of q (fst y) md)]"
    using govern_Inr [OF assms(1) g] llm_span_Inr [OF llm] account_http [OF acc] post_span_Inr(2) [OF post] opened like_simps [OF like']
    by simp
  moreover have "registry w1 = registry w" "registry w2 = registry w1" "registry w' = registry w3"
    using keepsE_D [OF keeps_registry_govern [of "registry w" C q ?t], of "opened w"] g
      keepsE_D [OF keeps_registry_llm [of "registry w1" "''llm-invoke''" "''llm_invoke''" "or_agent_type q" ?t ?D q "fst y" x], of w1] llm
      post_span_Inr(3) [OF post] like_simps(2) [OF like'] opened(2)
    by (auto simp: registry_def)
  moreover have "debit q final = debit q resp"
    by (simp add: final debit_def)
  ultimately show ?thesis
    using account_Inr [OF acc] res by (auto split: option.splits)
qed

text \<open>
  (C17) What a completed run has done: it sent the policy request and one completion request for the
  sanitised prompt it reports; the request was cleared; the prompt and the response it returns hold
  no PII; and where a budget is enforced, the session was debited once with the tokens of the
  response at the price of the request, and is still within its limit.
\<close>

theorem completed_run_governed:
  assumes "unicode_ok (dp_db (oc_deps C))" and "or_task_id q = Some task_id" and "run C q w = (Inr res, w')"
  shows "os_task_id res = task_id \<and> cleared C q (str_uuid task_id) w \<and>
    pii_free (dp_db (oc_deps C)) (os_sanitized_prompt res) \<and> pii_free (dp_db (oc_deps C)) (lr_content (os_response res)) \<and>
    (\<exists>md. ht_sent (sv_http w') = ht_sent (sv_http w) @
       [policy_request (dp_opa (oc_deps C)) ''agent_access'' (request_policy_input q),
        outbound_request (dp_adapter (oc_deps C)) (llm_request_of q (os_sanitized_prompt res) md)]) \<and>
    (\<forall>sid. oc_budget_enforcer C \<and> or_budget_session_id q = Some sid \<longrightarrow>
       (\<exists>s. registry w sid = Some s \<and> registry w' sid = Some (charged s (debit q (os_response res)) None) \<and>
          \<not> over_limit (charged s (debit q (os_response res)) None)))"
  using assms by (rule completed_run)



section \<open>Refusals\<close>

lemma pipeline_stops: "govern C q (str_uuid task_id) w = (Inl e, w') \<Longrightarrow> pipeline C q task_id w = (Inl e, w')"
  by (simp add: pipeline_def bindE_def Let_def)

lemma pre_sanitize_passes:
  assumes "check_prompt_injection (dp_db D) (or_prompt q) = Inr ()"
  shows "\<exists>x w'. span_stage name key agent t (pre_sanitize D q t) w = (Inr x, w') \<and> sv_session w' = sv_session w \<and>
    sv_http w' = sv_http w \<and> sv_errors w' = sv_errors w \<and>
    events (sv_audit w') = events (sv_audit w) @ [(''guardrails.pre_sanitize'', Info)]"
  using assms
  by (simp add: span_stage_run pre_sanitize_run Let_def like_simps [OF like_ended] like_simps [OF like_opened] audit_name_def
      stage_level_def)

lemma policy_stage_denied:
  assumes "evaluate (dp_opa D) ''agent_access'' (request_policy_input q) (sv_http w) = (d, h)"
    and "case d of Inl e \<Rightarrow> isinstance e OpaUnavailableError | Inr r \<Rightarrow> \<not> pr_allowed r \<or> pr_action r = ''reject''"
  shows "\<exists>e v. policy_stage D q t w = (Inl e, v) \<and> exc_cls e = PolicyDeniedError \<and> sv_http v = h \<and> sv_errors v = sv_errors w \<and>
    events (sv_audit v) = events (sv_audit w) @
      [case d of Inl _ \<Rightarrow> (''policy.opa_unavailable'', Error) | Inr _ \<Rightarrow> (''policy.denied'', Warning)]"
  using assms
  by (cases d) (simp_all add: policy_stage_def tryE_def bindE_def thenE_def on_http_def zoomE_def raiseE_def log_stage_run
      audit_name_def stage_level_def)

lemma refused_run:
  assumes "or_task_id q = Some task_id" and "check_prompt_injection (dp_db (oc_deps C)) (or_prompt q) = Inr ()"
    and "evaluate (dp_opa (oc_deps C)) ''agent_access'' (request_policy_input q) (sv_http w) = (d, h)"
    and "case d of Inl e \<Rightarrow> isinstance e OpaUnavailableError | Inr r \<Rightarrow> \<not> pr_allowed r \<or> pr_action r = ''reject''"
  shows "\<exists>e w'. run C q w = (Inl e, w') \<and> exc_cls e = PolicyDeniedError \<and>
    ht_sent (sv_http w') = ht_sent (sv_http w) @ [policy_request (dp_opa (oc_deps C)) ''agent_access'' (request_policy_input q)] \<and>
    sv_errors w' = sv_errors w @ [(''policy_eval'', or_agent_type q)] \<and>
    events (sv_audit w') = events (sv_audit w) @ [(''guardrails.pre_sanitize'', Info),
      case d of Inl _ \<Rightarrow> (''policy.opa_unavailable'', Error) | Inr _ \<Rightarrow> (''policy.denied'', Warning)]"
proof -
  let ?t = "str_uuid task_id" and ?D = "oc_deps C" and ?a = "or_agent_type q"
  let ?P = "policy_request (dp_opa ?D) ''agent_access'' (request_policy_input q)"
  obtain x w1 where s1: "span_stage ''pre-pii-scrub'' ''pre_pii_scrub'' ?a ?t (pre_sanitize ?D q ?t) (opened w) = (Inr x, w1)"
    and w1: "sv_http w1 = sv_http w" "sv_errors w1 = sv_errors w" "events (sv_audit w1) = events (sv_audit w) @ [(''guardrails.pre_sanitize'', Info)]"
    using pre_sanitize_passes [OF assms(2)] like_simps [OF like_opened, of w] by metis
  have ev: "evaluate (dp_opa ?D) ''agent_access'' (request_policy_input q) (sv_http (opened w1)) = (d, h)"
    using assms(3) w1 by (simp add: like_simps [OF like_opened])
  obtain e v where v: "policy_stage ?D q ?t (opened w1) = (Inl e, v)" "exc_cls e = PolicyDeniedError" "sv_http v = h"
      "sv_errors v = sv_errors w"
      "events (sv_audit v) = events (sv_audit w) @ [(''guardrails.pre_sanitize'', Info),
         case d of Inl _ \<Rightarrow> (''policy.opa_unavailable'', Error) | Inr _ \<Rightarrow> (''policy.denied'', Warning)]"
    using policy_stage_denied [OF ev assms(4), of ?t] w1 by (auto simp: like_simps [OF like_opened])
  have ctl: "isinstance_any e controlled_exc"
    using v(2) by (simp add: isinstance_any_def isinstance_def controlled_exc_def)
  have h: "ht_sent h = ht_sent (sv_http w) @ [?P]"
    using evaluate_sends [of "dp_opa ?D" "''agent_access''" "request_policy_input q" "sv_http w"] assms(3) by simp
  let ?w2 = "ended ''policy-eval'' (stage_attributes ?t ?a @ error_attributes e) (Some e) w1 (reported ''policy-eval'' ''policy_eval'' ?a ?t e v)"
  have s2: "span_stage ''policy-eval'' ''policy_eval'' ?a ?t (policy_stage ?D q ?t) w1 = (Inl e, ?w2)"
    using v(1) by (simp add: span_stage_run)
  have "pipeline C q task_id (opened w) = (Inl e, ?w2)"
    by (rule pipeline_stops) (use s1 s2 in \<open>simp add: govern_def Let_def bindE_def\<close>)
  then show ?thesis
    using v h ctl by (simp add: run_pipeline [OF assms(1)] like_simps [OF like_ended])
qed

text \<open>
  The policy stage fails closed: when the policy server is unavailable, or its decision is not
  positive, or its action is \<open>reject\<close>, the run raises \<open>PolicyDeniedError\<close> after the policy request and
  before any completion request, counts one error of the policy stage, and logs exactly the
  sanitisation and the refusal.
\<close>

theorem policy_refusal_stops_run:
  assumes "or_task_id q = Some task_id" and "check_prompt_injection (dp_db (oc_deps C)) (or_prompt q) = Inr ()"
    and "evaluate (dp_opa (oc_deps C)) ''agent_access'' (request_policy_input q) (sv_http w) = (d, h)"
    and "case d of Inl e \<Rightarrow> isinstance e OpaUnavailableError | Inr r \<Rightarrow> \<not> pr_allowed r \<or> pr_action r = ''reject''"
  shows "\<exists>e w'. run C q w = (Inl e, w') \<and> exc_cls e = PolicyDeniedError \<and>
    ht_sent (sv_http w') = ht_sent (sv_http w) @ [policy_request (dp_opa (oc_deps C)) ''agent_access'' (request_policy_input q)] \<and>
    sv_errors w' = sv_errors w @ [(''policy_eval'', or_agent_type q)] \<and>
    events (sv_audit w') = events (sv_audit w) @ [(''guardrails.pre_sanitize'', Info),
      case d of Inl _ \<Rightarrow> (''policy.opa_unavailable'', Error) | Inr _ \<Rightarrow> (''policy.denied'', Warning)]"
  using assms by (rule refused_run)

text \<open>A request that passes the first two stages, up to the token stage.\<close>

definition policy_passes :: "'r orchestrator \<Rightarrow> orchestrator_request \<Rightarrow> 'r services \<Rightarrow> bool" where
  "policy_passes C q w \<longleftrightarrow> check_prompt_injection (dp_db (oc_deps C)) (or_prompt q) = Inr () \<and>
     (\<exists>r h. evaluate (dp_opa (oc_deps C)) ''agent_access'' (request_policy_input q) (sv_http w) = (Inr r, h) \<and>
        pr_allowed r \<and> pr_action r = ''allow'')"

lemma govern_to_tokens:
  assumes "policy_passes C q w"
  obtains w2 prompt where "sv_session w2 = sv_session w" "sv_errors w2 = sv_errors w"
    "events (sv_audit w2) = events (sv_audit w) @ [(''guardrails.pre_sanitize'', Info), (''policy.allowed'', Info)]"
    "\<And>e w'. span_stage ''jit-token-issue'' ''jit_token_issue'' (or_agent_type q) t (token_stage (oc_deps C) q t prompt) w2 = (Inl e, w')
       \<Longrightarrow> govern C q t w = (Inl e, w')"
proof -
  let ?D = "oc_deps C" and ?a = "or_agent_type q"
  obtain r h where r: "evaluate (dp_opa ?D) ''agent_access'' (request_policy_input q) (sv_http w) = (Inr r, h)"
      "pr_allowed r" "pr_action r = ''allow''" and inj: "check_prompt_injection (dp_db ?D) (or_prompt q) = Inr ()"
    using assms unfolding policy_passes_def by blast
  obtain x w1 where s1: "span_stage ''pre-pii-scrub'' ''pre_pii_scrub'' ?a t (pre_sanitize ?D q t) w = (Inr x, w1)"
    and w1: "sv_session w1 = sv_session w" "sv_http w1 = sv_http w" "sv_errors w1 = sv_errors w"
      "events (sv_audit w1) = events (sv_audit w) @ [(''guardrails.pre_sanitize'', Info)]"
    using pre_sanitize_passes [OF inj] by blast
  let ?w2 = "ended ''policy-eval'' (stage_attributes t ?a @ ok_attributes) None w1
      (staged ''policy.allowed'' ''allow'' ''policy-eval'' t ?a [] ((opened w1)\<lparr>sv_http := h\<rparr>))"
  have "policy_stage ?D q t (opened w1)
      = (Inr r, staged ''policy.allowed'' ''allow'' ''policy-eval'' t ?a [] ((opened w1)\<lparr>sv_http := h\<rparr>))"
    using r w1(2) by (simp add: policy_stage_def tryE_def bindE_def thenE_def on_http_def zoomE_def returnE_def log_stage_run
        audit_name_def like_simps [OF like_opened])
  then have s2: "span_stage ''policy-eval'' ''policy_eval'' ?a t (policy_stage ?D q t) w1 = (Inr r, ?w2)"
    by (simp add: span_stage_run)
  have g: "govern C q t w = (Inl e, w')"
    if "span_stage ''jit-token-issue'' ''jit_token_issue'' ?a t (token_stage ?D q t (fst x)) ?w2 = (Inl e, w')" for e w'
    using s1 s2 that r(3) by (simp add: govern_def Let_def bindE_def returnE_def)
  have st: "sv_session ?w2 = sv_session w" "sv_errors ?w2 = sv_errors w"
      "events (sv_audit ?w2) = events (sv_audit w) @ [(''guardrails.pre_sanitize'', Info), (''policy.allowed'', Info)]"
    using w1 by (simp_all add: like_simps [OF like_ended] like_simps [OF like_opened] audit_name_def stage_level_def)
  show ?thesis
    by (rule that [of ?w2 "fst x", OF st g])
qed

lemma token_failure:
  assumes "or_task_id q = Some task_id" "policy_passes C q w"
    and "\<And>prompt v. sv_session v = sv_session w \<Longrightarrow> \<exists>v'. token_stage (oc_deps C) q (str_uuid task_id) prompt v = (Inl e, v') \<and>
      events (sv_audit v') = events (sv_audit v) @ new"
  shows "\<exists>w'. run C q w = (Inl e, w') \<and> events (sv_audit w') = events (sv_audit w) @
    [(''guardrails.pre_sanitize'', Info), (''policy.allowed'', Info)] @ new @
    (if isinstance_any e controlled_exc then [] else [(''stage.error'', Error)])"
proof -
  let ?t = "str_uuid task_id" and ?a = "or_agent_type q"
  have pass: "policy_passes C q (opened w)"
    using assms(2) by (simp add: policy_passes_def like_simps [OF like_opened])
  obtain w2 prompt where session: "sv_session w2 = sv_session (opened w)"
    and log: "events (sv_audit w2) = events (sv_audit (opened w)) @ [(''guardrails.pre_sanitize'', Info), (''policy.allowed'', Info)]"
    and g: "\<And>e w'. span_stage ''jit-token-issue'' ''jit_token_issue'' ?a ?t (token_stage (oc_deps C) q ?t prompt) w2 = (Inl e, w')
       \<Longrightarrow> govern C q ?t (opened w) = (Inl e, w')"
    by (rule govern_to_tokens [OF pass, where t = ?t]) blast
  note w2 = session [unfolded like_simps [OF like_opened]] log [unfolded like_simps [OF like_opened]]
  obtain v' where v': "token_stage (oc_deps C) q ?t prompt (opened w2) = (Inl e, v')" "events (sv_audit v') = events (sv_audit w2) @ new"
    using assms(3) [of "opened w2" prompt] w2 by (auto simp: like_simps [OF like_opened])
  then have "govern C q ?t (opened w) = (Inl e, ended ''jit-token-issue'' (stage_attributes ?t ?a @ error_attributes e) (Some e) w2
      (reported ''jit-token-issue'' ''jit_token_issue'' ?a ?t e v'))"
    by (intro g) (simp add: span_stage_run)
  then show ?thesis
    using v' w2 by (simp add: run_pipeline [OF assms(1)] pipeline_stops like_simps [OF like_ended])
qed

text \<open>
  A stage can fail in silence. If the token that the orchestrator has just issued does not
  validate because it has expired, \<open>TokenExpiredError\<close> leaves the token stage without any event of that
  stage: the stage body logs nothing, and \<open>_span_stage\<close> takes the exception for a governance decision
  that was logged. Its documentation promises at least one audit event.
\<close>

theorem expired_fresh_token_silent:
  assumes "or_task_id q = Some task_id" "policy_passes C q w" "or_session_token q = None"
    and "issue_token (dp_libs (oc_deps C)) (dp_cfg (oc_deps C)) (base_token_request q (str_uuid task_id)) (sv_session w) = (Inr token, m)"
    and "validate_token (dp_libs (oc_deps C)) (dp_cfg (oc_deps C)) token m = (Inl e, m')" "exc_cls e = TokenExpiredError"
  shows "\<exists>w'. run C q w = (Inl e, w') \<and> events (sv_audit w') = events (sv_audit w) @
    [(''guardrails.pre_sanitize'', Info), (''policy.allowed'', Info)]"
proof -
  have "isinstance_any e controlled_exc"
    using assms(6) by (simp add: isinstance_any_def isinstance_def controlled_exc_def)
  moreover have "\<exists>v'. token_stage (oc_deps C) q (str_uuid task_id) prompt v = (Inl e, v') \<and> events (sv_audit v') = events (sv_audit v) @ []"
    if "sv_session v = sv_session w" for prompt v
    using that assms(3-5) by (simp add: token_stage_def fresh_token_def bindE_def on_session_def zoomE_def)
  ultimately show ?thesis
    using token_failure [OF assms(1,2), of e "[]"] by simp
qed

text \<open>
  A revoked token is reported twice: the token stage logs \<open>token.revoked\<close> and raises a plain
  \<open>PermissionError\<close>, which is not in \<open>_CONTROLLED_EXC\<close>, so the span adds a \<open>stage.error\<close> on top of the
  refusal that is already in the trail.
\<close>

theorem revoked_token_reported_twice:
  assumes "or_task_id q = Some task_id" "policy_passes C q w" "or_session_token q = Some (c # s)"
    and "validate_token (dp_libs (oc_deps C)) (dp_cfg (oc_deps C)) (c # s) (sv_session w) = (Inl e, m)" "exc_cls e = TokenRevokedError"
  shows "\<exists>e' w'. run C q w = (Inl e', w') \<and> exc_cls e' = PermissionError \<and> events (sv_audit w') = events (sv_audit w) @
    [(''guardrails.pre_sanitize'', Info), (''policy.allowed'', Info), (''token.revoked'', Warning), (''stage.error'', Error)]"
proof -
  let ?e = "Exn PermissionError ''Session token has been revoked'' (Some e)"
  have "\<exists>v'. token_stage (oc_deps C) q (str_uuid task_id) prompt v = (Inl ?e, v') \<and>
      events (sv_audit v') = events (sv_audit v) @ [(''token.revoked'', Warning)]"
    if "sv_session v = sv_session w" for prompt v
    using that assms(3-5)
    by (simp add: token_stage_def supplied_token_def deny_token_def tryE_def bindE_def thenE_def raiseE_def on_session_def
        zoomE_def isinstance_def log_stage_run audit_name_def stage_level_def)
  moreover have "\<not> isinstance_any ?e controlled_exc"
    by (simp add: isinstance_any_def isinstance_def controlled_exc_def)
  ultimately show ?thesis
    using token_failure [OF assms(1,2), of ?e "[(''token.revoked'', Warning)]"] by auto
qed


section \<open>Concrete runs\<close>

definition demo_task :: uuid where
  "demo_task = UUID ''00000000000040008000000000000009''"

definition demo_run_request :: "string option \<Rightarrow> orchestrator_request" where
  "demo_run_request tok = \<lparr>or_task_id = Some demo_task, or_prompt = asc ''SSN 123-45-6789'', or_agent_type = ''hr'',
     or_requester_id = ''alice'', or_session_token = tok, or_model = ''m'', or_max_tokens = 10, or_temperature = 0,
     or_system_prompt = [], or_metadata = [], or_protect_outbound_request = False, or_budget_session_id = None,
     or_cost_per_token = Dec 2 (- 6), or_loop_session_id = None, or_loop_signal = NO_PROGRESS, or_loop_token_delta = None\<rparr>"

definition run_table :: "int \<Rightarrow> jwt_table" where
  "run_table expiry = [(''tok'', token_payload (base_token_request (demo_run_request None) (str_uuid demo_task))
      (str_uuid (demo_uuids 0)) 0 expiry, token_secret_key default_settings, ''HS256'', [])]"

definition demo_orchestrator :: "int \<Rightarrow> (string \<rightharpoonup> rat) orchestrator" where
  "demo_orchestrator expiry = \<lparr>oc_deps = (demo_deps (run_table expiry))\<lparr>dp_cfg := default_settings\<lparr>token_expiry_seconds := expiry\<rparr>\<rparr>,
     oc_budget_enforcer = False, oc_loop_detector = False\<rparr>"

definition chat_reply :: http_response where
  "chat_reply = \<lparr>hs_status = 200, hs_json = Inr (JObj [(''choices'', JList [JObj [(''message'', JObj [(''content'', JText (asc ''ok''))])]]),
     (''usage'', JObj [(''total_tokens'', JNum 7)])]), hs_message = []\<rparr>"

definition demo_world :: "(string \<rightharpoonup> rat) services" where
  "demo_world = demo_services (\<lambda>n _. Inr (if n = 0 then demo_reply else chat_reply))"

lemma demo_run_simps:
  "or_task_id (demo_run_request tok) = Some demo_task" "or_session_token (demo_run_request tok) = tok"
  "dp_db (oc_deps (demo_orchestrator n)) = ascii_db" "dp_opa (oc_deps (demo_orchestrator n)) = ''http://opa''"
  "dp_libs (oc_deps (demo_orchestrator n)) = table_libs (run_table n)"
  "dp_cfg (oc_deps (demo_orchestrator n)) = default_settings\<lparr>token_expiry_seconds := n\<rparr>"
  "dp_adapter (oc_deps (demo_orchestrator n)) = LocalLlamaAdapter ''http://l'' ''m''"
  "sv_session demo_world = demo_manager" "ht_sent (sv_http demo_world) = []"
  "ht_reply (sv_http demo_world) 0 x = Inr demo_reply" "ht_reply (sv_http demo_world) (Suc 0) x = Inr chat_reply"
  "or_protect_outbound_request (demo_run_request tok) = False" "or_budget_session_id (demo_run_request tok) = None"
  "or_loop_session_id (demo_run_request tok) = None" "or_agent_type (demo_run_request tok) = ''hr''"
  by (simp_all add: demo_run_request_def demo_orchestrator_def demo_deps_def demo_world_def demo_services_def)

lemma demo_injection: "check_prompt_injection ascii_db (or_prompt (demo_run_request tok)) = Inr ()"
proof -
  have "check_prompt_injection ascii_db (asc ''SSN 123-45-6789'') = Inr ()"
    by code_simp
  then show ?thesis
    by (simp add: demo_run_request_def)
qed

lemma demo_evaluate:
  "evaluate opa name i (sv_http demo_world)
     = (Inr \<lparr>pr_allowed = True, pr_reasons = [], pr_action = ''allow'', pr_fields = []\<rparr>,
        (sv_http demo_world)\<lparr>ht_sent := [policy_request opa name i]\<rparr>)"
  by (simp add: evaluate_def prog_simps http_post_def raise_for_status_def demo_run_simps demo_reply_def
        policy_result_of_def json_get_def truthy_def v_str_list_def v_str_def)

lemma demo_passes: "policy_passes (demo_orchestrator n) (demo_run_request tok) demo_world"
  by (simp add: policy_passes_def demo_run_simps demo_injection demo_evaluate)

definition run_issued :: "(string \<rightharpoonup> rat) session_manager" where
  "run_issued = demo_manager\<lparr>sm_ticks := 1, sm_uuid_ticks := 1\<rparr>"

lemma base_request_eq: "base_token_request (demo_run_request tok) t = base_token_request (demo_run_request None) t"
  by (simp add: base_token_request_def demo_run_request_def)

lemma demo_run_issue:
  "issue_token (table_libs (run_table n)) (default_settings\<lparr>token_expiry_seconds := n\<rparr>)
     (base_token_request (demo_run_request None) (str_uuid demo_task)) demo_manager = (Inr ''tok'', run_issued)"
proof -
  let ?q = "base_token_request (demo_run_request None) (str_uuid demo_task)" and ?cfg = "default_settings\<lparr>token_expiry_seconds := n\<rparr>"
  have "rq_agent_type ?q \<noteq> []" "rq_requester_id ?q \<noteq> []" "rq_rotation_key ?q = None"
    by (simp_all add: base_token_request_def demo_run_request_def)
  moreover have "thumbprint_of (table_libs (run_table n)) ?q = Inr None" "expiry_of ?cfg ?q = n"
      "signing_key ?cfg = Inr (token_secret_key default_settings)" "token_algorithm ?cfg = ''HS256''"
    by (simp_all add: thumbprint_of_def expiry_of_def base_token_request_def default_settings_def signing_key_def starts_with_HS_def)
  moreover have "jwt_encode (table_libs (run_table n)) (token_payload ?q (str_uuid (demo_uuids 0)) 0 n)
      (token_secret_key default_settings) ''HS256'' [] = Inr ''tok''"
    by (simp add: table_libs_def run_table_def)
  ultimately show ?thesis
    by (simp add: issue_token_steps demo_manager_def run_issued_def rotate_out_def rotate_in_def session_defs full_payload_def)
qed

lemma demo_vk: "verification_key (table_libs tbl) (default_settings\<lparr>token_expiry_seconds := n\<rparr>) = Inr (token_secret_key default_settings)"
  by (simp add: verification_key_def default_settings_def starts_with_HS_def)

theorem expired_fresh_token_silent_witness:
  "\<exists>e w'. run (demo_orchestrator 0) (demo_run_request None) demo_world = (Inl e, w') \<and> exc_cls e = TokenExpiredError \<and>
     events (sv_audit w') = [(''guardrails.pre_sanitize'', Info), (''policy.allowed'', Info)]"
proof -
  let ?lib = "table_libs (run_table 0)" and ?cfg = "default_settings\<lparr>token_expiry_seconds := 0\<rparr>"
  have "jwt_decode ?lib ''tok'' (token_secret_key default_settings) (token_algorithm ?cfg) (sm_clock run_issued (sm_ticks run_issued))
      = Inl (exn_of ExpiredSignatureError ''Signature has expired.'')"
    by (simp add: table_libs_def run_table_def default_settings_def demo_pair_def starts_with_HS_def live_at_def token_payload_def
        run_issued_def demo_manager_def)
  from validate_token_expired [OF demo_vk this] obtain c
    where "validate_token ?lib ?cfg ''tok'' run_issued = (Inl (Exn TokenExpiredError ''Session token has expired'' c), run_issued\<lparr>sm_ticks := Suc (sm_ticks run_issued)\<rparr>)"
    by blast
  then show ?thesis
    using expired_fresh_token_silent [where C = "demo_orchestrator 0" and q = "demo_run_request None" and task_id = demo_task and w = demo_world
        and token = "''tok''" and m = run_issued] demo_passes [of 0 None]
    by (fastforce simp: demo_run_simps demo_run_issue demo_world_def demo_services_def new_audit_logger_def events_def)
qed

theorem revoked_token_reported_twice_witness:
  "\<exists>e w'. run (demo_orchestrator 900) (demo_run_request (Some ''tok''))
       (demo_world\<lparr>sv_session := demo_manager\<lparr>sm_revoked_jtis := [str_uuid (demo_uuids 0) \<mapsto> 900]\<rparr>\<rparr>) = (Inl e, w') \<and>
     exc_cls e = PermissionError \<and>
     events (sv_audit w') = [(''guardrails.pre_sanitize'', Info), (''policy.allowed'', Info), (''token.revoked'', Warning), (''stage.error'', Error)]"
proof -
  let ?lib = "table_libs (run_table 900)" and ?cfg = "default_settings\<lparr>token_expiry_seconds := 900\<rparr>"
  let ?m = "demo_manager\<lparr>sm_revoked_jtis := [str_uuid (demo_uuids 0) \<mapsto> 900]\<rparr>"
  let ?w = "demo_world\<lparr>sv_session := ?m\<rparr>"
  have dec: "jwt_decode ?lib ''tok'' (token_secret_key default_settings) (token_algorithm ?cfg) (sm_clock ?m (sm_ticks ?m))
      = Inr (token_payload (base_token_request (demo_run_request None) (str_uuid demo_task)) (str_uuid (demo_uuids 0)) 0 900)"
    by (simp add: table_libs_def run_table_def default_settings_def demo_pair_def starts_with_HS_def live_at_def token_payload_def
        demo_manager_def)
  have "fst (validate_token ?lib ?cfg ''tok'' ?m) = Inl (exn_of TokenRevokedError (''Session token jti='' @ py_repr (str_uuid (demo_uuids 0)) @ '' has been revoked''))"
    using validate_token_decoded [OF demo_vk dec, of "str_uuid (demo_uuids 0)"]
    by (simp add: token_payload_def after_validation_def demo_manager_def drop_expired_def)
  then obtain e m where "validate_token ?lib ?cfg ''tok'' ?m = (Inl e, m)" "exc_cls e = TokenRevokedError"
    by (cases "validate_token ?lib ?cfg ''tok'' ?m") auto
  moreover have "policy_passes (demo_orchestrator 900) (demo_run_request (Some ''tok'')) ?w"
    using demo_passes [of 900 "Some ''tok''"] by (simp add: policy_passes_def)
  ultimately show ?thesis
    using revoked_token_reported_twice [where C = "demo_orchestrator 900" and q = "demo_run_request (Some ''tok'')" and task_id = demo_task
        and w = ?w and c = "CHR ''t''" and s = "''ok''"]
    by (fastforce simp: demo_run_simps demo_world_def demo_services_def new_audit_logger_def events_def)
qed


lemmas demo_eval = bindE_def thenE_def returnE_def tryE_def liftE_def zoomE_def on_session_def on_http_def

lemma demo_run_validate:
  "\<exists>claims. validate_token (table_libs (run_table 900)) (default_settings\<lparr>token_expiry_seconds := 900\<rparr>) ''tok'' run_issued
     = (Inr claims, after_validation run_issued)"
proof -
  let ?cfg = "default_settings\<lparr>token_expiry_seconds := 900\<rparr>" and ?q = "base_token_request (demo_run_request None) (str_uuid demo_task)"
  have dec: "jwt_decode (table_libs (run_table 900)) ''tok'' (token_secret_key default_settings) (token_algorithm ?cfg)
      (sm_clock run_issued (sm_ticks run_issued)) = Inr (full_payload ?q (str_uuid (demo_uuids 0)) 0 900 None)"
    by (simp add: table_libs_def run_table_def default_settings_def demo_pair_def starts_with_HS_def live_at_def token_payload_def
        full_payload_def run_issued_def demo_manager_def)
  show ?thesis
    using validate_token_decoded [OF demo_vk dec, of "str_uuid (demo_uuids 0)"]
    by (simp add: token_claims_of_payload) (simp add: after_validation_def run_issued_def demo_manager_def)
qed

lemma demo_tokens:
  assumes "sv_session w = demo_manager"
  shows "\<exists>v. token_stage (oc_deps (demo_orchestrator 900)) (demo_run_request None) (str_uuid demo_task) prompt w = (Inr (''tok'', ''tok'', None), v) \<and>
    sv_http v = sv_http w"
proof -
  obtain claims where "validate_token (table_libs (run_table 900)) (default_settings\<lparr>token_expiry_seconds := 900\<rparr>) ''tok'' run_issued
     = (Inr claims, after_validation run_issued)"
    using demo_run_validate by blast
  then show ?thesis
    using assms by (simp add: token_stage_def fresh_token_def demo_eval demo_run_simps demo_run_issue log_stage_run audit_name_def)
qed

lemma demo_complete:
  assumes "sv_http w = (sv_http demo_world)\<lparr>ht_sent := [x]\<rparr>"
  shows "\<exists>r v. llm_stage (oc_deps (demo_orchestrator 900)) (demo_run_request None) t prompt (''tok'', None) w = (Inr r, v)"
proof -
  let ?q = "llm_request_of (demo_run_request None) prompt (adapter_metadata ''tok'' None)"
  have "authorize_outbound (oc_deps (demo_orchestrator 900)) (LocalLlamaAdapter ''http://l'' ''m'') ?q b w = (Inr (), w)" for b
    by (simp add: authorize_outbound_def require_sender_constrained_request_def protected_def demo_run_simps llm_request_of_def
        adapter_metadata_def dict_update_def default_settings_def demo_eval)
  moreover have "\<exists>r. outbound_response (table_libs (run_table 900)) (LocalLlamaAdapter ''http://l'' ''m'') ?q (projr (hs_json chat_reply)) = Inr r"
    by (simp add: outbound_response_def local_llama_response_def chat_reply_def first_choice_def json_item_def json_first_def dict_get_def
        json_get_def chat_response_def llm_response_of_def v_text_def v_int_def v_float_def v_str_def)
  ultimately show ?thesis
    using assms
    by (auto simp: llm_stage_def any_adapter.run_eq demo_run_simps post_json_def http_post_def raise_for_status_def demo_eval
        log_stage_run audit_name_def chat_reply_def)
qed

lemma demo_run_completes: "\<exists>res w'. run (demo_orchestrator 900) (demo_run_request None) demo_world = (Inr res, w')"
proof -
  let ?C = "demo_orchestrator 900" and ?q = "demo_run_request None" and ?t = "str_uuid demo_task" and ?D = "oc_deps (demo_orchestrator 900)"
  let ?P = "policy_request ''http://opa'' ''agent_access'' (request_policy_input ?q)"
  note like = like_simps [OF like_ended] like_simps [OF like_opened]
  obtain x w1 where s1: "span_stage ''pre-pii-scrub'' ''pre_pii_scrub'' ''hr'' ?t (pre_sanitize ?D ?q ?t) (opened demo_world) = (Inr x, w1)"
    and w1: "sv_session w1 = demo_manager" "sv_http w1 = sv_http demo_world"
    using pre_sanitize_passes [of ?D ?q "''pre-pii-scrub''" "''pre_pii_scrub''" "''hr''" ?t "opened demo_world"]
    by (auto simp: demo_run_simps demo_injection like)
  obtain r w2 where s2: "span_stage ''policy-eval'' ''policy_eval'' ''hr'' ?t (policy_stage ?D ?q ?t) w1 = (Inr r, w2)"
    and r: "pr_action r = ''allow''" and w2: "sv_session w2 = demo_manager" "sv_http w2 = (sv_http demo_world)\<lparr>ht_sent := [?P]\<rparr>"
    using w1 by (simp add: span_stage_run policy_stage_def demo_eval demo_run_simps demo_evaluate log_stage_run audit_name_def like)
  obtain w3 where s3: "span_stage ''jit-token-issue'' ''jit_token_issue'' ''hr'' ?t (token_stage ?D ?q ?t (fst x)) w2 = (Inr (''tok'', ''tok'', None), w3)"
    and w3: "sv_http w3 = sv_http w2"
    using demo_tokens [of "opened w2" "fst x"] w2 by (auto simp: span_stage_run like)
  obtain resp w4 where s4: "span_stage ''llm-invoke'' ''llm_invoke'' ''hr'' ?t (llm_stage ?D ?q ?t (fst x) (''tok'', None)) w3 = (Inr resp, w4)"
    using demo_complete [of "opened w3" ?P ?t "fst x"] w2 w3 by (auto simp: span_stage_run like)
  have s5: "\<exists>y w5. span_stage ''post-sanitize'' ''post_sanitize'' ''hr'' ?t (post_sanitize_stage ?D ?q ?t resp) w4 = (Inr y, w5)"
    by (simp add: span_stage_run post_sanitize_stage_def demo_eval Let_def log_stage_run audit_name_def)
  have "govern ?C ?q ?t (opened demo_world) = (Inr (x, ''tok'', ''tok'', None), w3)"
    using s1 s2 s3 r by (simp add: govern_def Let_def bindE_def thenE_def returnE_def demo_run_simps)
  then have "\<exists>res w'. pipeline ?C ?q demo_task (opened demo_world) = (Inr res, w')"
    using s4 s5 by (auto simp: pipeline_def account_def Let_def bindE_def thenE_def returnE_def demo_run_simps)
  then show ?thesis
    using run_pipeline [OF demo_run_simps(1), of ?C None demo_world] by auto
qed

theorem completed_run_governed_witness:
  "\<exists>res w' md. run (demo_orchestrator 900) (demo_run_request None) demo_world = (Inr res, w') \<and>
     pii_free ascii_db (lr_content (os_response res)) \<and>
     ht_sent (sv_http w') = [policy_request ''http://opa'' ''agent_access'' (request_policy_input (demo_run_request None)),
        outbound_request (LocalLlamaAdapter ''http://l'' ''m'') (llm_request_of (demo_run_request None) (os_sanitized_prompt res) md)]"
proof -
  obtain res w' where r: "run (demo_orchestrator 900) (demo_run_request None) demo_world = (Inr res, w')"
    using demo_run_completes by blast
  have db: "unicode_ok (dp_db (oc_deps (demo_orchestrator 900)))"
    by (simp add: demo_run_simps ascii_db_ok)
  show ?thesis
    using completed_run_governed [OF db demo_run_simps(1) r] r by (auto simp: demo_run_simps)
qed

theorem no_completion_without_governance_witness:
  "\<exists>prompt md. ht_sent (sv_http (snd (run (demo_orchestrator 900) (demo_run_request None) demo_world)))
     = [policy_request ''http://opa'' ''agent_access'' (request_policy_input (demo_run_request None)),
        outbound_request (LocalLlamaAdapter ''http://l'' ''m'') (llm_request_of (demo_run_request None) prompt md)] \<and>
     cleared (demo_orchestrator 900) (demo_run_request None) (str_uuid demo_task) demo_world"
proof -
  let ?q = "demo_run_request None"
  have db: "unicode_ok (dp_db (oc_deps (demo_orchestrator 900)))"
    by (simp add: demo_run_simps ascii_db_ok)
  obtain res w' where r: "run (demo_orchestrator 900) ?q demo_world = (Inr res, w')"
    using demo_run_completes by blast
  have "length (ht_sent (sv_http w')) = 2"
    using completed_run [OF db demo_run_simps(1) r] by (auto simp: demo_run_simps)
  then show ?thesis
    using no_completion_without_governance [OF db demo_run_simps(1) [where tok = None] refl, where w = demo_world] r
    by (auto simp: demo_run_simps)
qed

text \<open>A world in which every connection fails.\<close>

definition down_world :: "(string \<rightharpoonup> rat) services" where
  "down_world = demo_services (\<lambda>_ _. Inl (exn_of ConnectError ''down''))"

lemma down_evaluate: "\<exists>e h. evaluate opa name i (sv_http down_world) = (Inl e, h) \<and> exc_cls e = OpaUnavailableError"
  by (simp add: evaluate_def prog_simps http_post_def down_world_def demo_services_def isinstance_def)

theorem policy_refusal_stops_run_witness:
  "\<exists>e w'. run (demo_orchestrator 900) (demo_run_request None) down_world = (Inl e, w') \<and> exc_cls e = PolicyDeniedError \<and>
     ht_sent (sv_http w') = [policy_request ''http://opa'' ''agent_access'' (request_policy_input (demo_run_request None))] \<and>
     events (sv_audit w') = [(''guardrails.pre_sanitize'', Info), (''policy.opa_unavailable'', Error)]"
proof -
  obtain e h where ev: "evaluate (dp_opa (oc_deps (demo_orchestrator 900))) ''agent_access'' (request_policy_input (demo_run_request None))
      (sv_http down_world) = (Inl e, h)" "exc_cls e = OpaUnavailableError"
    using down_evaluate by blast
  have inj: "check_prompt_injection (dp_db (oc_deps (demo_orchestrator 900))) (or_prompt (demo_run_request None)) = Inr ()"
    by (simp add: demo_run_simps demo_injection)
  show ?thesis
    using policy_refusal_stops_run [OF demo_run_simps(1) inj ev(1)] ev(2)
    by (auto simp: isinstance_def demo_run_simps down_world_def demo_services_def new_audit_logger_def events_def)
qed

theorem run_counts_errors_witness:
  "\<exists>e w' s es. run (demo_orchestrator 900) ((demo_run_request None)\<lparr>or_prompt := asc ''jailbreak''\<rparr>) demo_world = (Inl e, w') \<and>
     sv_errors w' = [(s, ''hr'')] \<and> events (sv_audit w') = es @ [(''stage.error'', Error)]"
proof -
  let ?q = "(demo_run_request None)\<lparr>or_prompt := asc ''jailbreak''\<rparr>"
  have inj: "check_prompt_injection ascii_db (asc ''jailbreak'') = Inl (exn_of PromptInjectionError
      (''Potential prompt injection detected: matched pattern '' @ [squote] @ ''jailbreak'' @ [squote]))"
    by code_simp
  then obtain e where e: "check_prompt_injection ascii_db (asc ''jailbreak'') = Inl e" "exc_cls e = PromptInjectionError"
    by simp
  have task: "or_task_id ?q = Some demo_task" "or_agent_type ?q = ''hr''"
    by (simp_all add: demo_run_simps demo_run_request_def)
  have "\<exists>w'. run (demo_orchestrator 900) ?q demo_world = (Inl e, w')"
    using e(1) by (simp add: run_pipeline [OF task(1)] pipeline_def govern_def Let_def bindE_def span_stage_run pre_sanitize_run demo_run_simps)
  moreover have "\<not> isinstance_any e controlled_exc"
    using e(2) by (simp add: isinstance_any_def isinstance_def controlled_exc_def)
  ultimately show ?thesis
    using run_counts_errors [where C = "demo_orchestrator 900" and q = ?q and w = demo_world] task
    by (auto simp: demo_world_def demo_services_def)
qed

end
