(* ===== verification/Temporal.thy ===== *)
theory Temporal
  imports Workflow Pipeline
begin

text \<open>
  What Temporal documents of \<open>execute_activity\<close>, as a relation between the state in which an activity
  is scheduled and its outcome, a reference executor that satisfies it, and what follows for every
  executor that does: properties that all attempts keep, the origin of a result, and a bound on what
  is sent.
\<close>

section \<open>Attempts\<close>

text \<open>The name of an exception class, which Temporal records as the type of the failure.\<close>

fun exc_name :: "exc_class \<Rightarrow> string" where
  "exc_name Exception = ''Exception''"
| "exc_name LookupError = ''LookupError''"
| "exc_name KeyError = ''KeyError''"
| "exc_name IndexError = ''IndexError''"
| "exc_name TypeError = ''TypeError''"
| "exc_name ValueError = ''ValueError''"
| "exc_name ArithmeticError = ''ArithmeticError''"
| "exc_name InvalidOperation = ''InvalidOperation''"
| "exc_name DivisionByZero = ''DivisionByZero''"
| "exc_name RuntimeError = ''RuntimeError''"
| "exc_name PermissionError = ''PermissionError''"
| "exc_name TimeoutError = ''TimeoutError''"
| "exc_name TokenScopeError = ''TokenScopeError''"
| "exc_name TokenExpiredError = ''TokenExpiredError''"
| "exc_name TokenRevokedError = ''TokenRevokedError''"
| "exc_name TokenActionError = ''TokenActionError''"
| "exc_name TokenBindingError = ''TokenBindingError''"
| "exc_name DPoPProofError = ''DPoPProofError''"
| "exc_name DPoPReplayError = ''DPoPReplayError''"
| "exc_name AdapterSecurityError = ''AdapterSecurityError''"
| "exc_name PolicyDeniedError = ''PolicyDeniedError''"
| "exc_name PromptInjectionError = ''PromptInjectionError''"
| "exc_name MissingTaskIdError = ''MissingTaskIdError''"
| "exc_name ValidationError = ''ValidationError''"
| "exc_name BudgetExceededError = ''BudgetExceededError''"
| "exc_name BudgetLimitError = ''BudgetLimitError''"
| "exc_name LoopDetectedError = ''LoopDetectedError''"
| "exc_name TokenVelocityError = ''TokenVelocityError''"
| "exc_name PendingApprovalError = ''PendingApprovalError''"
| "exc_name LoopHaltError = ''LoopHaltError''"
| "exc_name LoopVelocityError = ''LoopVelocityError''"
| "exc_name LoopApprovalError = ''LoopApprovalError''"
| "exc_name OpaUnavailableError = ''OpaUnavailableError''"
| "exc_name DataConverterError = ''DataConverterError''"
| "exc_name AuditOrderingError = ''AuditOrderingError''"
| "exc_name JWTError = ''JWTError''"
| "exc_name ExpiredSignatureError = ''ExpiredSignatureError''"
| "exc_name HTTPError = ''HTTPError''"
| "exc_name ConnectError = ''ConnectError''"
| "exc_name TimeoutException = ''TimeoutException''"
| "exc_name HTTPStatusError = ''HTTPStatusError''"
| "exc_name RateLimitError = ''RateLimitError''"
| "exc_name HITLEscalationError = ''HITLEscalationError''"
| "exc_name (ActivityError x) = ''ActivityError''"
| "exc_name AttributeError = ''AttributeError''"
| "exc_name InvalidToken = ''InvalidToken''"
| "exc_name (ApplicationError ty nr) = ''ApplicationError''"
| "exc_name PendingApprovalNotFoundError = ''PendingApprovalNotFoundError''"
| "exc_name PendingApprovalConflictError = ''PendingApprovalConflictError''"
| "exc_name (HTTPException x) = ''HTTPException''"

text \<open>
  A failed attempt reaches the server as an \<open>ApplicationError\<close>: one that the activity raised as it
  is, any other exception under its class name.
\<close>

definition as_application_error :: "exn \<Rightarrow> exn" where
  "as_application_error e =
     (case exc_cls e of ApplicationError ty nr \<Rightarrow> e
      | c \<Rightarrow> Exn (ApplicationError (exc_name c) False) (str_exn e) (exc_cause e))"

definition retryable :: "retry_policy \<Rightarrow> nat \<Rightarrow> exn \<Rightarrow> bool" where
  "retryable pol n e =
     ((rp_maximum_attempts pol = 0 \<or> n < rp_maximum_attempts pol) \<and>
      (case exc_cls (as_application_error e) of
         ApplicationError ty nr \<Rightarrow> \<not> nr \<and> ty \<notin> set (rp_non_retryable_error_types pol)
       | _ \<Rightarrow> False))"

definition activity_failure :: "string \<Rightarrow> exn \<Rightarrow> exn" where
  "activity_failure st cause = Exn (ActivityError st) ''Activity task failed'' (Some cause)"

text \<open>
  \<open>attempts pol act n s r s'\<close>: from state \<open>s\<close>, starting with attempt \<open>n\<close>, the execution ends with \<open>r\<close> in
  state \<open>s'\<close>. An attempt that succeeds ends it; one that fails is repeated if the policy allows, and
  else the workflow sees an \<open>ActivityError\<close>. An attempt may also run and its completion be lost, in
  which case it is repeated too, and the whole execution may time out before or after an attempt.
  Attempts of one execution do not overlap.
\<close>

inductive attempts :: "retry_policy \<Rightarrow> (nat \<Rightarrow> ('s, 'a) prog) \<Rightarrow> nat \<Rightarrow> 's \<Rightarrow> exn + 'a \<Rightarrow> 's \<Rightarrow> bool"
  for pol :: retry_policy and act :: "nat \<Rightarrow> ('s, 'a) prog" where
  succeeds: "act n s = (Inr x, s') \<Longrightarrow> attempts pol act n s (Inr x) s'"
| fails: "act n s = (Inl e, s') \<Longrightarrow> \<not> retryable pol n e \<Longrightarrow>
     attempts pol act n s (Inl (activity_failure st (as_application_error e))) s'"
| retries: "act n s = (Inl e, s') \<Longrightarrow> retryable pol n e \<Longrightarrow> attempts pol act (Suc n) s' r s'' \<Longrightarrow> attempts pol act n s r s''"
| lost: "act n s = (r0, s') \<Longrightarrow> rp_maximum_attempts pol = 0 \<or> n < rp_maximum_attempts pol \<Longrightarrow>
     attempts pol act (Suc n) s' r s'' \<Longrightarrow> attempts pol act n s r s''"
| times_out: "attempts pol act n s (Inl (activity_failure st (exn_of TimeoutError m))) s"
| times_out_after: "act n s = (r0, s') \<Longrightarrow> attempts pol act n s (Inl (activity_failure st (exn_of TimeoutError m))) s'"

inductive_cases attempts_InrE: "attempts pol act n s (Inr x) s'"

lemma attempts_keeps:
  assumes "attempts pol act n s r s'" "\<And>m. keepsE I (act m)" "I s"
  shows "I s'"
  using assms(1,3)
proof (induction rule: attempts.induct)
  case (succeeds n s x s')
  then show ?case using keepsE_D [OF assms(2) [of n], of s] by simp
next
  case (fails n s e s')
  then show ?case using keepsE_D [OF assms(2) [of n], of s] by simp
next
  case (retries n s e s' r s'')
  then show ?case using keepsE_D [OF assms(2) [of n], of s] by simp
next
  case (lost n s r0 s' r s'')
  then show ?case using keepsE_D [OF assms(2) [of n], of s] by simp
next
  case (times_out_after n s r0 s')
  then show ?case using keepsE_D [OF assms(2) [of n], of s] by simp
qed simp

text \<open>A result comes from an attempt, in a state that the attempts before it have kept in order.\<close>

lemma attempts_Inr:
  assumes "attempts pol act n s r s'" "r = Inr x" "\<And>m. keepsE I (act m)" "I s"
  shows "\<exists>m s1. n \<le> m \<and> act m s1 = (Inr x, s') \<and> I s1"
  using assms(1,2,4)
proof (induction rule: attempts.induct)
  case (retries n s e s' r s'')
  then have "I s'"
    using keepsE_D [OF assms(3) [of n], of s] by simp
  then show ?case
    using retries by (meson Suc_leD)
next
  case (lost n s r0 s' r s'')
  then have "I s'"
    using keepsE_D [OF assms(3) [of n], of s] by simp
  then show ?case
    using lost by (meson Suc_leD)
qed auto

lemma attempts_once:
  assumes "attempts pol act 1 s (Inr x) s'" "rp_maximum_attempts pol = 1"
  shows "act 1 s = (Inr x, s')"
  using assms(1) by (rule attempts_InrE) (use assms(2) in \<open>auto simp: retryable_def\<close>)

text \<open>A failure is an \<open>ActivityError\<close>.\<close>

lemma attempts_Inl: "attempts pol act n s r s' \<Longrightarrow> r = Inl e \<Longrightarrow> is_activity_error e"
  by (induction rule: attempts.induct) (auto simp: activity_failure_def is_activity_error_def)


section \<open>A reference executor\<close>

text \<open>No completion is lost and nothing times out; \<open>fuel\<close> is the number of attempts that are left.\<close>

fun run_attempts :: "nat \<Rightarrow> retry_policy \<Rightarrow> (nat \<Rightarrow> ('s, 'a) prog) \<Rightarrow> nat \<Rightarrow> ('s, 'a) prog" where
  "run_attempts 0 pol act n s = (Inl (activity_failure ''TIMEOUT'' (exn_of TimeoutError '''')), s)"
| "run_attempts (Suc fuel) pol act n s =
     (case act n s of
        (Inr x, s') \<Rightarrow> (Inr x, s')
      | (Inl e, s') \<Rightarrow>
          if retryable pol n e then run_attempts fuel pol act (Suc n) s'
          else (Inl (activity_failure ''MAXIMUM_ATTEMPTS_REACHED'' (as_application_error e)), s'))"

definition direct_executor :: "'r executor" where
  "direct_executor pol act = run_attempts (rp_maximum_attempts pol) pol act 1"

lemma run_attempts_attempts: "attempts pol act n s (fst (run_attempts fuel pol act n s)) (snd (run_attempts fuel pol act n s))"
proof (induction fuel arbitrary: n s)
  case 0
  show ?case by (simp add: attempts.times_out)
next
  case (Suc fuel)
  obtain r s' where act: "act n s = (r, s')"
    by fastforce
  show ?case
  proof (cases r)
    case (Inl e)
    show ?thesis
    proof (cases "retryable pol n e")
      case True
      then show ?thesis
        using act Inl Suc [of "Suc n" s'] attempts.retries [of act n s e s' pol] by simp
    next
      case False
      then show ?thesis
        using act Inl attempts.fails by fastforce
    qed
  next
    case (Inr x)
    then show ?thesis
      using act by (simp add: attempts.succeeds)
  qed
qed

text \<open>The interface of \<open>execute_activity\<close>.\<close>

locale temporal =
  fixes ex :: "'r executor"
  assumes executes: "attempts pol act 1 s (fst (ex pol act s)) (snd (ex pol act s))"
begin

lemma ex_attempts: "ex pol act s = (r, s') \<Longrightarrow> attempts pol act 1 s r s'"
  using executes [of pol act s] by simp

lemma ex_keeps: "(\<And>m. keepsE I (act m)) \<Longrightarrow> keepsE I (ex pol act)"
  unfolding keepsE_def using attempts_keeps [where act = act and I = I, OF executes] by (simp add: keepsE_def)

lemma ex_Inr:
  assumes "ex pol act s = (Inr x, s')" "\<And>m. keepsE I (act m)" "I s"
  shows "\<exists>m s1. act m s1 = (Inr x, s') \<and> I s1"
  using attempts_Inr [OF ex_attempts [OF assms(1)] refl assms(2,3)] by blast

lemma ex_once: "ex pol act s = (Inr x, s') \<Longrightarrow> rp_maximum_attempts pol = 1 \<Longrightarrow> act 1 s = (Inr x, s')"
  using attempts_once [OF ex_attempts] by simp

lemma ex_Inl: "ex pol act s = (Inl e, s') \<Longrightarrow> is_activity_error e"
  using attempts_Inl [OF ex_attempts refl] by simp

end

interpretation direct: temporal direct_executor
  by unfold_locales (simp add: direct_executor_def run_attempts_attempts)

end
