(* ===== verification/TaskRequests.thy ===== *)
theory TaskRequests
  imports Temporal
begin

text \<open>
  What the activities and the workflow send. A small calculus (\<open>postsE\<close>) bounds the requests that a
  program adds to the log of the HTTP client; it is applied to every activity, carried over to a
  Temporal execution of it by the number of attempts, and from there to the parts of the workflow.
\<close>

section \<open>Counting requests\<close>

definition posts :: "http_request set \<Rightarrow> nat \<Rightarrow> 'r services \<Rightarrow> 'r services \<Rightarrow> bool" where
  "posts A n w w' \<longleftrightarrow> (\<exists>qs. ht_sent (sv_http w') = ht_sent (sv_http w) @ qs \<and> set qs \<subseteq> A \<and> length qs \<le> n)"

definition postsE :: "http_request set \<Rightarrow> nat \<Rightarrow> ('r services, 'a) prog \<Rightarrow> bool" where
  "postsE A n p \<longleftrightarrow> (\<forall>w. posts A n w (snd (p w)))"

lemma posts_none: "sv_http w' = sv_http w \<Longrightarrow> posts A n w w'"
  by (simp add: posts_def)

lemma posts_trans: "posts A n w1 w2 \<Longrightarrow> posts A m w2 w3 \<Longrightarrow> posts A (n + m) w1 w3"
  unfolding posts_def by fastforce

lemma posts_mono: "posts A n w w' \<Longrightarrow> A \<subseteq> B \<Longrightarrow> n \<le> m \<Longrightarrow> posts B m w w'"
  unfolding posts_def by fastforce

lemma posts_like: "like w v \<Longrightarrow> posts A n v v' \<Longrightarrow> like v' w' \<Longrightarrow> posts A n w w'"
  unfolding posts_def by (simp add: like_simps)

lemma postsE_keeps: "(\<And>c. keepsE (\<lambda>w. sv_http w = c) p) \<Longrightarrow> postsE A n p"
  unfolding postsE_def keepsE_def by (simp add: posts_none)

lemma postsE_bind:
  assumes "postsE A n p" "\<And>x. postsE A m (f x)"
  shows "postsE A (n + m) (bindE p f)"
  unfolding postsE_def
proof
  fix w
  obtain r w1 where pw: "p w = (r, w1)"
    by fastforce
  have "posts A n w w1"
    using assms(1) pw unfolding postsE_def by (metis snd_conv)
  moreover have "posts A m w1 (snd (f x w1))" for x
    using assms(2) unfolding postsE_def by blast
  ultimately show "posts A (n + m) w (snd (bindE p f w))"
    using pw posts_mono [of A n w w1 A "n + m"] by (cases r) (auto simp: bindE_def intro: posts_trans)
qed

lemma postsE_then: "postsE A n p \<Longrightarrow> postsE A m q \<Longrightarrow> postsE A (n + m) (thenE p q)"
  by (simp add: thenE_def postsE_bind)

text \<open>Handlers that send nothing.\<close>

lemma postsE_try:
  assumes "postsE A n p" "\<And>e. postsE A 0 (h e)"
  shows "postsE A n (tryE p h)"
  unfolding postsE_def
proof
  fix w
  obtain r w1 where pw: "p w = (r, w1)"
    by fastforce
  have "posts A n w w1"
    using assms(1) pw unfolding postsE_def by (metis snd_conv)
  moreover have "posts A 0 w1 (snd (h x w1))" for x
    using assms(2) unfolding postsE_def by blast
  ultimately show "posts A n w (snd (tryE p h w))"
    using pw posts_trans [of A n w w1 0] by (cases r) (auto simp: tryE_def)
qed

lemma attempts_posts:
  assumes "attempts pol act n s r s'" "\<And>m. postsE A b (act m)" "rp_maximum_attempts pol \<noteq> 0" "n \<le> rp_maximum_attempts pol"
  shows "posts A (b * (Suc (rp_maximum_attempts pol) - n)) s s'"
proof -
  let ?M = "rp_maximum_attempts pol"
  have one: "posts A b s s'" if "act m s = (r0, s')" for m s r0 s'
    using assms(2) [of m] that unfolding postsE_def by (metis snd_conv)
  have more: "posts A (b * (Suc ?M - n)) s s''"
    if "posts A b s s'" "posts A (b * (Suc ?M - Suc n)) s' s''" "n < ?M" for n s s' s''
  proof -
    have "Suc ?M - n = Suc (Suc ?M - Suc n)"
      using that(3) by simp
    then show ?thesis
      using posts_trans [OF that(1,2)] by simp
  qed
  have le: "posts A (b * (Suc ?M - n)) s s'" if "posts A b s s'" "n \<le> ?M" for n s s'
    by (rule posts_mono [OF that(1) subset_refl]) (use that(2) in \<open>simp add: Suc_diff_le\<close>)
  show ?thesis
    using assms(1,4)
  proof (induction rule: attempts.induct)
    case (succeeds n s x s')
    then show ?case using le one by blast
  next
    case (fails n s e s')
    then show ?case using le one by blast
  next
    case (retries n s e s' r s'')
    then have "n < ?M" using assms(3) by (simp add: retryable_def)
    then show ?case using more [OF one [OF retries(1)]] retries by simp
  next
    case (lost n s r0 s' r s'')
    then have "n < ?M" using assms(3) by simp
    then show ?case using more [OF one [OF lost(1)]] lost by simp
  next
    case (times_out n s)
    then show ?case by (simp add: posts_none)
  next
    case (times_out_after n s r0 s')
    then show ?case using le one by blast
  qed
qed


section \<open>Activities\<close>

lemma activity_span_run:
  "activity_span name t agent mark body w =
     (case body (opened w) of
        (Inr x, w1) \<Rightarrow> (Inr x, ended name (stage_attributes t agent @ ok_attributes) None w w1)
      | (Inl e, w1) \<Rightarrow> (Inl e, ended name (stage_attributes t agent @ (case mark e of Some c \<Rightarrow> error_attributes c | None \<Rightarrow> []))
           (Some e) w w1))"
  unfolding activity_span_def
  by (cases "body (opened w)"; cases "fst (body (opened w))") (auto simp: in_span_ok in_span_err returnE_def)

lemma activity_span_cases:
  assumes "activity_span name t agent mark body w = (r, w')"
  obtains v v' where "body v = (r, v')" "like w v" "like v' w'"
  using assms that like_opened like_ended unfolding activity_span_run by (fastforce split: prod.splits sum.splits)

lemma keeps_activity_span:
  assumes "\<And>c. keepsE (\<lambda>w. sv_http w = c) body"
  shows "keepsE (\<lambda>w. sv_http w = c) (activity_span name t agent mark body)"
  unfolding keepsE_def
proof (intro allI impI)
  fix w :: "'a services"
  assume c: "sv_http w = c"
  obtain r w' where run: "activity_span name t agent mark body w = (r, w')"
    by fastforce
  then obtain v v' where v: "body v = (r, v')" "like w v" "like v' w'"
    by (rule activity_span_cases)
  then have "sv_http v' = sv_http v"
    using keepsE_D [OF assms, of v] by (metis snd_conv)
  then show "sv_http (snd (activity_span name t agent mark body w)) = c"
    using run v c by (simp add: like_simps)
qed

lemma postsE_activity_span:
  assumes "postsE A n body"
  shows "postsE A n (activity_span name t agent mark body)"
  unfolding postsE_def
proof
  fix w
  obtain r w' where run: "activity_span name t agent mark body w = (r, w')"
    by fastforce
  then obtain v v' where v: "body v = (r, v')" "like w v" "like v' w'"
    by (rule activity_span_cases)
  then have "posts A n v v'"
    using assms unfolding postsE_def by (metis snd_conv)
  then show "posts A n w (snd (activity_span name t agent mark body w))"
    using run v(2,3) posts_like by simp
qed

lemma keeps_require: "quiet g \<Longrightarrow> keepsE (\<lambda>w. g w = c) (require_task_id t st a)"
  unfolding require_task_id_def by (intro quiet_intros)

lemma keeps_stage_log: "quiet g \<Longrightarrow> keepsE (\<lambda>w. g w = c) (stage_log t a ev oc st kw)"
  unfolding stage_log_def by (intro quiet_intros)

lemma keeps_lifecycle_log: "quiet g \<Longrightarrow> keepsE (\<lambda>w. g w = c) (lifecycle_log t a sid ev et ws st kw)"
  unfolding lifecycle_log_def by (intro quiet_intros)

lemma keeps_on_detector: "quiet g \<Longrightarrow> keepsE (\<lambda>w. g w = c) (on_detector d p)"
  by (simp add: keepsE_def on_detector_def quiet_def split: prod.split)

lemma keeps_build_detector: "keepsE I (build_loop_detector D i)"
  unfolding build_loop_detector_def by (intro keeps_intros)

lemma keeps_mapE_result: "keepsE I p \<Longrightarrow> keepsE I (mapE_result f p)"
  unfolding mapE_result_def by (intro keeps_intros)

lemmas activity_intros = watchdog_intros keeps_require keeps_stage_log keeps_lifecycle_log keeps_on_detector
  keeps_build_detector keeps_mapE_result keeps_activity_span

lemma keeps_restore_budget: "keepsE (\<lambda>w. sv_http w = c) (restore_budget_session sid a l h)"
  unfolding restore_budget_session_def by (intro activity_intros)

lemma keeps_budget_refusal: "keepsE (\<lambda>w. sv_http w = c) (budget_refusal t a sid ev st e)"
  unfolding budget_refusal_def by (intro activity_intros)

lemma keeps_loop_refusal: "keepsE (\<lambda>w. sv_http w = c) (loop_refusal t i sid d e)"
  unfolding loop_refusal_def Let_def by (intro activity_intros)

lemma keeps_activities:
  "keepsE (\<lambda>w. sv_http w = c) (pre_pii_scrub D i1)"
  "keepsE (\<lambda>w. sv_http w = c) (jit_token_issue D i2)"
  "keepsE (\<lambda>w. sv_http w = c) (budget_pre_check i3)"
  "keepsE (\<lambda>w. sv_http w = c) (budget_record_spend nfo i4)"
  "keepsE (\<lambda>w. sv_http w = c) (loop_record_step D i5)"
  "keepsE (\<lambda>w. sv_http w = c) (post_sanitize D i6)"
  "keepsE (\<lambda>w. sv_http w = c) (record_event i7)"
  unfolding pre_pii_scrub_def jit_token_issue_def budget_pre_check_def budget_record_spend_def loop_record_step_def
    post_sanitize_def record_event_def Let_def
  by (intro activity_intros keeps_restore_budget keeps_budget_refusal keeps_loop_refusal)+

lemma policy_decision_http:
  "sv_http (snd (policy_decision D i t w)) = snd (evaluate (dp_opa D) ''agent_access'' (activity_policy_input i) (sv_http w))"
  by (auto simp: policy_decision_def Let_def tryE_def bindE_def thenE_def on_http_def zoomE_def raiseE_def returnE_def
      stage_log_def on_audit_stage audit_name_def split: prod.splits sum.splits if_splits)

lemma posts_policy_eval:
  "postsE {policy_request (dp_opa D) ''agent_access'' (activity_policy_input i)} 1 (policy_eval D i)"
proof -
  let ?A = "{policy_request (dp_opa D) ''agent_access'' (activity_policy_input i)}"
  have "postsE ?A 1 (policy_decision D i t)" for t
    unfolding postsE_def posts_def by (simp add: policy_decision_http evaluate_state)
  then have *: "postsE ?A (1 + 0) (bindE (policy_decision D i t) f)" if "\<And>r. postsE ?A 0 (f r)" for t f
    using that by (rule postsE_bind)
  have "postsE ?A (0 + (1 + 0)) (policy_eval D i)"
    unfolding policy_eval_def Let_def split_beta
    by (intro postsE_bind [where n = 0] postsE_activity_span * postsE_keeps activity_intros)
  then show ?thesis by simp
qed

lemma invoke_metadata: "outbound_request a (invoke_request i md) = outbound_request a (invoke_request i [])"
  using outbound_metadata [where a = a and q = "invoke_request i []" and md = md] by (simp add: invoke_request_def)

lemma posts_complete: "postsE {outbound_request (dp_adapter D) q} 1 (complete D q)"
  unfolding postsE_def posts_def
proof
  fix w
  show "\<exists>qs. ht_sent (sv_http (snd (complete D q w))) = ht_sent (sv_http w) @ qs \<and>
      set qs \<subseteq> {outbound_request (dp_adapter D) q} \<and> length qs \<le> 1"
    using any_adapter.run_sends [of D q w] by force
qed

lemma keeps_reissue: "quiet g \<Longrightarrow> keepsE (\<lambda>w. g w = c) (reissue_token D nfo i t)"
  unfolding reissue_token_def Let_def by (intro quiet_intros keeps_stage_log keeps_lifecycle_log)

lemma keeps_protect_invocation: "quiet g \<Longrightarrow> keepsE (\<lambda>w. g w = c) (protect_invocation D i t token)"
  unfolding protect_invocation_def by (intro quiet_intros keeps_stage_log)

lemma posts_llm_invoke: "postsE {outbound_request (dp_adapter D) (invoke_request i [])} 1 (llm_invoke D nfo i)"
proof -
  let ?A = "{outbound_request (dp_adapter D) (invoke_request i [])}"
  have "postsE ?A 1 (complete D (invoke_request i md))" for md
    using posts_complete [of D "invoke_request i md"] unfolding invoke_metadata [of "dp_adapter D" i md] .
  then have *: "postsE ?A (1 + 0) (bindE (complete D (invoke_request i md)) f)" if "\<And>r. postsE ?A 0 (f r)" for md f
    using that by (rule postsE_bind)
  have "postsE ?A (0 + (0 + (0 + (1 + 0)))) (llm_invoke D nfo i)"
    unfolding llm_invoke_def split_beta
    by (intro postsE_bind [where n = 0] postsE_activity_span * postsE_keeps activity_intros keeps_reissue
        keeps_protect_invocation)
  then show ?thesis by simp
qed

text \<open>The requests that one attempt of an activity may send.\<close>

fun may_send :: "'r deps \<Rightarrow> activity_call \<Rightarrow> http_request set" where
  "may_send D (PolicyEval i) = {policy_request (dp_opa D) ''agent_access'' (activity_policy_input i)}"
| "may_send D (LLMInvoke i) = {outbound_request (dp_adapter D) (invoke_request i [])}"
| "may_send D _ = {}"

lemma posts_mapE_result: "postsE A n p \<Longrightarrow> postsE A n (mapE_result f p)"
  using postsE_bind [of A n p 0 "\<lambda>x. returnE (f x)"] by (simp add: mapE_result_def postsE_keeps keepsE_pure)

lemma posts_perform: "postsE (may_send D c) 1 (perform D nfo c)"
proof (cases c)
  case (PolicyEval i)
  then show ?thesis using posts_mapE_result [OF posts_policy_eval] by simp
next
  case (LLMInvoke i)
  then show ?thesis using posts_mapE_result [OF posts_llm_invoke] by simp
qed (auto intro!: postsE_keeps keeps_mapE_result keeps_activities)

lemma keeps_perform: "may_send D c = {} \<Longrightarrow> keepsE (\<lambda>w. sv_http w = h) (perform D nfo c)"
  by (cases c) (auto intro!: keeps_mapE_result keeps_activities)

section \<open>The workflow\<close>

text \<open>The HTTP client of the worker that runs the activities.\<close>

definition client :: "'r task_world \<Rightarrow> http" where
  "client k = sv_http (kw_services k)"

definition postsW :: "http_request set \<Rightarrow> nat \<Rightarrow> ('r task_world, 'a) prog \<Rightarrow> bool" where
  "postsW A n p \<longleftrightarrow> (\<forall>k. posts A n (kw_services k) (kw_services (snd (p k))))"

lemma postsW_keeps: "(\<And>c. keepsE (\<lambda>k. client k = c) p) \<Longrightarrow> postsW A n p"
  unfolding postsW_def keepsE_def client_def by (simp add: posts_none)

lemma postsW_bind:
  assumes "postsW A n p" "\<And>x. postsW A m (f x)"
  shows "postsW A (n + m) (bindE p f)"
  unfolding postsW_def
proof
  fix k
  obtain r k1 where pk: "p k = (r, k1)"
    by fastforce
  have "posts A n (kw_services k) (kw_services k1)"
    using assms(1) pk unfolding postsW_def by (metis snd_conv)
  moreover have "posts A m (kw_services k1) (kw_services (snd (f x k1)))" for x
    using assms(2) unfolding postsW_def by blast
  ultimately show "posts A (n + m) (kw_services k) (kw_services (snd (bindE p f k)))"
    using pk posts_mono [of A n "kw_services k" "kw_services k1" A "n + m"] by (cases r) (auto simp: bindE_def intro: posts_trans)
qed

lemma postsW_try:
  assumes "postsW A n p" "\<And>e. postsW A 0 (h e)"
  shows "postsW A n (tryE p h)"
  unfolding postsW_def
proof
  fix k
  obtain r k1 where pk: "p k = (r, k1)"
    by fastforce
  have "posts A n (kw_services k) (kw_services k1)"
    using assms(1) pk unfolding postsW_def by (metis snd_conv)
  moreover have "posts A 0 (kw_services k1) (kw_services (snd (h x k1)))" for x
    using assms(2) unfolding postsW_def by blast
  ultimately show "posts A n (kw_services k) (kw_services (snd (tryE p h k)))"
    using pk posts_trans [of A n "kw_services k" "kw_services k1" 0] by (cases r) (auto simp: tryE_def)
qed

lemma keeps_modify_self: "keepsE (\<lambda>k. client k = c) (modify_self f)"
  unfolding modify_self_def client_def by (intro keeps_intros) simp

lemma keeps_wait: "keepsE (\<lambda>k. client k = c) (wait_for_signal timeout)"
  unfolding wait_for_signal_def client_def keepsE_def Let_def by simp

text \<open>The activity that is scheduled, as a function of the attempt.\<close>

definition scheduled :: "'r deps \<Rightarrow> activity_call \<Rightarrow> 'r task_world \<Rightarrow> nat \<Rightarrow> ('r services, activity_result) prog" where
  "scheduled D c k n = perform D \<lparr>ai_attempt = int n, ai_workflow_id = Some (kw_workflow_id k),
     ai_activity_id = kw_activity_id k (kw_waits k)\<rparr> c"

lemma execute_activity_eq:
  "execute_activity ex D pol c k =
     (let (r, s) = ex pol (scheduled D c k) (kw_services k)
      in (r, k\<lparr>kw_services := s, kw_waits := Suc (kw_waits k), kw_self := fold receive (concat (kw_inbox k (kw_waits k))) (kw_self k)\<rparr>))"
  by (simp add: execute_activity_def scheduled_def [abs_def] Let_def)

lemma execute_ex:
  "execute_activity ex D pol c k = (r, k') \<Longrightarrow> ex pol (scheduled D c k) (kw_services k) = (r, kw_services k')"
  by (auto simp: execute_activity_eq split: prod.splits)

lemma scheduled_posts: "postsE (may_send D c) 1 (scheduled D c k n)"
  unfolding scheduled_def by (rule posts_perform)

lemma scheduled_keeps: "may_send D c = {} \<Longrightarrow> keepsE (\<lambda>w. sv_http w = h) (scheduled D c k n)"
  unfolding scheduled_def by (rule keeps_perform)

context temporal
begin

lemma execute_Inr:
  assumes "execute_activity ex D pol c k = (Inr r, k')"
  shows "\<exists>nfo s1. perform D nfo c s1 = (Inr r, kw_services k') \<and> (may_send D c = {} \<longrightarrow> sv_http s1 = client k)"
proof -
  let ?I = "\<lambda>s. may_send D c = {} \<longrightarrow> sv_http s = client k"
  have "keepsE ?I (scheduled D c k n)" for n
    using scheduled_keeps [of D c "client k" k n] by (cases "may_send D c = {}") (simp_all add: keepsE_def)
  then have "\<exists>m s1. scheduled D c k m s1 = (Inr r, kw_services k') \<and> ?I s1"
    by (rule ex_Inr [OF execute_ex [OF assms]]) (simp add: client_def)
  then show ?thesis
    unfolding scheduled_def by blast
qed

lemma execute_once:
  assumes "execute_activity ex D pol c k = (Inr r, k')" "rp_maximum_attempts pol = 1"
  shows "\<exists>nfo. perform D nfo c (kw_services k) = (Inr r, kw_services k')"
  using ex_once [OF execute_ex [OF assms(1)] assms(2)] unfolding scheduled_def by blast

lemma execute_Inl: "execute_activity ex D pol c k = (Inl e, k') \<Longrightarrow> is_activity_error e"
  by (rule ex_Inl [OF execute_ex])

lemma execute_posts:
  assumes "rp_maximum_attempts pol \<noteq> 0"
  shows "postsW (may_send D c) (rp_maximum_attempts pol) (execute_activity ex D pol c)"
  unfolding postsW_def
proof
  fix k :: "'r task_world"
  have "posts (may_send D c) (1 * (Suc (rp_maximum_attempts pol) - 1)) (kw_services k) (snd (ex pol (scheduled D c k) (kw_services k)))"
    by (rule attempts_posts [OF executes scheduled_posts assms]) (use assms in simp)
  then show "posts (may_send D c) (rp_maximum_attempts pol) (kw_services k) (kw_services (snd (execute_activity ex D pol c k)))"
    by (simp add: execute_activity_eq split_beta)
qed

lemma keeps_execute:
  assumes "may_send D c = {}"
  shows "keepsE (\<lambda>k. client k = h) (execute_activity ex D pol c)"
  unfolding keepsE_def
proof (intro allI impI)
  fix k :: "'r task_world"
  assume "client k = h"
  then have "sv_http (snd (ex pol (scheduled D c k) (kw_services k))) = h"
    using keepsE_D [OF ex_keeps [OF scheduled_keeps [OF assms]], where s = "kw_services k"] by (simp add: client_def)
  then show "client (snd (execute_activity ex D pol c k)) = h"
    by (simp add: execute_activity_eq client_def split_beta)
qed

lemma keeps_call: "may_send D c = {} \<Longrightarrow> keepsE (\<lambda>k. client k = h) (call_activity ex D pol c conv)"
  unfolding call_activity_def by (intro keeps_intros keeps_execute)

lemma keeps_audit_call: "keepsE (\<lambda>k. client k = h) (audit_call ex D i ev oc st et ds)"
  unfolding audit_call_def by (intro keeps_intros keeps_execute) simp

lemmas silent_intros = keeps_intros keeps_modify_self keeps_wait keeps_call keeps_audit_call

lemma keeps_gate: "keepsE (\<lambda>k. client k = h) (await_pending_approval ex D i)"
  unfolding await_pending_approval_def timed_out_def decided_def by (intro silent_intros)

lemma keeps_llm_failed: "keepsE (\<lambda>k. client k = h) (llm_failed ex D i e)"
  unfolding llm_failed_def fail_workflow_def escalate_def by (intro silent_intros)

lemma keeps_budget_gate: "keepsE (\<lambda>k. client k = h) (budget_gate ex D i)"
  unfolding budget_gate_def by (intro silent_intros) simp_all

lemma keeps_record_budget: "keepsE (\<lambda>k. client k = h) (record_budget ex D i r spent)"
  unfolding record_budget_def by (intro silent_intros) simp_all

end

end
