(* ===== verification/TaskSafety.thy ===== *)
theory TaskSafety
  imports TaskRequests
begin

text \<open>
  Theorems about a run of \<open>AgentTaskWorkflow\<close> on any executor that behaves as Temporal documents:
  what it sends and after which checks, how the approval gate decides, what it returns and how it
  fails.
\<close>

section \<open>Results of the activities\<close>

lemma mapE_result_Inr: "mapE_result f p s = (Inr y, s') \<longleftrightarrow> (\<exists>x. p s = (Inr x, s') \<and> y = f x)"
  by (auto simp: mapE_result_def bindE_Inr returnE_def)

text \<open>The type of the result that each activity promises.\<close>

fun result_type :: "activity_call \<Rightarrow> activity_result \<Rightarrow> bool" where
  "result_type (PrePIIScrub _) (PrePIIScrubResult _) = True"
| "result_type (PolicyEval _) (PolicyEvalResult _) = True"
| "result_type (BudgetPreCheck _) (BudgetPreCheckResult _) = True"
| "result_type (LoopRecordStep _) (LoopRecordResult _) = True"
| "result_type (JITTokenIssue _) (JITTokenResult _) = True"
| "result_type (LLMInvoke _) (LLMInvokeResult _) = True"
| "result_type (BudgetRecordSpend _) (BudgetRecordResult _) = True"
| "result_type (PostSanitize _) (PostSanitizeResult _) = True"
| "result_type (WorkflowAudit _) NoResult = True"
| "result_type _ _ = False"

lemma perform_result_type: "perform D nfo c s = (Inr r, s') \<Longrightarrow> result_type c r"
  by (cases c) (auto simp: mapE_result_Inr)

lemma require_task_id_Inr: "require_task_id t st a s = (Inr x, s') \<longleftrightarrow> t \<noteq> [] \<and> x = t \<and> s' = s"
  by (auto simp: require_task_id_def thenE_def bindE_def raiseE_def returnE_def split: prod.splits sum.splits)

lemma activity_Inr:
  assumes "bindE (require_task_id t st a) (\<lambda>t. activity_span name t agent mark (body t)) w = (Inr x, w')"
  obtains v v' where "body t v = (Inr x, v')" "like w v" "like v' w'"
  using assms unfolding bindE_Inr require_task_id_Inr by (blast elim: activity_span_cases)

lemma stage_log_run: "audit_name ev \<Longrightarrow> stage_log t a ev oc st kw w = (Inr (), staged ev oc st t a kw w)"
  by (simp add: stage_log_def on_audit_stage)

lemma lifecycle_log_run:
  "audit_name ev \<Longrightarrow> lifecycle_log t a sid ev et ws st kw w =
     (Inr (), lifecycled ev (lifecycle_value et) t a sid (workflow_status_value ws) st kw w)"
  by (simp add: lifecycle_log_def on_audit_lifecycle)

lemma pre_pii_scrub_Inr:
  assumes "pre_pii_scrub D i s = (Inr x, s')"
  shows "injection_free (dp_db D) (wi_prompt i)" "ps_sanitized_prompt x = mr_text (mask_pii (dp_db D) (wi_prompt i))"
proof -
  obtain v v' where v: "(thenE (lifecycle_log (wi_task_id i) (wi_agent_type i) (wi_session_id i) ''workflow.started'' STARTED RUNNING ''workflow-lifecycle'' [])
       (thenE (liftE (check_prompt_injection (dp_db D) (wi_prompt i)))
       (let r = mask_pii (dp_db D) (wi_prompt i) in
        thenE (stage_log (wi_task_id i) (wi_agent_type i) ''guardrails.pre_sanitize'' (if mr_found_types r \<noteq> [] then ''redact'' else ''allow'')
                 ''pre-pii-scrub'' [(''pii_types'', VStrs (mr_found_types r))])
          (returnE \<lparr>ps_sanitized_prompt = mr_text r, ps_pii_types = mr_found_types r\<rparr>)))) v = (Inr x, v')" "like s v" "like v' s'"
    using assms unfolding pre_pii_scrub_def by (rule activity_Inr)
  from v(1) show "injection_free (dp_db D) (wi_prompt i)" "ps_sanitized_prompt x = mr_text (mask_pii (dp_db D) (wi_prompt i))"
    using injection_loop_ok [of "dp_db D" injection_patterns "wi_prompt i"]
    by (auto simp: thenE_def bindE_def lifecycle_log_run stage_log_run audit_name_def liftE_def returnE_def Let_def
        injection_free_def check_prompt_injection_def split: sum.splits)
qed

lemma scrub_fields_free: "unicode_ok db \<Longrightarrow> pii_free db (fst x) \<Longrightarrow> pii_free db (fst (scrub_fields db fs x))"
  by (induction db fs x rule: scrub_fields.induct) (auto simp: Let_def scrub_def mask_pii_free)

lemma policy_decision_Inr:
  assumes "policy_decision D i t w = (Inr r, w')"
  shows "\<exists>h. evaluate (dp_opa D) ''agent_access'' (activity_policy_input i) (sv_http w) = (Inr r, h) \<and>
    pr_allowed r \<and> pr_action r \<noteq> ''reject'' \<and> sv_http w' = h"
  using assms
  by (auto simp: policy_decision_def Let_def tryE_def bindE_def thenE_def on_http_def zoomE_def raiseE_def returnE_def
      stage_log_run audit_name_def split: prod.splits sum.splits if_splits)

lemma policy_eval_Inr:
  assumes "policy_eval D i w = (Inr x, w')" "unicode_ok (dp_db D)"
  shows "\<exists>resp. ht_reply (sv_http w) (length (ht_sent (sv_http w)))
      (policy_request (dp_opa D) ''agent_access'' (activity_policy_input i)) = Inr resp \<and> reply_allows resp"
    "pii_free (dp_db D) (pe_sanitized_prompt i) \<Longrightarrow> pii_free (dp_db D) (per_sanitized_prompt x)"
    "ht_sent (sv_http w') = ht_sent (sv_http w) @ [policy_request (dp_opa D) ''agent_access'' (activity_policy_input i)]"
proof -
  let ?f = "\<lambda>result. let masked = pr_action result = ''mask'';
            (prompt, extra) = (if masked then scrub_fields (dp_db D) (pr_fields result) (pe_sanitized_prompt i, [])
                               else (pe_sanitized_prompt i, []))
        in thenE (whenE masked (stage_log (pe_task_id i) (pe_agent_type i) ''policy.mask_applied'' ''redact'' ''policy-eval''
                                  [(''fields'', VStrs (pr_fields result))]))
             (returnE \<lparr>per_allowed = pr_allowed result, per_action = pr_action result, per_fields = pr_fields result,
                       per_sanitized_prompt = prompt, per_extra_pii_types = extra\<rparr>)"
  obtain v v' where v: "bindE (policy_decision D i (pe_task_id i)) ?f v = (Inr x, v')" "like w v" "like v' w'"
    using assms(1) unfolding policy_eval_def by (rule activity_Inr)
  then obtain r v1 where r: "policy_decision D i (pe_task_id i) v = (Inr r, v1)" and x: "?f r v1 = (Inr x, v')"
    unfolding bindE_Inr by blast
  then obtain h where h: "evaluate (dp_opa D) ''agent_access'' (activity_policy_input i) (sv_http w) = (Inr r, h)"
      "pr_allowed r" "sv_http v1 = h"
    using policy_decision_Inr [OF r] like_simps(4) [OF v(2)] by auto
  then show "\<exists>resp. ht_reply (sv_http w) (length (ht_sent (sv_http w)))
      (policy_request (dp_opa D) ''agent_access'' (activity_policy_input i)) = Inr resp \<and> reply_allows resp"
    using evaluate_allows by blast
  have http: "sv_http v' = sv_http v1"
    using x by (auto simp: Let_def split_beta whenE_def thenE_def bindE_def returnE_def stage_log_run audit_name_def split: if_splits)
  then show "ht_sent (sv_http w') = ht_sent (sv_http w) @ [policy_request (dp_opa D) ''agent_access'' (activity_policy_input i)]"
    using evaluate_sends [of "dp_opa D" "''agent_access''" "activity_policy_input i" "sv_http w"] h like_simps(4) [OF v(3)] by simp
  show "pii_free (dp_db D) (per_sanitized_prompt x)" if "pii_free (dp_db D) (pe_sanitized_prompt i)"
    using x that scrub_fields_free [OF assms(2), of "(pe_sanitized_prompt i, [])" "pr_fields r"]
    by (auto simp: Let_def split_beta whenE_def thenE_def bindE_def returnE_def stage_log_run audit_name_def split: if_splits)
qed

lemma post_sanitize_Inr:
  assumes "post_sanitize D i w = (Inr x, w')"
  shows "pos_sanitized_content x = mr_text (mask_pii (dp_db D) (po_content i))"
proof -
  obtain v v' where "(let r = mask_pii (dp_db D) (po_content i) in
        thenE (stage_log (po_task_id i) (po_agent_type i) ''guardrails.post_sanitize'' (if mr_found_types r \<noteq> [] then ''redact'' else ''allow'')
                 ''post-sanitize'' [(''pii_types'', VStrs (mr_found_types r))])
       (thenE (lifecycle_log (po_task_id i) (po_agent_type i) (po_session_id i) ''workflow.completed'' COMPLETED WCOMPLETED
                 ''workflow-lifecycle'' [(''total_retries'', VInt (po_total_retries i))])
          (returnE \<lparr>pos_sanitized_content = mr_text r, pos_pii_types = mr_found_types r\<rparr>))) v = (Inr x, v')" "like w v" "like v' w'"
    using assms unfolding post_sanitize_def by (rule activity_Inr)
  then show ?thesis
    by (auto simp: thenE_def bindE_def lifecycle_log_run stage_log_run audit_name_def returnE_def Let_def)
qed

section \<open>Preparation\<close>

text \<open>The policy request and the completion request of a task.\<close>

definition task_policy_request :: "'r deps \<Rightarrow> workflow_input \<Rightarrow> http_request" where
  "task_policy_request D i = policy_request (dp_opa D) ''agent_access''
     \<lparr>pin_agent_type = wi_agent_type i, pin_requester_id = wi_requester_id i, pin_action = ''llm.complete'',
      pin_resource = ''model:'' @ wi_model i, pin_metadata = [], pin_principal_role = None, pin_token_expired = False\<rparr>"

definition task_completion_request :: "'r deps \<Rightarrow> workflow_input \<Rightarrow> utext \<Rightarrow> http_request" where
  "task_completion_request D i prompt = outbound_request (dp_adapter D)
     \<lparr>lq_prompt = prompt, lq_model = wi_model i, lq_max_tokens = wi_max_tokens i, lq_temperature = wi_temperature i,
      lq_system_prompt = wi_system_prompt i, lq_metadata = []\<rparr>"

lemma task_requests [simp]:
  "policy_request (dp_opa D) ''agent_access'' (activity_policy_input (policy_call i s)) = task_policy_request D i"
  "outbound_request (dp_adapter D) (invoke_request (llm_call i p t) []) = task_completion_request D i (per_sanitized_prompt p)"
  by (simp_all add: task_policy_request_def task_completion_request_def activity_policy_input_def policy_call_def
      invoke_request_def llm_call_def)

text \<open>A task that was prepared: no injection, a positive reply of the policy server.\<close>

definition task_cleared :: "'r deps \<Rightarrow> workflow_input \<Rightarrow> http \<Rightarrow> bool" where
  "task_cleared D i h \<longleftrightarrow> injection_free (dp_db D) (wi_prompt i) \<and>
     (\<exists>resp. ht_reply h (length (ht_sent h)) (task_policy_request D i) = Inr resp \<and> reply_allows resp)"

lemma call_Inr:
  "call_activity ex D pol c conv k = (Inr x, k') \<longleftrightarrow> (\<exists>r. execute_activity ex D pol c k = (Inr r, k') \<and> conv r = Inr x)"
  by (auto simp: call_activity_def bindE_Inr liftE_def)

lemma conv_Inr [simp]:
  "as_scrub r = Inr a \<longleftrightarrow> r = PrePIIScrubResult a" "as_policy r = Inr b \<longleftrightarrow> r = PolicyEvalResult b"
  "as_token r = Inr c \<longleftrightarrow> r = JITTokenResult c" "as_precheck r = Inr d \<longleftrightarrow> r = BudgetPreCheckResult d"
  "as_llm r = Inr e \<longleftrightarrow> r = LLMInvokeResult e" "as_record r = Inr f \<longleftrightarrow> r = BudgetRecordResult f"
  "as_post r = Inr g \<longleftrightarrow> r = PostSanitizeResult g"
  by (cases r; simp add: as_scrub_def as_policy_def as_token_def as_precheck_def as_llm_def as_record_def as_post_def
      wrong_result_def)+

lemma execute_frame:
  assumes "execute_activity ex D pol c k = (r, k')"
  shows "kw_waits k' = Suc (kw_waits k)" "kw_inbox k' = kw_inbox k \<and> kw_after k' = kw_after k"
    "kw_self k' = fold receive (concat (kw_inbox k (kw_waits k))) (kw_self k)"
  using assms by (auto simp: execute_activity_eq split: prod.splits)

context temporal
begin

lemma prepare_Inr:
  assumes "prepare_task ex D i k = (Inr (scrubbed, pol, tok), k')" "unicode_ok (dp_db D)"
  shows "task_cleared D i (client k)" "pii_free (dp_db D) (per_sanitized_prompt pol)"
    "ht_sent (client k') = ht_sent (client k) @ [task_policy_request D i]"
proof -
  obtain k1 k2 where k1: "execute_activity ex D (retry_policy_of 3 []) (PrePIIScrub i) k = (Inr (PrePIIScrubResult scrubbed), k1)"
    and k2: "execute_activity ex D (retry_policy_of 1 [''PolicyDeniedError'']) (PolicyEval (policy_call i scrubbed)) k1 = (Inr (PolicyEvalResult pol), k2)"
    and k3: "execute_activity ex D (retry_policy_of 3 []) (JITTokenIssue (token_call i)) k2 = (Inr (JITTokenResult tok), k')"
    using assms(1) by (auto simp: prepare_task_def bindE_Inr call_Inr returnE_def)
  have c1: "client k1 = client k" and c3: "client k' = client k2"
    using keepsE_D [OF keeps_execute, of D "PrePIIScrub i" k "client k"] k1
      keepsE_D [OF keeps_execute, of D "JITTokenIssue (token_call i)" k2 "client k2"] k3 by (metis may_send.simps snd_conv)+
  have inj: "injection_free (dp_db D) (wi_prompt i)"
    and masked: "ps_sanitized_prompt scrubbed = mr_text (mask_pii (dp_db D) (wi_prompt i))"
    using execute_Inr [OF k1] pre_pii_scrub_Inr by (auto simp: mapE_result_Inr)
  have "policy_eval D (policy_call i scrubbed) (kw_services k1) = (Inr pol, kw_services k2)"
    using execute_once [OF k2] by (auto simp: retry_policy_of_def mapE_result_Inr)
  note p = policy_eval_Inr [OF this assms(2)]
  show "task_cleared D i (client k)"
    using p(1) inj c1 by (simp add: task_cleared_def client_def)
  show "pii_free (dp_db D) (per_sanitized_prompt pol)"
    using p(2) mask_pii_free [OF assms(2)] masked by (simp add: policy_call_def)
  show "ht_sent (client k') = ht_sent (client k) @ [task_policy_request D i]"
    using p(3) c1 c3 by (simp add: client_def)
qed

lemma posts_call:
  "rp_maximum_attempts pol \<noteq> 0 \<Longrightarrow> postsW (may_send D c) (rp_maximum_attempts pol) (call_activity ex D pol c conv)"
  using postsW_bind [OF execute_posts, of pol D c 0 "\<lambda>r. liftE (conv r)"]
  by (simp add: call_activity_def postsW_keeps keepsE_pure)

lemma prepare_posts: "postsW {task_policy_request D i} 1 (prepare_task ex D i)"
proof -
  let ?A = "{task_policy_request D i}"
  have "postsW ?A 1 (call_activity ex D (retry_policy_of 1 [''PolicyDeniedError'']) (PolicyEval (policy_call i s)) as_policy)" for s
    using posts_call [of "retry_policy_of 1 [''PolicyDeniedError'']" D "PolicyEval (policy_call i s)"] by (simp add: retry_policy_of_def)
  then have *: "postsW ?A (1 + 0) (bindE (call_activity ex D (retry_policy_of 1 [''PolicyDeniedError'']) (PolicyEval (policy_call i s)) as_policy) f)"
    if "\<And>x. postsW ?A 0 (f x)" for s and f :: "policy_eval_result \<Rightarrow> ('r task_world, 'b) prog"
    using that by (rule postsW_bind)
  have "postsW ?A (0 + (1 + 0)) (prepare_task ex D i)"
    unfolding prepare_task_def
    by (intro postsW_bind [where n = 0] * postsW_keeps silent_intros) simp_all
  then show ?thesis by simp
qed

lemma complete_posts: "postsW {task_completion_request D i (per_sanitized_prompt p)} 5 (complete_task ex D i s p t)"
proof -
  let ?A = "{task_completion_request D i (per_sanitized_prompt p)}"
  have "postsW ?A 5 (call_activity ex D LLM_RETRY_POLICY (LLMInvoke (llm_call i p t)) as_llm)"
    using posts_call [of LLM_RETRY_POLICY D "LLMInvoke (llm_call i p t)"] by (simp add: LLM_RETRY_POLICY_def)
  then have "postsW ?A 5 (invoke_llm ex D i p t)"
    unfolding invoke_llm_def by (rule postsW_try) (intro postsW_keeps keeps_llm_failed)
  then have *: "postsW ?A (5 + 0) (bindE (invoke_llm ex D i p t) f)"
    if "\<And>x. postsW ?A 0 (f x)" for f :: "llm_invoke_result \<Rightarrow> ('r task_world, 'b) prog"
    using that by (rule postsW_bind)
  have "postsW ?A (0 + (5 + 0)) (complete_task ex D i s p t)"
    unfolding complete_task_def
    by (intro postsW_bind [where n = 0] * postsW_keeps silent_intros keeps_budget_gate keeps_record_budget) simp
  then show ?thesis by simp
qed

end

section \<open>The approval gate\<close>

fun payload :: "signal \<Rightarrow> approval_signal_payload" where
  "payload (Approve d) = d"
| "payload (Deny d) = d"

lemma fold_receive:
  "tw_approval_state s = AWAITING_APPROVAL \<Longrightarrow>
     fold receive b s = (if b = [] then s else s\<lparr>tw_approval_signal := Some (payload (last b))\<rparr>)"
proof (induction b arbitrary: s)
  case (Cons x b)
  then show ?case
    by (cases x) (auto simp: approve_def deny_def)
qed simp

lemma fold_receive_ignored: "tw_approval_state s \<noteq> AWAITING_APPROVAL \<Longrightarrow> fold receive b s = s"
proof (induction b arbitrary: s)
  case (Cons x b)
  then show ?case
    by (cases x) (auto simp: approve_def deny_def)
qed simp

text \<open>
  The decision that the gate reaches when it opens at wait \<open>n\<close>: the last signal that arrives while
  the opening is being audited, or else the last of the first activation before the timeout that brings any.
\<close>

definition gate_decision ::
  "(nat \<Rightarrow> signal list list) \<Rightarrow> (nat \<Rightarrow> nat \<Rightarrow> rat) \<Rightarrow> rat \<Rightarrow> nat \<Rightarrow> approval_signal_payload option" where
  "gate_decision inbox after timeout n =
     (if concat (inbox n) \<noteq> [] then Some (payload (last (concat (inbox n))))
      else case filter (\<lambda>b. b \<noteq> []) (in_time timeout (after (Suc n)) (inbox (Suc n))) of [] \<Rightarrow> None | b # _ \<Rightarrow> Some (payload (last b)))"

lemma wait_activations_eq:
  "tw_approval_state s = AWAITING_APPROVAL \<Longrightarrow> wait_activations bs s =
     (if tw_approval_signal s \<noteq> None then s
      else case filter (\<lambda>b. b \<noteq> []) bs of [] \<Rightarrow> s | b # _ \<Rightarrow> s\<lparr>tw_approval_signal := Some (payload (last b))\<rparr>)"
proof (induction bs arbitrary: s)
  case (Cons b bs)
  show ?case
  proof (cases "tw_approval_signal s = None \<and> b \<noteq> []")
    case True
    then have "wait_activations bs (s\<lparr>tw_approval_signal := Some (payload (last b))\<rparr>) = s\<lparr>tw_approval_signal := Some (payload (last b))\<rparr>"
      by (cases bs) simp_all
    then show ?thesis
      using True Cons.prems by (simp add: fold_receive)
  next
    case False
    then show ?thesis
      using Cons by auto
  qed
qed simp

definition timeout_payload :: approval_signal_payload where
  "timeout_payload = \<lparr>sg_approver_id = ''timeout'', sg_reason = ''Approval timed out'', sg_approved = False\<rparr>"

text \<open>What the gate leaves behind: the state of the approval and the status of the workflow.\<close>

definition gate_outcome :: "approval_signal_payload option \<Rightarrow> approval_signal_payload \<times> pending_approval_state \<times> string" where
  "gate_outcome d =
     (case d of None \<Rightarrow> (timeout_payload, TIMED_OUT, ''timed-out'')
      | Some p \<Rightarrow> if sg_approved p then (p, APPROVAL_APPROVED, ''running'') else (p, APPROVAL_DENIED, ''denied''))"

definition gate_state :: "'r task_world \<Rightarrow> pending_approval_state \<times> string" where
  "gate_state k = (tw_approval_state (kw_self k), tw_workflow_status (kw_self k))"

text \<open>
  The calls of a task other than \<open>LLMInvoke\<close>, and a failure of one of them as the last thing that happens:
  Temporal gives the activity up and the workflow does not catch its \<open>ActivityError\<close>.
\<close>

definition other_call :: "workflow_input \<Rightarrow> activity_call \<Rightarrow> bool" where
  "other_call i c =
     (case c of
        PrePIIScrub x \<Rightarrow> x = i
      | PolicyEval x \<Rightarrow> pe_task_id x = wi_task_id i
      | JITTokenIssue x \<Rightarrow> jt_task_id x = wi_task_id i
      | BudgetPreCheck x \<Rightarrow> bp_task_id x = wi_task_id i
      | BudgetRecordSpend x \<Rightarrow> br_task_id x = wi_task_id i
      | PostSanitize x \<Rightarrow> po_task_id x = wi_task_id i
      | WorkflowAudit x \<Rightarrow> wa_task_id x = wi_task_id i
      | LoopRecordStep _ \<Rightarrow> False
      | LLMInvoke _ \<Rightarrow> False)"

definition other_failed :: "'r executor \<Rightarrow> 'r deps \<Rightarrow> workflow_input \<Rightarrow> exn \<Rightarrow> 'r task_world \<Rightarrow> bool" where
  "other_failed ex D i e k \<longleftrightarrow> is_activity_error e \<and> (\<exists>c pol k0. other_call i c \<and> execute_activity ex D pol c k0 = (Inl e, k))"

lemma other_call_simps [simp]:
  "other_call i (PrePIIScrub i)" "other_call i (PolicyEval (policy_call i s))" "other_call i (JITTokenIssue (token_call i))"
  "other_call i (PostSanitize (post_call i r))"
  by (simp_all add: other_call_def policy_call_def token_call_def post_call_def)

context temporal
begin

lemma other_failedI: "execute_activity ex D pol c k0 = (Inl e, k) \<Longrightarrow> other_call i c \<Longrightarrow> other_failed ex D i e k"
  unfolding other_failed_def using execute_Inl by blast

lemma audit_call_frame:
  assumes "audit_call ex D i ev oc st et ds k = (r, k')"
  shows "kw_waits k' = Suc (kw_waits k)" "kw_inbox k' = kw_inbox k \<and> kw_after k' = kw_after k"
    "kw_self k' = fold receive (concat (kw_inbox k (kw_waits k))) (kw_self k)" "r = Inl e \<Longrightarrow> other_failed ex D i e k'"
proof -
  let ?c = "WorkflowAudit \<lparr>wa_event = ev, wa_outcome = oc, wa_stage = st, wa_task_id = wi_task_id i,
                 wa_agent_type = wi_agent_type i, wa_session_id = wi_session_id i, wa_workflow_status = tw_workflow_status (kw_self k),
                 wa_event_type = map_option lifecycle_value et, wa_details = ds, wa_traceparent = None\<rparr>"
  obtain r0 where r0: "execute_activity ex D (retry_policy_of 3 []) ?c k = (r0, k')"
    "r = (case r0 of Inl e \<Rightarrow> Inl e | Inr _ \<Rightarrow> Inr ())"
    using assms by (auto simp: audit_call_def bindE_def thenE_def getE_def returnE_def split: prod.splits sum.splits)
  show "kw_waits k' = Suc (kw_waits k)" "kw_inbox k' = kw_inbox k \<and> kw_after k' = kw_after k"
    "kw_self k' = fold receive (concat (kw_inbox k (kw_waits k))) (kw_self k)"
    using execute_frame [OF r0(1)] by simp_all
  show "other_failed ex D i e k'" if "r = Inl e"
    using that r0 by (cases r0) (auto simp: other_call_def elim!: other_failedI)
qed

lemma timed_out_run:
  assumes "timed_out ex D i k = (r, k')"
  shows "case r of Inl e \<Rightarrow> other_failed ex D i e k' | Inr d \<Rightarrow> (d, gate_state k') = gate_outcome None"
proof -
  let ?k = "k\<lparr>kw_self := (kw_self k)\<lparr>tw_approval_state := TIMED_OUT, tw_workflow_status := ''timed-out'', tw_pending_since := None\<rparr>\<rparr>"
  obtain r1 k1 where a: "audit_call ex D i ''workflow.timed_out'' ''deny'' ''pending-approval'' (Some DENIED)
              [(''approver_id'', VStr ''timeout'')] ?k = (r1, k1)"
    by fastforce
  note frame = audit_call_frame [OF a]
  show ?thesis
    using assms a frame
    by (cases r1) (auto simp: timed_out_def thenE_def bindE_def modify_self_def modifyE_def returnE_def gate_state_def
        gate_outcome_def timeout_payload_def fold_receive_ignored)
qed

lemma decided_run:
  assumes "decided ex D i p k = (r, k')"
  shows "case r of Inl e \<Rightarrow> other_failed ex D i e k' | Inr d \<Rightarrow> (d, gate_state k') = gate_outcome (Some p)"
proof -
  let ?k = "k\<lparr>kw_self := (kw_self k)\<lparr>tw_approval_state := (if sg_approved p then APPROVAL_APPROVED else APPROVAL_DENIED),
              tw_workflow_status := (if sg_approved p then ''running'' else ''denied''), tw_pending_since := None\<rparr>\<rparr>"
  obtain r1 k1 where a: "audit_call ex D i (if sg_approved p then ''workflow.approved'' else ''workflow.denied'')
              (if sg_approved p then ''allow'' else ''deny'') ''pending-approval'' (Some (if sg_approved p then APPROVED else DENIED))
              [(''approver_id'', VStr (sg_approver_id p)), (''reason'', VStr (sg_reason p))] ?k = (r1, k1)"
    by fastforce
  note frame = audit_call_frame [OF a]
  show ?thesis
    using assms a frame
    by (cases "sg_approved p"; cases r1) (auto simp: decided_def thenE_def bindE_def modify_self_def modifyE_def returnE_def gate_state_def
        gate_outcome_def fold_receive_ignored)
qed

lemma gate_run:
  assumes "await_pending_approval ex D i k = (r, k')" "tw_approval_signal (kw_self k) = None"
  shows "case r of Inl e \<Rightarrow> other_failed ex D i e k'
     | Inr d \<Rightarrow> (d, gate_state k') = gate_outcome (gate_decision (kw_inbox k) (kw_after k) (of_int (wi_approval_timeout_seconds i)) (kw_waits k))"
proof -
  let ?s0 = "(kw_self k)\<lparr>tw_approval_state := AWAITING_APPROVAL, tw_workflow_status := ''human_intervention_required'',
      tw_pending_since := Some (kw_now k (kw_waits k))\<rparr>"
  let ?dec = "gate_decision (kw_inbox k) (kw_after k) (of_int (wi_approval_timeout_seconds i)) (kw_waits k)"
  obtain r1 k1 where a: "audit_call ex D i ''workflow.pending_approval'' ''allow'' ''pending-approval'' (Some PENDING_APPROVAL)
              [(''projected_spend_usd'', VStr (wi_projected_spend_usd i))] (k\<lparr>kw_self := ?s0\<rparr>) = (r1, k1)"
    by fastforce
  note frame = audit_call_frame [OF a]
  show ?thesis
  proof (cases r1)
    case (Inl e)
    then show ?thesis
      using assms(1) a frame(4)
      by (auto simp: await_pending_approval_def bindE_def thenE_def getE_def modify_self_def modifyE_def)
  next
    case (Inr u)
    let ?s = "wait_activations (in_time (of_int (wi_approval_timeout_seconds i)) (kw_after k1 (kw_waits k1)) (kw_inbox k1 (kw_waits k1))) (kw_self k1)"
    have self: "tw_approval_signal ?s = ?dec"
      using assms(2) frame
      by (auto simp: fold_receive wait_activations_eq gate_decision_def split: list.splits)
    have run: "(case ?dec of None \<Rightarrow> timed_out ex D i | Some p \<Rightarrow> decided ex D i p) (k1\<lparr>kw_self := ?s, kw_waits := Suc (kw_waits k1)\<rparr>) = (r, k')"
      using assms(1) a Inr self
      by (cases ?dec) (simp_all add: await_pending_approval_def bindE_def thenE_def getE_def modify_self_def modifyE_def
          tryE_def wait_for_signal_def Let_def returnE_def)
    show ?thesis
    proof (cases ?dec)
      case None
      show ?thesis
        using timed_out_run [OF run [unfolded None option.case]] by (simp only: None)
    next
      case (Some p)
      show ?thesis
        using decided_run [OF run [unfolded Some option.case]] by (simp only: Some)
    qed
  qed
qed

end

section \<open>Runs\<close>

lemma keeps_approval_execute:
  "st \<noteq> AWAITING_APPROVAL \<Longrightarrow> keepsE (\<lambda>k. tw_approval_state (kw_self k) = st) (execute_activity ex D pol c)"
  unfolding keepsE_def execute_activity_eq by (simp add: fold_receive_ignored split_beta)

lemma keeps_approval_status:
  "keepsE (\<lambda>k. tw_approval_state (kw_self k) = st) (modify_self (\<lambda>s. s\<lparr>tw_workflow_status := v\<rparr>))"
  by (simp add: keepsE_def modify_self_def modifyE_def)

lemmas approval_intros = keeps_intros keeps_approval_execute keeps_approval_status

text \<open>Past the gate, signals change nothing any more.\<close>

lemma complete_task_Inr:
  assumes "complete_task ex D i s p t k = (Inr out, k')" "tw_approval_state (kw_self k) = st" "st \<noteq> AWAITING_APPROVAL"
  shows "wo_approval_state out = approval_value st \<and> wo_workflow_status out = ''completed'' \<and>
    wo_sanitized_prompt out = per_sanitized_prompt p \<and> wo_approver_id out = None"
proof -
  let ?I = "\<lambda>k. tw_approval_state (kw_self k) = st"
  have gate: "keepsE ?I (budget_gate ex D i)" and rec: "keepsE ?I (record_budget ex D i r b)"
    and llm: "keepsE ?I (invoke_llm ex D i p t)" and post: "keepsE ?I (call_activity ex D pol c conv)" for r b pol c conv
    unfolding budget_gate_def record_budget_def invoke_llm_def llm_failed_def fail_workflow_def escalate_def audit_call_def
      call_activity_def by (intro approval_intros assms(3))+
  obtain c k1 r k2 b k3 q k4 where runs: "budget_gate ex D i k = (Inr c, k1)" "invoke_llm ex D i p t k1 = (Inr r, k2)"
      "record_budget ex D i r c k2 = (Inr b, k3)"
      "call_activity ex D (retry_policy_of 3 []) (PostSanitize (post_call i r)) as_post k3 = (Inr q, k4)"
    and out: "wo_approval_state out = approval_value (tw_approval_state (kw_self k4))" "wo_workflow_status out = ''completed''"
      "wo_sanitized_prompt out = per_sanitized_prompt p" "wo_approver_id out = None"
    using assms(1) unfolding complete_task_def
    by (auto simp: bindE_Inr thenE_def getE_def returnE_def modify_self_def modifyE_def)
  have "?I k4"
    using runs assms(2) gate llm rec post unfolding keepsE_def by (metis snd_conv)
  then show ?thesis
    using out by simp
qed

lemma complete_task_clean:
  assumes "complete_task ex D i s p t k = (Inr out, k')" "temporal ex" "unicode_ok (dp_db D)"
  shows "pii_free (dp_db D) (wo_content out)"
proof -
  obtain k3 r q k4 where "call_activity ex D (retry_policy_of 3 []) (PostSanitize (post_call i r)) as_post k3 = (Inr q, k4)"
    and out: "wo_content out = pos_sanitized_content q"
    using assms(1) unfolding complete_task_def
    by (auto simp: bindE_Inr thenE_def getE_def returnE_def modify_self_def modifyE_def)
  then obtain nfo s1 where "perform D nfo (PostSanitize (post_call i r)) s1 = (Inr (PostSanitizeResult q), kw_services k4)"
    using temporal.execute_Inr [OF assms(2)] by (fastforce simp: call_Inr)
  then show ?thesis
    using mask_pii_free [OF assms(3)] out by (auto simp: mapE_result_Inr dest!: post_sanitize_Inr)
qed

text \<open>The three ways a run can go: it stops before the gate, at the gate, or it completes the task.\<close>

definition started :: "workflow_input \<Rightarrow> 'r task_world \<Rightarrow> 'r task_world" where
  "started i k = k\<lparr>kw_self := start_workflow i (kw_self k)\<rparr>"

lemma run_cases:
  assumes "run_workflow_task ex D i k = (r, k')"
  obtains e where "prepare_task ex D i (started i k) = (Inl e, k')" "r = Inl e"
  | s p t e where "prepare_task ex D i (started i k) = (Inr (s, p, t), k')" "parse_decimal (wi_projected_spend_usd i) = Inl e"
      "r = Inl e"
  | s p t k1 x e where "prepare_task ex D i (started i k) = (Inr (s, p, t), k1)" "parse_decimal (wi_projected_spend_usd i) = Inr x"
      "dless approval_threshold x" "await_pending_approval ex D i k1 = (Inl e, k')" "r = Inl e"
  | s p t k1 x d where "prepare_task ex D i (started i k) = (Inr (s, p, t), k1)" "parse_decimal (wi_projected_spend_usd i) = Inr x"
      "dless approval_threshold x" "await_pending_approval ex D i k1 = (Inr d, k')" "\<not> sg_approved d"
      "r = Inr (refused_output i s p d (kw_self k'))"
  | s p t k1 x d k2 where "prepare_task ex D i (started i k) = (Inr (s, p, t), k1)" "parse_decimal (wi_projected_spend_usd i) = Inr x"
      "dless approval_threshold x" "await_pending_approval ex D i k1 = (Inr d, k2)" "sg_approved d"
      "complete_task ex D i s p t k2 = (r, k')"
  | s p t k1 x where "prepare_task ex D i (started i k) = (Inr (s, p, t), k1)" "parse_decimal (wi_projected_spend_usd i) = Inr x"
      "\<not> dless approval_threshold x" "complete_task ex D i s p t k1 = (r, k')"
  using assms that
  by (auto simp: run_workflow_task_def thenE_def bindE_def modify_self_def modifyE_def liftE_def getE_def started_def
      split: prod.splits sum.splits if_splits)

lemma client_started [simp]: "client (started i k) = client k"
  by (simp add: client_def started_def)

lemma started_simps [simp]:
  "tw_approval_state (kw_self (started i k)) = tw_approval_state (kw_self k)"
  "tw_approval_signal (kw_self (started i k)) = tw_approval_signal (kw_self k)"
  "kw_waits (started i k) = kw_waits k" "kw_inbox (started i k) = kw_inbox k" "kw_after (started i k) = kw_after k"
  by (simp_all add: started_def start_workflow_def)

lemma postsW_D: "postsW A n p \<Longrightarrow> p k = (r, k') \<Longrightarrow>
    \<exists>qs. ht_sent (client k') = ht_sent (client k) @ qs \<and> set qs \<subseteq> A \<and> length qs \<le> n"
  unfolding postsW_def posts_def client_def by (metis snd_conv)

text \<open>Preparation takes three waits and does not open the gate.\<close>

lemma prepare_frame:
  assumes "prepare_task ex D i k = (Inr x, k')" "tw_approval_state (kw_self k) \<noteq> AWAITING_APPROVAL"
  shows "kw_waits k' = kw_waits k + 3" "kw_inbox k' = kw_inbox k \<and> kw_after k' = kw_after k" "kw_self k' = kw_self k"
proof -
  obtain s k1 p k2 t where e: "execute_activity ex D (retry_policy_of 3 []) (PrePIIScrub i) k = (Inr s, k1)"
      "execute_activity ex D (retry_policy_of 1 [''PolicyDeniedError'']) p k1 = (Inr t, k2)"
    and "\<exists>r. execute_activity ex D (retry_policy_of 3 []) (JITTokenIssue (token_call i)) k2 = (Inr r, k')"
    using assms(1) by (auto simp: prepare_task_def bindE_Inr call_Inr returnE_def)
  then obtain r where "execute_activity ex D (retry_policy_of 3 []) (JITTokenIssue (token_call i)) k2 = (Inr r, k')"
    by blast
  note frames = execute_frame [OF e(1)] execute_frame [OF e(2)] execute_frame [OF this]
  show "kw_waits k' = kw_waits k + 3" "kw_inbox k' = kw_inbox k \<and> kw_after k' = kw_after k" "kw_self k' = kw_self k"
    using frames assms(2) by (simp_all add: fold_receive_ignored)
qed

context temporal
begin

lemma gate_client: "await_pending_approval ex D i k = (r, k') \<Longrightarrow> client k' = client k"
  using keepsE_D [OF keeps_gate, of k "client k"] by (metis snd_conv)

lemma run_sends:
  assumes "run_workflow_task ex D i k = (r, k')" "unicode_ok (dp_db D)"
  shows "(\<exists>ps. ht_sent (client k') = ht_sent (client k) @ ps \<and> set ps \<subseteq> {task_policy_request D i} \<and> length ps \<le> 1) \<or>
    (\<exists>prompt qs. ht_sent (client k') = ht_sent (client k) @ task_policy_request D i # qs \<and>
       set qs \<subseteq> {task_completion_request D i prompt} \<and> length qs \<le> 5 \<and>
       pii_free (dp_db D) prompt \<and> task_cleared D i (client k))"
proof -
  have completed: ?thesis if pr: "prepare_task ex D i (started i k) = (Inr (s, p, t), k1)"
    and c: "complete_task ex D i s p t k2 = (r, k')" and same: "client k2 = client k1" for s p t k1 k2
    using prepare_Inr [OF pr assms(2)] postsW_D [OF complete_posts c] same by (intro disjI2) fastforce
  have stopped: ?thesis if pr: "prepare_task ex D i (started i k) = (q, k1)" and same: "client k' = client k1" for q k1
    using postsW_D [OF prepare_posts pr] same by simp
  show ?thesis
    using assms(1)
  proof (cases rule: run_cases)
    case (5 s p t k1 x d k2)
    then show ?thesis using completed gate_client by blast
  qed (use completed stopped gate_client in blast)+
qed

end

text \<open>
  (C2) What a task may send, whatever Temporal does with its activities: the policy request at most
  once, and only after it at most five completion requests (the bound of \<open>LLM_RETRY_POLICY\<close>), all
  equal. If a completion request is sent, no injection pattern matched the prompt, the policy server
  allowed the task, and the prompt sent holds no PII.
\<close>

theorem task_requests_governed:
  assumes "temporal ex" and "unicode_ok (dp_db D)" and "run_workflow_task ex D i k = (r, k')"
  shows "\<exists>ps qs prompt. ht_sent (client k') = ht_sent (client k) @ ps @ qs \<and>
    length ps \<le> 1 \<and> set ps \<subseteq> {task_policy_request D i} \<and>
    length qs \<le> 5 \<and> set qs \<subseteq> {task_completion_request D i prompt} \<and>
    (qs \<noteq> [] \<longrightarrow> ps \<noteq> [] \<and> pii_free (dp_db D) prompt \<and> task_cleared D i (client k))"
  using temporal.run_sends [OF assms(1,3,2)]
proof
  assume "\<exists>ps. ht_sent (client k') = ht_sent (client k) @ ps \<and> set ps \<subseteq> {task_policy_request D i} \<and> length ps \<le> 1"
  then show ?thesis by (metis append_Nil2 empty_subsetI le0 list.size(3) set_empty2)
next
  assume "\<exists>prompt qs. ht_sent (client k') = ht_sent (client k) @ task_policy_request D i # qs \<and>
       set qs \<subseteq> {task_completion_request D i prompt} \<and> length qs \<le> 5 \<and> pii_free (dp_db D) prompt \<and> task_cleared D i (client k)"
  then obtain prompt qs where "ht_sent (client k') = ht_sent (client k) @ [task_policy_request D i] @ qs"
    "set qs \<subseteq> {task_completion_request D i prompt}" "length qs \<le> 5" "pii_free (dp_db D) prompt" "task_cleared D i (client k)"
    by auto
  then show ?thesis
    by (intro exI [of _ "[task_policy_request D i]"] exI [of _ qs] exI [of _ prompt]) simp
qed

lemma threshold: "dless approval_threshold x \<longleftrightarrow> 50 < dval x"
proof -
  have "dval approval_threshold = 50"
    by (simp add: approval_threshold_def dval_def power_int_def power2_eq_square)
  then show ?thesis by simp
qed

text \<open>The refusal that the gate's decision leads to.\<close>

definition refuses :: "approval_signal_payload option \<Rightarrow> bool" where
  "refuses d \<longleftrightarrow> (case d of None \<Rightarrow> True | Some p \<Rightarrow> \<not> sg_approved p)"

lemma gate_outcome_refuses: "refuses d \<longleftrightarrow> \<not> sg_approved (fst (gate_outcome d))"
  by (auto simp: refuses_def gate_outcome_def timeout_payload_def split: option.splits)

lemma gate_decides_task:
  assumes "temporal ex" and "run_workflow_task ex D i k = (r, k')"
    and "tw_approval_state (kw_self k) = NOT_REQUIRED" "tw_approval_signal (kw_self k) = None"
    and "parse_decimal (wi_projected_spend_usd i) = Inr x" "50 < dval x"
    and "d = gate_decision (kw_inbox k) (kw_after k) (of_int (wi_approval_timeout_seconds i)) (kw_waits k + 3)"
  shows "(refuses d \<longrightarrow> set (drop (length (ht_sent (client k))) (ht_sent (client k'))) \<subseteq> {task_policy_request D i}) \<and>
    (\<forall>out. r = Inr out \<longrightarrow>
       (if refuses d
        then wo_content out = [] \<and> wo_tokens_used out = 0 \<and>
          wo_approval_state out = (if d = None then ''timed-out'' else ''denied'') \<and>
          wo_workflow_status out = wo_approval_state out \<and>
          wo_approver_id out = Some (case d of None \<Rightarrow> ''timeout'' | Some p \<Rightarrow> sg_approver_id p) \<and>
          wo_reason out = Some (case d of None \<Rightarrow> ''Approval timed out'' | Some p \<Rightarrow> sg_reason p)
        else wo_workflow_status out = ''completed'' \<and> wo_approval_state out = ''approved''))"
proof -
  have gate: "(d', gate_state k2) = gate_outcome d"
    if "prepare_task ex D i (started i k) = (Inr y, k1)" "await_pending_approval ex D i k1 = (Inr d', k2)" for y k1 d' k2
    using temporal.gate_run [OF assms(1) that(2)] prepare_frame [OF that(1)] assms(3,4,7) by simp
  have silent: "set (drop (length (ht_sent (client k))) (ht_sent (client k'))) \<subseteq> {task_policy_request D i}"
    if "prepare_task ex D i (started i k) = (q, k1)" "client k' = client k1" for q k1
    using postsW_D [OF temporal.prepare_posts [OF assms(1)] that(1)] that(2) by auto
  note client = temporal.gate_client [OF assms(1)]
  show ?thesis
    using assms(2)
  proof (cases rule: run_cases)
    case (1 e)
    then show ?thesis using silent by simp
  next
    case (2 s p t e)
    then show ?thesis using assms(5) by simp
  next
    case (3 s p t k1 y e)
    then show ?thesis using silent client by simp
  next
    case (4 s p t k1 y d')
    then have "refuses d" "(d', gate_state k') = gate_outcome d"
      using gate gate_outcome_refuses [of d] by (metis fst_conv)+
    then show ?thesis
      using silent [OF 4(1) client [OF 4(4)]] 4(6)
      by (auto simp: gate_outcome_def gate_state_def refused_output_def refuses_def timeout_payload_def split: option.splits if_splits)
  next
    case (5 s p t k1 y d' k2)
    then have d: "\<not> refuses d" "(d', gate_state k2) = gate_outcome d"
      using gate gate_outcome_refuses [of d] by (metis fst_conv)+
    then have "tw_approval_state (kw_self k2) = APPROVAL_APPROVED"
      by (auto simp: gate_outcome_def gate_state_def refuses_def split: option.splits if_splits)
    then show ?thesis
      using d(1) 5(6) complete_task_Inr [of ex D i s p t k2 _ k' APPROVAL_APPROVED] by auto
  next
    case (6 s p t k1 y)
    then show ?thesis using assms(5,6) threshold by simp
  qed
qed

text \<open>
  (C3) The approval gate. A task whose projected spend exceeds 50.00 follows the decision taken while
  the gate is open, from the audit of its opening until \<open>approval_timeout_seconds\<close> after that: without an
  approving signal in that time (signals that came earlier or later do not count), nothing but the policy request is ever sent, and a run that returns reports the refusal:
  the denying approver and reason, or the timeout, with empty content and no tokens. With an
  approving signal a run that returns is completed and approved.
\<close>

theorem approval_gate_decides:
  assumes "temporal ex" and "run_workflow_task ex D i k = (r, k')"
    and "tw_approval_state (kw_self k) = NOT_REQUIRED" "tw_approval_signal (kw_self k) = None"
    and "parse_decimal (wi_projected_spend_usd i) = Inr x" "50 < dval x"
    and "d = gate_decision (kw_inbox k) (kw_after k) (of_int (wi_approval_timeout_seconds i)) (kw_waits k + 3)"
  shows "(refuses d \<longrightarrow> set (drop (length (ht_sent (client k))) (ht_sent (client k'))) \<subseteq> {task_policy_request D i}) \<and>
    (\<forall>out. r = Inr out \<longrightarrow>
       (if refuses d
        then wo_content out = [] \<and> wo_tokens_used out = 0 \<and>
          wo_approval_state out = (if d = None then ''timed-out'' else ''denied'') \<and>
          wo_workflow_status out = wo_approval_state out \<and>
          wo_approver_id out = Some (case d of None \<Rightarrow> ''timeout'' | Some p \<Rightarrow> sg_approver_id p) \<and>
          wo_reason out = Some (case d of None \<Rightarrow> ''Approval timed out'' | Some p \<Rightarrow> sg_reason p)
        else wo_workflow_status out = ''completed'' \<and> wo_approval_state out = ''approved''))"
  using assms by (rule gate_decides_task)

text \<open>
  (C19) What a task returns has been sanitised: the prompt it reports is the one that was sent and
  holds no PII, and the content of a completed task holds none.
\<close>

theorem task_output_clean:
  assumes "temporal ex" and "unicode_ok (dp_db D)" and "run_workflow_task ex D i k = (Inr out, k')"
    and "tw_approval_state (kw_self k) = NOT_REQUIRED" "tw_approval_signal (kw_self k) = None"
  shows "pii_free (dp_db D) (wo_sanitized_prompt out) \<and> task_cleared D i (client k) \<and>
    (wo_workflow_status out = ''completed'' \<longrightarrow> pii_free (dp_db D) (wo_content out))"
  using assms(3)
proof (cases rule: run_cases)
  case (4 s p t k1 x d)
  note prep = prepare_frame [OF 4(1)] temporal.prepare_Inr [OF assms(1) 4(1) assms(2)]
  have "(d, gate_state k') = gate_outcome (gate_decision (kw_inbox k1) (kw_after k1) (of_int (wi_approval_timeout_seconds i)) (kw_waits k1))"
    using temporal.gate_run [OF assms(1) 4(4)] prep(3) assms(4,5) by simp
  then have "wo_workflow_status out \<noteq> ''completed''"
    using 4(5,6) by (auto simp: refused_output_def gate_state_def gate_outcome_def split: option.splits if_splits)
  then show ?thesis
    using 4(6) prep(4,5) by (simp add: refused_output_def)
next
  case (5 s p t k1 x d k2)
  note prep = prepare_frame [OF 5(1)] temporal.prepare_Inr [OF assms(1) 5(1) assms(2)]
  have "(d, gate_state k2) = gate_outcome (gate_decision (kw_inbox k1) (kw_after k1) (of_int (wi_approval_timeout_seconds i)) (kw_waits k1))"
    using temporal.gate_run [OF assms(1) 5(4)] prep(3) assms(4,5) by simp
  then have "tw_approval_state (kw_self k2) \<noteq> AWAITING_APPROVAL"
    by (auto simp: gate_state_def gate_outcome_def split: option.splits if_splits)
  then show ?thesis
    using complete_task_Inr [OF 5(6) refl] complete_task_clean [OF 5(6) assms(1,2)] prep(4,5) by simp
next
  case (6 s p t k1 x)
  note prep = prepare_frame [OF 6(1)] temporal.prepare_Inr [OF assms(1) 6(1) assms(2)]
  have "tw_approval_state (kw_self k1) \<noteq> AWAITING_APPROVAL"
    using prep(3) assms(4) by simp
  then show ?thesis
    using complete_task_Inr [OF 6(4) refl] complete_task_clean [OF 6(4) assms(1,2)] prep(4,5) by simp
qed simp_all


section \<open>Failures\<close>

text \<open>The conversion to the result type of a call never fails.\<close>

definition converts :: "activity_call \<Rightarrow> (activity_result \<Rightarrow> exn + 'a) \<Rightarrow> bool" where
  "converts c conv \<longleftrightarrow> (\<forall>r. result_type c r \<longrightarrow> (\<exists>x. conv r = Inr x))"

lemma converts_calls:
  "converts (PrePIIScrub i1) as_scrub" "converts (PolicyEval i2) as_policy" "converts (JITTokenIssue i3) as_token"
  "converts (BudgetPreCheck i4) as_precheck" "converts (LLMInvoke i5) as_llm" "converts (BudgetRecordSpend i6) as_record"
  "converts (PostSanitize i7) as_post"
  unfolding converts_def
  by (auto simp: as_scrub_def as_policy_def as_token_def as_precheck_def as_llm_def as_record_def as_post_def split: activity_result.splits)

text \<open>
  What becomes of a failure \<open>e0\<close> of \<open>LLMInvoke\<close>: raised as the error that caused it when that is a policy or
  token error, raised as \<open>HITLEscalationError\<close> otherwise, with \<open>e0\<close> as its cause and the status set.
\<close>

definition fatal_cause :: "exn \<Rightarrow> string \<Rightarrow> bool" where
  "fatal_cause e0 ty \<longleftrightarrow> ty \<in> {''PolicyDeniedError'', ''TokenScopeError'', ''TokenExpiredError''} \<and>
     (\<exists>c nr. exc_cause e0 = Some c \<and> exc_cls c = ApplicationError ty nr)"

definition escalated :: "exn \<Rightarrow> exn \<Rightarrow> 'r task_world \<Rightarrow> bool" where
  "escalated e0 e k \<longleftrightarrow> (\<forall>ty. \<not> fatal_cause e0 ty) \<and> exc_cls e = HITLEscalationError \<and> exc_cause e = Some e0 \<and>
     tw_workflow_status (kw_self k) = ''human_intervention_required''"

definition failed :: "exn \<Rightarrow> exn \<Rightarrow> 'r task_world \<Rightarrow> bool" where
  "failed e0 e k \<longleftrightarrow> (\<exists>ty nr. fatal_cause e0 ty \<and> exc_cls e = ApplicationError ty nr) \<and> exc_cause e = Some e0 \<and>
     tw_workflow_status (kw_self k) = ''failed''"

definition llm_gave_up :: "'r executor \<Rightarrow> 'r deps \<Rightarrow> workflow_input \<Rightarrow> exn \<Rightarrow> 'r task_world \<Rightarrow> bool" where
  "llm_gave_up ex D i e0 k \<longleftrightarrow> is_activity_error e0 \<and>
     (\<exists>p t k0. execute_activity ex D LLM_RETRY_POLICY (LLMInvoke (llm_call i p t)) k0 = (Inl e0, k))"

lemma fatal_type_cause:
  "fatal_type (exc_cause e0) = None \<longleftrightarrow> (\<forall>ty. \<not> fatal_cause e0 ty)"
  "fatal_type (exc_cause e0) = Some ty \<longleftrightarrow> fatal_cause e0 ty"
  by (auto simp: fatal_type_def fatal_cause_def fatal_types_def split: option.splits exc_class.splits)

context temporal
begin

lemma call_Inl:
  assumes "call_activity ex D pol c conv k = (Inl e, k')" "converts c conv"
  shows "execute_activity ex D pol c k = (Inl e, k')"
proof -
  consider "execute_activity ex D pol c k = (Inl e, k')"
    | r where "execute_activity ex D pol c k = (Inr r, k')" "conv r = Inl e"
    using assms(1) by (auto simp: call_activity_def bindE_Inl liftE_def)
  then show ?thesis
  proof cases
    case (2 r)
    then have "result_type c r"
      using execute_Inr [OF 2(1)] perform_result_type by blast
    then show ?thesis
      using assms(2) 2(2) by (auto simp: converts_def)
  qed
qed

lemma other_call_Inl:
  "call_activity ex D pol c conv k = (Inl e, k') \<Longrightarrow> converts c conv \<Longrightarrow> other_call i c \<Longrightarrow> other_failed ex D i e k'"
  using call_Inl other_failedI by blast

lemma audit_status:
  assumes "audit_call ex D i ev oc st et ds k = (Inr u, k')" "tw_approval_state (kw_self k) \<noteq> AWAITING_APPROVAL"
  shows "kw_self k' = kw_self k"
  using audit_call_frame(3) [OF assms(1)] assms(2) by (simp add: fold_receive_ignored)

lemma llm_failed_run:
  assumes "(llm_failed ex D i e0 :: ('r task_world, 'b) prog) k = (Inl e, k')" "is_activity_error e0" "tw_approval_state (kw_self k) \<noteq> AWAITING_APPROVAL"
  shows "other_failed ex D i e k' \<or> escalated e0 e k' \<or> failed e0 e k'"
proof (cases "fatal_type (exc_cause e0)")
  case None
  let ?k = "k\<lparr>kw_self := (kw_self k)\<lparr>tw_workflow_status := ''human_intervention_required''\<rparr>\<rparr>"
  obtain r1 k1 where a: "audit_call ex D i ''workflow.hitl_required'' ''error'' ''llm-invoke'' None
      [(''maximum_attempts'', VStr (show_nat (rp_maximum_attempts LLM_RETRY_POLICY))), (''retry_state'', VStr (retry_state e0))] ?k = (r1, k1)"
    by fastforce
  have run: "(escalate ex D i e0 :: ('r task_world, 'b) prog) k = (Inl e, k')"
    using assms(1,2) None by (simp add: llm_failed_def)
  show ?thesis
  proof (cases r1)
    case (Inl e1)
    then show ?thesis
      using run a audit_call_frame(4) [OF a]
      by (auto simp: escalate_def thenE_def bindE_def modify_self_def modifyE_def)
  next
    case (Inr u)
    then show ?thesis
      using run a audit_status [of D i _ _ _ _ _ ?k u k1] assms(3) None [unfolded fatal_type_cause]
      by (auto simp: escalate_def escalated_def thenE_def bindE_def modify_self_def modifyE_def raiseE_def)
  qed
next
  case (Some ty)
  let ?k = "k\<lparr>kw_self := (kw_self k)\<lparr>tw_workflow_status := ''failed''\<rparr>\<rparr>"
  obtain c where c: "exc_cause e0 = Some c" "\<exists>nr. exc_cls c = ApplicationError ty nr" "ty \<in> set fatal_types"
    using Some by (auto simp: fatal_type_def split: option.splits exc_class.splits if_splits)
  obtain r1 k1 where a: "audit_call ex D i ''workflow.failed'' ''error'' ''llm-invoke'' (Some FAILED)
      [(''error_type'', VStr ty), (''reason'', VStr (exc_msg c))] ?k = (r1, k1)"
    by fastforce
  have run: "(fail_workflow ex D i e0 c ty :: ('r task_world, 'b) prog) k = (Inl e, k')"
    using assms(1,2) Some c(1) by (simp add: llm_failed_def)
  show ?thesis
  proof (cases r1)
    case (Inl e1)
    then show ?thesis
      using run a audit_call_frame(4) [OF a]
      by (auto simp: fail_workflow_def thenE_def bindE_def modify_self_def modifyE_def)
  next
    case (Inr u)
    then show ?thesis
      using run a audit_status [of D i _ _ _ _ _ ?k u k1] assms(3) c Some [unfolded fatal_type_cause]
      by (auto simp: fail_workflow_def failed_def thenE_def bindE_def modify_self_def modifyE_def raiseE_def)
  qed
qed

end

lemma keeps_not_awaiting:
  "keepsE (\<lambda>k. tw_approval_state (kw_self k) \<noteq> AWAITING_APPROVAL) (execute_activity ex D pol c)"
  unfolding keepsE_def execute_activity_eq by (simp add: fold_receive_ignored split_beta)

lemma keeps_not_awaiting_call:
  "keepsE (\<lambda>k. tw_approval_state (kw_self k) \<noteq> AWAITING_APPROVAL) (call_activity ex D pol c conv)"
  unfolding call_activity_def by (intro keeps_intros keeps_not_awaiting)

context temporal
begin

lemma invoke_llm_Inl:
  assumes "invoke_llm ex D i p t k = (Inl e, k')" "tw_approval_state (kw_self k) \<noteq> AWAITING_APPROVAL"
  shows "other_failed ex D i e k' \<or> (\<exists>e0 k1. llm_gave_up ex D i e0 k1 \<and> (escalated e0 e k' \<or> failed e0 e k'))"
proof -
  obtain e0 k1 where c: "call_activity ex D LLM_RETRY_POLICY (LLMInvoke (llm_call i p t)) as_llm k = (Inl e0, k1)"
    and l: "(llm_failed ex D i e0 :: ('r task_world, llm_invoke_result) prog) k1 = (Inl e, k')"
    using assms(1) by (auto simp: invoke_llm_def tryE_def split: prod.splits sum.splits)
  have "tw_approval_state (kw_self k1) \<noteq> AWAITING_APPROVAL"
    using keepsE_D [OF keeps_not_awaiting_call, of k ex D LLM_RETRY_POLICY "LLMInvoke (llm_call i p t)" as_llm] assms(2) c by simp
  then show ?thesis
    using llm_failed_run [OF l execute_Inl] call_Inl [OF c converts_calls(5)] execute_Inl unfolding llm_gave_up_def by blast
qed

lemma complete_task_Inl:
  assumes "complete_task ex D i s p t k = (Inl e, k')" "tw_approval_state (kw_self k) \<noteq> AWAITING_APPROVAL"
  shows "other_failed ex D i e k' \<or> (\<exists>e0 k1. llm_gave_up ex D i e0 k1 \<and> (escalated e0 e k' \<or> failed e0 e k'))"
proof -
  have gate: "other_failed ex D i e k'" if "budget_gate ex D i k = (Inl e, k')"
    using that other_call_Inl [OF _ converts_calls(4)]
    by (auto simp: other_call_def budget_gate_def bindE_Inl returnE_def split: option.splits)
  have gate_ok: "tw_approval_state (kw_self k1) \<noteq> AWAITING_APPROVAL" if "budget_gate ex D i k = (Inr c, k1)" for c k1
  proof -
    have "keepsE (\<lambda>k. tw_approval_state (kw_self k) \<noteq> AWAITING_APPROVAL) (budget_gate ex D i)"
      unfolding budget_gate_def by (intro keeps_intros keeps_not_awaiting_call)
    then show ?thesis
      using keepsE_D [of _ _ k] assms(2) that by fastforce
  qed
  have recorded: "other_failed ex D i e k'" if "record_budget ex D i r b k2 = (Inl e, k')" for r b k2
    using that other_call_Inl [OF _ converts_calls(6)]
    by (auto simp: other_call_def record_budget_def bindE_Inl returnE_def split: option.splits)
  have posted: "other_failed ex D i e k'" if "call_activity ex D pol (PostSanitize (post_call i r)) as_post k2 = (Inl e, k')" for pol r k2
    using that converts_calls(7) by (rule other_call_Inl) simp
  consider "budget_gate ex D i k = (Inl e, k')"
    | c k1 where "budget_gate ex D i k = (Inr c, k1)" "invoke_llm ex D i p t k1 = (Inl e, k')"
    | r b k2 where "record_budget ex D i r b k2 = (Inl e, k')"
    | r k2 where "call_activity ex D (retry_policy_of 3 []) (PostSanitize (post_call i r)) as_post k2 = (Inl e, k')"
    using assms(1) unfolding complete_task_def
    by (auto simp: bindE_Inl thenE_def modify_self_def modifyE_def getE_def returnE_def)
  then show ?thesis
    by cases (use gate recorded posted invoke_llm_Inl gate_ok in blast)+
qed

lemma prepare_Inl: "prepare_task ex D i k = (Inl e, k') \<Longrightarrow> other_failed ex D i e k'"
  unfolding prepare_task_def bindE_Inl
  by (auto simp: returnE_def elim!: other_call_Inl intro: converts_calls)

end

text \<open>
  (C20) How a task fails. Whatever the activities do, the workflow raises only one of these. The projected
  spend is malformed and its \<open>InvalidOperation\<close> is raised. Or the last thing that happened is that Temporal gave
  up an activity of this task other than \<open>LLMInvoke\<close>, and its \<open>ActivityError\<close> is raised. Or \<open>LLMInvoke\<close> was
  given up with an \<open>ActivityError\<close> \<open>e0\<close>: that one is never raised itself. When a policy or token error caused it,
  that error is raised with the status \<open>failed\<close>; otherwise \<open>HITLEscalationError\<close> is raised with the status
  \<open>human_intervention_required\<close>; either has \<open>e0\<close> as its cause. In particular no activity returns a result of
  the wrong type.
\<close>

theorem task_failures_typed:
  assumes "temporal ex" and "run_workflow_task ex D i k = (Inl e, k')"
    and "tw_approval_state (kw_self k) = NOT_REQUIRED" "tw_approval_signal (kw_self k) = None"
  shows "other_failed ex D i e k' \<or>
     (\<exists>e0 k1. llm_gave_up ex D i e0 k1 \<and> (escalated e0 e k' \<or> failed e0 e k')) \<or>
     parse_decimal (wi_projected_spend_usd i) = Inl e"
  using assms(2)
proof (cases rule: run_cases)
  case (1 e')
  then show ?thesis using temporal.prepare_Inl [OF assms(1)] by blast
next
  case (3 s p t k1 x e')
  then show ?thesis
    using temporal.gate_run [OF assms(1) 3(4)] prepare_frame [OF 3(1)] assms(3,4) by simp
next
  case (5 s p t k1 x d k2)
  have "(d, gate_state k2) = gate_outcome (gate_decision (kw_inbox k1) (kw_after k1) (of_int (wi_approval_timeout_seconds i)) (kw_waits k1))"
    using temporal.gate_run [OF assms(1) 5(4)] prepare_frame [OF 5(1)] assms(3,4) by simp
  then have "tw_approval_state (kw_self k2) \<noteq> AWAITING_APPROVAL"
    by (auto simp: gate_state_def gate_outcome_def split: option.splits if_splits)
  then show ?thesis
    using temporal.complete_task_Inl [OF assms(1) 5(6)] by blast
next
  case (6 s p t k1 x)
  then show ?thesis
    using temporal.complete_task_Inl [OF assms(1) 6(4)] prepare_frame [OF 6(1)] assms(3) by simp
qed auto

section \<open>A task that is approved and completed\<close>

definition task_input :: "string \<Rightarrow> workflow_input" where
  "task_input task_id = \<lparr>wi_task_id = task_id, wi_prompt = asc ''SSN 123-45-6789'', wi_agent_type = ''hr'',
     wi_requester_id = ''alice'', wi_model = ''m'', wi_max_tokens = 10, wi_temperature = 0, wi_system_prompt = [],
     wi_protect_outbound_request = False, wi_session_id = None, wi_budget_session_id = None, wi_budget_limit_usd = None,
     wi_cost_per_token_usd = ''0.000002'', wi_loop_session_id = None, wi_loop_signal = PROGRESS, wi_loop_token_delta = None,
     wi_loop_max_agent_steps = None, wi_loop_max_token_velocity = None, wi_projected_spend_usd = ''75.00'',
     wi_approval_timeout_seconds = 86400, wi_traceparent = None\<rparr>"

definition task_token_request :: token_request where
  "task_token_request = scoped_token_request ''hr'' ''alice'' None [''llm:complete''] None (Some ''llm:t1'') None"

definition task_table :: jwt_table where
  "task_table = [(''tok'', token_payload task_token_request (str_uuid (demo_uuids 0)) 0 900, token_secret_key default_settings, ''HS256'', [])]"

definition alice_approves :: approval_signal_payload where
  "alice_approves = \<lparr>sg_approver_id = ''alice'', sg_reason = ''ok'', sg_approved = True\<rparr>"

text \<open>The approval reaches the workflow while it waits at the gate, its fifth wait.\<close>

definition demo_task_world :: "(string \<rightharpoonup> rat) task_world" where
  "demo_task_world = \<lparr>kw_services = demo_world, kw_self = new_agent_task_workflow, kw_waits = 0,
     kw_inbox = (\<lambda>n. if n = 4 then [[], [Approve alice_approves]] else []), kw_after = (\<lambda>_ j. 60 * of_nat j), kw_now = of_nat, kw_workflow_id = ''w1'',
     kw_activity_id = show_nat\<rparr>"

lemma demo_task_world_simps:
  "kw_services demo_task_world = demo_world" "kw_waits demo_task_world = 0" "m \<noteq> 4 \<Longrightarrow> kw_inbox demo_task_world m = []"
  "tw_approval_state (kw_self demo_task_world) = NOT_REQUIRED" "tw_approval_signal (kw_self demo_task_world) = None"
  by (simp_all add: demo_task_world_def new_agent_task_workflow_def)

lemma direct_first: "act 1 s = (Inr x, s') \<Longrightarrow> 0 < rp_maximum_attempts pol \<Longrightarrow> direct_executor pol act s = (Inr x, s')"
  by (cases "rp_maximum_attempts pol") (simp_all add: direct_executor_def)

lemma execute_first:
  assumes "perform D \<lparr>ai_attempt = 1, ai_workflow_id = Some (kw_workflow_id k), ai_activity_id = kw_activity_id k (kw_waits k)\<rparr> c
      (kw_services k) = (Inr r, s')" "0 < rp_maximum_attempts pol"
  shows "execute_activity direct_executor D pol c k =
    (Inr r, k\<lparr>kw_services := s', kw_waits := Suc (kw_waits k), kw_self := fold receive (concat (kw_inbox k (kw_waits k))) (kw_self k)\<rparr>)"
  using direct_first [of "scheduled D c k" "kw_services k" r s' pol] assms by (simp add: execute_activity_eq scheduled_def)


lemmas task_eval = activity_span_run require_task_id_def demo_eval lifecycle_log_run stage_log_run audit_name_def
  like_simps [OF like_ended] like_simps [OF like_opened] Let_def mapE_result_def

lemma task_input_simps [simp]:
  "wi_task_id (task_input t) = t" "wi_prompt (task_input t) = asc ''SSN 123-45-6789''" "wi_agent_type (task_input t) = ''hr''"
  "wi_requester_id (task_input t) = ''alice''" "wi_protect_outbound_request (task_input t) = False"
  "wi_budget_session_id (task_input t) = None" "wi_projected_spend_usd (task_input t) = ''75.00''" "wi_session_id (task_input t) = None"
  "wi_model (task_input t) = ''m''"
  by (simp_all add: task_input_def)

lemma pre_pii_scrub_ok:
  assumes "wi_task_id i \<noteq> []" "check_prompt_injection (dp_db D) (wi_prompt i) = Inr ()"
  shows "\<exists>x w'. pre_pii_scrub D i w = (Inr x, w') \<and> sv_session w' = sv_session w \<and> sv_http w' = sv_http w"
  using assms by (simp add: pre_pii_scrub_def task_eval)

lemma policy_eval_ok:
  assumes "pe_task_id i \<noteq> []" "sv_http w = sv_http demo_world"
  shows "\<exists>x w'. policy_eval D i w = (Inr x, w') \<and> sv_session w' = sv_session w \<and>
    sv_http w' = (sv_http demo_world)\<lparr>ht_sent := [policy_request (dp_opa D) ''agent_access'' (activity_policy_input i)]\<rparr>"
  using assms by (simp add: policy_eval_def policy_decision_def task_eval demo_evaluate whenE_def)

lemma post_sanitize_ok: "po_task_id i \<noteq> [] \<Longrightarrow> \<exists>x w'. post_sanitize D i w = (Inr x, w') \<and> sv_http w' = sv_http w"
  by (simp add: post_sanitize_def task_eval)

definition task_issued :: "(string \<rightharpoonup> rat) session_manager" where
  "task_issued = demo_manager\<lparr>sm_ticks := 1, sm_uuid_ticks := 1, sm_rotation_index := [''llm:t1'' \<mapsto> str_uuid (demo_uuids 0)]\<rparr>"

lemma task_issue: "issue_token (table_libs task_table) default_settings task_token_request demo_manager = (Inr ''tok'', task_issued)"
proof -
  let ?q = task_token_request
  have "rq_agent_type ?q \<noteq> []" "rq_requester_id ?q \<noteq> []" "rq_rotation_key ?q = Some ''llm:t1''"
    by (simp_all add: task_token_request_def scoped_token_request_def)
  moreover have "thumbprint_of (table_libs task_table) ?q = Inr None" "expiry_of default_settings ?q = 900"
      "signing_key default_settings = Inr (token_secret_key default_settings)" "token_algorithm default_settings = ''HS256''"
    by (simp_all add: thumbprint_of_def expiry_of_def task_token_request_def scoped_token_request_def default_settings_def
        signing_key_def starts_with_HS_def)
  moreover have "jwt_encode (table_libs task_table) (token_payload ?q (str_uuid (demo_uuids 0)) 0 900)
      (token_secret_key default_settings) ''HS256'' [] = Inr ''tok''"
    by (simp add: table_libs_def task_table_def)
  ultimately show ?thesis
    by (simp add: issue_token_steps demo_manager_def task_issued_def rotate_out_def rotate_in_def session_defs full_payload_def)
qed

lemma task_validate:
  "\<exists>claims. validate_token (table_libs task_table) default_settings ''tok'' task_issued = (Inr claims, after_validation task_issued)"
proof -
  have vk: "verification_key (table_libs task_table) default_settings = Inr (token_secret_key default_settings)"
    by (simp add: verification_key_def default_settings_def starts_with_HS_def)
  have dec: "jwt_decode (table_libs task_table) ''tok'' (token_secret_key default_settings) (token_algorithm default_settings)
      (sm_clock task_issued (sm_ticks task_issued)) = Inr (full_payload task_token_request (str_uuid (demo_uuids 0)) 0 900 None)"
    by (simp add: table_libs_def task_table_def default_settings_def demo_pair_def starts_with_HS_def live_at_def token_payload_def
        full_payload_def task_issued_def demo_manager_def)
  show ?thesis
    using validate_token_decoded [OF vk dec, of "str_uuid (demo_uuids 0)"]
    by (simp add: token_claims_of_payload) (simp add: after_validation_def task_issued_def demo_manager_def)
qed

lemma jit_token_issue_ok:
  assumes "sv_session w = demo_manager"
  shows "\<exists>x w'. jit_token_issue (demo_deps task_table) (token_call (task_input ''t1'')) w = (Inr x, w') \<and> sv_http w' = sv_http w"
proof -
  have q: "scoped_token_request ''hr'' ''alice'' None [''llm:complete''] None (Some ''llm:t1'') None = task_token_request"
    by (simp add: task_token_request_def)
  obtain claims where "validate_token (table_libs task_table) default_settings ''tok'' task_issued = (Inr claims, after_validation task_issued)"
    using task_validate by blast
  then show ?thesis
    using assms task_issue
    by (simp add: jit_token_issue_def token_call_def task_eval q demo_deps_def split_beta)
qed

lemma llm_invoke_ok:
  assumes "sv_http w = (sv_http demo_world)\<lparr>ht_sent := [x]\<rparr>" "ai_attempt nfo = 1"
  shows "\<exists>r w'. llm_invoke (demo_deps task_table) nfo (llm_call (task_input ''t1'') p tok) w = (Inr r, w') \<and>
    length (ht_sent (sv_http w')) = 2"
proof -
  let ?q = "invoke_request (llm_call (task_input ''t1'') p tok) (adapter_metadata (jr_token tok) None)"
  have "authorize_outbound (demo_deps task_table) (LocalLlamaAdapter ''http://l'' ''m'') ?q b v = (Inr (), v)" for b v
    by (simp add: authorize_outbound_def require_sender_constrained_request_def protected_def invoke_request_def
        adapter_metadata_def dict_update_def default_settings_def demo_deps_def demo_eval)
  moreover have "\<exists>r. outbound_response (table_libs task_table) (LocalLlamaAdapter ''http://l'' ''m'') ?q (projr (hs_json chat_reply)) = Inr r"
    by (simp add: outbound_response_def local_llama_response_def chat_reply_def first_choice_def json_item_def json_first_def dict_get_def
        json_get_def chat_response_def llm_response_of_def v_text_def v_int_def v_float_def v_str_def)
  moreover have "dp_adapter (demo_deps task_table) = LocalLlamaAdapter ''http://l'' ''m''" "dp_libs (demo_deps task_table) = table_libs task_table"
    by (simp_all add: demo_deps_def)
  moreover have "iv_task_id (llm_call (task_input ''t1'') p tok) = ''t1''" "\<not> iv_protect_outbound_request (llm_call (task_input ''t1'') p tok)"
      "iv_token (llm_call (task_input ''t1'') p tok) = jr_token tok"
    by (simp_all add: llm_call_def)
  ultimately show ?thesis
    using assms
    by (auto simp: llm_invoke_def task_eval any_adapter.run_eq post_json_def http_post_def raise_for_status_def chat_reply_def demo_run_simps)
qed

text \<open>An activity whose first attempt succeeds, when no signal comes in.\<close>

lemma call_first:
  assumes "perform D \<lparr>ai_attempt = 1, ai_workflow_id = Some (kw_workflow_id k), ai_activity_id = kw_activity_id k (kw_waits k)\<rparr> c
      (kw_services k) = (Inr r, s')" "0 < rp_maximum_attempts pol" "conv r = Inr x" "kw_inbox k (kw_waits k) = []"
  shows "call_activity direct_executor D pol c conv k = (Inr x, k\<lparr>kw_services := s', kw_waits := Suc (kw_waits k)\<rparr>)"
  using execute_first [OF assms(1,2)] assms(3,4) by (simp add: call_activity_def bindE_def liftE_def)

lemma audit_call_ok:
  assumes "kw_inbox k (kw_waits k) = []" "audit_name ev"
  shows "\<exists>s'. audit_call direct_executor D i ev oc st (Some et) ds k = (Inr (), k\<lparr>kw_services := s', kw_waits := Suc (kw_waits k)\<rparr>) \<and>
    sv_http s' = sv_http (kw_services k)"
proof -
  let ?c = "WorkflowAudit \<lparr>wa_event = ev, wa_outcome = oc, wa_stage = st, wa_task_id = wi_task_id i, wa_agent_type = wi_agent_type i,
      wa_session_id = wi_session_id i, wa_workflow_status = tw_workflow_status (kw_self k), wa_event_type = Some (lifecycle_value et),
      wa_details = ds, wa_traceparent = None\<rparr>"
  have "\<exists>s'. perform D \<lparr>ai_attempt = 1, ai_workflow_id = Some (kw_workflow_id k), ai_activity_id = kw_activity_id k (kw_waits k)\<rparr> ?c
      (kw_services k) = (Inr NoResult, s') \<and> sv_http s' = sv_http (kw_services k)"
    using assms(2) by (simp add: mapE_result_def bindE_def returnE_def record_event_def on_audit_lifecycle)
  then obtain s' where "perform D \<lparr>ai_attempt = 1, ai_workflow_id = Some (kw_workflow_id k), ai_activity_id = kw_activity_id k (kw_waits k)\<rparr> ?c
      (kw_services k) = (Inr NoResult, s')" "sv_http s' = sv_http (kw_services k)"
    by blast
  with execute_first [OF this(1), of "retry_policy_of 3 []"] assms(1) show ?thesis
    by (intro exI [of _ s']) (simp add: audit_call_def bindE_def thenE_def getE_def returnE_def retry_policy_of_def)
qed

lemma demo_prepare:
  assumes "kw_services k = demo_world" "\<And>m. m < 3 \<Longrightarrow> kw_inbox k (kw_waits k + m) = []"
  shows "\<exists>x s'. prepare_task direct_executor (demo_deps task_table) (task_input ''t1'') k
      = (Inr x, k\<lparr>kw_services := s', kw_waits := kw_waits k + 3\<rparr>) \<and>
    (\<exists>q. sv_http s' = (sv_http demo_world)\<lparr>ht_sent := [q]\<rparr>)"
proof -
  let ?D = "demo_deps task_table" and ?i = "task_input ''t1''"
  have injection: "check_prompt_injection (dp_db ?D) (wi_prompt ?i) = Inr ()"
    using demo_injection [of None] by (simp add: demo_deps_def demo_run_request_def)
  obtain x1 s1 where 1: "pre_pii_scrub ?D ?i demo_world = (Inr x1, s1)" "sv_session s1 = demo_manager" "sv_http s1 = sv_http demo_world"
    using pre_pii_scrub_ok [OF _ injection, of demo_world] by (auto simp: demo_run_simps)
  obtain x2 s2 where 2: "policy_eval ?D (policy_call ?i x1) s1 = (Inr x2, s2)" "sv_session s2 = demo_manager"
      "\<exists>q. sv_http s2 = (sv_http demo_world)\<lparr>ht_sent := [q]\<rparr>"
    using policy_eval_ok [of "policy_call ?i x1" s1 ?D] 1 by (auto simp: policy_call_def)
  obtain x3 s3 where 3: "jit_token_issue ?D (token_call ?i) s2 = (Inr x3, s3)" "sv_http s3 = sv_http s2"
    using jit_token_issue_ok [OF 2(2)] by blast
  let ?k1 = "k\<lparr>kw_services := s1, kw_waits := Suc (kw_waits k)\<rparr>"
  let ?k2 = "k\<lparr>kw_services := s2, kw_waits := Suc (Suc (kw_waits k))\<rparr>"
  have "call_activity direct_executor ?D (retry_policy_of 3 []) (PrePIIScrub ?i) as_scrub k = (Inr x1, ?k1)"
    using call_first [of ?D k "PrePIIScrub ?i" "PrePIIScrubResult x1" s1 "retry_policy_of 3 []" as_scrub x1] 1 assms(2) [of 0] assms(1)
    by (simp add: mapE_result_def bindE_def returnE_def as_scrub_def retry_policy_of_def)
  moreover have "call_activity direct_executor ?D (retry_policy_of 1 [''PolicyDeniedError'']) (PolicyEval (policy_call ?i x1)) as_policy ?k1 = (Inr x2, ?k2)"
    using call_first [of ?D ?k1 "PolicyEval (policy_call ?i x1)" "PolicyEvalResult x2" s2 "retry_policy_of 1 [''PolicyDeniedError'']" as_policy x2]
      2 assms(2) [of 1]
    by (simp add: mapE_result_def bindE_def returnE_def as_policy_def retry_policy_of_def)
  moreover have "call_activity direct_executor ?D (retry_policy_of 3 []) (JITTokenIssue (token_call ?i)) as_token ?k2
      = (Inr x3, k\<lparr>kw_services := s3, kw_waits := kw_waits k + 3\<rparr>)"
    using call_first [of ?D ?k2 "JITTokenIssue (token_call ?i)" "JITTokenResult x3" s3 "retry_policy_of 3 []" as_token x3]
      3 assms(2) [of 2]
    by (simp add: mapE_result_def bindE_def returnE_def as_token_def retry_policy_of_def eval_nat_numeral)
  ultimately have "prepare_task direct_executor ?D ?i k = (Inr (x1, x2, x3), k\<lparr>kw_services := s3, kw_waits := kw_waits k + 3\<rparr>)"
    by (simp add: prepare_task_def bindE_def returnE_def)
  then show ?thesis
    using 2(3) 3(2) by (intro exI [of _ "(x1, x2, x3)"] exI [of _ s3]) simp
qed

lemma demo_gate:
  assumes "kw_inbox k = kw_inbox demo_task_world" "kw_waits k = 3" "tw_approval_signal (kw_self k) = None"
    "kw_after k = kw_after demo_task_world" "60 < wi_approval_timeout_seconds i"
  shows "\<exists>k'. await_pending_approval direct_executor D i k = (Inr alice_approves, k') \<and>
    sv_http (kw_services k') = sv_http (kw_services k) \<and> kw_inbox k' = kw_inbox k \<and> kw_waits k' = 6"
proof -
  let ?k1 = "k\<lparr>kw_self := (kw_self k)\<lparr>tw_approval_state := AWAITING_APPROVAL,
      tw_workflow_status := workflow_status_value HUMAN_INTERVENTION_REQUIRED, tw_pending_since := Some (kw_now k (kw_waits k))\<rparr>\<rparr>"
  obtain s1 where s1: "audit_call direct_executor D i ''workflow.pending_approval'' ''allow'' ''pending-approval'' (Some PENDING_APPROVAL)
      [(''projected_spend_usd'', VStr (wi_projected_spend_usd i))] ?k1 = (Inr (), ?k1\<lparr>kw_services := s1, kw_waits := Suc 3\<rparr>)"
      "sv_http s1 = sv_http (kw_services k)"
    using audit_call_ok [of ?k1 "''workflow.pending_approval''"] assms by (fastforce simp: demo_task_world_def audit_name_def)
  let ?k2 = "?k1\<lparr>kw_services := s1, kw_waits := 5,
      kw_self := (kw_self ?k1)\<lparr>tw_approval_signal := Some alice_approves, tw_approval_state := APPROVAL_APPROVED,
        tw_workflow_status := workflow_status_value RUNNING, tw_pending_since := None\<rparr>\<rparr>"
  obtain s2 where s2: "audit_call direct_executor D i ''workflow.approved'' ''allow'' ''pending-approval'' (Some APPROVED)
      [(''approver_id'', VStr (sg_approver_id alice_approves)), (''reason'', VStr (sg_reason alice_approves))] ?k2
      = (Inr (), ?k2\<lparr>kw_services := s2, kw_waits := 6\<rparr>)" "sv_http s2 = sv_http (kw_services k)"
    using audit_call_ok [of ?k2 "''workflow.approved''" D i "''allow''" "''pending-approval''" APPROVED
        "[(''approver_id'', VStr (sg_approver_id alice_approves)), (''reason'', VStr (sg_reason alice_approves))]"] assms s1(2)
    by (fastforce simp: demo_task_world_def audit_name_def)
  have late: "(60::rat) < of_int (wi_approval_timeout_seconds i)" "(0::rat) < of_int (wi_approval_timeout_seconds i)"
    using assms(5) by linarith+
  have "wait_for_signal (of_int (wi_approval_timeout_seconds i)) (?k1\<lparr>kw_services := s1, kw_waits := Suc 3\<rparr>)
      = (Inr (), ?k1\<lparr>kw_services := s1, kw_waits := 5, kw_self := (kw_self ?k1)\<lparr>tw_approval_signal := Some alice_approves\<rparr>\<rparr>)"
    using assms late by (simp add: wait_for_signal_def in_time_def demo_task_world_def approve_def)
  then show ?thesis
    using s1 s2 assms
    by (simp add: await_pending_approval_def decided_def alice_approves_def demo_eval modify_self_def modifyE_def getE_def)
qed

lemma demo_completion:
  assumes "sv_http (kw_services k) = (sv_http demo_world)\<lparr>ht_sent := [q]\<rparr>" "\<And>m. kw_waits k \<le> m \<Longrightarrow> kw_inbox k m = []"
  shows "\<exists>out k'. complete_task direct_executor (demo_deps task_table) (task_input ''t1'') sc p tok k = (Inr out, k') \<and>
    length (ht_sent (client k')) = 2"
proof -
  let ?D = "demo_deps task_table" and ?i = "task_input ''t1''"
  let ?nfo = "\<lparr>ai_attempt = 1, ai_workflow_id = Some (kw_workflow_id k), ai_activity_id = kw_activity_id k (kw_waits k)\<rparr>"
  obtain r s1 where "llm_invoke ?D ?nfo (llm_call ?i p tok) (kw_services k) = (Inr r, s1)" and s1: "length (ht_sent (sv_http s1)) = 2"
    using llm_invoke_ok [OF assms(1), of ?nfo p tok] by auto
  then have l: "call_activity direct_executor ?D LLM_RETRY_POLICY (LLMInvoke (llm_call ?i p tok)) as_llm k
      = (Inr r, k\<lparr>kw_services := s1, kw_waits := Suc (kw_waits k)\<rparr>)"
    using call_first [of ?D k "LLMInvoke (llm_call ?i p tok)" "LLMInvokeResult r" s1 LLM_RETRY_POLICY as_llm r] assms(2)
    by (simp add: mapE_result_def bindE_def returnE_def as_llm_def LLM_RETRY_POLICY_def)
  let ?k1 = "k\<lparr>kw_services := s1, kw_waits := Suc (kw_waits k)\<rparr>"
  obtain y s2 where y: "post_sanitize ?D (post_call ?i r) s1 = (Inr y, s2)" "sv_http s2 = sv_http s1"
    using post_sanitize_ok [of "post_call ?i r"] by (fastforce simp: post_call_def)
  then have "call_activity direct_executor ?D (retry_policy_of 3 []) (PostSanitize (post_call ?i r)) as_post ?k1
      = (Inr y, ?k1\<lparr>kw_services := s2, kw_waits := Suc (Suc (kw_waits k))\<rparr>)"
    using call_first [of ?D ?k1 "PostSanitize (post_call ?i r)" "PostSanitizeResult y" s2 "retry_policy_of 3 []" as_post y] assms(2)
    by (simp add: mapE_result_def bindE_def returnE_def as_post_def retry_policy_of_def)
  then show ?thesis
    using l s1 y(2) by (simp add: client_def complete_task_def budget_gate_def record_budget_def invoke_llm_def demo_eval modify_self_def modifyE_def getE_def)
qed

lemma demo_spend: "parse_decimal ''75.00'' = Inr (Dec 7500 (- 2))" "dval (Dec 7500 (- 2)) = 75"
  subgoal by code_simp
  by (simp add: dval_def power_int_def power2_eq_square)

lemma demo_task_completes:
  "\<exists>out k'. run_workflow_task direct_executor (demo_deps task_table) (task_input ''t1'') demo_task_world = (Inr out, k') \<and>
     length (ht_sent (client k')) = 2"
proof -
  let ?D = "demo_deps task_table" and ?i = "task_input ''t1''" and ?k = "started (task_input ''t1'') demo_task_world"
  obtain x s1 q where p: "prepare_task direct_executor ?D ?i ?k = (Inr x, ?k\<lparr>kw_services := s1, kw_waits := 3\<rparr>)"
    and s1: "sv_http s1 = (sv_http demo_world)\<lparr>ht_sent := [q]\<rparr>"
  proof -
    have "kw_services ?k = demo_world"
      by (simp add: started_def demo_task_world_simps)
    then show thesis
      using demo_prepare [of ?k] that by (fastforce simp: demo_task_world_simps)
  qed
  obtain k' where g: "await_pending_approval direct_executor ?D ?i (?k\<lparr>kw_services := s1, kw_waits := 3\<rparr>) = (Inr alice_approves, k')"
    and k': "sv_http (kw_services k') = sv_http s1" "kw_inbox k' = kw_inbox demo_task_world" "kw_waits k' = 6"
    using demo_gate [of "?k\<lparr>kw_services := s1, kw_waits := 3\<rparr>" ?i ?D] by (auto simp: demo_task_world_simps task_input_def)
  have "\<exists>out k''. complete_task direct_executor ?D ?i (fst x) (fst (snd x)) (snd (snd x)) k' = (Inr out, k'') \<and> length (ht_sent (client k'')) = 2"
    by (rule demo_completion) (use k' s1 in \<open>auto simp: demo_task_world_def\<close>)
  then show ?thesis
    using p g demo_spend threshold
    by (simp add: run_workflow_task_def started_def demo_eval modify_self_def modifyE_def split_beta alice_approves_def)
qed

lemma demo_deps_db: "unicode_ok (dp_db (demo_deps tbl))"
  by (simp add: demo_deps_def ascii_db_ok)

lemma demo_gate_decision: "gate_decision (kw_inbox demo_task_world) (kw_after demo_task_world) (of_int (wi_approval_timeout_seconds (task_input t))) (kw_waits demo_task_world + 3) = Some alice_approves"
  by (simp add: gate_decision_def demo_task_world_def in_time_def task_input_def)

theorem task_requests_governed_witness:
  "\<exists>out k' prompt qs. run_workflow_task direct_executor (demo_deps task_table) (task_input ''t1'') demo_task_world = (Inr out, k') \<and>
     ht_sent (client k') = task_policy_request (demo_deps task_table) (task_input ''t1'') # qs \<and> length qs \<le> 5 \<and>
     set qs \<subseteq> {task_completion_request (demo_deps task_table) (task_input ''t1'') prompt} \<and> qs \<noteq> []"
proof -
  let ?D = "demo_deps task_table" and ?i = "task_input ''t1''"
  obtain out k' where r: "run_workflow_task direct_executor ?D ?i demo_task_world = (Inr out, k')" "length (ht_sent (client k')) = 2"
    using demo_task_completes by blast
  obtain ps qs prompt where sent: "ht_sent (client k') = ps @ qs" "length ps \<le> 1" "set ps \<subseteq> {task_policy_request ?D ?i}"
      "length qs \<le> 5" "set qs \<subseteq> {task_completion_request ?D ?i prompt}" "qs \<noteq> [] \<longrightarrow> ps \<noteq> []"
    using task_requests_governed [OF direct.temporal_axioms demo_deps_db r(1)] by (auto simp: client_def demo_task_world_simps demo_run_simps)
  then have "ps = [task_policy_request ?D ?i]" "qs \<noteq> []"
    using r(2) by (cases ps; auto)+
  with sent r show ?thesis
    by (intro exI [of _ out] exI [of _ k'] exI [of _ prompt] exI [of _ qs]) simp
qed

theorem approval_gate_decides_witness:
  "\<exists>out k'. run_workflow_task direct_executor (demo_deps task_table) (task_input ''t1'') demo_task_world = (Inr out, k') \<and>
     wo_workflow_status out = ''completed'' \<and> wo_approval_state out = ''approved''"
proof -
  obtain out k' where r: "run_workflow_task direct_executor (demo_deps task_table) (task_input ''t1'') demo_task_world = (Inr out, k')"
    using demo_task_completes by blast
  have "parse_decimal (wi_projected_spend_usd (task_input ''t1'')) = Inr (Dec 7500 (- 2))" "50 < dval (Dec 7500 (- 2))"
    using demo_spend by simp_all
  from approval_gate_decides [OF direct.temporal_axioms r demo_task_world_simps(4,5) this demo_gate_decision [symmetric]] r
  show ?thesis
    by (auto simp: refuses_def alice_approves_def)
qed

theorem task_output_clean_witness:
  "\<exists>out k'. run_workflow_task direct_executor (demo_deps task_table) (task_input ''t1'') demo_task_world = (Inr out, k') \<and>
     pii_free ascii_db (wo_sanitized_prompt out)"
proof -
  obtain out k' where r: "run_workflow_task direct_executor (demo_deps task_table) (task_input ''t1'') demo_task_world = (Inr out, k')"
    using demo_task_completes by blast
  from task_output_clean [OF direct.temporal_axioms demo_deps_db r demo_task_world_simps(4,5)] r
  show ?thesis
    by (auto simp: demo_deps_def)
qed

text \<open>A task without a task id: all three attempts of the first activity fail.\<close>

lemma bindE_fails: "\<exists>e w'. p w = (Inl e, w') \<Longrightarrow> \<exists>e w'. bindE p f w = (Inl e, w')"
  by (auto simp: bindE_def)

lemma missing_task_id_fails:
  "\<exists>e k'. run_workflow_task direct_executor D (task_input []) k = (Inl e, k')"
proof -
  let ?act = "\<lambda>k. scheduled D (PrePIIScrub (task_input [])) k"
  have "\<exists>e w'. pre_pii_scrub D (task_input []) w = (Inl e, w')" for w
    unfolding pre_pii_scrub_def
    by (rule bindE_fails) (auto simp: require_task_id_def bindE_def thenE_def raiseE_def split: prod.splits sum.splits)
  then have "\<exists>e w'. ?act k n w = (Inl e, w')" for k n w
    by (simp add: scheduled_def mapE_result_def bindE_fails)
  then have attempts: "\<exists>e w'. run_attempts f pol (?act k) n w = (Inl e, w')" for f pol k n w
  proof (induction f arbitrary: n w)
    case (Suc f)
    obtain e w' where "?act k n w = (Inl e, w')"
      using Suc.prems by blast
    then show ?case
      using Suc.IH [OF Suc.prems] by simp
  qed simp
  have "\<exists>e k'. execute_activity direct_executor D pol (PrePIIScrub (task_input [])) k = (Inl e, k')" for pol k
    using attempts [of "rp_maximum_attempts pol" pol k 1 "kw_services k"] by (auto simp: execute_activity_eq direct_executor_def)
  then have "\<exists>e k'. prepare_task direct_executor D (task_input []) k = (Inl e, k')" for k
    unfolding prepare_task_def call_activity_def by (intro bindE_fails) blast
  then show ?thesis
    by (simp add: run_workflow_task_def thenE_def modify_self_def modifyE_def bindE_fails bindE_def [of "\<lambda>s. (Inr (), f s)" for f])
qed

theorem task_failures_typed_witness:
  "\<exists>e k'. run_workflow_task direct_executor (demo_deps []) (task_input []) demo_task_world = (Inl e, k') \<and>
     (other_failed direct_executor (demo_deps []) (task_input []) e k' \<or>
      (\<exists>e0 k1. llm_gave_up direct_executor (demo_deps []) (task_input []) e0 k1 \<and> (escalated e0 e k' \<or> failed e0 e k')))"
proof -
  obtain e k' where r: "run_workflow_task direct_executor (demo_deps []) (task_input []) demo_task_world = (Inl e, k')"
    using missing_task_id_fails by blast
  from task_failures_typed [OF direct.temporal_axioms r demo_task_world_simps(4,5)] r show ?thesis
    by (auto simp: demo_spend)
qed

end
