(* ===== verification/TaskLiveness.thy ===== *)
theory TaskLiveness
  imports TaskSafety
begin

text \<open>
  Two limits of what a run of the workflow checks: the budget of a session starts at zero in every run,
  and without sender constraints the token of the task is never looked at again.
\<close>

section \<open>The budget of a run\<close>

lemma restored_empty:
  "restore_from_history u a d [] b = (Inr (new_budget_session u a d), fresh_registry u a d b)"
  by (simp add: restore_from_history_replays thenE_def bindE_def returnE_def require_session_found fresh_registry_def)

lemma fresh_not_exhausted: "0 < dval d \<Longrightarrow> \<not> exhausted (new_budget_session u a d)"
  by (simp add: exhausted_def new_budget_session_def)

lemma budget_pre_check_empty:
  assumes "bp_task_id i \<noteq> []" "bp_history i = []" "parse_uuid (bp_budget_session_id i) = Inr u"
    "parse_decimal (bp_budget_limit_usd i) = Inr d" "0 < dval d"
  shows "\<exists>w'. budget_pre_check i w = (Inr (serialize (new_budget_session u (bp_agent_type i) d)), w') \<and>
    be_sessions (sv_budget w') u = Some (new_budget_session u (bp_agent_type i) d)"
proof -
  let ?s = "new_budget_session u (bp_agent_type i) d"
  let ?b = "fresh_registry u (bp_agent_type i) d ((sv_budget w)\<lparr>be_audit := sv_audit (opened w)\<rparr>)"
  let ?w1 = "(opened w)\<lparr>sv_budget := ?b, sv_audit := be_audit ?b\<rparr>"
  have b: "be_sessions ?b u = Some ?s"
    by (simp add: fresh_registry_def)
  have restore: "restore_budget_session (bp_budget_session_id i) (bp_agent_type i) (bp_budget_limit_usd i) [] (opened w) = (Inr (u, ?s), ?w1)"
    using assms(3,4) by (simp add: restore_budget_session_def bindE_def liftE_def returnE_def on_budget_def zoomE_def restored_empty
        like_simps [OF like_opened])
  have "be_sessions (?b\<lparr>be_audit := l\<rparr>) u = Some ?s" for l
    using b by simp
  then have check: "on_budget (check_budget u) ?w1 = (Inr (), ?w1)"
    using check_budget_open [OF _ fresh_not_exhausted [OF assms(5)], of ?b u u "bp_agent_type i"] b
    by (simp add: on_budget_def zoomE_def)
  show ?thesis
    using assms(1,2) restore check b
    by (simp add: budget_pre_check_def activity_span_run require_task_id_def bindE_def thenE_def tryE_def returnE_def
        stage_log_run audit_name_def like_simps [OF like_ended])
qed

text \<open>
  (C36) The budget of a session starts at zero in every run. Whatever the session has spent before, even
  beyond its limit, the pre-check of a run with a positive limit passes and reports a cost of zero,
  because the workflow hands over an empty history and the session is rebuilt from it.
\<close>

theorem workflow_budget_starts_at_zero:
  assumes "wi_task_id i \<noteq> ''''" and "wi_budget_session_id i = Some sid" and "wi_budget_limit_usd i = Some limit"
    and "parse_uuid sid = Inr u" and "parse_decimal limit = Inr d" and "0 < dval d"
  shows "\<exists>k'. budget_gate direct_executor D i k = (Inr (Some ''0''), k') \<and>
    (\<exists>s. be_sessions (sv_budget (kw_services k')) u = Some s \<and> dval (bs_cost_usd s) = 0 \<and> bs_applied_operation_ids s = {})"
proof -
  let ?j = "\<lparr>bp_task_id = wi_task_id i, bp_agent_type = wi_agent_type i, bp_budget_session_id = sid,
      bp_budget_limit_usd = limit, bp_history = [], bp_traceparent = wi_traceparent i\<rparr>"
  let ?s = "new_budget_session u (wi_agent_type i) d"
  obtain w' where w': "budget_pre_check ?j (kw_services k) = (Inr (serialize ?s), w')" "be_sessions (sv_budget w') u = Some ?s"
    using budget_pre_check_empty [of ?j u d "kw_services k"] assms by auto
  then have "perform D \<lparr>ai_attempt = 1, ai_workflow_id = Some (kw_workflow_id k), ai_activity_id = kw_activity_id k (kw_waits k)\<rparr>
      (BudgetPreCheck ?j) (kw_services k) = (Inr (BudgetPreCheckResult (serialize ?s)), w')"
    by (simp add: mapE_result_def bindE_def returnE_def)
  from execute_first [OF this, of "retry_policy_of 1 [''BudgetExceededError'']"]
  obtain k' where e: "execute_activity direct_executor D (retry_policy_of 1 [''BudgetExceededError'']) (BudgetPreCheck ?j) k
      = (Inr (BudgetPreCheckResult (serialize ?s)), k')" "kw_services k' = w'"
    by (simp add: retry_policy_of_def)
  have "bn_cost_usd (serialize ?s) = dec_to_string dzero"
    by (simp add: serialize_def new_budget_session_def)
  moreover have "dec_to_string dzero = ''0''"
    by code_simp
  ultimately have "budget_gate direct_executor D i k = (Inr (Some ''0''), k')"
    using e(1) assms(2,3) by (simp add: budget_gate_def call_activity_def bindE_def liftE_def as_precheck_def returnE_def)
  then show ?thesis
    using e(2) w'(2) by (auto simp: new_budget_session_def)
qed

theorem workflow_budget_starts_at_zero_witness:
  "\<exists>k'. budget_gate direct_executor (demo_deps [])
       ((task_input ''t1'')\<lparr>wi_budget_session_id := Some (str_uuid demo_session_id), wi_budget_limit_usd := Some ''1''\<rparr>)
       (demo_task_world\<lparr>kw_services := demo_world\<lparr>sv_budget := demo_enforcer\<rparr>\<rparr>) = (Inr (Some ''0''), k') \<and>
     exhausted spent_session \<and> be_sessions demo_enforcer demo_session_id = Some spent_session"
proof -
  let ?i = "(task_input ''t1'')\<lparr>wi_budget_session_id := Some (str_uuid demo_session_id), wi_budget_limit_usd := Some ''1''\<rparr>"
  have u: "parse_uuid (str_uuid demo_session_id) = Inr demo_session_id"
    by code_simp
  have d: "parse_decimal ''1'' = Inr (Dec 1 0)"
    by code_simp
  have "exhausted spent_session"
    by (simp add: exhausted_def spent_session_def dval_def power_int_def power2_eq_square)
  then show ?thesis
    using workflow_budget_starts_at_zero [of ?i "str_uuid demo_session_id" "''1''" demo_session_id "Dec 1 0" "demo_deps []"
        "demo_task_world\<lparr>kw_services := demo_world\<lparr>sv_budget := demo_enforcer\<rparr>\<rparr>"] u d demo_enforcer_session
    by (auto simp: task_input_def dval_def)
qed


section \<open>The token of a run\<close>

lemma unprotected_authorised: "\<not> protected (dp_cfg D) q \<Longrightarrow> authorize_outbound D a q b = returnE ()"
  by (rule ext) (simp add: authorize_outbound_def require_sender_constrained_request_def bindE_def tryE_def on_session_def zoomE_def returnE_def)

lemma outbound_response_metadata: "outbound_response lib a (q\<lparr>lq_metadata := md\<rparr>) = outbound_response lib a q"
  by (rule ext) (simp add: outbound_response_def chosen_model_def split: adapter.split)

lemma unprotected_complete:
  assumes "\<not> protected (dp_cfg D) q" "\<not> protected (dp_cfg D) (q\<lparr>lq_metadata := md\<rparr>)"
  shows "complete D (q\<lparr>lq_metadata := md\<rparr>) = complete D q"
  using assms by (simp add: any_adapter.run_eq unprotected_authorised outbound_metadata outbound_response_metadata)

text \<open>
  The token of a task does not authorise its completion. On the first attempt of a task that does
  not ask for sender constraints, in an installation that does not require them, the outcome of
  \<open>LLMInvoke\<close> and all it does are the same for every token, be it expired, revoked or no token at all.
\<close>

theorem unprotected_invocation_ignores_token:
  assumes "\<not> iv_protect_outbound_request i" and "\<not> require_sender_constrained_tokens (dp_cfg D)" and "ai_attempt nfo = 1"
  shows "llm_invoke D nfo (i\<lparr>iv_token := token\<rparr>) = llm_invoke D nfo i"
proof -
  have "\<not> protected (dp_cfg D) (invoke_request i (adapter_metadata t None))" for t
    using assms(2) by (simp add: protected_def invoke_request_def adapter_metadata_def dict_update_def)
  then have "complete D (invoke_request i (adapter_metadata token None)) = complete D (invoke_request i (adapter_metadata (iv_token i) None))"
    using unprotected_complete [of D "invoke_request i (adapter_metadata (iv_token i) None)" "adapter_metadata token None"]
    by (simp add: invoke_request_def)
  moreover have "invoke_request (i\<lparr>iv_token := token\<rparr>) md = invoke_request i md" for md
    by (simp add: invoke_request_def)
  ultimately show ?thesis
    using assms(1,3) by (simp add: llm_invoke_def)
qed

definition demo_invocation :: llm_invoke_input where
  "demo_invocation = llm_call (task_input ''t1'')
     \<lparr>per_allowed = True, per_action = ''allow'', per_fields = [], per_sanitized_prompt = asc ''hi'', per_extra_pii_types = []\<rparr>
     \<lparr>jr_token = ''tok'', jr_jti = ''j'', jr_protected_private_key_pem = None, jr_protected_public_jwk = None\<rparr>"

theorem unprotected_invocation_ignores_token_witness:
  "llm_invoke (demo_deps task_table) \<lparr>ai_attempt = 1, ai_workflow_id = None, ai_activity_id = []\<rparr> (demo_invocation\<lparr>iv_token := ''expired''\<rparr>)
   = llm_invoke (demo_deps task_table) \<lparr>ai_attempt = 1, ai_workflow_id = None, ai_activity_id = []\<rparr> demo_invocation"
  by (rule unprotected_invocation_ignores_token) (simp_all add: demo_invocation_def llm_call_def demo_deps_def default_settings_def)

end
