(* ===== verification/ApprovalService.thy ===== *)
theory ApprovalService
  imports Workflow
begin

text \<open>
  \<open>src/control_plane/approval_service.py\<close>: approve and deny decisions for a task by its id.

  The Temporal client is a parameter: the operations \<open>handle.query\<close>, \<open>handle.signal\<close> and
  \<open>list_workflows\<close> on a server state of any type. Every call may find the server changed by other
  actors since the last one. \<open>workflow_client\<close> states what the client promises, over a view of the
  server as the states of its workflows: a query answers with the \<open>approval_status\<close> of the workflow
  at that moment, a signal runs the workflow's signal handler.
\<close>

section \<open>The Temporal client\<close>

record workflow_execution =
  we_id :: string
  we_close_time :: "rat option"

record 'c temporal_client =
  cl_query :: "string \<Rightarrow> ('c, approval_status_snapshot) prog"
  cl_signal :: "string \<Rightarrow> signal \<Rightarrow> ('c, unit) prog"
  cl_list_workflows :: "int \<Rightarrow> ('c, workflow_execution list) prog"


section \<open>Operations\<close>

record approval_decision_result =
  ad_task_id :: uuid
  ad_status :: string
  ad_actor_id :: string
  ad_reason :: string

definition conflict_error :: "uuid \<Rightarrow> approval_status_snapshot \<Rightarrow> exn" where
  "conflict_error task_id n = exn_of PendingApprovalConflictError
     (''Task '' @ str_uuid task_id @ '' is no longer awaiting approval (approval_state='' @ ap_approval_state n
        @ '', workflow_status='' @ ap_workflow_status n @ '')'')"

definition get_snapshot :: "'c temporal_client \<Rightarrow> uuid \<Rightarrow> ('c, approval_status_snapshot) prog" where
  "get_snapshot cl task_id =
     tryE (cl_query cl (str_uuid task_id))
       (\<lambda>e. raiseE (Exn PendingApprovalNotFoundError
          (''No active PendingApproval workflow found for task_id='' @ str_uuid task_id) (Some e)))"

definition get_pending_snapshot :: "'c temporal_client \<Rightarrow> uuid \<Rightarrow> ('c, approval_status_snapshot) prog" where
  "get_pending_snapshot cl task_id =
     bindE (get_snapshot cl task_id) (\<lambda>n.
     if ap_approval_state n \<noteq> approval_value AWAITING_APPROVAL then raiseE (conflict_error task_id n) else returnE n)"

text \<open>The loop of \<open>list_pending_snapshots\<close>: closed workflows and failing queries are skipped.\<close>

fun pending_of :: "'c temporal_client \<Rightarrow> workflow_execution list \<Rightarrow> ('c, approval_status_snapshot list) prog" where
  "pending_of cl [] = returnE []"
| "pending_of cl (x # xs) =
     (if we_close_time x \<noteq> None then pending_of cl xs
      else bindE (tryE (bindE (cl_query cl (we_id x)) (\<lambda>n. returnE (Some n))) (\<lambda>_. returnE None)) (\<lambda>r.
           bindE (pending_of cl xs) (\<lambda>ns.
           returnE (case r of
                      Some n \<Rightarrow> if ap_approval_state n = approval_value AWAITING_APPROVAL then n # ns else ns
                    | None \<Rightarrow> ns))))"

definition list_pending_snapshots :: "'c temporal_client \<Rightarrow> int \<Rightarrow> ('c, approval_status_snapshot list) prog" where
  "list_pending_snapshots cl limit = bindE (cl_list_workflows cl limit) (pending_of cl)"

definition service_approve :: "'c temporal_client \<Rightarrow> uuid \<Rightarrow> string \<Rightarrow> string \<Rightarrow> ('c, approval_decision_result) prog" where
  "service_approve cl task_id approver_id reason =
     thenE (get_pending_snapshot cl task_id)
    (thenE (cl_signal cl (str_uuid task_id) (Approve \<lparr>sg_approver_id = approver_id, sg_reason = reason, sg_approved = True\<rparr>))
     (returnE \<lparr>ad_task_id = task_id, ad_status = approval_value APPROVAL_APPROVED, ad_actor_id = approver_id, ad_reason = reason\<rparr>))"

definition service_deny :: "'c temporal_client \<Rightarrow> uuid \<Rightarrow> string \<Rightarrow> string \<Rightarrow> ('c, approval_decision_result) prog" where
  "service_deny cl task_id approver_id reason =
     thenE (get_pending_snapshot cl task_id)
    (thenE (cl_signal cl (str_uuid task_id) (Deny \<lparr>sg_approver_id = approver_id, sg_reason = reason, sg_approved = False\<rparr>))
     (returnE \<lparr>ad_task_id = task_id, ad_status = approval_value APPROVAL_DENIED, ad_actor_id = approver_id, ad_reason = reason\<rparr>))"


section \<open>What the client promises\<close>

lemma approval_value_inj [simp]: "approval_value a = approval_value b \<longleftrightarrow> a = b"
  by (cases a; cases b) simp_all

lemma approval_status_awaiting:
  "ap_approval_state (approval_status w) = approval_value AWAITING_APPROVAL \<longleftrightarrow> tw_approval_state w = AWAITING_APPROVAL"
  unfolding approval_status_def by (simp del: approval_value.simps)

text \<open>
  \<open>view c id\<close> is the state of the open workflow \<open>id\<close>; \<open>others c c'\<close> holds when the server got from \<open>c\<close> to
  \<open>c'\<close> without a signal of this client.
\<close>

locale workflow_client =
  fixes cl :: "'c temporal_client"
    and view :: "'c \<Rightarrow> string \<Rightarrow> agent_task_workflow option"
    and others :: "'c \<Rightarrow> 'c \<Rightarrow> bool"
  assumes query: "cl_query cl i c = (r, c') \<Longrightarrow> others c c'"
    and query_Inr: "cl_query cl i c = (Inr n, c') \<Longrightarrow> \<exists>w. view c' i = Some w \<and> n = approval_status w"
    and listing: "cl_list_workflows cl l c = (q, c') \<Longrightarrow> others c c'"
    and signal: "cl_signal cl i sg c = (Inr u, c') \<Longrightarrow> \<exists>c1 w. others c c1 \<and> view c1 i = Some w \<and> view c' = (view c1)(i \<mapsto> receive sg w)"
    and stays: "others c c"
    and trans: "others c c1 \<Longrightarrow> others c1 c2 \<Longrightarrow> others c c2"
begin

lemma get_snapshot_run:
  assumes "get_snapshot cl t c = (r, c')"
  shows "others c c'" "r = Inr n \<Longrightarrow> \<exists>w. view c' (str_uuid t) = Some w \<and> n = approval_status w"
    "r = Inl e \<Longrightarrow> exc_cls e = PendingApprovalNotFoundError"
  using assms query [of "str_uuid t" c] query_Inr [of "str_uuid t" c]
  by (auto simp: get_snapshot_def tryE_def raiseE_def split: prod.splits sum.splits)

lemma get_pending_snapshot_run:
  assumes "get_pending_snapshot cl t c = (r, c')"
  shows "others c c'"
    "r = Inr n \<Longrightarrow> \<exists>w. view c' (str_uuid t) = Some w \<and> n = approval_status w \<and> tw_approval_state w = AWAITING_APPROVAL"
    "r = Inl e \<Longrightarrow> exc_cls e = PendingApprovalNotFoundError \<or>
       (\<exists>w. view c' (str_uuid t) = Some w \<and> tw_approval_state w \<noteq> AWAITING_APPROVAL \<and> e = conflict_error t (approval_status w))"
proof -
  obtain q c1 where g: "get_snapshot cl t c = (q, c1)"
    by fastforce
  note run = get_snapshot_run [OF g]
  have fin: "(case q of Inl e \<Rightarrow> (Inl e, c1) | Inr n \<Rightarrow>
      (if ap_approval_state n \<noteq> approval_value AWAITING_APPROVAL then (Inl (conflict_error t n), c1) else (Inr n, c1))) = (r, c')"
    using assms g unfolding get_pending_snapshot_def
    by (simp add: bindE_def raiseE_def returnE_def if_distribR cong: sum.case_cong if_cong del: approval_value.simps)
  then show "others c c'"
    using run(1) by (auto split: sum.splits if_splits)
  show "\<exists>w. view c' (str_uuid t) = Some w \<and> n = approval_status w \<and> tw_approval_state w = AWAITING_APPROVAL" if "r = Inr n"
    using fin that run(2) [of n] approval_status_awaiting by (auto simp del: approval_value.simps split: sum.splits if_splits)
  show "exc_cls e = PendingApprovalNotFoundError \<or>
       (\<exists>w. view c' (str_uuid t) = Some w \<and> tw_approval_state w \<noteq> AWAITING_APPROVAL \<and> e = conflict_error t (approval_status w))"
    if "r = Inl e"
    using fin that run approval_status_awaiting by (fastforce simp del: approval_value.simps split: sum.splits if_splits)
qed

end

text \<open>A decision: the workflow is awaiting approval when it is asked, then the signal is sent.\<close>

definition decide ::
  "'c temporal_client \<Rightarrow> uuid \<Rightarrow> signal \<Rightarrow> approval_decision_result \<Rightarrow> ('c, approval_decision_result) prog" where
  "decide cl t sg res = thenE (get_pending_snapshot cl t) (thenE (cl_signal cl (str_uuid t) sg) (returnE res))"

lemma service_decides:
  "service_approve cl t a r = decide cl t (Approve \<lparr>sg_approver_id = a, sg_reason = r, sg_approved = True\<rparr>)
     \<lparr>ad_task_id = t, ad_status = ''approved'', ad_actor_id = a, ad_reason = r\<rparr>"
  "service_deny cl t a r = decide cl t (Deny \<lparr>sg_approver_id = a, sg_reason = r, sg_approved = False\<rparr>)
     \<lparr>ad_task_id = t, ad_status = ''denied'', ad_actor_id = a, ad_reason = r\<rparr>"
  by (simp_all add: service_approve_def service_deny_def decide_def)

context workflow_client
begin

lemma decide_Inr:
  assumes "decide cl t sg res c = (Inr x, c')"
  shows "\<exists>c1 w c2 w2. others c c1 \<and> view c1 (str_uuid t) = Some w \<and> tw_approval_state w = AWAITING_APPROVAL \<and>
    others c1 c2 \<and> view c2 (str_uuid t) = Some w2 \<and> view c' = (view c2)(str_uuid t \<mapsto> receive sg w2) \<and> x = res"
proof -
  obtain n c1 where g: "get_pending_snapshot cl t c = (Inr n, c1)"
    and s: "cl_signal cl (str_uuid t) sg c1 = (Inr (), c')" "x = res"
    using assms by (auto simp: decide_def thenE_def bindE_Inr returnE_def)
  then show ?thesis
    using get_pending_snapshot_run(1,2) [OF g] signal [OF s(1)] by blast
qed

lemma decide_silent:
  assumes "decide cl t sg res c = (r, c')" "\<not> others c c'"
  shows "\<exists>c1 w. others c c1 \<and> view c1 (str_uuid t) = Some w \<and> tw_approval_state w = AWAITING_APPROVAL"
proof -
  obtain q c1 where g: "get_pending_snapshot cl t c = (q, c1)"
    by fastforce
  then obtain n where "q = Inr n"
    using assms get_pending_snapshot_run(1) [OF g] by (cases q) (auto simp: decide_def thenE_def bindE_def)
  then show ?thesis
    using get_pending_snapshot_run(1,2) [OF g] by blast
qed

lemma decide_Inl:
  assumes "decide cl t sg res c = (Inl e, c')"
  shows "exc_cls e \<in> {PendingApprovalNotFoundError, PendingApprovalConflictError} \<or>
    (\<exists>n c1. get_pending_snapshot cl t c = (Inr n, c1) \<and> cl_signal cl (str_uuid t) sg c1 = (Inl e, c'))"
proof -
  obtain q c1 where g: "get_pending_snapshot cl t c = (q, c1)"
    by fastforce
  show ?thesis
  proof (cases q)
    case (Inl e')
    then show ?thesis
      using assms g get_pending_snapshot_run(3) [OF g] by (auto simp: decide_def thenE_def bindE_def conflict_error_def)
  next
    case (Inr n)
    then show ?thesis
      using assms g by (auto simp: decide_def thenE_def bindE_def returnE_def split: prod.splits sum.splits)
  qed
qed

end

section \<open>A server\<close>

text \<open>
  A server that keeps the states of the workflows themselves. What other actors do to them is an
  agenda; its next entry takes effect before each call of the client.
\<close>

record workflow_server =
  ws_open :: "string \<Rightarrow> agent_task_workflow option"
  ws_executions :: "workflow_execution list"
  ws_agenda :: "((string \<Rightarrow> agent_task_workflow option) \<Rightarrow> string \<Rightarrow> agent_task_workflow option) list"

definition advance :: "workflow_server \<Rightarrow> workflow_server" where
  "advance s = (case ws_agenda s of [] \<Rightarrow> s | f # fs \<Rightarrow> s\<lparr>ws_open := f (ws_open s), ws_agenda := fs\<rparr>)"

definition no_workflow :: exn where
  "no_workflow = exn_of RuntimeError ''workflow not found''"

definition server_query :: "string \<Rightarrow> (workflow_server, approval_status_snapshot) prog" where
  "server_query i s = (let s' = advance s in
     (case ws_open s' i of Some w \<Rightarrow> Inr (approval_status w) | None \<Rightarrow> Inl no_workflow, s'))"

definition server_signal :: "string \<Rightarrow> signal \<Rightarrow> (workflow_server, unit) prog" where
  "server_signal i sg s = (let s' = advance s in
     case ws_open s' i of
       Some w \<Rightarrow> (Inr (), s'\<lparr>ws_open := (ws_open s')(i \<mapsto> receive sg w)\<rparr>)
     | None \<Rightarrow> (Inl no_workflow, s'))"

definition server_list :: "int \<Rightarrow> (workflow_server, workflow_execution list) prog" where
  "server_list l s = (let s' = advance s in (Inr (take (nat l) (ws_executions s')), s'))"

definition server_client :: "workflow_server temporal_client" where
  "server_client = \<lparr>cl_query = server_query, cl_signal = server_signal, cl_list_workflows = server_list\<rparr>"

definition advances :: "workflow_server \<Rightarrow> workflow_server \<Rightarrow> bool" where
  "advances s s' \<longleftrightarrow> (\<exists>n. s' = (advance ^^ n) s)"

lemma advances_intros [intro, simp]: "advances s s" "advances s (advance s)"
  unfolding advances_def by (rule exI [of _ 0], simp) (rule exI [of _ 1], simp)

lemma advances_trans: "advances s s1 \<Longrightarrow> advances s1 s2 \<Longrightarrow> advances s s2"
  unfolding advances_def by (metis comp_apply funpow_add)

interpretation server: workflow_client server_client ws_open advances
proof unfold_locales
  show "advances c c'" if "cl_query server_client i c = (r, c')" for i c r c'
    using that by (auto simp: server_client_def server_query_def Let_def)
  show "\<exists>w. ws_open c' i = Some w \<and> n = approval_status w" if "cl_query server_client i c = (Inr n, c')" for i c n c'
    using that by (auto simp: server_client_def server_query_def Let_def split: option.splits)
  show "advances c c'" if "cl_list_workflows server_client l c = (q, c')" for l c q c'
    using that by (auto simp: server_client_def server_list_def Let_def)
  show "\<exists>c1 w. advances c c1 \<and> ws_open c1 i = Some w \<and> ws_open c' = (ws_open c1)(i \<mapsto> receive sg w)"
    if "cl_signal server_client i sg c = (Inr u, c')" for i sg c u c'
    using that by (auto simp: server_client_def server_signal_def Let_def split: option.splits)
qed (rule advances_intros advances_trans; assumption?)+


section \<open>Decisions\<close>

definition payload_of :: "bool \<Rightarrow> string \<Rightarrow> string \<Rightarrow> approval_signal_payload" where
  "payload_of ok a r = \<lparr>sg_approver_id = a, sg_reason = r, sg_approved = ok\<rparr>"

lemma service_decide_Inr:
  assumes "workflow_client cl view others"
    and "(if ok then service_approve cl t a r else service_deny cl t a r) c = (Inr res, c')"
  shows "\<exists>c1 w c2 w2. others c c1 \<and> view c1 (str_uuid t) = Some w \<and> tw_approval_state w = AWAITING_APPROVAL \<and>
    others c1 c2 \<and> view c2 (str_uuid t) = Some w2 \<and> view c' = (view c2)(str_uuid t \<mapsto>
      (if tw_approval_state w2 = AWAITING_APPROVAL then w2\<lparr>tw_approval_signal := Some (payload_of ok a r)\<rparr> else w2)) \<and>
    res = \<lparr>ad_task_id = t, ad_status = (if ok then ''approved'' else ''denied''), ad_actor_id = a, ad_reason = r\<rparr>"
proof (cases ok)
  case True
  then have "decide cl t (Approve (payload_of True a r)) \<lparr>ad_task_id = t, ad_status = ''approved'', ad_actor_id = a, ad_reason = r\<rparr> c = (Inr res, c')"
    using assms(2) by (simp add: service_decides payload_of_def)
  from workflow_client.decide_Inr [OF assms(1) this] show ?thesis
    using True by (simp add: approve_def split del: if_split cong: if_cong)
next
  case False
  then have "decide cl t (Deny (payload_of False a r)) \<lparr>ad_task_id = t, ad_status = ''denied'', ad_actor_id = a, ad_reason = r\<rparr> c = (Inr res, c')"
    using assms(2) by (simp add: service_decides payload_of_def)
  from workflow_client.decide_Inr [OF assms(1) this] show ?thesis
    using False by (simp add: deny_def split del: if_split cong: if_cong)
qed

lemma advances_empty: "advances s s' \<Longrightarrow> ws_agenda s = [] \<Longrightarrow> s' = s"
proof -
  have "ws_agenda s = [] \<Longrightarrow> (advance ^^ n) s = s" for n
    by (induction n) (simp_all add: advance_def)
  then show "advances s s' \<Longrightarrow> ws_agenda s = [] \<Longrightarrow> s' = s"
    by (auto simp: advances_def)
qed

lemmas service_decide_eval = service_approve_def service_deny_def get_pending_snapshot_def get_snapshot_def server_client_def
  server_query_def server_signal_def thenE_def bindE_def tryE_def raiseE_def returnE_def Let_def approval_status_def approve_def deny_def

text \<open>
  A client whose server works and whose workflow \<open>i\<close> nobody else touches: from a calm state, what others do
  leaves the workflow alone, and as long as the workflow is open its queries and signals get through.
\<close>

locale quiet_client = workflow_client +
  fixes calm :: "'a \<Rightarrow> bool" and i :: string
  assumes undisturbed: "calm c \<Longrightarrow> others c c' \<Longrightarrow> calm c' \<and> view c' i = view c i"
    and answers: "calm c \<Longrightarrow> view c i = Some w \<Longrightarrow> \<exists>n c'. cl_query cl i c = (Inr n, c')"
    and delivers: "calm c \<Longrightarrow> view c i = Some w \<Longrightarrow> \<exists>c'. cl_signal cl i sg c = (Inr (), c') \<and> calm c'"
begin

lemma decide_accepted:
  assumes "calm c" "view c i = Some w" "tw_approval_state w = AWAITING_APPROVAL" "i = str_uuid t"
  shows "\<exists>c'. decide cl t sg res c = (Inr res, c') \<and> calm c' \<and> view c' i = Some (receive sg w)"
proof -
  obtain n c1 where q: "cl_query cl i c = (Inr n, c1)"
    using answers [OF assms(1,2)] by blast
  then have c1: "calm c1" "view c1 i = Some w" "n = approval_status w"
    using undisturbed [OF assms(1) query [OF q]] query_Inr [OF q] assms(2) by auto
  obtain c2 where s: "cl_signal cl i sg c1 = (Inr (), c2)" "calm c2"
    using delivers [OF c1(1,2)] by blast
  have "view c2 i = Some (receive sg w)"
    using signal [OF s(1)] undisturbed [OF c1(1)] c1(2) by force
  moreover have "get_pending_snapshot cl t c = (Inr n, c1)"
    using q c1(3) assms(3,4) approval_status_awaiting [of w]
    by (simp add: get_pending_snapshot_def get_snapshot_def bindE_def tryE_def returnE_def del: approval_value.simps)
  ultimately show ?thesis
    using s assms(4) by (simp add: decide_def thenE_def bindE_def returnE_def)
qed

end

interpretation quiet_server: quiet_client server_client ws_open advances "\<lambda>s. ws_agenda s = []" i
proof unfold_locales
  show "ws_agenda c' = [] \<and> ws_open c' i = ws_open c i" if "ws_agenda c = []" "advances c c'" for c c'
    using advances_empty [OF that(2,1)] that(1) by simp
qed (auto simp: server_client_def server_query_def server_signal_def advance_def Let_def)

text \<open>
  (C35) Two contradicting decisions. The service asks for the state of the workflow, which stays
  \<open>awaiting-approval\<close> until the workflow itself resumes. With a client whose server answers, and while nobody
  else acts on the workflow, a denial and then an approval of a workflow that is awaiting approval are both
  accepted, each reported with its own status, actor and reason, and the workflow is left with the approval alone.
\<close>

theorem later_decision_overrides:
  assumes "quiet_client cl view others calm (str_uuid t)" and "calm c"
    and "view c (str_uuid t) = Some w" and "tw_approval_state w = AWAITING_APPROVAL"
  shows "\<exists>c1 c2. service_deny cl t a r c = (Inr \<lparr>ad_task_id = t, ad_status = ''denied'', ad_actor_id = a, ad_reason = r\<rparr>, c1) \<and>
    view c1 (str_uuid t) = Some (w\<lparr>tw_approval_signal := Some (payload_of False a r)\<rparr>) \<and>
    service_approve cl t b s c1 = (Inr \<lparr>ad_task_id = t, ad_status = ''approved'', ad_actor_id = b, ad_reason = s\<rparr>, c2) \<and>
    view c2 (str_uuid t) = Some (w\<lparr>tw_approval_signal := Some (payload_of True b s)\<rparr>)"
proof -
  let ?w = "w\<lparr>tw_approval_signal := Some (payload_of False a r)\<rparr>"
  obtain c1 where 1: "service_deny cl t a r c = (Inr \<lparr>ad_task_id = t, ad_status = ''denied'', ad_actor_id = a, ad_reason = r\<rparr>, c1)"
      "calm c1" "view c1 (str_uuid t) = Some ?w"
    using quiet_client.decide_accepted [OF assms refl] assms(4) unfolding service_decides payload_of_def
    by (fastforce simp: deny_def)
  then show ?thesis
    using quiet_client.decide_accepted [OF assms(1) 1(2,3) _ refl] assms(4) unfolding service_decides payload_of_def
    by (fastforce simp: approve_def)
qed

definition awaiting_workflow :: agent_task_workflow where
  "awaiting_workflow = new_agent_task_workflow\<lparr>tw_task_id := ''t1'', tw_session_id := Some ''s1'', tw_agent_type := ''hr'',
     tw_workflow_status := ''human_intervention_required'', tw_approval_state := AWAITING_APPROVAL, tw_pending_since := Some 0\<rparr>"

definition demo_server :: workflow_server where
  "demo_server = \<lparr>ws_open = [str_uuid demo_session_id \<mapsto> awaiting_workflow],
     ws_executions = [\<lparr>we_id = str_uuid demo_session_id, we_close_time = None\<rparr>], ws_agenda = []\<rparr>"

lemma demo_server_simps:
  "advance (demo_server\<lparr>ws_open := v\<rparr>) = demo_server\<lparr>ws_open := v\<rparr>" "advance demo_server = demo_server"
  "ws_open demo_server = [str_uuid demo_session_id \<mapsto> awaiting_workflow]" "tw_approval_state awaiting_workflow = AWAITING_APPROVAL"
  by (simp_all add: advance_def demo_server_def awaiting_workflow_def)

theorem later_decision_overrides_witness:
  "\<exists>x c1 y c2 w. service_deny server_client demo_session_id ''bob'' ''no'' demo_server = (Inr x, c1) \<and>
     service_approve server_client demo_session_id ''eve'' ''yes'' c1 = (Inr y, c2) \<and>
     ws_open c2 (str_uuid demo_session_id) = Some w \<and> tw_approval_signal w = Some (payload_of True ''eve'' ''yes'')"
proof -
  have "ws_agenda demo_server = []"
    by (simp add: demo_server_def)
  from later_decision_overrides [OF quiet_server.quiet_client_axioms this, of demo_session_id awaiting_workflow "''bob''" "''no''" "''eve''" "''yes''"]
  show ?thesis
    using demo_server_simps(3,4) by fastforce
qed

end
