(* ===== verification/Router.thy ===== *)
theory Router
  imports ApprovalService Temporal
begin

text \<open>
  \<open>src/control_plane/router.py\<close>: the HTTP handlers of the control plane. A handler is a program on the
  module's globals, the services of the orchestrator, the HTTP client of the approval policy engine
  and the Temporal server. FastAPI builds the request objects; the handlers get them validated.
  \<open>HTTPException\<close> carries its status code, its message is the text of \<open>detail\<close>.
\<close>

section \<open>Requests and responses\<close>

datatype agent_type = FINANCE | HR | IT | LEGAL | GENERAL

fun agent_type_value :: "agent_type \<Rightarrow> string" where
  "agent_type_value FINANCE = ''finance''"
| "agent_type_value HR = ''hr''"
| "agent_type_value IT = ''it''"
| "agent_type_value LEGAL = ''legal''"
| "agent_type_value GENERAL = ''general''"

record task_request =
  tr_task_id :: uuid
  tr_prompt :: utext
  tr_description :: string
  tr_agent_type :: agent_type
  tr_requester_id :: string
  tr_model :: string
  tr_max_tokens :: int
  tr_temperature :: rat
  tr_system_prompt :: utext
  tr_metadata :: "string dict"
  tr_protect_outbound_request :: bool

record task_response =
  ts_task_id :: uuid
  ts_agent_type :: agent_type
  ts_session_token :: string
  ts_message :: utext
  ts_tokens_used :: int
  ts_model :: string
  ts_pii_found :: "string list"

record execute_request =
  xr_task_id :: uuid
  xr_prompt :: utext
  xr_agent_type :: agent_type
  xr_requester_id :: string
  xr_session_token :: "string option"
  xr_model :: string
  xr_max_tokens :: int
  xr_temperature :: rat
  xr_system_prompt :: utext
  xr_metadata :: "string dict"
  xr_protect_outbound_request :: bool

record approval_decision_request =
  dq_approver_id :: string
  dq_reason :: string

record approval_decision_response =
  dr_task_id :: uuid
  dr_status :: string
  dr_actor_id :: string
  dr_timestamp :: datetime


section \<open>The module's state\<close>

text \<open>
  The four globals, the logger and what the objects behind them work on. A policy engine is its base
  URL. \<open>rt_clock\<close> is what \<open>datetime.now\<close> will return.
\<close>

record ('r, 'c) control_plane =
  rt_orchestrator :: "'r orchestrator option"
  rt_approval_service :: "'c temporal_client option"
  rt_policy_engine :: "string option"
  rt_session_mgr :: "'r session_manager option"
  rt_logger :: audit_logger
  rt_services :: "'r services"
  rt_http :: http
  rt_server :: 'c
  rt_clock :: "nat \<Rightarrow> int"
  rt_ticks :: nat

type_synonym ('r, 'c, 'a) handler = "(('r, 'c) control_plane, 'a) prog"

definition on_logger :: "(audit_logger, 'a) prog \<Rightarrow> ('r, 'c, 'a) handler" where
  "on_logger p = zoomE rt_logger (\<lambda>l w. w\<lparr>rt_logger := l\<rparr>) p"

definition on_services :: "('r services, 'a) prog \<Rightarrow> ('r, 'c, 'a) handler" where
  "on_services p = zoomE rt_services (\<lambda>s w. w\<lparr>rt_services := s\<rparr>) p"

definition on_policy :: "(http, 'a) prog \<Rightarrow> ('r, 'c, 'a) handler" where
  "on_policy p = zoomE rt_http (\<lambda>h w. w\<lparr>rt_http := h\<rparr>) p"

definition on_server :: "('c, 'a) prog \<Rightarrow> ('r, 'c, 'a) handler" where
  "on_server p = zoomE rt_server (\<lambda>c w. w\<lparr>rt_server := c\<rparr>) p"

definition on_hitl_session :: "('r session_manager, 'a) prog \<Rightarrow> ('r, 'c, 'a) handler" where
  "on_hitl_session p = zoomE (\<lambda>w. the (rt_session_mgr w)) (\<lambda>m w. w\<lparr>rt_session_mgr := Some m\<rparr>) p"

definition http_exception :: "nat \<Rightarrow> string \<Rightarrow> exn option \<Rightarrow> exn" where
  "http_exception status_code detail cause = Exn (HTTPException status_code) detail cause"

definition configure_orchestrator :: "'r orchestrator \<Rightarrow> ('r, 'c, unit) handler" where
  "configure_orchestrator orc = modifyE (\<lambda>w. w\<lparr>rt_orchestrator := Some orc\<rparr>)"

definition require_orchestrator :: "('r, 'c, 'r orchestrator) handler" where
  "require_orchestrator =
     bindE (getE rt_orchestrator) (\<lambda>o'. case o' of
       None \<Rightarrow> raiseE (exn_of RuntimeError
         ''Orchestrator has not been configured.  Call configure_orchestrator() during app startup.'')
     | Some orc \<Rightarrow> returnE orc)"

definition configure_hitl_controls ::
  "'c temporal_client \<Rightarrow> string \<Rightarrow> 'r session_manager \<Rightarrow> ('r, 'c, unit) handler" where
  "configure_hitl_controls approval_service policy_engine session_mgr =
     modifyE (\<lambda>w. w\<lparr>rt_approval_service := Some approval_service, rt_policy_engine := Some policy_engine,
       rt_session_mgr := Some session_mgr\<rparr>)"

definition require_hitl_controls :: "('r, 'c, 'c temporal_client \<times> string) handler" where
  "require_hitl_controls = (\<lambda>w.
     case (rt_approval_service w, rt_policy_engine w, rt_session_mgr w) of
       (Some svc, Some opa, Some _) \<Rightarrow> (Inr (svc, opa), w)
     | _ \<Rightarrow> (Inl (exn_of RuntimeError
         ''HITL controls have not been configured. Call configure_hitl_controls() during app startup.''), w))"


section \<open>Helpers\<close>

text \<open>The text of \<open>{"error": {"code": ..., "message": ..., "task_id": ...}}\<close>.\<close>

definition error_detail :: "string \<Rightarrow> string \<Rightarrow> uuid \<Rightarrow> string" where
  "error_detail code msg task_id =
     ''{'' @ py_repr ''error'' @ '': {'' @ py_repr ''code'' @ '': '' @ py_repr code @ '', '' @ py_repr ''message'' @ '': '' @ py_repr msg
       @ '', '' @ py_repr ''task_id'' @ '': '' @ py_repr (str_uuid task_id) @ ''}}''"

definition error_response :: "nat \<Rightarrow> string \<Rightarrow> string \<Rightarrow> uuid \<Rightarrow> exn option \<Rightarrow> exn" where
  "error_response status_code code msg task_id cause = http_exception status_code (error_detail code msg task_id) cause"

text \<open>\<open>authorization.partition(" ")\<close>, the first and the last part.\<close>

definition partition_space :: "string \<Rightarrow> string \<times> string" where
  "partition_space s = (takeWhile (\<lambda>c. c \<noteq> CHR '' '') s, drop 1 (dropWhile (\<lambda>c. c \<noteq> CHR '' '') s))"

definition extract_bearer_token :: "string option \<Rightarrow> exn + string" where
  "extract_bearer_token authorization =
     (case authorization of
        None \<Rightarrow> Inl (http_exception 401 ''Missing Authorization header'' None)
      | Some a \<Rightarrow> (let (scheme, token) = partition_space a in
          if lower scheme \<noteq> ''bearer'' \<or> token = '''' then Inl (http_exception 401 ''Invalid Authorization header'' None)
          else Inr token))"

text \<open>The \<open>except\<close> clauses around the token check.\<close>

definition token_refusal :: "uuid \<Rightarrow> string \<Rightarrow> exn \<Rightarrow> ('r, 'c, 'a) handler" where
  "token_refusal task_id action e =
     (let refuse = (\<lambda>ev status detail.
            thenE (on_logger (warning ev [(''task_id'', VStr (str_uuid task_id)), (''action'', VStr action)]))
              (raiseE (http_exception status detail (Some e))))
      in if isinstance e TokenExpiredError then refuse ''jit.expired'' 401 ''JIT token expired''
         else if isinstance e TokenRevokedError then refuse ''jit.revoked'' 401 ''JIT token revoked''
         else if isinstance e TokenActionError then refuse ''jit.action_denied'' 403 (str_exn e)
         else if isinstance e JWTError then refuse ''jit.invalid'' 401 ''Malformed or invalid JIT token''
         else raiseE e)"

definition hitl_policy_input :: "approval_status_snapshot \<Rightarrow> token_claims \<Rightarrow> string \<Rightarrow> policy_input" where
  "hitl_policy_input n claims action =
     \<lparr>pin_agent_type = ap_agent_type n, pin_requester_id = tc_sub claims, pin_action = action,
      pin_resource = ''workflow:pending_approval'', pin_metadata = tc_metadata claims, pin_principal_role = tc_role claims,
      pin_token_expired = False\<rparr>"

definition other_session :: "token_claims \<Rightarrow> approval_status_snapshot \<Rightarrow> bool" where
  "other_session claims n =
     (case (tc_session_id claims, ap_session_id n) of (Some a, Some b) \<Rightarrow> a \<noteq> b | _ \<Rightarrow> False)"

text \<open>The token check of \<open>_authorize_hitl_action\<close>, and what follows the snapshot.\<close>

definition check_hitl_token ::
  "'r token_libs \<Rightarrow> settings \<Rightarrow> uuid \<Rightarrow> string \<Rightarrow> string \<Rightarrow> ('r, 'c, token_claims) handler" where
  "check_hitl_token lib cfg task_id action token =
     tryE (bindE (on_hitl_session (validate_token lib cfg token)) (\<lambda>claims.
           thenE (liftE (ensure_action_allowed claims (''hitl:'' @ action))) (returnE claims)))
       (token_refusal task_id action)"

definition check_hitl_policy ::
  "string \<Rightarrow> uuid \<Rightarrow> string \<Rightarrow> token_claims \<Rightarrow> approval_status_snapshot \<Rightarrow> ('r, 'c, policy_input \<times> string) handler" where
  "check_hitl_policy opa task_id action claims n =
     (if other_session claims n then
        thenE (on_logger (warning ''audit.cross_session_attempt''
                 [(''task_id'', VStr (str_uuid task_id)), (''action'', VStr action),
                  (''token_session_id'', VStr (the (tc_session_id claims))), (''workflow_session_id'', VStr (the (ap_session_id n)))]))
          (raiseE (http_exception 403 ''Token session does not match task session'' None))
      else
        bindE (on_policy (evaluate opa ''agent_access'' (hitl_policy_input n claims action))) (\<lambda>result.
        if \<not> pr_allowed result then
          thenE (on_logger (warning ''hitl.rbac_denied''
                   [(''task_id'', VStr (str_uuid task_id)), (''action'', VStr action),
                    (''role'', VStr (case tc_role claims of Some r \<Rightarrow> r | None \<Rightarrow> '''')), (''reasons'', VStrs (pr_reasons result))]))
            (raiseE (http_exception 403 ''OPA denied HITL action'' None))
        else returnE (hitl_policy_input n claims action, tc_sub claims)))"

definition authorize_hitl_action ::
  "'r token_libs \<Rightarrow> settings \<Rightarrow> uuid \<Rightarrow> string \<Rightarrow> string option \<Rightarrow> ('r, 'c, policy_input \<times> string) handler" where
  "authorize_hitl_action lib cfg task_id action authorization =
     bindE require_hitl_controls (\<lambda>(svc, opa).
     bindE (liftE (extract_bearer_token authorization)) (\<lambda>token.
     bindE (check_hitl_token lib cfg task_id action token) (\<lambda>claims.
     bindE (on_server (get_snapshot svc task_id)) (\<lambda>n.
     check_hitl_policy opa task_id action claims n))))"

text \<open>
  \<open>ApprovalDecisionRequest.model_validate\<close>: two strings with their lengths bounded, other keys are
  ignored. \<open>errs\<close> is the text pydantic gives of the errors.
\<close>

definition bounded_str :: "nat \<Rightarrow> json option \<Rightarrow> string option" where
  "bounded_str n v = (case v of Some (JStr s) \<Rightarrow> if 1 \<le> length s \<and> length s \<le> n then Some s else None | _ \<Rightarrow> None)"

definition validate_decision_request :: "(json dict \<Rightarrow> string) \<Rightarrow> json dict \<Rightarrow> exn + approval_decision_request" where
  "validate_decision_request errs raw =
     (case (bounded_str 256 (map_of raw ''approver_id''), bounded_str 4096 (map_of raw ''reason'')) of
        (Some a, Some r) \<Rightarrow> Inr \<lparr>dq_approver_id = a, dq_reason = r\<rparr>
      | _ \<Rightarrow> Inl (exn_of ValidationError (errs raw)))"

definition parse_approval_request :: "(json dict \<Rightarrow> string) \<Rightarrow> json dict \<Rightarrow> uuid \<Rightarrow> exn + approval_decision_request" where
  "parse_approval_request errs raw task_id =
     (case validate_decision_request errs raw of
        Inr q \<Rightarrow> Inr q
      | Inl e \<Rightarrow> Inl (if isinstance e ValidationError
          then error_response 400 ''invalid_request'' (''Invalid approval request body: '' @ exc_msg e) task_id (Some e) else e))"


section \<open>Handlers\<close>

text \<open>The \<open>except\<close> clauses of \<open>route_task\<close> and \<open>execute_task\<close>.\<close>

definition pipeline_refusal :: "string \<Rightarrow> uuid \<Rightarrow> exn \<Rightarrow> ('r, 'c, 'a) handler" where
  "pipeline_refusal ev task_id e =
     (if isinstance e BudgetLimitError then raiseE (http_exception 429 (str_exn e) (Some e))
      else if isinstance e PermissionError then raiseE (http_exception 403 (str_exn e) (Some e))
      else if isinstance e ValueError then raiseE (http_exception 400 (str_exn e) (Some e))
      else thenE (on_logger (error ev [(''task_id'', VStr (str_uuid task_id)), (''error'', VStr (str_exn e))]))
             (raiseE (http_exception 500 ''Internal pipeline error'' (Some e))))"

definition route_request :: "task_request \<Rightarrow> orchestrator_request" where
  "route_request q =
     \<lparr>or_task_id = Some (tr_task_id q), or_prompt = tr_prompt q, or_agent_type = agent_type_value (tr_agent_type q),
      or_requester_id = tr_requester_id q, or_session_token = None, or_model = tr_model q, or_max_tokens = tr_max_tokens q,
      or_temperature = tr_temperature q, or_system_prompt = tr_system_prompt q, or_metadata = tr_metadata q,
      or_protect_outbound_request = tr_protect_outbound_request q, or_budget_session_id = None,
      or_cost_per_token = Dec 2 (- 6), or_loop_session_id = None, or_loop_signal = NO_PROGRESS, or_loop_token_delta = None\<rparr>"

definition route_task :: "task_request \<Rightarrow> ('r, 'c, task_response) handler" where
  "route_task q =
     bindE require_orchestrator (\<lambda>orc.
     thenE (on_logger (info ''task.routing'' [(''task_id'', VStr (str_uuid (tr_task_id q))),
              (''agent_type'', VStr (agent_type_value (tr_agent_type q))), (''requester_id'', VStr (tr_requester_id q))]))
    (bindE (tryE (on_services (run orc (route_request q))) (pipeline_refusal ''task.error'' (tr_task_id q))) (\<lambda>res.
     thenE (on_logger (info ''task.routed'' [(''task_id'', VStr (str_uuid (tr_task_id q))),
              (''agent_type'', VStr (agent_type_value (tr_agent_type q)))]))
       (returnE \<lparr>ts_task_id = os_task_id res, ts_agent_type = tr_agent_type q, ts_session_token = os_session_token res,
          ts_message = lr_content (os_response res), ts_tokens_used = lr_tokens_used (os_response res),
          ts_model = lr_model (os_response res),
          ts_pii_found = merge_types [] (os_pii_found_in_prompt res @ os_pii_found_in_response res)\<rparr>))))"

definition execute_request_of :: "execute_request \<Rightarrow> orchestrator_request" where
  "execute_request_of q =
     \<lparr>or_task_id = Some (xr_task_id q), or_prompt = xr_prompt q, or_agent_type = agent_type_value (xr_agent_type q),
      or_requester_id = xr_requester_id q, or_session_token = xr_session_token q, or_model = xr_model q,
      or_max_tokens = xr_max_tokens q, or_temperature = xr_temperature q, or_system_prompt = xr_system_prompt q,
      or_metadata = xr_metadata q, or_protect_outbound_request = xr_protect_outbound_request q, or_budget_session_id = None,
      or_cost_per_token = Dec 2 (- 6), or_loop_session_id = None, or_loop_signal = NO_PROGRESS, or_loop_token_delta = None\<rparr>"

definition execute_task :: "execute_request \<Rightarrow> ('r, 'c, orchestrator_result) handler" where
  "execute_task q =
     bindE require_orchestrator (\<lambda>orc.
     thenE (on_logger (info ''task.execute'' [(''task_id'', VStr (str_uuid (xr_task_id q))),
              (''agent_type'', VStr (agent_type_value (xr_agent_type q))), (''requester_id'', VStr (xr_requester_id q))]))
       (tryE (on_services (run orc (execute_request_of q))) (pipeline_refusal ''task.execute.error'' (xr_task_id q))))"

definition get_task_status :: "uuid \<Rightarrow> string dict" where
  "get_task_status task_id = [(''task_id'', str_uuid task_id), (''status'', ''pending'')]"

text \<open>The \<open>except\<close> clauses of \<open>approve_task\<close> and \<open>deny_task\<close>, and their common course.\<close>

definition decision_refusal :: "uuid \<Rightarrow> exn \<Rightarrow> ('r, 'c, 'a) handler" where
  "decision_refusal task_id e =
     (if isinstance e PendingApprovalConflictError
      then raiseE (error_response 409 ''pending_approval_conflict'' (str_exn e) task_id (Some e))
      else if isinstance e PendingApprovalNotFoundError
      then raiseE (error_response 404 ''pending_approval_not_found'' (str_exn e) task_id (Some e))
      else raiseE e)"

definition now_utc :: "('r, 'c, datetime) handler" where
  "now_utc = bindE (getE (\<lambda>w. DateTime (rt_clock w (rt_ticks w)) (Some 0))) (\<lambda>t.
     thenE (modifyE (\<lambda>w. w\<lparr>rt_ticks := Suc (rt_ticks w)\<rparr>)) (returnE t))"

definition decide_task ::
  "'r token_libs \<Rightarrow> settings \<Rightarrow> (json dict \<Rightarrow> string) \<Rightarrow> string
     \<Rightarrow> ('c temporal_client \<Rightarrow> uuid \<Rightarrow> string \<Rightarrow> string \<Rightarrow> ('c, approval_decision_result) prog)
     \<Rightarrow> uuid \<Rightarrow> json dict \<Rightarrow> string option \<Rightarrow> ('r, 'c, approval_decision_response) handler" where
  "decide_task lib cfg errs action decision task_id raw authorization =
     bindE require_hitl_controls (\<lambda>(svc, _).
     bindE (liftE (parse_approval_request errs raw task_id)) (\<lambda>q.
     bindE (tryE (thenE (authorize_hitl_action lib cfg task_id action authorization)
                   (on_server (decision svc task_id (dq_approver_id q) (dq_reason q))))
              (decision_refusal task_id)) (\<lambda>res.
     bindE now_utc (\<lambda>t.
     returnE \<lparr>dr_task_id = task_id, dr_status = ad_status res, dr_actor_id = ad_actor_id res, dr_timestamp = t\<rparr>))))"

definition approve_task ::
  "'r token_libs \<Rightarrow> settings \<Rightarrow> (json dict \<Rightarrow> string) \<Rightarrow> uuid \<Rightarrow> json dict \<Rightarrow> string option
     \<Rightarrow> ('r, 'c, approval_decision_response) handler" where
  "approve_task lib cfg errs task_id raw authorization = decide_task lib cfg errs ''approve'' service_approve task_id raw authorization"

definition deny_task ::
  "'r token_libs \<Rightarrow> settings \<Rightarrow> (json dict \<Rightarrow> string) \<Rightarrow> uuid \<Rightarrow> json dict \<Rightarrow> string option
     \<Rightarrow> ('r, 'c, approval_decision_response) handler" where
  "deny_task lib cfg errs task_id raw authorization = decide_task lib cfg errs ''deny'' service_deny task_id raw authorization"

end
