(* ===== verification/RouterSafety.thy ===== *)
theory RouterSafety
  imports Router
begin

text \<open>
  What the HTTP handlers guarantee: a decision reaches a workflow only from a holder of a valid token
  for that action, with the consent of the policy server, and every pipeline outcome is turned into a
  documented status without losing what the pipeline guarantees.
\<close>

section \<open>Authorisation\<close>

lemma extract_bearer_token_Inr:
  assumes "extract_bearer_token a = Inr token"
  shows "\<exists>scheme. a = Some (scheme @ '' '' @ token) \<and> lower scheme = ''bearer'' \<and> token \<noteq> []"
proof -
  obtain s where a: "a = Some s" "lower (takeWhile (\<lambda>c. c \<noteq> CHR '' '') s) = ''bearer''"
      "token = drop 1 (dropWhile (\<lambda>c. c \<noteq> CHR '' '') s)" "token \<noteq> []"
    using assms by (auto simp: extract_bearer_token_def partition_space_def split: option.splits if_splits)
  then obtain x xs where "dropWhile (\<lambda>c. c \<noteq> CHR '' '') s = x # xs"
    by (cases "dropWhile (\<lambda>c. c \<noteq> CHR '' '') s") auto
  then have "s = takeWhile (\<lambda>c. c \<noteq> CHR '' '') s @ '' '' @ token"
    using a(3) takeWhile_dropWhile_id [of "\<lambda>c. c \<noteq> CHR '' ''" s] hd_dropWhile [of "\<lambda>c. c \<noteq> CHR '' ''" s]
    by (metis append_Cons append_Nil drop0 drop_Suc_Cons list.distinct(1) list.sel(1) One_nat_def)
  then show ?thesis
    using a by blast
qed

lemmas router_lenses = on_logger_def on_services_def on_policy_def on_server_def on_hitl_session_def zoomE_def

lemma emit_Inr: "fst (emit lv ev fs l) = Inr ()"
  by (simp add: emit_eq)

text \<open>A log line leaves everything but the logger as it is.\<close>

definition logged :: "level \<Rightarrow> string \<Rightarrow> log_value dict \<Rightarrow> ('r, 'c) control_plane \<Rightarrow> ('r, 'c) control_plane" where
  "logged lv ev fs w = w\<lparr>rt_logger := snd (emit lv ev fs (rt_logger w))\<rparr>"

lemma logged_simps [simp]:
  "rt_orchestrator (logged lv ev fs w) = rt_orchestrator w" "rt_server (logged lv ev fs w) = rt_server w"
  "rt_http (logged lv ev fs w) = rt_http w" "rt_services (logged lv ev fs w) = rt_services w"
  "rt_session_mgr (logged lv ev fs w) = rt_session_mgr w"
  by (simp_all add: logged_def)

lemma on_logger_run:
  "on_logger (info ev fs) w = (Inr (), logged Info ev fs w)"
  "on_logger (warning ev fs) w = (Inr (), logged Warning ev fs w)"
  "on_logger (error ev fs) w = (Inr (), logged Error ev fs w)"
  by (auto simp: on_logger_def zoomE_def info_def warning_def error_def logged_def prod_eq_iff emit_Inr split: prod.splits)

lemma require_hitl_Inr:
  "require_hitl_controls w = (Inr (svc, opa), w') \<longleftrightarrow>
     rt_approval_service w = Some svc \<and> rt_policy_engine w = Some opa \<and> (\<exists>m. rt_session_mgr w = Some m) \<and> w' = w"
  by (auto simp: require_hitl_controls_def split: option.splits)

lemma require_hitl_state: "snd (require_hitl_controls w) = w"
  by (auto simp: require_hitl_controls_def split: option.splits)

lemma token_refusal_run: "\<exists>e' w'. token_refusal t act e w = (Inl e', w') \<and> rt_server w' = rt_server w"
  by (auto simp: token_refusal_def Let_def thenE_def bindE_def on_logger_run raiseE_def)

text \<open>The conditions under which a decision is authorised, as the code tests them in state \<open>w\<close>.\<close>

definition token_authorises :: "'r token_libs \<Rightarrow> settings \<Rightarrow> string \<Rightarrow> string option \<Rightarrow> ('r, 'c) control_plane \<Rightarrow> token_claims \<Rightarrow> bool" where
  "token_authorises lib cfg act auth w claims \<longleftrightarrow>
     (\<exists>scheme token m m'. auth = Some (scheme @ '' '' @ token) \<and> lower scheme = ''bearer'' \<and> rt_session_mgr w = Some m \<and>
        validate_token lib cfg token m = (Inr claims, m') \<and> ''hitl:'' @ act \<in> set (tc_allowed_actions claims))"

definition policy_authorises :: "('r, 'c) control_plane \<Rightarrow> policy_input \<Rightarrow> bool" where
  "policy_authorises w i \<longleftrightarrow> (\<exists>opa r h. rt_policy_engine w = Some opa \<and>
     evaluate opa ''agent_access'' i (rt_http w) = (Inr r, h) \<and> pr_allowed r)"

lemma check_token_Inr:
  assumes "check_hitl_token lib cfg t act token w = (Inr claims, w1)"
  shows "\<exists>m'. validate_token lib cfg token (the (rt_session_mgr w)) = (Inr claims, m') \<and>
    ''hitl:'' @ act \<in> set (tc_allowed_actions claims) \<and> w1 = w\<lparr>rt_session_mgr := Some m'\<rparr>"
proof -
  obtain r m' where v: "validate_token lib cfg token (the (rt_session_mgr w)) = (r, m')"
    by fastforce
  then have on: "on_hitl_session (validate_token lib cfg token) w = (r, w\<lparr>rt_session_mgr := Some m'\<rparr>)"
    by (simp add: on_hitl_session_def zoomE_def)
  have refusal: "token_refusal t act e k \<noteq> (Inr claims, w1)" for e k
    using token_refusal_run [of t act e k] by (metis Inl_Inr_False fst_conv)
  show ?thesis
    using assms v refusal
    by (auto simp: check_hitl_token_def tryE_def bindE_def thenE_def liftE_def returnE_def on ensure_action_allowed_def
        split: sum.splits if_splits)
qed

lemma check_policy_Inr:
  assumes "check_hitl_policy opa t act claims n w = (Inr x, w')" "rt_policy_engine w = Some opa"
  shows "\<not> other_session claims n" "policy_authorises w (hitl_policy_input n claims act)" "rt_server w' = rt_server w"
  using assms
  by (auto simp: check_hitl_policy_def thenE_def bindE_def on_logger_run raiseE_def returnE_def on_policy_def zoomE_def
      policy_authorises_def split: if_splits prod.splits sum.splits)

lemma policy_authorises_cong:
  "rt_policy_engine w = rt_policy_engine v \<Longrightarrow> rt_http w = rt_http v \<Longrightarrow> policy_authorises w i = policy_authorises v i"
  by (simp add: policy_authorises_def)

lemma authorize_decision_Inr:
  assumes "authorize_hitl_action lib cfg t act auth w = (Inr x, w')" "rt_approval_service w = Some cl"
  shows "\<exists>claims n. token_authorises lib cfg act auth w claims \<and> get_snapshot cl t (rt_server w) = (Inr n, rt_server w') \<and>
    \<not> other_session claims n \<and> policy_authorises w (hitl_policy_input n claims act)"
proof -
  obtain svc opa token claims w1 n w2 where c: "require_hitl_controls w = (Inr (svc, opa), w)" "extract_bearer_token auth = Inr token"
      "check_hitl_token lib cfg t act token w = (Inr claims, w1)" "on_server (get_snapshot svc t) w1 = (Inr n, w2)"
      "check_hitl_policy opa t act claims n w2 = (Inr x, w')"
    using assms(1) require_hitl_state [of w] unfolding authorize_hitl_action_def by (auto simp: liftE_def bindE_Inr)
  obtain m where m: "svc = cl" "rt_policy_engine w = Some opa" "rt_session_mgr w = Some m"
    using c(1) assms(2) by (auto simp: require_hitl_Inr)
  obtain m' where m': "validate_token lib cfg token m = (Inr claims, m')" "''hitl:'' @ act \<in> set (tc_allowed_actions claims)"
      "w1 = w\<lparr>rt_session_mgr := Some m'\<rparr>"
    using check_token_Inr [OF c(3)] m(3) by auto
  obtain c1 where g: "get_snapshot cl t (rt_server w) = (Inr n, c1)" "w2 = w1\<lparr>rt_server := c1\<rparr>"
    using c(4) m(1) m'(3) by (auto simp: on_server_def zoomE_def split: prod.splits)
  have w2: "rt_policy_engine w2 = Some opa" "rt_http w2 = rt_http w" "rt_server w2 = c1"
    using g(2) m'(3) m(2) by simp_all
  show ?thesis
    using check_policy_Inr [OF c(5) w2(1)] g(1) w2 m(2) policy_authorises_cong [of w2 w] extract_bearer_token_Inr [OF c(2)] m(3) m'(1,2)
    unfolding token_authorises_def by metis
qed

section \<open>Decisions\<close>

lemma keeps_lenses:
  "keepsE (\<lambda>w. P (rt_server w)) (on_logger p)" "keepsE (\<lambda>w. P (rt_server w)) (on_policy q)"
  "keepsE (\<lambda>w. P (rt_server w)) (on_hitl_session v)" "keepsE P c \<Longrightarrow> keepsE (\<lambda>w. P (rt_server w)) (on_server c)"
  by (auto simp: keepsE_def router_lenses split: prod.splits)

lemma keeps_now: "keepsE (\<lambda>w. P (rt_server w)) now_utc"
  by (simp add: keepsE_def now_utc_def bindE_def thenE_def getE_def modifyE_def returnE_def)

lemma keeps_check_token: "keepsE (\<lambda>w. P (rt_server w)) (check_hitl_token lib cfg t act token)"
  unfolding check_hitl_token_def token_refusal_def Let_def by (intro keeps_intros keeps_lenses)

lemma keeps_check_policy: "keepsE (\<lambda>w. P (rt_server w)) (check_hitl_policy opa t act claims n)"
  unfolding check_hitl_policy_def by (intro keeps_intros keeps_lenses)

context workflow_client
begin

lemma keeps_snapshot: "keepsE (others c0) (get_snapshot cl t)"
  unfolding keepsE_def using get_snapshot_run(1) trans by (metis prod.exhaust_sel)

lemma authorize_others:
  assumes "authorize_hitl_action lib cfg t act auth w = (r, w')" "rt_approval_service w = Some cl"
  shows "others (rt_server w) (rt_server w')"
proof (cases "fst (require_hitl_controls w)")
  case (Inl e)
  then show ?thesis
    using assms(1) require_hitl_state [of w] stays
    by (auto simp: authorize_hitl_action_def bindE_def split: prod.splits)
next
  case (Inr x)
  then obtain opa where req: "require_hitl_controls w = (Inr (cl, opa), w)"
    using require_hitl_Inr [of w] require_hitl_state [of w] assms(2) by (metis option.inject prod.exhaust_sel)
  have "keepsE (\<lambda>v. others (rt_server w) (rt_server v)) (bindE (liftE (extract_bearer_token auth)) (\<lambda>token.
     bindE (check_hitl_token lib cfg t act token) (\<lambda>claims.
     bindE (on_server (get_snapshot cl t)) (\<lambda>n. check_hitl_policy opa t act claims n))))"
    by (intro keeps_intros keeps_lenses keeps_check_token keeps_check_policy keeps_snapshot)
  from keepsE_D [OF this, of w] show ?thesis
    using assms(1) req stays by (simp add: authorize_hitl_action_def bindE_def [of require_hitl_controls])
qed

end

definition refusal_of :: "uuid \<Rightarrow> exn \<Rightarrow> exn" where
  "refusal_of t e =
     (if isinstance e PendingApprovalConflictError then error_response 409 ''pending_approval_conflict'' (str_exn e) t (Some e)
      else if isinstance e PendingApprovalNotFoundError then error_response 404 ''pending_approval_not_found'' (str_exn e) t (Some e)
      else e)"

lemma decision_refusal_eq: "decision_refusal t e w = (Inl (refusal_of t e), w)"
  by (simp add: decision_refusal_def refusal_of_def raiseE_def)

text \<open>How a decision can end: refused before the workflow is asked, or with the decision of the service.\<close>

lemma decide_task_cases:
  assumes "decide_task lib cfg errs act decision t raw auth w = (r, w')" "rt_approval_service w = Some cl"
  obtains (refused) e where "r = Inl e" "w' = w"
      "(rt_policy_engine w = None \<or> rt_session_mgr w = None) \<and> exc_cls e = RuntimeError \<or>
       (\<exists>x. validate_decision_request errs raw = Inl x) \<and> exc_cls e = HTTPException 400"
  | (unauthorised) e opa where "authorize_hitl_action lib cfg t act auth w = (Inl e, w')" "r = Inl (refusal_of t e)"
      "require_hitl_controls w = (Inr (cl, opa), w)"
  | (decided) x w1 q d c' where "authorize_hitl_action lib cfg t act auth w = (Inr x, w1)"
      "validate_decision_request errs raw = Inr q" "decision cl t (dq_approver_id q) (dq_reason q) (rt_server w1) = (d, c')"
      "rt_server w' = c'"
      "case d of Inl e \<Rightarrow> r = Inl (refusal_of t e) | Inr res \<Rightarrow> \<exists>ts. r = Inr \<lparr>dr_task_id = t, dr_status = ad_status res, dr_actor_id = ad_actor_id res, dr_timestamp = ts\<rparr>"
proof (cases "fst (require_hitl_controls w)")
  case (Inl e)
  then have "(rt_policy_engine w = None \<or> rt_session_mgr w = None) \<and> exc_cls e = RuntimeError"
    using assms(2) by (auto simp: require_hitl_controls_def split: option.splits)
  then show ?thesis
    using Inl assms(1) require_hitl_state [of w] refused by (auto simp: decide_task_def bindE_def split: prod.splits)
next
  case (Inr x)
  then obtain opa where req: "require_hitl_controls w = (Inr (cl, opa), w)"
    using require_hitl_Inr [of w] require_hitl_state [of w] assms(2) by (metis option.inject prod.exhaust_sel)
  show ?thesis
  proof (cases "parse_approval_request errs raw t")
    case (Inl e)
    then have "(\<exists>x. validate_decision_request errs raw = Inl x) \<and> exc_cls e = HTTPException 400"
      by (auto simp: parse_approval_request_def validate_decision_request_def error_response_def http_exception_def isinstance_def
          split: sum.splits option.splits if_splits)
    then show ?thesis
      using Inl assms(1) req refused by (auto simp: decide_task_def bindE_def liftE_def)
  next
    case (Inr q)
    then have q: "validate_decision_request errs raw = Inr q"
      by (auto simp: parse_approval_request_def split: sum.splits)
    obtain a w1 where a: "authorize_hitl_action lib cfg t act auth w = (a, w1)"
      by fastforce
    obtain d c' where d: "decision cl t (dq_approver_id q) (dq_reason q) (rt_server w1) = (d, c')"
      by fastforce
    have run: "bindE (tryE (thenE (authorize_hitl_action lib cfg t act auth)
                   (on_server (decision cl t (dq_approver_id q) (dq_reason q)))) (decision_refusal t)) (\<lambda>res.
        bindE now_utc (\<lambda>ts.
        returnE \<lparr>dr_task_id = t, dr_status = ad_status res, dr_actor_id = ad_actor_id res, dr_timestamp = ts\<rparr>)) w = (r, w')"
      using assms(1) req Inr by (simp add: decide_task_def bindE_def liftE_def)
    show ?thesis
    proof (cases a)
      case (Inl e0)
      then show ?thesis
        using run a unauthorised req by (auto simp: tryE_def thenE_def bindE_def decision_refusal_eq)
    next
      case (Inr y)
      have "rt_server w' = c' \<and> (case d of Inl e \<Rightarrow> r = Inl (refusal_of t e) | Inr res \<Rightarrow>
          \<exists>ts. r = Inr \<lparr>dr_task_id = t, dr_status = ad_status res, dr_actor_id = ad_actor_id res, dr_timestamp = ts\<rparr>)"
        using run a Inr d
        by (cases d) (auto simp: decision_refusal_eq tryE_def thenE_def bindE_def on_server_def zoomE_def now_utc_def getE_def modifyE_def returnE_def
            split: prod.splits)
      then show ?thesis
        using decided a Inr q d by blast
    qed
  qed
qed

definition hitl_decision ::
  "bool \<Rightarrow> 'r token_libs \<Rightarrow> settings \<Rightarrow> (json dict \<Rightarrow> string) \<Rightarrow> uuid \<Rightarrow> json dict \<Rightarrow> string option \<Rightarrow> ('r, 'c, approval_decision_response) handler" where
  "hitl_decision ok = (if ok then approve_task else deny_task)"

lemma hitl_decision_eq:
  "hitl_decision ok lib cfg errs t raw auth =
     decide_task lib cfg errs (if ok then ''approve'' else ''deny'') (if ok then service_approve else service_deny) t raw auth"
  by (simp add: hitl_decision_def approve_task_def deny_task_def)

lemma service_silent:
  assumes "workflow_client cl view others" "(if ok then service_approve else service_deny) cl t a r c = (x, c')"
    and "\<not> others c c' \<or> \<not> isl x"
  shows "\<exists>c1 w. others c c1 \<and> view c1 (str_uuid t) = Some w \<and> tw_approval_state w = AWAITING_APPROVAL"
proof -
  obtain sg res where d: "decide cl t sg res c = (x, c')"
    using assms(2) by (cases ok) (auto simp: service_decides)
  show ?thesis
  proof (cases x)
    case (Inl e)
    then show ?thesis
      using workflow_client.decide_silent [OF assms(1) d] assms(3) by simp
  next
    case (Inr y)
    then show ?thesis
      using workflow_client.decide_Inr [OF assms(1)] d by blast
  qed
qed

lemma decision_authorised:
  assumes "workflow_client cl view others" and "rt_approval_service w = Some cl"
    and "hitl_decision ok lib cfg errs t raw auth w = (r, w')"
    and "\<not> others (rt_server w) (rt_server w') \<or> \<not> isl r"
  shows "\<exists>claims c1 wf c2 wf2. token_authorises lib cfg (if ok then ''approve'' else ''deny'') auth w claims \<and>
    others (rt_server w) c1 \<and> view c1 (str_uuid t) = Some wf \<and>
    (tc_session_id claims = tw_session_id wf \<or> tc_session_id claims = None \<or> tw_session_id wf = None) \<and>
    policy_authorises w \<lparr>pin_agent_type = tw_agent_type wf, pin_requester_id = tc_sub claims,
      pin_action = (if ok then ''approve'' else ''deny''), pin_resource = ''workflow:pending_approval'',
      pin_metadata = tc_metadata claims, pin_principal_role = tc_role claims, pin_token_expired = False\<rparr> \<and>
    others c1 c2 \<and> view c2 (str_uuid t) = Some wf2 \<and> tw_approval_state wf2 = AWAITING_APPROVAL"
proof -
  let ?act = "if ok then ''approve'' else ''deny''"
  show ?thesis
    using assms(3) [unfolded hitl_decision_eq] assms(2)
  proof (cases rule: decide_task_cases)
    case (refused e)
    then show ?thesis using assms(4) workflow_client.stays [OF assms(1)] by auto
  next
    case (unauthorised e opa)
    then show ?thesis
      using assms(4) workflow_client.authorize_others [OF assms(1) unauthorised(1) assms(2)] by auto
  next
    case (decided x w1 q d c')
    obtain claims n where a: "token_authorises lib cfg ?act auth w claims" "get_snapshot cl t (rt_server w) = (Inr n, rt_server w1)"
        "\<not> other_session claims n" "policy_authorises w (hitl_policy_input n claims ?act)"
      using authorize_decision_Inr [OF decided(1) assms(2)] by blast
    obtain wf where wf: "others (rt_server w) (rt_server w1)" "view (rt_server w1) (str_uuid t) = Some wf" "n = approval_status wf"
      using workflow_client.get_snapshot_run [OF assms(1) a(2)] by blast
    have "\<not> others (rt_server w1) c' \<or> \<not> isl d"
      using assms(4) decided(4,5) workflow_client.trans [OF assms(1) wf(1), of c'] by (auto split: sum.splits)
    then obtain c2 wf2 where "others (rt_server w1) c2" "view c2 (str_uuid t) = Some wf2" "tw_approval_state wf2 = AWAITING_APPROVAL"
      using service_silent [OF assms(1), of ok t _ _ "rt_server w1" d c'] decided(3) by blast
    moreover have "tc_session_id claims = tw_session_id wf \<or> tc_session_id claims = None \<or> tw_session_id wf = None"
      using a(3) wf(3) by (auto simp: other_session_def approval_status_def split: option.splits)
    moreover have "hitl_policy_input n claims ?act = \<lparr>pin_agent_type = tw_agent_type wf, pin_requester_id = tc_sub claims,
        pin_action = ?act, pin_resource = ''workflow:pending_approval'',
        pin_metadata = tc_metadata claims, pin_principal_role = tc_role claims, pin_token_expired = False\<rparr>"
      using wf(3) by (simp add: hitl_policy_input_def approval_status_def)
    ultimately show ?thesis
      using a(1,4) wf(1,2) by metis
  qed
qed

text \<open>
  (C5) Who can decide. A signal is sent to a workflow, or a decision reported as accepted, only when
  the request carries a bearer token that this session manager validates and that is scoped for the
  action, the session of the token is not another one than the workflow's, the policy server allowed
  the action to the subject and role of the token, and the workflow was awaiting approval after that.
  In every other case, an unreachable policy server included, nothing is signalled.
\<close>

theorem hitl_decision_authorised:
  assumes "workflow_client cl view others" and "rt_approval_service w = Some cl"
    and "hitl_decision ok lib cfg errs t raw auth w = (r, w')"
    and "\<not> others (rt_server w) (rt_server w') \<or> \<not> isl r"
  shows "\<exists>claims c1 wf c2 wf2. token_authorises lib cfg (if ok then ''approve'' else ''deny'') auth w claims \<and>
    others (rt_server w) c1 \<and> view c1 (str_uuid t) = Some wf \<and>
    (tc_session_id claims = tw_session_id wf \<or> tc_session_id claims = None \<or> tw_session_id wf = None) \<and>
    policy_authorises w \<lparr>pin_agent_type = tw_agent_type wf, pin_requester_id = tc_sub claims,
      pin_action = (if ok then ''approve'' else ''deny''), pin_resource = ''workflow:pending_approval'',
      pin_metadata = tc_metadata claims, pin_principal_role = tc_role claims, pin_token_expired = False\<rparr> \<and>
    others c1 c2 \<and> view c2 (str_uuid t) = Some wf2 \<and> tw_approval_state wf2 = AWAITING_APPROVAL"
  using assms by (rule decision_authorised)

text \<open>
  (C34) What a decision that was accepted did: the body held an approver and a reason within their
  bounds, the response names that approver, and the workflow received the decision under that name
  if it was still awaiting approval at that time, and else dropped it. The subject of the token plays
  no part in it.
\<close>

theorem decision_attributed_to_body:
  assumes "workflow_client cl view others" and "rt_approval_service w = Some cl"
    and "hitl_decision ok lib cfg errs t raw auth w = (Inr resp, w')"
  shows "\<exists>a reason c1 wf. map_of raw ''approver_id'' = Some (JStr a) \<and> length a \<in> {1..256} \<and>
    map_of raw ''reason'' = Some (JStr reason) \<and> length reason \<in> {1..4096} \<and>
    dr_task_id resp = t \<and> dr_actor_id resp = a \<and> dr_status resp = (if ok then ''approved'' else ''denied'') \<and>
    others (rt_server w) c1 \<and> view c1 (str_uuid t) = Some wf \<and>
    view (rt_server w') = (view c1)(str_uuid t \<mapsto>
      (if tw_approval_state wf = AWAITING_APPROVAL then wf\<lparr>tw_approval_signal := Some (payload_of ok a reason)\<rparr> else wf))"
  using assms(3) [unfolded hitl_decision_eq] assms(2)
proof (cases rule: decide_task_cases)
  case (decided x w1 q d c')
  then obtain res where d: "d = Inr res" "dr_task_id resp = t" "dr_status resp = ad_status res" "dr_actor_id resp = ad_actor_id res"
    by (cases d) auto
  let ?a = "dq_approver_id q" and ?r = "dq_reason q"
  have q: "map_of raw ''approver_id'' = Some (JStr ?a)" "length ?a \<in> {1..256}"
      "map_of raw ''reason'' = Some (JStr ?r)" "length ?r \<in> {1..4096}"
    using decided(2) by (auto simp: validate_decision_request_def bounded_str_def split: option.splits json.splits if_splits)
  obtain c1 wf c2 wf2 where s: "others (rt_server w1) c1" "others c1 c2" "view c2 (str_uuid t) = Some wf2"
      "view c' = (view c2)(str_uuid t \<mapsto>
        (if tw_approval_state wf2 = AWAITING_APPROVAL then wf2\<lparr>tw_approval_signal := Some (payload_of ok ?a ?r)\<rparr> else wf2))"
      "ad_status res = (if ok then ''approved'' else ''denied'')" "ad_actor_id res = ?a"
    using service_decide_Inr [OF assms(1), of ok t ?a ?r "rt_server w1" res c'] decided(3) d(1) by (auto split: if_splits)
  have "others (rt_server w) c2"
    using workflow_client.authorize_others [OF assms(1) decided(1) assms(2)] s(1,2) workflow_client.trans [OF assms(1)] by blast
  then show ?thesis
    using q d s decided(4) by (intro exI [of _ ?a] exI [of _ ?r] exI [of _ c2] exI [of _ wf2]) simp
qed simp_all

section \<open>Which decisions fail, and which do not\<close>

context workflow_client
begin

lemma decide_Inl_run:
  assumes "decide cl t sg res c = (Inl e, c')"
  shows "exc_cls e \<in> {PendingApprovalNotFoundError, PendingApprovalConflictError} \<and> others c c' \<or>
    (\<exists>c1. cl_signal cl (str_uuid t) sg c1 = (Inl e, c'))"
proof -
  obtain q c1 where g: "get_pending_snapshot cl t c = (q, c1)"
    by fastforce
  show ?thesis
  proof (cases q)
    case (Inl e')
    then show ?thesis
      using assms g get_pending_snapshot_run(1,3) [OF g] by (auto simp: decide_def thenE_def bindE_def conflict_error_def)
  next
    case (Inr n)
    then show ?thesis
      using assms g by (auto simp: decide_def thenE_def bindE_def returnE_def split: prod.splits sum.splits)
  qed
qed

end






lemma refusal_http: "exc_cls e = HTTPException st \<Longrightarrow> refusal_of t e = e"
  by (simp add: refusal_of_def isinstance_def)







text \<open>The other direction: what is authorised and accepted by the service goes through.\<close>

lemma decision_goes_through:
  assumes plane: "rt_approval_service w = Some cl" "rt_policy_engine w = Some opa" "rt_session_mgr w = Some m"
    and body: "validate_decision_request errs raw = Inr q" and bearer: "extract_bearer_token auth = Inr token"
    and token: "validate_token lib cfg token m = (Inr claims, m')" "''hitl:'' @ act \<in> set (tc_allowed_actions claims)"
    and snap: "cl_query cl (str_uuid t) (rt_server w) = (Inr n, c1)" "\<not> other_session claims n"
    and policy: "evaluate opa ''agent_access'' (hitl_policy_input n claims act) (rt_http w) = (Inr d, h)" "pr_allowed d"
    and service: "decision cl t (dq_approver_id q) (dq_reason q) c1 = (Inr res, c2)"
  shows "\<exists>w' ts. decide_task lib cfg errs act decision t raw auth w =
    (Inr \<lparr>dr_task_id = t, dr_status = ad_status res, dr_actor_id = ad_actor_id res, dr_timestamp = ts\<rparr>, w') \<and> rt_server w' = c2"
proof -
  let ?w1 = "w\<lparr>rt_session_mgr := Some m'\<rparr>"
  let ?w2 = "?w1\<lparr>rt_server := c1, rt_http := h\<rparr>"
  have req: "require_hitl_controls w = (Inr (cl, opa), w)"
    using plane by (simp add: require_hitl_Inr)
  have "check_hitl_token lib cfg t act token w = (Inr claims, ?w1)"
    using token plane(3) by (simp add: check_hitl_token_def tryE_def bindE_def thenE_def liftE_def returnE_def on_hitl_session_def zoomE_def
        ensure_action_allowed_def)
  moreover have "on_server (get_snapshot cl t) ?w1 = (Inr n, ?w1\<lparr>rt_server := c1\<rparr>)"
    using snap(1) by (simp add: on_server_def zoomE_def get_snapshot_def tryE_def)
  moreover have "check_hitl_policy opa t act claims n (?w1\<lparr>rt_server := c1\<rparr>) = (Inr (hitl_policy_input n claims act, tc_sub claims), ?w2)"
    using snap(2) policy by (simp add: check_hitl_policy_def bindE_def returnE_def on_policy_def zoomE_def)
  ultimately have "authorize_hitl_action lib cfg t act auth w = (Inr (hitl_policy_input n claims act, tc_sub claims), ?w2)"
    using req bearer by (simp add: authorize_hitl_action_def bindE_ok)
  moreover have "parse_approval_request errs raw t = Inr q"
    using body by (simp add: parse_approval_request_def)
  ultimately show ?thesis
    using req service
    by (simp add: decide_task_def bindE_ok tryE_def thenE_def bindE_def [of "authorize_hitl_action _ _ _ _ _"] on_server_def zoomE_def)
       (simp add: now_utc_def bindE_def thenE_def getE_def modifyE_def returnE_def)
qed

section \<open>Tasks\<close>

text \<open>The status that an exception of the pipeline becomes.\<close>

definition status_of :: "exn \<Rightarrow> nat" where
  "status_of e = (if isinstance e BudgetLimitError then 429 else if isinstance e PermissionError then 403
     else if isinstance e ValueError then 400 else 500)"

lemma pipeline_refusal_eq:
  "pipeline_refusal ev t e w =
     (Inl (http_exception (status_of e) (if status_of e = 500 then ''Internal pipeline error'' else str_exn e) (Some e)),
      if status_of e = 500 then logged Error ev [(''task_id'', VStr (str_uuid t)), (''error'', VStr (str_exn e))] w else w)"
  by (simp add: pipeline_refusal_def status_of_def raiseE_def thenE_def bindE_def on_logger_run)

lemma route_task_run:
  assumes "rt_orchestrator w = Some C" "run C (route_request q) (rt_services w) = (x, s)" "route_task q w = (r, w')"
  shows "rt_services w' = s"
    "x = Inl e \<Longrightarrow> \<exists>e'. r = Inl e' \<and> exc_cls e' = HTTPException (status_of e) \<and>
       exc_msg e' = (if status_of e = 500 then ''Internal pipeline error'' else str_exn e)"
    "x = Inr res \<Longrightarrow> \<exists>resp. r = Inr resp \<and> ts_task_id resp = os_task_id res \<and> ts_message resp = lr_content (os_response res) \<and>
       ts_pii_found resp = merge_types [] (os_pii_found_in_prompt res @ os_pii_found_in_response res)"
proof -
  let ?w = "logged Info ''task.routing'' [(''task_id'', VStr (str_uuid (tr_task_id q))),
      (''agent_type'', VStr (agent_type_value (tr_agent_type q))), (''requester_id'', VStr (tr_requester_id q))] w"
  have run: "on_services (run C (route_request q)) ?w = (x, ?w\<lparr>rt_services := s\<rparr>)"
    using assms(2) by (simp add: on_services_def zoomE_def)
  have req: "require_orchestrator w = (Inr C, w)"
    using assms(1) by (simp add: require_orchestrator_def bindE_def getE_def returnE_def)
  note eval = route_task_def bindE_def thenE_def tryE_def on_logger_run returnE_def pipeline_refusal_eq
  show "rt_services w' = s"
    using assms(3) run req by (cases x) (auto simp: eval)
  show "\<exists>e'. r = Inl e' \<and> exc_cls e' = HTTPException (status_of e) \<and>
       exc_msg e' = (if status_of e = 500 then ''Internal pipeline error'' else str_exn e)" if "x = Inl e"
    using assms(3) run req that by (auto simp: eval http_exception_def)
  show "\<exists>resp. r = Inr resp \<and> ts_task_id resp = os_task_id res \<and> ts_message resp = lr_content (os_response res) \<and>
       ts_pii_found resp = merge_types [] (os_pii_found_in_prompt res @ os_pii_found_in_response res)" if "x = Inr res"
    using assms(3) run req that by (auto simp: eval)
qed

lemma injected_run:
  assumes "or_task_id q = Some task_id" "\<not> injection_free (dp_db (oc_deps C)) (or_prompt q)"
  shows "\<exists>e w'. run C q w = (Inl e, w') \<and> exc_cls e = PromptInjectionError \<and> sv_http w' = sv_http w"
proof -
  obtain e where e: "check_prompt_injection (dp_db (oc_deps C)) (or_prompt q) = Inl e" "exc_cls e = PromptInjectionError"
  proof (cases "check_prompt_injection (dp_db (oc_deps C)) (or_prompt q)")
    case (Inl e)
    then show ?thesis
      using that injection_loop_err [of "dp_db (oc_deps C)" injection_patterns "or_prompt q" e]
      by (auto simp: check_prompt_injection_def)
  next
    case (Inr u)
    then show ?thesis
      using assms(2) injection_loop_ok [of "dp_db (oc_deps C)" injection_patterns "or_prompt q"]
      by (auto simp: injection_free_def check_prompt_injection_def)
  qed
  then show ?thesis
    by (simp add: run_pipeline [OF assms(1)] pipeline_def govern_def Let_def bindE_def span_stage_run pre_sanitize_run
        like_simps [OF like_ended] like_simps [OF like_opened])
qed

lemma injected_route:
  assumes "rt_orchestrator w = Some C" "route_task q w = (r, w')" "\<not> injection_free (dp_db (oc_deps C)) (tr_prompt q)"
  shows "(\<exists>e. r = Inl e \<and> exc_cls e = HTTPException 400) \<and> sv_http (rt_services w') = sv_http (rt_services w)"
proof -
  obtain e s where e: "run C (route_request q) (rt_services w) = (Inl e, s)" "exc_cls e = PromptInjectionError"
      "sv_http s = sv_http (rt_services w)"
    using injected_run [of "route_request q" _ C "rt_services w"] assms(3) by (auto simp: route_request_def)
  have "status_of e = 400"
    using e(2) by (simp add: status_of_def isinstance_def)
  then show ?thesis
    using route_task_run(1,2) [OF assms(1) e(1) assms(2)] e(3) by auto
qed

lemma refused_route:
  assumes "rt_orchestrator w = Some C" "route_task q w = (r, w')" "injection_free (dp_db (oc_deps C)) (tr_prompt q)"
    and "evaluate (dp_opa (oc_deps C)) ''agent_access'' (request_policy_input (route_request q)) (sv_http (rt_services w)) = (d, h)"
    and "case d of Inl e \<Rightarrow> isinstance e OpaUnavailableError | Inr x \<Rightarrow> \<not> pr_allowed x \<or> pr_action x = ''reject''"
  shows "(\<exists>e. r = Inl e \<and> exc_cls e = HTTPException 403) \<and>
    ht_sent (sv_http (rt_services w')) = ht_sent (sv_http (rt_services w)) @
      [policy_request (dp_opa (oc_deps C)) ''agent_access'' (request_policy_input (route_request q))]"
proof -
  have task: "or_task_id (route_request q) = Some (tr_task_id q)"
    by (simp add: route_request_def)
  have inj: "check_prompt_injection (dp_db (oc_deps C)) (or_prompt (route_request q)) = Inr ()"
    using assms(3) injection_loop_ok [of "dp_db (oc_deps C)" injection_patterns "tr_prompt q"]
    by (auto simp: injection_free_def check_prompt_injection_def route_request_def)
  obtain e s where e: "run C (route_request q) (rt_services w) = (Inl e, s)" "exc_cls e = PolicyDeniedError"
      "ht_sent (sv_http s) = ht_sent (sv_http (rt_services w)) @
        [policy_request (dp_opa (oc_deps C)) ''agent_access'' (request_policy_input (route_request q))]"
    using refused_run [OF task inj assms(4,5)] by auto
  have "status_of e = 403"
    using e(2) by (simp add: status_of_def isinstance_def)
  then show ?thesis
    using route_task_run(1,2) [OF assms(1) e(1) assms(2)] e(3) by auto
qed

text \<open>
  (C10) Tasks over HTTP, once an orchestrator is configured (after start-up alone none is, and every request raises
  \<open>RuntimeError\<close>). A response carries content without PII of a task that was cleared and sent
  exactly the policy and the completion request. A failure is always an \<open>HTTPException\<close> with status
  429, 403, 400 or 500, and with 500 its text does not depend on the failure. A prompt with an
  injection pattern is answered with 400 and nothing is sent; a task that the policy server refuses, or
  that cannot be decided because it is unavailable, with 403 after the policy request alone.
\<close>

theorem route_task_governed:
  assumes "rt_orchestrator w = Some C" and "unicode_ok (dp_db (oc_deps C))" and "route_task q w = (r, w')"
  shows "(case r of
      Inr resp \<Rightarrow> ts_task_id resp = tr_task_id q \<and> pii_free (dp_db (oc_deps C)) (ts_message resp) \<and>
        cleared C (route_request q) (str_uuid (tr_task_id q)) (rt_services w) \<and>
        length (ht_sent (sv_http (rt_services w'))) = length (ht_sent (sv_http (rt_services w))) + 2
    | Inl e \<Rightarrow> (\<exists>status \<in> {400, 403, 429, 500}. exc_cls e = HTTPException status) \<and>
        (exc_cls e = HTTPException 500 \<longrightarrow> exc_msg e = ''Internal pipeline error'')) \<and>
    (\<not> injection_free (dp_db (oc_deps C)) (tr_prompt q) \<longrightarrow>
      (\<exists>e. r = Inl e \<and> exc_cls e = HTTPException 400) \<and> sv_http (rt_services w') = sv_http (rt_services w)) \<and>
    (\<forall>d h. injection_free (dp_db (oc_deps C)) (tr_prompt q) \<and>
      evaluate (dp_opa (oc_deps C)) ''agent_access'' (request_policy_input (route_request q)) (sv_http (rt_services w)) = (d, h) \<and>
      (case d of Inl e \<Rightarrow> isinstance e OpaUnavailableError | Inr x \<Rightarrow> \<not> pr_allowed x \<or> pr_action x = ''reject'') \<longrightarrow>
      (\<exists>e. r = Inl e \<and> exc_cls e = HTTPException 403) \<and>
      ht_sent (sv_http (rt_services w')) = ht_sent (sv_http (rt_services w)) @
        [policy_request (dp_opa (oc_deps C)) ''agent_access'' (request_policy_input (route_request q))])"
proof -
  obtain x s where run: "run C (route_request q) (rt_services w) = (x, s)"
    by fastforce
  note out = route_task_run [OF assms(1) run assms(3)]
  have "case r of
      Inr resp \<Rightarrow> ts_task_id resp = tr_task_id q \<and> pii_free (dp_db (oc_deps C)) (ts_message resp) \<and>
        cleared C (route_request q) (str_uuid (tr_task_id q)) (rt_services w) \<and>
        length (ht_sent (sv_http (rt_services w'))) = length (ht_sent (sv_http (rt_services w))) + 2
    | Inl e \<Rightarrow> (\<exists>status \<in> {400, 403, 429, 500}. exc_cls e = HTTPException status) \<and>
        (exc_cls e = HTTPException 500 \<longrightarrow> exc_msg e = ''Internal pipeline error'')"
  proof (cases x)
    case (Inl e)
    then show ?thesis
      using out(2) [of e] by (auto simp: status_of_def)
  next
    case (Inr res)
    have "or_task_id (route_request q) = Some (tr_task_id q)"
      by (simp add: route_request_def)
    from completed_run [OF assms(2) this, of "rt_services w" res s] show ?thesis
      using out(1) out(3) [OF Inr] run Inr by auto
  qed
  then show ?thesis
    using injected_route [OF assms(1,3)] refused_route [OF assms(1,3)] by blast
qed

section \<open>A control plane\<close>

definition hitl_request :: token_request where
  "hitl_request = scoped_token_request ''hr'' ''carol'' None [''hitl:approve''] (Some ''manager'') None None"

definition hitl_table :: jwt_table where
  "hitl_table = [(''tok-h'', token_payload hitl_request (str_uuid (demo_uuids 0)) 0 900, token_secret_key default_settings, ''HS256'', [])]"

definition demo_plane :: "(string \<rightharpoonup> rat, workflow_server) control_plane" where
  "demo_plane = \<lparr>rt_orchestrator = Some (demo_orchestrator 900), rt_approval_service = Some server_client,
     rt_policy_engine = Some ''http://opa'', rt_session_mgr = Some demo_manager, rt_logger = new_audit_logger ''router'' int demo_span,
     rt_services = demo_world, rt_http = sv_http demo_world, rt_server = demo_server, rt_clock = int, rt_ticks = 0\<rparr>"

definition demo_decision :: "json dict" where
  "demo_decision = [(''approver_id'', JStr ''mallory''), (''reason'', JStr ''ok'')]"

lemma hitl_token_valid:
  "\<exists>claims. validate_token (table_libs hitl_table) default_settings ''tok-h'' demo_manager = (Inr claims, after_validation demo_manager) \<and>
     tc_allowed_actions claims = [''hitl:approve''] \<and> tc_session_id claims = None"
proof -
  have vk: "verification_key (table_libs hitl_table) default_settings = Inr (token_secret_key default_settings)"
    by (simp add: verification_key_def default_settings_def starts_with_HS_def)
  have dec: "jwt_decode (table_libs hitl_table) ''tok-h'' (token_secret_key default_settings) (token_algorithm default_settings)
      (sm_clock demo_manager (sm_ticks demo_manager)) = Inr (full_payload hitl_request (str_uuid (demo_uuids 0)) 0 900 None)"
    by (simp add: table_libs_def hitl_table_def default_settings_def demo_pair_def starts_with_HS_def live_at_def token_payload_def
        full_payload_def demo_manager_def)
  show ?thesis
    using validate_token_decoded [OF vk dec, of "str_uuid (demo_uuids 0)"]
    by (simp add: token_claims_of_payload)
       (simp add: after_validation_def demo_manager_def claims_for_def hitl_request_def scoped_token_request_def)
qed

lemma demo_decision_accepted:
  "\<exists>resp w'. hitl_decision True (table_libs hitl_table) default_settings (\<lambda>_. []) demo_session_id demo_decision (Some ''Bearer tok-h'') demo_plane
     = (Inr resp, w')"
proof -
  obtain claims where c: "validate_token (table_libs hitl_table) default_settings ''tok-h'' demo_manager = (Inr claims, after_validation demo_manager)"
      "tc_allowed_actions claims = [''hitl:approve'']" "tc_session_id claims = None"
    using hitl_token_valid by blast
  have b: "extract_bearer_token (Some ''Bearer tok-h'') = Inr ''tok-h''"
    by code_simp
  have q: "validate_decision_request (\<lambda>_. []) demo_decision = Inr \<lparr>dq_approver_id = ''mallory'', dq_reason = ''ok''\<rparr>"
    by (simp add: validate_decision_request_def bounded_str_def demo_decision_def)
  have snap: "cl_query server_client (str_uuid demo_session_id) (rt_server demo_plane) = (Inr (approval_status awaiting_workflow), demo_server)"
    by (simp add: server_client_def server_query_def demo_plane_def demo_server_simps Let_def)
  have plane: "rt_approval_service demo_plane = Some server_client" "rt_policy_engine demo_plane = Some ''http://opa''"
      "rt_session_mgr demo_plane = Some demo_manager" "rt_http demo_plane = sv_http demo_world"
    by (simp_all add: demo_plane_def)
  obtain d h where "evaluate ''http://opa'' ''agent_access'' (hitl_policy_input (approval_status awaiting_workflow) claims ''approve'') (rt_http demo_plane)
      = (Inr d, h)" "pr_allowed d"
    using demo_evaluate plane(4) by fastforce
  moreover obtain y c where "service_approve server_client demo_session_id ''mallory'' ''ok'' demo_server = (Inr y, c)"
    by (simp add: service_decide_eval demo_server_simps)
  ultimately show ?thesis
    using decision_goes_through [OF plane(1-3) q b c(1) _ snap, of "''approve''"] c(2,3)
    by (fastforce simp: hitl_decision_eq other_session_def)
qed

lemma demo_plane_simps: "rt_approval_service demo_plane = Some server_client" "rt_server demo_plane = demo_server"
  "rt_orchestrator demo_plane = Some (demo_orchestrator 900)" "rt_services demo_plane = demo_world"
  by (simp_all add: demo_plane_def)

theorem hitl_decision_authorised_witness:
  "\<exists>claims. token_authorises (table_libs hitl_table) default_settings ''approve'' (Some ''Bearer tok-h'') demo_plane claims"
proof -
  obtain resp w' where r: "hitl_decision True (table_libs hitl_table) default_settings (\<lambda>_. []) demo_session_id demo_decision (Some ''Bearer tok-h'')
      demo_plane = (Inr resp, w')"
    using demo_decision_accepted by blast
  show ?thesis
    using hitl_decision_authorised [OF server.workflow_client_axioms demo_plane_simps(1) r] by auto
qed

theorem decision_attributed_to_body_witness:
  "\<exists>resp w'. hitl_decision True (table_libs hitl_table) default_settings (\<lambda>_. []) demo_session_id demo_decision (Some ''Bearer tok-h'') demo_plane
     = (Inr resp, w') \<and> dr_actor_id resp = ''mallory'' \<and> rq_requester_id hitl_request = ''carol''"
proof -
  obtain resp w' where r: "hitl_decision True (table_libs hitl_table) default_settings (\<lambda>_. []) demo_session_id demo_decision (Some ''Bearer tok-h'')
      demo_plane = (Inr resp, w')"
    using demo_decision_accepted by blast
  show ?thesis
    using decision_attributed_to_body [OF server.workflow_client_axioms demo_plane_simps(1) r] r
    by (auto simp: demo_decision_def hitl_request_def scoped_token_request_def)
qed


definition demo_task_request :: "utext \<Rightarrow> task_request" where
  "demo_task_request prompt = \<lparr>tr_task_id = demo_task, tr_prompt = prompt, tr_description = [], tr_agent_type = HR,
     tr_requester_id = ''alice'', tr_model = ''m'', tr_max_tokens = 10, tr_temperature = 0, tr_system_prompt = [], tr_metadata = [],
     tr_protect_outbound_request = False\<rparr>"

theorem route_task_governed_witness:
  "\<exists>e w'. route_task (demo_task_request (asc ''jailbreak'')) demo_plane = (Inl e, w') \<and> exc_cls e = HTTPException 400 \<and>
     sv_http (rt_services w') = sv_http demo_world"
proof -
  let ?q = "demo_task_request (asc ''jailbreak'')"
  obtain r w' where r: "route_task ?q demo_plane = (r, w')"
    by fastforce
  have db: "unicode_ok (dp_db (oc_deps (demo_orchestrator 900)))"
    by (simp add: demo_run_simps ascii_db_ok)
  have "injection_loop ascii_db injection_patterns (asc ''jailbreak'') \<noteq> Inr ()"
    by code_simp
  then have "\<not> injection_free (dp_db (oc_deps (demo_orchestrator 900))) (tr_prompt ?q)"
    by (simp add: injection_loop_ok injection_free_def demo_run_simps demo_task_request_def)
  then show ?thesis
    using route_task_governed [OF demo_plane_simps(3) db r] r demo_plane_simps(4) by auto
qed

end
