(* ===== verification/HumanApproval.thy ===== *)
theory HumanApproval
  imports TaskSafety RouterSafety
begin

text \<open>
  The API process and the workflow together. A client that keeps a record of the signals it was asked to
  send stands between the router and the Temporal server; the workflow receives only signals of this
  record. Every approval in the record comes from a decision request that was authorised.
\<close>

section \<open>The signals that were sent\<close>

type_synonym sent_signals = "(string \<times> signal) list"

definition recording :: "'c temporal_client \<Rightarrow> ('c \<times> sent_signals) temporal_client" where
  "recording cl =
     \<lparr>cl_query = (\<lambda>i s. case cl_query cl i (fst s) of (r, c) \<Rightarrow> (r, (c, snd s))),
      cl_signal = (\<lambda>i sg s. case cl_signal cl i sg (fst s) of (r, c) \<Rightarrow> (r, (c, snd s @ [(i, sg)]))),
      cl_list_workflows = (\<lambda>l s. case cl_list_workflows cl l (fst s) of (r, c) \<Rightarrow> (r, (c, snd s)))\<rparr>"

definition unsignalled :: "('c \<Rightarrow> 'c \<Rightarrow> bool) \<Rightarrow> 'c \<times> sent_signals \<Rightarrow> 'c \<times> sent_signals \<Rightarrow> bool" where
  "unsignalled others s s' \<longleftrightarrow> others (fst s) (fst s') \<and> snd s' = snd s"

context workflow_client
begin

lemma recording_client: "workflow_client (recording cl) (\<lambda>s. view (fst s)) (unsignalled others)"
proof
  fix i c r c'
  assume "cl_query (recording cl) i c = (r, c')"
  then show "unsignalled others c c'"
    using query by (auto simp: recording_def unsignalled_def split: prod.splits)
next
  fix i c n c'
  assume "cl_query (recording cl) i c = (Inr n, c')"
  then show "\<exists>w. view (fst c') i = Some w \<and> n = approval_status w"
    using query_Inr by (fastforce simp: recording_def split: prod.splits)
next
  fix l c q c'
  assume "cl_list_workflows (recording cl) l c = (q, c')"
  then show "unsignalled others c c'"
    using listing by (auto simp: recording_def unsignalled_def split: prod.splits)
next
  fix i sg c u c'
  assume "cl_signal (recording cl) i sg c = (Inr u, c')"
  then obtain c1 w where "others (fst c) c1" "view c1 i = Some w" "view (fst c') = (view c1)(i \<mapsto> receive sg w)"
    using signal [of i sg "fst c"] by (fastforce simp: recording_def split: prod.splits)
  then show "\<exists>c1 w. unsignalled others c c1 \<and> view (fst c1) i = Some w \<and> view (fst c') = (view (fst c1))(i \<mapsto> receive sg w)"
    by (intro exI [of _ "(c1, snd c)"] exI [of _ w]) (simp add: unsignalled_def)
next
  fix c c1 c2
  show "unsignalled others c c"
    by (simp add: unsignalled_def stays)
  show "unsignalled others c c2" if "unsignalled others c c1" "unsignalled others c1 c2"
    using that trans by (auto simp: unsignalled_def)
qed

end

interpretation recorded_server: workflow_client "recording server_client" "\<lambda>s. ws_open (fst s)" "unsignalled advances"
  by (rule server.recording_client)


section \<open>Decision requests\<close>

lemma decide_recorded:
  assumes "workflow_client cl view others" and "decide (recording cl) t sg res s = (r, s')"
  shows "snd s' = snd s \<or> snd s' = snd s @ [(str_uuid t, sg)]"
proof -
  obtain q s1 where pending: "get_pending_snapshot (recording cl) t s = (q, s1)"
    by (cases "get_pending_snapshot (recording cl) t s")
  then have "snd s1 = snd s"
    using workflow_client.get_pending_snapshot_run(1) [OF workflow_client.recording_client [OF assms(1)] pending]
    by (simp add: unsignalled_def)
  moreover have "snd s2 = snd s1 @ [(str_uuid t, sg)]" if "cl_signal (recording cl) (str_uuid t) sg s1 = (p, s2)" for p s2
    using that by (auto simp: recording_def split: prod.splits)
  ultimately show ?thesis
    using assms(2) pending by (auto simp: decide_def thenE_def bindE_def returnE_def split: prod.splits sum.splits)
qed

definition decision_signal :: "bool \<Rightarrow> string \<Rightarrow> string \<Rightarrow> signal" where
  "decision_signal ok a r = (if ok then Approve else Deny) (payload_of ok a r)"

lemma payload_decision_signal [simp]: "payload (decision_signal ok a r) = payload_of ok a r"
  by (simp add: decision_signal_def)

lemma decision_recorded:
  assumes "workflow_client cl view others" and "rt_approval_service w = Some (recording cl)"
    and "hitl_decision ok lib cfg errs t raw auth w = (r, w')"
  shows "snd (rt_server w') = snd (rt_server w) \<or> (\<exists>a reason. snd (rt_server w') = snd (rt_server w) @ [(str_uuid t, decision_signal ok a reason)])"
  using assms(3) [unfolded hitl_decision_eq] assms(2)
proof (cases rule: decide_task_cases)
  case (refused e)
  then show ?thesis by simp
next
  case (unauthorised e)
  then show ?thesis
    using workflow_client.authorize_others [OF workflow_client.recording_client [OF assms(1)] unauthorised(1) assms(2)]
    by (simp add: unsignalled_def)
next
  case (decided x w1 q d c')
  have "snd (rt_server w1) = snd (rt_server w)"
    using workflow_client.authorize_others [OF workflow_client.recording_client [OF assms(1)] decided(1) assms(2)]
    by (simp add: unsignalled_def)
  moreover obtain res where "decide (recording cl) t (decision_signal ok (dq_approver_id q) (dq_reason q)) res (rt_server w1) = (d, c')"
    using decided(3) by (cases ok) (auto simp: service_decides decision_signal_def payload_of_def)
  ultimately show ?thesis
    using decide_recorded [OF assms(1)] decided(4) by fastforce
qed

section \<open>A history of the API process\<close>

text \<open>
  The decision requests that a process has handled, each with the state that it met. Whatever else
  happens between them (other handlers, the progress of workflows, expiry, a new configuration) may
  change everything but the record of signals.
\<close>

record ('r, 'c) decision_request =
  dh_plane :: "('r, 'c) control_plane"
  dh_approve :: bool
  dh_task :: uuid
  dh_auth :: "string option"

inductive api_history ::
  "'r token_libs \<Rightarrow> settings \<Rightarrow> 'c temporal_client \<Rightarrow> ('r, 'c \<times> sent_signals) control_plane
     \<Rightarrow> ('r, 'c \<times> sent_signals) decision_request list \<Rightarrow> ('r, 'c \<times> sent_signals) control_plane \<Rightarrow> bool"
  for lib cfg cl w0 where
  api_start: "api_history lib cfg cl w0 [] w0"
| api_decision: "api_history lib cfg cl w0 hs w \<Longrightarrow> rt_approval_service w = Some (recording cl) \<Longrightarrow>
    hitl_decision ok lib cfg errs t raw auth w = (r, w') \<Longrightarrow>
    api_history lib cfg cl w0 (hs @ [\<lparr>dh_plane = w, dh_approve = ok, dh_task = t, dh_auth = auth\<rparr>]) w'"
| api_other: "api_history lib cfg cl w0 hs w \<Longrightarrow> snd (rt_server w') = snd (rt_server w) \<Longrightarrow> api_history lib cfg cl w0 hs w'"

text \<open>An approval that was authorised: by token, session and policy server, for the workflow as it was then.\<close>

definition authorised_approval ::
  "'r token_libs \<Rightarrow> settings \<Rightarrow> ('c \<Rightarrow> string \<Rightarrow> agent_task_workflow option) \<Rightarrow> ('c \<Rightarrow> 'c \<Rightarrow> bool)
     \<Rightarrow> ('r, 'c \<times> sent_signals) decision_request \<Rightarrow> string \<Rightarrow> bool" where
  "authorised_approval lib cfg view others h i \<longleftrightarrow> dh_approve h \<and> str_uuid (dh_task h) = i \<and>
     (\<exists>claims c wf. token_authorises lib cfg ''approve'' (dh_auth h) (dh_plane h) claims \<and>
        others (fst (rt_server (dh_plane h))) c \<and> view c i = Some wf \<and>
        (tc_session_id claims = tw_session_id wf \<or> tc_session_id claims = None \<or> tw_session_id wf = None) \<and>
        policy_authorises (dh_plane h) \<lparr>pin_agent_type = tw_agent_type wf, pin_requester_id = tc_sub claims, pin_action = ''approve'',
          pin_resource = ''workflow:pending_approval'', pin_metadata = tc_metadata claims, pin_principal_role = tc_role claims,
          pin_token_expired = False\<rparr>)"

lemma history_approvals:
  assumes "workflow_client cl view others" and "api_history lib cfg cl w0 hs w" and "snd (rt_server w0) = []"
    and "(i, sg) \<in> set (snd (rt_server w))" and "sg_approved (payload sg)"
  shows "\<exists>h \<in> set hs. authorised_approval lib cfg view others h i"
  using assms(2,4)
proof induction
  case api_start
  then show ?case using assms(3) by simp
next
  case (api_decision hs w ok errs t raw auth r w')
  let ?h = "\<lparr>dh_plane = w, dh_approve = ok, dh_task = t, dh_auth = auth\<rparr>"
  show ?case
  proof (cases "snd (rt_server w') = snd (rt_server w)")
    case True
    then show ?thesis using api_decision by auto
  next
    case False
    then obtain a reason where new: "snd (rt_server w') = snd (rt_server w) @ [(str_uuid t, decision_signal ok a reason)]"
      using decision_recorded [OF assms(1) api_decision(2,3)] by blast
    have "\<not> unsignalled others (rt_server w) (rt_server w') \<or> \<not> isl r"
      using False by (simp add: unsignalled_def)
    from decision_authorised [OF workflow_client.recording_client [OF assms(1)] api_decision(2,3) this]
    have "ok \<Longrightarrow> authorised_approval lib cfg view others ?h (str_uuid t)"
      unfolding authorised_approval_def unsignalled_def by (simp del: split_paired_Ex) blast
    moreover have "ok" if "(i, sg) = (str_uuid t, decision_signal ok a reason)"
      using that assms(5) by (simp add: payload_of_def)
    ultimately show ?thesis
      using new api_decision(4,5) by auto
  qed
next
  case (api_other hs w w')
  then show ?case by simp
qed

lemma in_time_subset: "set (in_time timeout after bs) \<subseteq> set bs"
proof
  fix b
  assume "b \<in> set (in_time timeout after bs)"
  then obtain j where "(j, b) \<in> set (enumerate 0 bs)"
    unfolding in_time_def by (auto dest: set_takeWhileD)
  then show "b \<in> set bs"
    unfolding enumerate_eq_zip by (rule set_zip_rightD)
qed

lemma gate_decision_in:
  assumes "gate_decision inbox after timeout n = Some d"
  shows "\<exists>sg. d = payload sg \<and> (sg \<in> set (concat (inbox n)) \<or> sg \<in> set (concat (inbox (Suc n))))"
proof (cases "concat (inbox n) = []")
  case False
  then show ?thesis
    using assms last_in_set [OF False] by (auto simp: gate_decision_def)
next
  case True
  then obtain b bs where b: "filter (\<lambda>b. b \<noteq> []) (in_time timeout (after (Suc n)) (inbox (Suc n))) = b # bs" "d = payload (last b)"
    using assms by (auto simp: gate_decision_def split: list.splits)
  have "b \<in> set (filter (\<lambda>b. b \<noteq> []) (in_time timeout (after (Suc n)) (inbox (Suc n))))"
    unfolding b(1) by simp
  then have "b \<in> set (inbox (Suc n))" "b \<noteq> []"
    using subsetD [OF in_time_subset, of b timeout "after (Suc n)" "inbox (Suc n)"] by simp_all
  then show ?thesis
    using b(2) last_in_set by (intro exI [of _ "last b"]) auto
qed

section \<open>No expensive task without an authorised approval\<close>

text \<open>
  (C1) The human in the loop. A task whose projected spend exceeds 50.00 receives only signals that the
  API sent to its workflow. If none of the requests that the API handled was an approval of this
  workflow authorised by a valid token scoped for approvals, a session that fits and the policy
  server, then whatever else happened in the API, in Temporal and on the network, the task sends
  nothing to the LLM provider, and if it returns, then with empty content as denied or timed out.
\<close>

theorem no_completion_without_authorised_approval:
  assumes "temporal ex" and "run_workflow_task ex D i k = (r, k')"
    and "tw_approval_state (kw_self k) = NOT_REQUIRED" "tw_approval_signal (kw_self k) = None"
    and "parse_decimal (wi_projected_spend_usd i) = Inr x" "50 < dval x"
    and "workflow_client cl view others" and "api_history lib cfg cl w0 hs w" and "snd (rt_server w0) = []"
    and "\<And>n sg. sg \<in> set (concat (kw_inbox k n)) \<Longrightarrow> (kw_workflow_id k, sg) \<in> set (snd (rt_server w))"
    and "\<And>h. h \<in> set hs \<Longrightarrow> \<not> authorised_approval lib cfg view others h (kw_workflow_id k)"
  shows "set (drop (length (ht_sent (client k))) (ht_sent (client k'))) \<subseteq> {task_policy_request D i} \<and>
    (\<forall>out. r = Inr out \<longrightarrow> wo_content out = [] \<and> wo_tokens_used out = 0 \<and>
       wo_workflow_status out = wo_approval_state out \<and> wo_approval_state out \<in> {''denied'', ''timed-out''})"
proof -
  let ?d = "gate_decision (kw_inbox k) (kw_after k) (of_int (wi_approval_timeout_seconds i)) (kw_waits k + 3)"
  have "\<not> sg_approved d" if d: "?d = Some d" for d
  proof
    assume "sg_approved d"
    moreover obtain sg n where "d = payload sg" "sg \<in> set (concat (kw_inbox k n))"
      using gate_decision_in [OF d] by blast
    ultimately show False
      using history_approvals [OF assms(7-9)] assms(10,11) by blast
  qed
  then have "refuses ?d"
    by (auto simp: refuses_def split: option.splits)
  then show ?thesis
    using gate_decides_task [OF assms(1-6) refl] by auto
qed

text \<open>An approval without a token is answered 401, and the task, which nobody else signals, sends its policy request at most.\<close>

definition recorded_plane :: "(string \<rightharpoonup> rat, workflow_server \<times> sent_signals) control_plane" where
  "recorded_plane = \<lparr>rt_orchestrator = None, rt_approval_service = Some (recording server_client),
     rt_policy_engine = Some ''http://opa'', rt_session_mgr = Some demo_manager, rt_logger = new_audit_logger ''router'' int demo_span,
     rt_services = demo_world, rt_http = sv_http demo_world, rt_server = (demo_server, []), rt_clock = int, rt_ticks = 0\<rparr>"

definition unsigned_request :: "(string \<rightharpoonup> rat, workflow_server \<times> sent_signals) decision_request" where
  "unsigned_request = \<lparr>dh_plane = recorded_plane, dh_approve = True, dh_task = demo_session_id, dh_auth = None\<rparr>"

definition waiting_world :: "(string \<rightharpoonup> rat) task_world" where
  "waiting_world = demo_task_world\<lparr>kw_inbox := \<lambda>_. [[]], kw_workflow_id := str_uuid demo_session_id\<rparr>"

lemma unsigned_history:
  "\<exists>w. api_history (table_libs hitl_table) default_settings server_client recorded_plane [unsigned_request] w \<and> snd (rt_server w) = []"
proof -
  obtain r w where r: "hitl_decision True (table_libs hitl_table) default_settings (\<lambda>_. []) demo_session_id demo_decision None recorded_plane = (r, w)"
    by (cases "hitl_decision True (table_libs hitl_table) default_settings (\<lambda>_. []) demo_session_id demo_decision None recorded_plane")
  then have "w = recorded_plane"
    by (auto simp add: hitl_decision_eq decide_task_def require_hitl_controls_def recorded_plane_def demo_eval parse_approval_request_def
        validate_decision_request_def bounded_str_def demo_decision_def authorize_hitl_action_def extract_bearer_token_def
        decision_refusal_def http_exception_def isinstance_def raiseE_def)
  moreover have "rt_approval_service recorded_plane = Some (recording server_client)" "snd (rt_server recorded_plane) = []"
    by (simp_all add: recorded_plane_def)
  ultimately show ?thesis
    using api_decision [OF api_start _ r] by (auto simp: unsigned_request_def)
qed

theorem no_completion_without_authorised_approval_witness:
  "\<exists>r k'. run_workflow_task direct_executor (demo_deps task_table) (task_input ''t1'') waiting_world = (r, k') \<and>
     set (ht_sent (client k')) \<subseteq> {task_policy_request (demo_deps task_table) (task_input ''t1'')}"
proof -
  let ?D = "demo_deps task_table" and ?i = "task_input ''t1''"
  obtain r k' where r: "run_workflow_task direct_executor ?D ?i waiting_world = (r, k')"
    by (cases "run_workflow_task direct_executor ?D ?i waiting_world")
  obtain w where w: "api_history (table_libs hitl_table) default_settings server_client recorded_plane [unsigned_request] w"
    using unsigned_history by blast
  have self: "tw_approval_state (kw_self waiting_world) = NOT_REQUIRED" "tw_approval_signal (kw_self waiting_world) = None"
      and start: "ht_sent (client waiting_world) = []"
    by (simp_all add: waiting_world_def demo_task_world_simps client_def demo_run_simps)
  have spend: "parse_decimal (wi_projected_spend_usd ?i) = Inr (Dec 7500 (- 2))" "50 < dval (Dec 7500 (- 2))"
    using demo_spend by simp_all
  have "\<not> authorised_approval (table_libs hitl_table) default_settings ws_open advances h (kw_workflow_id waiting_world)"
    if "h \<in> set [unsigned_request]" for h
    using that by (simp add: authorised_approval_def token_authorises_def unsigned_request_def)
  then show ?thesis
    using no_completion_without_authorised_approval [OF direct.temporal_axioms r self spend server.workflow_client_axioms w] r start
    by (simp add: recorded_plane_def waiting_world_def)
qed

end
