(* ===== verification/DataConverter.thy ===== *)
theory DataConverter
  imports PyCodec
begin

text \<open>
  \<open>src/control_plane/data_converter.py\<close>: the payload codec that encrypts what Temporal stores.

  Fernet is a parameter: the test of a key, encryption, which also depends on the time and the random
  numbers of the call, and decryption, which fails with \<open>InvalidToken\<close>. \<open>fernet_documented\<close> and
  \<open>fernet_authentic\<close> state what its documentation says of it.
\<close>

section \<open>Fernet\<close>

record fernet_libs =
  fl_valid_key :: "bytes \<Rightarrow> bool"
  fl_encrypt :: "bytes \<Rightarrow> nat \<Rightarrow> bytes \<Rightarrow> bytes"
  fl_decrypt :: "bytes \<Rightarrow> bytes \<Rightarrow> bytes option"

text \<open>Decryption with the key of the encryption gives the data back.\<close>

definition fernet_documented :: "fernet_libs \<Rightarrow> bool" where
  "fernet_documented F \<longleftrightarrow> (\<forall>k n d. fl_valid_key F k \<longrightarrow> fl_decrypt F k (fl_encrypt F k n d) = Some d)"

text \<open>A token made with another key is invalid.\<close>

definition fernet_authentic :: "fernet_libs \<Rightarrow> bool" where
  "fernet_authentic F \<longleftrightarrow> (\<forall>k k' n d. k \<noteq> k' \<longrightarrow> fl_decrypt F k' (fl_encrypt F k n d) = None)"


section \<open>The codec\<close>

record temporal_payload =
  pl_metadata :: "bytes dict"
  pl_data :: bytes

definition ENCRYPTED_ENCODING :: bytes where
  "ENCRYPTED_ENCODING = str_bytes ''binary/aegis-encrypted''"

definition ORIGINAL_ENCODING_KEY :: string where
  "ORIGINAL_ENCODING_KEY = ''aegis/original-encoding''"

definition DEV_KEY :: bytes where
  "DEV_KEY = str_bytes (b64_encode (str_bytes ''aegis-dev-only-32byte-key-x12345''))"

text \<open>The codec, with the number of encryptions it has made.\<close>

record payload_codec =
  pc_key :: bytes
  pc_ticks :: nat

text \<open>\<open>key\<close> as bytes or as text, and the environment variable.\<close>

datatype codec_key = KeyBytes bytes | KeyStr string

definition resolve_key :: "codec_key option \<Rightarrow> string option \<Rightarrow> bytes" where
  "resolve_key key env =
     (case key of
        None \<Rightarrow> (case env of Some raw \<Rightarrow> if raw = '''' then DEV_KEY else str_bytes raw | None \<Rightarrow> DEV_KEY)
      | Some (KeyStr s) \<Rightarrow> str_bytes s
      | Some (KeyBytes b) \<Rightarrow> b)"

definition new_payload_codec :: "fernet_libs \<Rightarrow> codec_key option \<Rightarrow> string option \<Rightarrow> exn + payload_codec" where
  "new_payload_codec F key env =
     (let k = resolve_key key env in
      if fl_valid_key F k then Inr \<lparr>pc_key = k, pc_ticks = 0\<rparr>
      else Inl (exn_of ValueError ''Fernet key must be 32 url-safe base64-encoded bytes.''))"

text \<open>\<open>create_aegis_data_converter\<close> wraps the codec in the class of the SDK.\<close>

definition create_aegis_data_converter :: "fernet_libs \<Rightarrow> codec_key option \<Rightarrow> string option \<Rightarrow> exn + payload_codec" where
  "create_aegis_data_converter F key env = new_payload_codec F key env"

definition get_bytes :: "bytes dict \<Rightarrow> string \<Rightarrow> bytes \<Rightarrow> bytes" where
  "get_bytes d k v = (case map_of d k of Some x \<Rightarrow> x | None \<Rightarrow> v)"

definition json_plain :: bytes where
  "json_plain = str_bytes ''json/plain''"

definition encrypted :: "temporal_payload \<Rightarrow> bool" where
  "encrypted p \<longleftrightarrow> map_of (pl_metadata p) ''encoding'' = Some ENCRYPTED_ENCODING"

definition fernet_encrypt :: "fernet_libs \<Rightarrow> bytes \<Rightarrow> (payload_codec, bytes) prog" where
  "fernet_encrypt F data = (\<lambda>c. (Inr (fl_encrypt F (pc_key c) (pc_ticks c) data), c\<lparr>pc_ticks := Suc (pc_ticks c)\<rparr>))"

fun encode :: "fernet_libs \<Rightarrow> temporal_payload list \<Rightarrow> (payload_codec, temporal_payload list) prog" where
  "encode F [] = returnE []"
| "encode F (p # ps) =
     (if encrypted p then bindE (encode F ps) (\<lambda>qs. returnE (p # qs))
      else bindE (fernet_encrypt F (pl_data p)) (\<lambda>data.
           bindE (encode F ps) (\<lambda>qs.
           returnE (\<lparr>pl_metadata = [(''encoding'', ENCRYPTED_ENCODING),
                       (ORIGINAL_ENCODING_KEY, get_bytes (pl_metadata p) ''encoding'' json_plain)],
                     pl_data = data\<rparr> # qs))))"

definition decryption_error :: exn where
  "decryption_error = Exn DataConverterError
     (''Failed to decrypt Temporal payload: key mismatch or corrupted data. ''
        @ ''Verify AEGIS_TEMPORAL_ENCRYPTION_KEY is consistent across all workers.'') (Some (exn_of InvalidToken ''''))"

fun decode :: "fernet_libs \<Rightarrow> temporal_payload list \<Rightarrow> (payload_codec, temporal_payload list) prog" where
  "decode F [] = returnE []"
| "decode F (p # ps) =
     (if \<not> encrypted p then bindE (decode F ps) (\<lambda>qs. returnE (p # qs))
      else bindE (getE pc_key) (\<lambda>k.
        case fl_decrypt F k (pl_data p) of
          None \<Rightarrow> raiseE decryption_error
        | Some data \<Rightarrow>
            bindE (decode F ps) (\<lambda>qs.
            returnE (\<lparr>pl_metadata = [(''encoding'', get_bytes (pl_metadata p) ORIGINAL_ENCODING_KEY json_plain)],
                      pl_data = data\<rparr> # qs))))"


section \<open>What the codec guarantees\<close>

lemma sealed_encrypted [simp]:
  "encrypted \<lparr>pl_metadata = [(''encoding'', ENCRYPTED_ENCODING), (ORIGINAL_ENCODING_KEY, e)], pl_data = d\<rparr>"
  by (simp add: encrypted_def)

lemma original_encoding [simp]:
  "get_bytes [(''encoding'', ENCRYPTED_ENCODING), (ORIGINAL_ENCODING_KEY, e)] ORIGINAL_ENCODING_KEY v = e"
  by (simp add: get_bytes_def ORIGINAL_ENCODING_KEY_def)

text \<open>A payload as the other side gets it: of the metadata only the encoding is left.\<close>

definition stripped :: "temporal_payload \<Rightarrow> temporal_payload" where
  "stripped p = p\<lparr>pl_metadata := [(''encoding'', get_bytes (pl_metadata p) ''encoding'' json_plain)]\<rparr>"

lemma encode_run: "\<exists>qs n. encode F ps c = (Inr qs, c\<lparr>pc_ticks := n\<rparr>)"
proof (induction ps arbitrary: c)
  case Nil
  have "c = c\<lparr>pc_ticks := pc_ticks c\<rparr>" by simp
  then show ?case by (metis encode.simps(1) returnE_def)
next
  case (Cons p ps)
  then obtain qs n where "encode F ps c = (Inr qs, c\<lparr>pc_ticks := n\<rparr>)" by blast
  moreover obtain qs' n' where "encode F ps (c\<lparr>pc_ticks := Suc (pc_ticks c)\<rparr>) = (Inr qs', c\<lparr>pc_ticks := n'\<rparr>)"
    using Cons [of "c\<lparr>pc_ticks := Suc (pc_ticks c)\<rparr>"] by auto
  ultimately show ?case
    by (auto simp: bindE_def returnE_def fernet_encrypt_def)
qed

text \<open>The payloads that \<open>encode\<close> makes, one by one.\<close>

definition sealed :: "fernet_libs \<Rightarrow> bytes \<Rightarrow> temporal_payload \<Rightarrow> temporal_payload \<Rightarrow> bool" where
  "sealed F k p q \<longleftrightarrow> (if encrypted p then q = p else \<exists>n. q = \<lparr>pl_metadata = [(''encoding'', ENCRYPTED_ENCODING),
      (ORIGINAL_ENCODING_KEY, get_bytes (pl_metadata p) ''encoding'' json_plain)], pl_data = fl_encrypt F k n (pl_data p)\<rparr>)"

lemma sealed_intros:
  "encrypted p \<Longrightarrow> sealed F k p p"
  "\<not> encrypted p \<Longrightarrow> sealed F k p \<lparr>pl_metadata = [(''encoding'', ENCRYPTED_ENCODING),
      (ORIGINAL_ENCODING_KEY, get_bytes (pl_metadata p) ''encoding'' json_plain)], pl_data = fl_encrypt F k n (pl_data p)\<rparr>"
  by (auto simp: sealed_def)

lemma encode_sealed:
  assumes "encode F ps c = (Inr qs, c')"
  shows "list_all2 (sealed F (pc_key c)) ps qs"
  using assms
proof (induction ps arbitrary: c qs)
  case (Cons p ps)
  show ?case
  proof (cases "encrypted p")
    case True
    then show ?thesis using Cons by (auto simp: bindE_Inr returnE_def intro: sealed_intros)
  next
    case False
    then obtain qs' where "encode F ps (c\<lparr>pc_ticks := Suc (pc_ticks c)\<rparr>) = (Inr qs', c')"
        "qs = \<lparr>pl_metadata = [(''encoding'', ENCRYPTED_ENCODING), (ORIGINAL_ENCODING_KEY, get_bytes (pl_metadata p) ''encoding'' json_plain)],
           pl_data = fl_encrypt F (pc_key c) (pc_ticks c) (pl_data p)\<rparr> # qs'"
      using Cons.prems by (auto simp: bindE_Inr returnE_def fernet_encrypt_def)
    then show ?thesis
      using Cons.IH [of "c\<lparr>pc_ticks := Suc (pc_ticks c)\<rparr>" qs'] False by (auto intro: sealed_intros)
  qed
qed (simp add: returnE_def)

lemma sealed_is_encrypted: "sealed F k p q \<Longrightarrow> encrypted q"
  by (auto simp: sealed_def split: if_splits)

lemma encode_idem: "list_all encrypted qs \<Longrightarrow> encode F qs d = (Inr qs, d)"
  by (induction qs) (simp_all add: bindE_def returnE_def)

text \<open>
  What a worker with the key \<open>k\<close> gets of a payload \<open>p\<close> that was handed to the codec: a payload that was encrypted
  before is decrypted with \<open>k\<close>, if it can be, any other arrives stripped.
\<close>

definition received :: "fernet_libs \<Rightarrow> bytes \<Rightarrow> temporal_payload \<Rightarrow> temporal_payload option" where
  "received F k p =
     (if encrypted p
      then map_option (\<lambda>data. \<lparr>pl_metadata = [(''encoding'', get_bytes (pl_metadata p) ORIGINAL_ENCODING_KEY json_plain)], pl_data = data\<rparr>)
             (fl_decrypt F k (pl_data p))
      else Some (stripped p))"

lemma decode_sealed:
  assumes "fernet_documented F" "fl_valid_key F (pc_key d)" "list_all2 (sealed F (pc_key d)) ps qs"
  shows "decode F qs d = (case those (map (received F (pc_key d)) ps) of None \<Rightarrow> Inl decryption_error | Some xs \<Rightarrow> Inr xs, d)"
  using assms(3)
proof (induction ps qs rule: list_all2_induct)
  case (Cons p ps q qs)
  show ?case
  proof (cases "encrypted p")
    case True
    then have "q = p"
      using Cons(1) by (simp add: sealed_def)
    then show ?thesis
      using True Cons.IH by (auto simp: received_def bindE_def getE_def returnE_def raiseE_def split: option.splits)
  next
    case False
    then obtain n where q: "q = \<lparr>pl_metadata = [(''encoding'', ENCRYPTED_ENCODING),
        (ORIGINAL_ENCODING_KEY, get_bytes (pl_metadata p) ''encoding'' json_plain)], pl_data = fl_encrypt F (pc_key d) n (pl_data p)\<rparr>"
      using Cons(1) by (auto simp: sealed_def)
    have "fl_decrypt F (pc_key d) (pl_data q) = Some (pl_data p)"
      using assms(1,2) q by (simp add: fernet_documented_def)
    then show ?thesis
      using False Cons.IH q by (auto simp: received_def bindE_def getE_def returnE_def stripped_def split: option.splits)
  qed
qed (simp add: returnE_def)

lemma received_open: "\<not> list_ex encrypted ps \<Longrightarrow> those (map (received F k) ps) = Some (map stripped ps)"
  by (induction ps) (simp_all add: received_def)

lemma decode_foreign:
  assumes "fernet_authentic F" "pc_key d \<noteq> k" "list_all2 (sealed F k) ps qs" "\<not> list_all encrypted ps"
  shows "decode F qs d = (Inl decryption_error, d)"
  using assms(3,4)
proof (induction ps qs rule: list_all2_induct)
  case (Cons p ps q qs)
  have q: "encrypted q"
    using Cons(1) by (rule sealed_is_encrypted)
  show ?case
  proof (cases "encrypted p")
    case True
    then have "decode F qs d = (Inl decryption_error, d)"
      using Cons by simp
    then show ?thesis
      using q by (auto simp: bindE_def getE_def raiseE_def split: option.splits)
  next
    case False
    then have "fl_decrypt F (pc_key d) (pl_data q) = None"
      using assms(1,2) Cons(1) by (auto simp: sealed_def fernet_authentic_def)
    then show ?thesis
      using q by (simp add: bindE_def getE_def raiseE_def)
  qed
qed simp

text \<open>
  (C30) Encryption of the history. Encoding any batch succeeds and every payload it returns carries the encrypted
  label; encoding once more changes nothing. A worker with the same key decodes a batch in which no payload was
  encrypted before to the same data with the same encoding labels, that is to the same payloads if they carry no
  other metadata. In a batch with payloads that were encrypted before, these are passed on as they are and decrypted
  with the worker's key; if one of them cannot be, because it was made with another key, the whole batch raises
  \<open>DataConverterError\<close>.
\<close>

theorem codec_roundtrip:
  assumes "fernet_documented F" and "fl_valid_key F (pc_key c)" and "pc_key d = pc_key c"
  shows "\<exists>qs c'. encode F ps c = (Inr qs, c') \<and> list_all encrypted qs \<and> encode F qs d = (Inr qs, d) \<and>
    decode F qs d = (case those (map (received F (pc_key c)) ps) of None \<Rightarrow> Inl decryption_error | Some xs \<Rightarrow> Inr xs, d) \<and>
    (\<not> list_ex encrypted ps \<longrightarrow> decode F qs d = (Inr (map stripped ps), d) \<and>
       (list_all (\<lambda>p. \<exists>e. pl_metadata p = [(''encoding'', e)]) ps \<longrightarrow> map stripped ps = ps))"
proof -
  obtain qs n where e: "encode F ps c = (Inr qs, c\<lparr>pc_ticks := n\<rparr>)"
    using encode_run by blast
  note s = encode_sealed [OF e]
  have all: "list_all encrypted qs"
    using s by (induction rule: list_all2_induct) (auto simp: sealed_is_encrypted)
  have "stripped p = p" if "pl_metadata p = [(''encoding'', x)]" for p x
    using that by (cases p) (simp add: stripped_def get_bytes_def)
  then have plain: "map stripped ps = ps" if "list_all (\<lambda>p. \<exists>e. pl_metadata p = [(''encoding'', e)]) ps"
    using that by (induction ps) auto
  have "decode F qs d = (case those (map (received F (pc_key c)) ps) of None \<Rightarrow> Inl decryption_error | Some xs \<Rightarrow> Inr xs, d)"
    using decode_sealed [OF assms(1), of d ps qs] assms(2,3) s by simp
  then show ?thesis
    using e all encode_idem [OF all] plain received_open [of ps F "pc_key c"] by auto
qed

text \<open>
  A worker with another key gets nothing: if any payload of a batch was encrypted with a
  different key, decoding the batch raises \<open>DataConverterError\<close> instead of returning any payload.
\<close>

theorem codec_key_mismatch:
  assumes "fernet_authentic F" and "pc_key d \<noteq> pc_key c" and "encode F ps c = (Inr qs, c')" and "\<not> list_all encrypted ps"
  shows "\<exists>e. decode F qs d = (Inl e, d) \<and> exc_cls e = DataConverterError"
  using decode_foreign [OF assms(1,2) encode_sealed [OF assms(3)] assms(4)] by (simp add: decryption_error_def)

text \<open>
  An instance for the witnesses: the token is the key and the data; keys have 44 characters.
\<close>

definition plain_fernet :: fernet_libs where
  "plain_fernet = \<lparr>fl_valid_key = (\<lambda>k. length k = 44), fl_encrypt = (\<lambda>k n d. int (length k) # k @ d),
     fl_decrypt = (\<lambda>k t. if t \<noteq> [] \<and> hd t = int (length k) \<and> take (length k) (tl t) = k then Some (drop (length k) (tl t)) else None)\<rparr>"

lemma plain_fernet_ok: "fernet_documented plain_fernet" "fernet_authentic plain_fernet"
  by (auto simp: fernet_documented_def fernet_authentic_def plain_fernet_def)

definition demo_payload :: temporal_payload where
  "demo_payload = \<lparr>pl_metadata = [(''encoding'', json_plain)], pl_data = [1, 2]\<rparr>"

lemma demo_payload_open: "\<not> encrypted demo_payload"
  unfolding encrypted_def demo_payload_def json_plain_def ENCRYPTED_ENCODING_def by code_simp

theorem codec_roundtrip_witness:
  "\<exists>qs c'. encode plain_fernet [demo_payload] \<lparr>pc_key = DEV_KEY, pc_ticks = 0\<rparr> = (Inr qs, c') \<and>
     decode plain_fernet qs \<lparr>pc_key = DEV_KEY, pc_ticks = 7\<rparr> = (Inr [demo_payload], \<lparr>pc_key = DEV_KEY, pc_ticks = 7\<rparr>)"
proof -
  have "length DEV_KEY = 44"
    by code_simp
  then show ?thesis
    using codec_roundtrip [OF plain_fernet_ok(1), of "\<lparr>pc_key = DEV_KEY, pc_ticks = 0\<rparr>" "\<lparr>pc_key = DEV_KEY, pc_ticks = 7\<rparr>" "[demo_payload]"]
      demo_payload_open
    by (fastforce simp: plain_fernet_def demo_payload_def)
qed

theorem codec_key_mismatch_witness:
  "\<exists>qs c' e. encode plain_fernet [demo_payload] \<lparr>pc_key = DEV_KEY, pc_ticks = 0\<rparr> = (Inr qs, c') \<and>
     decode plain_fernet qs \<lparr>pc_key = [0], pc_ticks = 0\<rparr> = (Inl e, \<lparr>pc_key = [0], pc_ticks = 0\<rparr>)"
proof -
  obtain qs n where e: "encode plain_fernet [demo_payload] \<lparr>pc_key = DEV_KEY, pc_ticks = 0\<rparr> = (Inr qs, \<lparr>pc_key = DEV_KEY, pc_ticks = 0\<rparr>\<lparr>pc_ticks := n\<rparr>)"
    using encode_run by blast
  have "length DEV_KEY = 44"
    by code_simp
  then have "length [0 :: int] \<noteq> length DEV_KEY"
    by simp
  then have "[0] \<noteq> DEV_KEY"
    by metis
  then show ?thesis
    using codec_key_mismatch [OF plain_fernet_ok(2), of "\<lparr>pc_key = [0], pc_ticks = 0\<rparr>" "\<lparr>pc_key = DEV_KEY, pc_ticks = 0\<rparr>"] e demo_payload_open
    by fastforce
qed

end
