(* ===== verification/Compliance.thy ===== *)
theory Compliance
  imports PyStd "HOL-Library.Multiset"
begin

text \<open>
  \<open>src/audit_vault/compliance.py\<close>: the in-memory store of audit events and the SOC2 and GDPR reports.
  The identifiers and times that a report gets are what \<open>uuid4\<close> and \<open>datetime.now\<close> return.
\<close>

section \<open>Comparison of times\<close>

text \<open>\<open>a <= b\<close> on \<open>datetime\<close>: the instants of aware times, the wall times of naive ones, else \<open>TypeError\<close>.\<close>

definition dt_le :: "datetime \<Rightarrow> datetime \<Rightarrow> exn + bool" where
  "dt_le a b =
     (case (utcoffset a, utcoffset b) of
        (Some x, Some y) \<Rightarrow> Inr (wall a - x \<le> wall b - y)
      | (None, None) \<Rightarrow> Inr (wall a \<le> wall b)
      | _ \<Rightarrow> Inl (exn_of TypeError ''can't compare offset-naive and offset-aware datetimes''))"

text \<open>\<open>a <= t <= b\<close>.\<close>

definition dt_between :: "datetime \<Rightarrow> datetime \<Rightarrow> datetime \<Rightarrow> exn + bool" where
  "dt_between a t b =
     (case dt_le a t of Inl e \<Rightarrow> Inl e | Inr False \<Rightarrow> Inr False | Inr True \<Rightarrow> dt_le t b)"


section \<open>The reporter\<close>

datatype compliance_framework = SOC2 | GDPR

record audit_event =
  ae_event_id :: uuid
  ae_timestamp :: datetime
  ae_agent_id :: string
  ae_action :: string
  ae_resource :: string
  ae_outcome :: string
  ae_metadata :: "string dict"

record compliance_report =
  cr_report_id :: uuid
  cr_framework :: compliance_framework
  cr_generated_at :: datetime
  cr_period_start :: datetime
  cr_period_end :: datetime
  cr_total_events :: nat
  cr_events :: "audit_event list"
  cr_summary :: string

record compliance_reporter =
  co_events :: "audit_event list"
  co_uuids :: "nat \<Rightarrow> uuid"
  co_clock :: "nat \<Rightarrow> int"
  co_ticks :: nat

definition record_audit_event :: "audit_event \<Rightarrow> (compliance_reporter, unit) prog" where
  "record_audit_event e = modifyE (\<lambda>r. r\<lparr>co_events := co_events r @ [e]\<rparr>)"

fun in_scope :: "datetime \<Rightarrow> datetime \<Rightarrow> audit_event list \<Rightarrow> exn + audit_event list" where
  "in_scope a b [] = Inr []"
| "in_scope a b (e # es) =
     (case dt_between a (ae_timestamp e) b of
        Inl x \<Rightarrow> Inl x
      | Inr keep \<Rightarrow> (case in_scope a b es of Inl x \<Rightarrow> Inl x | Inr ys \<Rightarrow> Inr (if keep then e # ys else ys)))"

text \<open>\<open>pat in s\<close> for strings.\<close>

fun contains :: "string \<Rightarrow> string \<Rightarrow> bool" where
  "contains pat [] \<longleftrightarrow> pat = []"
| "contains pat (c # s) \<longleftrightarrow> take (length pat) (c # s) = pat \<or> contains pat s"

definition soc2_summary :: "audit_event list \<Rightarrow> string" where
  "soc2_summary es =
     ''SOC2 Audit Summary: '' @ show_nat (length es) @ '' total events, ''
       @ show_nat (length (filter (\<lambda>e. ae_outcome e = ''failure'') es)) @ '' failures recorded.''"

definition gdpr_summary :: "audit_event list \<Rightarrow> string" where
  "gdpr_summary es =
     ''GDPR Audit Summary: '' @ show_nat (length es) @ '' total events, ''
       @ show_nat (length (filter (\<lambda>e. contains ''pii'' (lower (ae_resource e))) es)) @ '' PII-related access events.''"

definition generate_report ::
  "compliance_framework \<Rightarrow> datetime \<Rightarrow> datetime \<Rightarrow> (compliance_reporter, compliance_report) prog" where
  "generate_report framework period_start period_end =
     bindE (getE co_events) (\<lambda>events.
     bindE (liftE (in_scope period_start period_end events)) (\<lambda>es.
     bindE (getE (\<lambda>r. (co_uuids r (co_ticks r), DateTime (co_clock r (co_ticks r)) (Some 0)))) (\<lambda>(u, now).
     thenE (modifyE (\<lambda>r. r\<lparr>co_ticks := Suc (co_ticks r)\<rparr>))
       (returnE \<lparr>cr_report_id = u, cr_framework = framework, cr_generated_at = now, cr_period_start = period_start,
          cr_period_end = period_end, cr_total_events = length es, cr_events = es,
          cr_summary = (case framework of SOC2 \<Rightarrow> soc2_summary es | GDPR \<Rightarrow> gdpr_summary es)\<rparr>))))"


section \<open>Reports\<close>

definition aware :: "datetime \<Rightarrow> bool" where
  "aware t \<longleftrightarrow> utcoffset t \<noteq> None"

definition instant_of :: "datetime \<Rightarrow> int" where
  "instant_of t = wall t - the (utcoffset t)"

lemma dt_between_aware:
  "aware a \<Longrightarrow> aware t \<Longrightarrow> aware b \<Longrightarrow> dt_between a t b = Inr (instant_of a \<le> instant_of t \<and> instant_of t \<le> instant_of b)"
  by (auto simp: dt_between_def dt_le_def aware_def instant_of_def split: bool.split)

lemma in_scope_aware:
  assumes "aware a" "aware b" "list_all (\<lambda>e. aware (ae_timestamp e)) es"
  shows "in_scope a b es = Inr (filter (\<lambda>e. instant_of a \<le> instant_of (ae_timestamp e) \<and> instant_of (ae_timestamp e) \<le> instant_of b) es)"
  using assms(3) by (induction es) (simp_all add: dt_between_aware assms(1,2))

lemma generate_report_run:
  assumes "aware a" "aware b" "list_all (\<lambda>e. aware (ae_timestamp e)) (co_events r)"
  shows "\<exists>rep. generate_report fw a b r = (Inr rep, r\<lparr>co_ticks := Suc (co_ticks r)\<rparr>) \<and> cr_total_events rep = length (cr_events rep) \<and>
    cr_events rep = filter (\<lambda>e. instant_of a \<le> instant_of (ae_timestamp e) \<and> instant_of (ae_timestamp e) \<le> instant_of b) (co_events r)"
  using in_scope_aware [OF assms] by (simp add: generate_report_def bindE_def getE_def liftE_def thenE_def modifyE_def returnE_def)

text \<open>
  (C39) How the reports of two periods add up, for times with a zone and whatever the zones are. Both ends of a
  period belong to it. When the second period starts inside the first, at its end or one microsecond after it,
  and ends no earlier, every event of the whole period is in one of the two reports, and exactly those from the
  start of the second period to the end of the first are in both: none when the second period starts one
  microsecond after the end of the first, those of the very instant when the periods share it.
\<close>

theorem reports_add_up:
  assumes "list_all aware [a, b, c, d]" and "list_all (\<lambda>e. aware (ae_timestamp e)) (co_events r)"
    and "instant_of a \<le> instant_of c" "instant_of c \<le> instant_of b + 1" "instant_of b \<le> instant_of d"
  shows "\<exists>r1 r2 r12 s1 s2 s12. generate_report fw a b r = (Inr r1, s1) \<and> generate_report fw c d s1 = (Inr r2, s2) \<and>
    generate_report fw a d s2 = (Inr r12, s12) \<and>
    (let twice = filter (\<lambda>e. instant_of c \<le> instant_of (ae_timestamp e) \<and> instant_of (ae_timestamp e) \<le> instant_of b) (co_events r) in
       mset (cr_events r1) + mset (cr_events r2) = mset (cr_events r12) + mset twice \<and>
       cr_total_events r1 + cr_total_events r2 = cr_total_events r12 + length twice \<and>
       (instant_of c = instant_of b + 1 \<longrightarrow> twice = []) \<and>
       (instant_of c = instant_of b \<longrightarrow> twice = filter (\<lambda>e. instant_of (ae_timestamp e) = instant_of b) (co_events r)))"
proof -
  let ?in = "\<lambda>x y e. instant_of x \<le> instant_of (ae_timestamp e) \<and> instant_of (ae_timestamp e) \<le> instant_of y"
  let ?s = "\<lambda>n. r\<lparr>co_ticks := n\<rparr>"
  have aw: "aware a" "aware b" "aware c" "aware d"
    using assms(1) by simp_all
  obtain r1 where r1: "generate_report fw a b r = (Inr r1, ?s (Suc (co_ticks r)))" "cr_total_events r1 = length (cr_events r1)"
      "cr_events r1 = filter (?in a b) (co_events r)"
    using generate_report_run [OF aw(1,2) assms(2), of fw] by blast
  obtain r2 where r2: "generate_report fw c d (?s (Suc (co_ticks r))) = (Inr r2, ?s (Suc (Suc (co_ticks r))))"
      "cr_total_events r2 = length (cr_events r2)" "cr_events r2 = filter (?in c d) (co_events r)"
    using generate_report_run [OF aw(3,4), of "?s (Suc (co_ticks r))" fw] assms(2) by auto
  obtain r3 s3 where r3: "generate_report fw a d (?s (Suc (Suc (co_ticks r)))) = (Inr r3, s3)"
      "cr_total_events r3 = length (cr_events r3)" "cr_events r3 = filter (?in a d) (co_events r)"
    using generate_report_run [OF aw(1,4), of "?s (Suc (Suc (co_ticks r)))" fw] assms(2) by auto
  have "mset (filter (?in a b) es) + mset (filter (?in c d) es) = mset (filter (?in a d) es) + mset (filter (?in c b) es)" for es
    using assms(3-5) by (induction es) auto
  then have add: "mset (cr_events r1) + mset (cr_events r2) = mset (cr_events r3) + mset (filter (?in c b) (co_events r))"
    by (simp add: r1(3) r2(3) r3(3))
  then have "cr_total_events r1 + cr_total_events r2 = cr_total_events r3 + length (filter (?in c b) (co_events r))"
    unfolding r1(2) r2(2) r3(2) by (metis size_mset size_union)
  moreover have "filter (?in c b) (co_events r) = []" if "instant_of c = instant_of b + 1"
    using that by (auto simp: filter_empty_conv)
  moreover have "filter (?in c b) (co_events r) = filter (\<lambda>e. instant_of (ae_timestamp e) = instant_of b) (co_events r)" if "instant_of c = instant_of b"
    using that by (intro filter_cong) auto
  ultimately show ?thesis
    using r1(1) r2(1) r3(1) add unfolding Let_def by blast
qed

definition demo_event :: "int \<Rightarrow> int \<Rightarrow> audit_event" where
  "demo_event t z = \<lparr>ae_event_id = UUID [], ae_timestamp = DateTime t (Some z), ae_agent_id = ''a'', ae_action = ''read'',
     ae_resource = ''PII-store'', ae_outcome = ''failure'', ae_metadata = []\<rparr>"

definition demo_reporter :: compliance_reporter where
  "demo_reporter = snd (thenE (record_audit_event (demo_event 5 0)) (thenE (record_audit_event (demo_event 16 10)) (record_audit_event (demo_event 7 0)))
     \<lparr>co_events = [], co_uuids = (\<lambda>_. UUID []), co_clock = int, co_ticks = 0\<rparr>)"

text \<open>Three events at the instants 5, 6 and 7, reported from 0 to 6 and from 6 to 9: four entries in all.\<close>

theorem reports_add_up_witness:
  "\<exists>r1 s1. generate_report GDPR (DateTime 0 (Some 0)) (DateTime 6 (Some 0)) demo_reporter = (Inr r1, s1) \<and>
     (\<exists>r2 s2. generate_report GDPR (DateTime 6 (Some 0)) (DateTime 9 (Some 0)) s1 = (Inr r2, s2) \<and>
        cr_total_events r1 + cr_total_events r2 = 4)"
proof -
  have ev: "co_events demo_reporter = [demo_event 5 0, demo_event 16 10, demo_event 7 0]"
    by (simp add: demo_reporter_def record_audit_event_def thenE_def bindE_def modifyE_def)
  obtain r1 r2 r12 s1 s2 s12 where g: "generate_report GDPR (DateTime 0 (Some 0)) (DateTime 6 (Some 0)) demo_reporter = (Inr r1, s1)"
      "generate_report GDPR (DateTime 6 (Some 0)) (DateTime 9 (Some 0)) s1 = (Inr r2, s2)"
      "generate_report GDPR (DateTime 0 (Some 0)) (DateTime 9 (Some 0)) s2 = (Inr r12, s12)"
      "cr_total_events r1 + cr_total_events r2 = Suc (cr_total_events r12)"
    using reports_add_up [where fw = GDPR and r = demo_reporter and a = "DateTime 0 (Some 0)" and b = "DateTime 6 (Some 0)"
        and c = "DateTime 6 (Some 0)" and d = "DateTime 9 (Some 0)"]
    by (auto simp: aware_def instant_of_def ev demo_event_def Let_def)
  have "co_events s2 = co_events demo_reporter"
    using g(1,2) by (auto simp: generate_report_def bindE_Inr getE_def liftE_def thenE_def modifyE_def returnE_def)
  then have "cr_total_events r12 = 3"
    using generate_report_run [of "DateTime 0 (Some 0)" "DateTime 9 (Some 0)" s2 GDPR] g(3)
    by (simp add: aware_def instant_of_def ev demo_event_def)
  then show ?thesis
    using g by auto
qed

end
