(* ===== verification/Application.thy ===== *)
theory Application
  imports RouterSafety DataConverter Compliance
begin

text \<open>
  The two processes: \<open>src/main.py\<close>, the API with its start-up and the gauges of pending approvals, and
  \<open>src/control_plane/worker.py\<close>, the Temporal worker. \<open>Client.connect\<close> is a parameter: what it returns
  or raises for a host and a codec. The gauge of \<open>prometheus_client\<close> is a map from label to value; versions of
  it differ in whether \<open>remove\<close> raises for a label that does not exist (\<open>strict\<close>).
\<close>

section \<open>The worker\<close>

definition build_adapter :: "settings \<Rightarrow> exn + adapter" where
  "build_adapter cfg =
     (if llm_provider cfg = ''openai'' then
        if openai_api_key cfg = '''' then Inl (exn_of RuntimeError ''AEGIS_OPENAI_API_KEY is required when AEGIS_LLM_PROVIDER=openai'')
        else Inr (OpenAIAdapter (openai_api_key cfg) ''gpt-4o-mini'')
      else if llm_provider cfg = ''anthropic'' then
        if anthropic_api_key cfg = '''' then Inl (exn_of RuntimeError ''AEGIS_ANTHROPIC_API_KEY is required when AEGIS_LLM_PROVIDER=anthropic'')
        else Inr (AnthropicAdapter (anthropic_api_key cfg) ''claude-3-5-haiku-20241022'')
      else if llm_provider cfg = ''local_llama'' then
        Inr (new_local_llama (local_llama_base_url cfg) (local_llama_model cfg))
      else Inl (exn_of RuntimeError (''Unsupported AEGIS_LLM_PROVIDER='' @ py_repr (llm_provider cfg))))"

text \<open>What a process finds outside: libraries, clocks, random numbers and the network.\<close>

record 'r environment =
  en_libs :: "'r token_libs"
  en_db :: unicode_db
  en_redis :: 'r
  en_clock :: "nat \<Rightarrow> rat"
  en_uuids :: "nat \<Rightarrow> uuid"
  en_wall :: "nat \<Rightarrow> int"
  en_span :: span_context
  en_http :: http
  en_new_span :: "nat \<Rightarrow> span_context"
  en_keys :: "nat \<Rightarrow> string \<times> int \<times> int"
  en_fernet :: fernet_libs
  en_encryption_key :: "string option"

text \<open>
  \<open>create_worker\<close>: the services that all activities share, one session manager and one logger among
  them; the activities themselves are those of \<open>perform\<close>.
\<close>

definition create_worker :: "settings \<Rightarrow> 'r environment \<Rightarrow> exn + ('r deps \<times> 'r services)" where
  "create_worker cfg E =
     (let audit_logger = new_audit_logger ''temporal-worker'' (en_wall E) (en_span E) in
      case new_session_manager cfg None (en_redis E) (en_clock E) (en_uuids E) of
        Inl e \<Rightarrow> Inl e
      | Inr session_mgr \<Rightarrow>
          (case build_adapter cfg of
             Inl e \<Rightarrow> Inl e
           | Inr adapter \<Rightarrow>
               Inr (\<lparr>dp_libs = en_libs E, dp_cfg = cfg, dp_db = en_db E, dp_opa = opa_url cfg, dp_adapter = adapter\<rparr>,
                    \<lparr>sv_session = session_mgr, sv_budget = new_budget_enforcer audit_logger,
                     sv_loops = new_loop_detector cfg None None audit_logger, sv_audit = audit_logger, sv_http = en_http E,
                     sv_errors = [], sv_spans = [], sv_new_span = en_new_span E, sv_keys = en_keys E, sv_key_ticks = 0\<rparr>)))"

definition connect_temporal_client :: "settings \<Rightarrow> 'r environment \<Rightarrow> (string \<Rightarrow> payload_codec \<Rightarrow> exn + 'x) \<Rightarrow> exn + 'x" where
  "connect_temporal_client cfg E connect =
     (case create_aegis_data_converter (en_fernet E) None (en_encryption_key E) of
        Inl e \<Rightarrow> Inl e
      | Inr codec \<Rightarrow> connect (temporal_host cfg) codec)"

text \<open>The worker that then serves the task queue for ever.\<close>

definition run_worker :: "settings \<Rightarrow> 'r environment \<Rightarrow> (string \<Rightarrow> payload_codec \<Rightarrow> exn + 'x) \<Rightarrow> exn + ('x \<times> 'r deps \<times> 'r services)" where
  "run_worker cfg E connect =
     (case connect_temporal_client cfg E connect of
        Inl e \<Rightarrow> Inl e
      | Inr client \<Rightarrow> (case create_worker cfg E of Inl e \<Rightarrow> Inl e | Inr w \<Rightarrow> Inr (client, w)))"


section \<open>The API process\<close>

record ('r, 'c) application =
  app_plane :: "('r, 'c) control_plane"
  app_logger :: audit_logger
  app_temporal_client :: "'c temporal_client option"
  app_approval_service :: "'c temporal_client option"
  app_gauge :: "string \<Rightarrow> rat option"
  app_tracked :: "string list"
  app_clock :: "nat \<Rightarrow> rat"
  app_ticks :: nat

definition on_plane :: "('r, 'c, 'a) handler \<Rightarrow> (('r, 'c) application, 'a) prog" where
  "on_plane p = zoomE app_plane (\<lambda>w a. a\<lparr>app_plane := w\<rparr>) p"

definition app_log :: "(audit_logger, unit) prog \<Rightarrow> (('r, 'c) application, unit) prog" where
  "app_log p = zoomE app_logger (\<lambda>l a. a\<lparr>app_logger := l\<rparr>) p"

definition app_now :: "(('r, 'c) application, rat) prog" where
  "app_now = bindE (getE (\<lambda>a. app_clock a (app_ticks a))) (\<lambda>t.
     thenE (modifyE (\<lambda>a. a\<lparr>app_ticks := Suc (app_ticks a)\<rparr>)) (returnE t))"

text \<open>The loop over the snapshots: gauge and \<open>current_workflow_ids\<close>.\<close>

fun set_gauges :: "rat \<Rightarrow> approval_status_snapshot list \<Rightarrow> (string \<Rightarrow> rat option) \<times> string list \<Rightarrow> (string \<Rightarrow> rat option) \<times> string list" where
  "set_gauges now [] x = x"
| "set_gauges now (n # ns) (g, ids) =
     (case ap_pending_since n of
        None \<Rightarrow> set_gauges now ns (g, ids)
      | Some since \<Rightarrow> set_gauges now ns (g(ap_task_id n \<mapsto> max (now - since) 0), List.insert (ap_task_id n) ids))"

fun remove_gauges :: "bool \<Rightarrow> string list \<Rightarrow> (('r, 'c) application, unit) prog" where
  "remove_gauges strict [] = returnE ()"
| "remove_gauges strict (i # ids) =
     bindE (getE app_gauge) (\<lambda>g.
     if strict \<and> g i = None then raiseE (exn_of KeyError i)
     else thenE (modifyE (\<lambda>a. a\<lparr>app_gauge := g(i := None)\<rparr>)) (remove_gauges strict ids))"

definition pending_snapshots :: "'c temporal_client option \<Rightarrow> (('r, 'c) application, approval_status_snapshot list) prog" where
  "pending_snapshots svc =
     (case svc of
        None \<Rightarrow> returnE []
      | Some cl \<Rightarrow> tryE (on_plane (on_server (list_pending_snapshots cl 200)))
          (\<lambda>e. thenE (app_log (warning ''aegis.hitl_metrics_refresh_failed'' [(''error'', VStr (str_exn e))])) (returnE [])))"

definition refresh_pending_approval_metrics :: "bool \<Rightarrow> 'c temporal_client option \<Rightarrow> (('r, 'c) application, unit) prog" where
  "refresh_pending_approval_metrics strict svc =
     bindE (pending_snapshots svc) (\<lambda>snapshots.
     bindE app_now (\<lambda>now.
     bindE (getE app_gauge) (\<lambda>g.
     let (g', ids) = set_gauges now snapshots (g, []) in
     thenE (modifyE (\<lambda>a. a\<lparr>app_gauge := g'\<rparr>))
    (bindE (getE app_tracked) (\<lambda>tracked.
     thenE (remove_gauges strict (filter (\<lambda>i. i \<notin> set ids) tracked))
       (modifyE (\<lambda>a. a\<lparr>app_tracked := ids\<rparr>)))))))"

definition main_connect_temporal_client :: "settings \<Rightarrow> 'r environment \<Rightarrow> (string \<Rightarrow> payload_codec \<Rightarrow> exn + 'x) \<Rightarrow> exn + 'x" where
  "main_connect_temporal_client cfg E connect =
     (case create_aegis_data_converter (en_fernet E) None (en_encryption_key E) of
        Inl e \<Rightarrow> Inl e
      | Inr codec \<Rightarrow> connect (temporal_host cfg) codec)"

definition startup_event :: "settings \<Rightarrow> 'r environment \<Rightarrow> (string \<Rightarrow> payload_codec \<Rightarrow> exn + 'c temporal_client) \<Rightarrow> (('r, 'c) application, unit) prog" where
  "startup_event cfg E connect =
     thenE (app_log (info ''aegis.startup'' [(''message'', VStr ''Aegis-OS Control Plane starting up'')]))
    (bindE (liftE (main_connect_temporal_client cfg E connect)) (\<lambda>cl.
     thenE (modifyE (\<lambda>a. a\<lparr>app_temporal_client := Some cl\<rparr>))
    (bindE (liftE (new_session_manager cfg None (en_redis E) (en_clock E) (en_uuids E))) (\<lambda>m.
     thenE (modifyE (\<lambda>a. a\<lparr>app_approval_service := Some cl\<rparr>))
    (thenE (on_plane (configure_hitl_controls cl (opa_url cfg) m))
       (app_log (info ''aegis.hitl_controls_configured'' [(''temporal_host'', VStr (temporal_host cfg))])))))))"

text \<open>\<open>close\<close> is what the client's attribute of that name does, if it has a callable one.\<close>

definition shutdown_event :: "('c temporal_client \<Rightarrow> ('c, unit) prog option) \<Rightarrow> (('r, 'c) application, unit) prog" where
  "shutdown_event close =
     bindE (getE app_temporal_client) (\<lambda>client.
     thenE (case client of
              None \<Rightarrow> returnE ()
            | Some cl \<Rightarrow> (case close cl of None \<Rightarrow> returnE () | Some p \<Rightarrow> on_plane (on_server p)))
       (app_log (info ''aegis.shutdown'' [(''message'', VStr ''Aegis-OS Control Plane shutting down'')])))"

definition metrics :: "bool \<Rightarrow> (('r, 'c) application, string \<Rightarrow> rat option) prog" where
  "metrics strict =
     bindE (getE app_approval_service) (\<lambda>svc.
     thenE (refresh_pending_approval_metrics strict svc) (getE app_gauge))"

definition health_check :: "string dict" where
  "health_check = [(''status'', ''ok''), (''service'', ''aegis-os'')]"


section \<open>Gauges\<close>

lemma app_log_run:
  "\<exists>l. app_log (info ev fs) a = (Inr (), a\<lparr>app_logger := l\<rparr>)" "\<exists>l. app_log (warning ev fs) a = (Inr (), a\<lparr>app_logger := l\<rparr>)"
  by (auto simp: app_log_def zoomE_def info_def warning_def emit_eq split: prod.splits)

text \<open>Pending approvals as the gauge should show them.\<close>

definition pending_ids :: "approval_status_snapshot list \<Rightarrow> string set" where
  "pending_ids ns = ap_task_id ` {n \<in> set ns. ap_pending_since n \<noteq> None}"

lemma pending_ids_simps [simp]:
  "pending_ids [] = {}"
  "pending_ids (n # ns) = (case ap_pending_since n of None \<Rightarrow> pending_ids ns | Some _ \<Rightarrow> insert (ap_task_id n) (pending_ids ns))"
  by (auto simp: pending_ids_def split: option.splits)

lemma set_gauges_ids: "set (snd (set_gauges now ns (g, ids))) = set ids \<union> pending_ids ns"
  by (induction ns arbitrary: g ids) (auto split: option.splits)

lemma set_gauges_distinct: "distinct ids \<Longrightarrow> distinct (snd (set_gauges now ns (g, ids)))"
  by (induction ns arbitrary: g ids) (auto split: option.splits)

lemma set_gauges_other: "i \<notin> pending_ids ns \<Longrightarrow> fst (set_gauges now ns (g, ids)) i = g i"
  by (induction ns arbitrary: g ids) (auto split: option.splits)

lemma set_gauges_value:
  "i \<in> pending_ids ns \<Longrightarrow> \<exists>n \<in> set ns. \<exists>since. ap_task_id n = i \<and> ap_pending_since n = Some since \<and>
     fst (set_gauges now ns (g, ids)) i = Some (max (now - since) 0)"
proof (induction ns arbitrary: g ids)
  case (Cons n ns)
  show ?case
  proof (cases "i \<in> pending_ids ns")
    case True
    then show ?thesis
      using Cons.IH by (auto split: option.splits)
  next
    case False
    then show ?thesis
      using Cons.prems set_gauges_other [OF False] by (auto split: option.splits)
  qed
qed simp

lemma remove_gauges_run:
  "set ids \<subseteq> dom (app_gauge a) \<Longrightarrow> distinct ids \<Longrightarrow>
     remove_gauges strict ids a = (Inr (), a\<lparr>app_gauge := app_gauge a |` (- set ids)\<rparr>)"
proof (induction ids arbitrary: a)
  case (Cons i ids)
  let ?a = "a\<lparr>app_gauge := (app_gauge a)(i := None)\<rparr>"
  have "set ids \<subseteq> dom (app_gauge ?a)" "distinct ids" "app_gauge a i \<noteq> None"
    using Cons.prems by auto
  moreover from this have "remove_gauges strict ids ?a = (Inr (), ?a\<lparr>app_gauge := app_gauge ?a |` (- set ids)\<rparr>)"
    by (intro Cons.IH)
  ultimately have "remove_gauges strict (i # ids) a = (Inr (), ?a\<lparr>app_gauge := app_gauge ?a |` (- set ids)\<rparr>)"
    by (auto simp: bindE_def thenE_def getE_def modifyE_def)
  moreover have "app_gauge ?a |` (- set ids) = app_gauge a |` (- set (i # ids))"
    by (auto simp: restrict_map_def)
  ultimately show ?case
    by simp
qed (simp add: returnE_def restrict_map_def)

text \<open>The labels of the gauge are the workflows that were seen last.\<close>

definition metrics_ok :: "('r, 'c) application \<Rightarrow> bool" where
  "metrics_ok a \<longleftrightarrow> dom (app_gauge a) = set (app_tracked a) \<and> distinct (app_tracked a)"

lemma pending_snapshots_run:
  "\<exists>ns w l. pending_snapshots svc a = (Inr ns, a\<lparr>app_plane := w, app_logger := l\<rparr>)"
proof (cases svc)
  case None
  have "a = a\<lparr>app_plane := app_plane a, app_logger := app_logger a\<rparr>" by simp
  then show ?thesis using None by (metis option.simps(4) pending_snapshots_def returnE_def)
next
  case (Some cl)
  obtain r w where r: "on_server (list_pending_snapshots cl 200) (app_plane a) = (r, w)"
    by fastforce
  have keep: "a\<lparr>app_plane := w\<rparr> = a\<lparr>app_plane := w, app_logger := app_logger a\<rparr>" by simp
  show ?thesis
  proof (cases r)
    case (Inl e)
    then show ?thesis
      using r app_log_run(2) [of "''aegis.hitl_metrics_refresh_failed''" "[(''error'', VStr (str_exn e))]" "a\<lparr>app_plane := w\<rparr>"] Some
      by (fastforce simp: pending_snapshots_def tryE_def on_plane_def zoomE_def thenE_def bindE_def returnE_def)
  next
    case (Inr ns)
    then have "pending_snapshots svc a = (Inr ns, a\<lparr>app_plane := w\<rparr>)"
      using r Some by (simp add: pending_snapshots_def tryE_def on_plane_def zoomE_def)
    then show ?thesis
      using keep by metis
  qed
qed

lemma refresh_run:
  assumes "metrics_ok a" "pending_snapshots svc a = (Inr ns, a1)"
  shows "\<exists>a'. refresh_pending_approval_metrics strict svc a = (Inr (), a') \<and> metrics_ok a' \<and> set (app_tracked a') = pending_ids ns \<and>
    (\<forall>i \<in> pending_ids ns. \<exists>n \<in> set ns. \<exists>since. ap_task_id n = i \<and> ap_pending_since n = Some since \<and>
      app_gauge a' i = Some (max (app_clock a (app_ticks a) - since) 0))"
proof -
  obtain w l where a1: "a1 = a\<lparr>app_plane := w, app_logger := l\<rparr>"
    using pending_snapshots_run [of svc a] assms(2) by auto
  let ?now = "app_clock a (app_ticks a)"
  obtain g ids where g: "set_gauges ?now ns (app_gauge a, []) = (g, ids)"
    by fastforce
  note facts = set_gauges_ids [of ?now ns "app_gauge a" "[]"] set_gauges_distinct [of "[]" ?now ns "app_gauge a"]
    set_gauges_other [of _ ns ?now "app_gauge a" "[]"] set_gauges_value [of _ ns ?now "app_gauge a" "[]"]
  let ?stale = "filter (\<lambda>i. i \<notin> set ids) (app_tracked a)"
  let ?a2 = "a1\<lparr>app_ticks := Suc (app_ticks a), app_gauge := g\<rparr>"
  have dom: "dom g = dom (app_gauge a) \<union> set ids"
    using facts g by (auto simp: dom_def) (metis UnCI option.distinct(1))+
  then have "remove_gauges strict ?stale ?a2 = (Inr (), ?a2\<lparr>app_gauge := g |` (- set ?stale)\<rparr>)"
    using assms(1) remove_gauges_run [of ?stale ?a2 strict] by (fastforce simp: metrics_ok_def)
  then have run: "refresh_pending_approval_metrics strict svc a =
      (Inr (), ?a2\<lparr>app_gauge := g |` (- set ?stale), app_tracked := ids\<rparr>)"
    using assms(2) g a1
    by (simp add: refresh_pending_approval_metrics_def app_now_def bindE_def thenE_def getE_def modifyE_def returnE_def)
  have ids: "set ids = pending_ids ns" "distinct ids"
    using facts(1,2) g by simp_all
  have "dom (g |` (- set ?stale)) = set ids"
    using dom assms(1) by (auto simp: metrics_ok_def)
  moreover have "(g |` (- set ?stale)) i = g i" if "i \<in> pending_ids ns" for i
    using that ids(1) by (simp add: restrict_map_def)
  ultimately show ?thesis
    using run ids facts(4) g by (auto simp: metrics_ok_def)
qed

text \<open>The process: it starts with no gauge, refreshes, and does anything else that leaves the gauges alone.\<close>

inductive app_init :: "('r, 'c) application \<Rightarrow> bool" where
  "app_gauge a = Map.empty \<Longrightarrow> app_tracked a = [] \<Longrightarrow> app_init a"

inductive app_step :: "bool \<Rightarrow> ('r, 'c) application \<Rightarrow> ('r, 'c) application \<Rightarrow> bool" for strict where
  refreshes: "app_step strict a (snd (refresh_pending_approval_metrics strict svc a))"
| other: "app_gauge a' = app_gauge a \<Longrightarrow> app_tracked a' = app_tracked a \<Longrightarrow> app_step strict a a'"

interpretation app: invariant_system "app_init :: ('r, 'c) application \<Rightarrow> bool" "app_step strict" metrics_ok
proof
  show "metrics_ok a" if "app_init a" for a :: "('r, 'c) application"
    using that by cases (simp add: metrics_ok_def)
  show "metrics_ok a'" if "metrics_ok a" "app_step strict a a'" for a a' :: "('r, 'c) application"
    using that(2,1)
  proof cases
    case (refreshes svc)
    obtain ns a1 where "pending_snapshots svc a = (Inr ns, a1)"
      using pending_snapshots_run by blast
    from refresh_run [OF that(1) this, of strict] show ?thesis
      using refreshes by auto
  qed (simp add: metrics_ok_def)
qed

text \<open>
  (C33) The gauge of pending approvals. However the process got here, a refresh succeeds, whichever way
  the library treats unknown labels, and leaves exactly one value for every task that the server
  reported as pending since some time: its age, never negative. Tasks that are no longer pending lose
  their label, all of them if the server cannot be asked.
\<close>

theorem metrics_follow_pending:
  assumes "reachable app_init (app_step strict) a"
  shows "\<exists>ns a1 a'. pending_snapshots svc a = (Inr ns, a1) \<and> refresh_pending_approval_metrics strict svc a = (Inr (), a') \<and>
    dom (app_gauge a') = ap_task_id ` {n \<in> set ns. ap_pending_since n \<noteq> None} \<and>
    (\<forall>i v. app_gauge a' i = Some v \<longrightarrow> 0 \<le> v \<and> (\<exists>n \<in> set ns. \<exists>since. ap_task_id n = i \<and> ap_pending_since n = Some since \<and>
      v = max (app_clock a (app_ticks a) - since) 0))"
proof -
  obtain ns a1 where ns: "pending_snapshots svc a = (Inr ns, a1)"
    using pending_snapshots_run by blast
  obtain a' where a': "refresh_pending_approval_metrics strict svc a = (Inr (), a')" "metrics_ok a'" "set (app_tracked a') = pending_ids ns"
      "\<forall>i \<in> pending_ids ns. \<exists>n \<in> set ns. \<exists>since. ap_task_id n = i \<and> ap_pending_since n = Some since \<and>
        app_gauge a' i = Some (max (app_clock a (app_ticks a) - since) 0)"
    using refresh_run [OF app.reachable_inv [OF assms] ns] by blast
  have dom: "dom (app_gauge a') = pending_ids ns"
    using a'(2,3) by (simp add: metrics_ok_def)
  have "0 \<le> v \<and> (\<exists>n \<in> set ns. \<exists>since. ap_task_id n = i \<and> ap_pending_since n = Some since \<and>
      v = max (app_clock a (app_ticks a) - since) 0)" if "app_gauge a' i = Some v" for i v
  proof -
    have "i \<in> pending_ids ns"
      using that dom by blast
    then show ?thesis
      using a'(4) that by fastforce
  qed
  then show ?thesis
    using ns a'(1) dom unfolding pending_ids_def by blast
qed

text \<open>
  (C37) The API process as it is started serves no tasks. Start-up connects to Temporal with a codec for
  the configured key and configures the approval controls with that client, but
  no orchestrator, so after it, as long as nothing else calls \<open>configure_orchestrator\<close>, every task
  request ends with \<open>RuntimeError\<close> before anything is logged or sent.
\<close>

theorem startup_serves_no_tasks:
  assumes "rt_orchestrator (app_plane a) = None" and "startup_event cfg E connect a = (Inr (), a')"
  shows "(\<exists>codec cl m. new_payload_codec (en_fernet E) None (en_encryption_key E) = Inr codec \<and>
      connect (temporal_host cfg) codec = Inr cl \<and> rt_approval_service (app_plane a') = Some cl \<and> rt_policy_engine (app_plane a') = Some (opa_url cfg) \<and>
      rt_session_mgr (app_plane a') = Some m \<and> sm_revoked_jtis m = Map.empty) \<and>
    (\<forall>q. \<exists>e. route_task q (app_plane a') = (Inl e, app_plane a') \<and> exc_cls e = RuntimeError) \<and>
    (\<forall>q. \<exists>e. execute_task q (app_plane a') = (Inl e, app_plane a') \<and> exc_cls e = RuntimeError)"
proof -
  obtain cl m where s: "new_session_manager cfg None (en_redis E) (en_clock E) (en_uuids E) = Inr m"
    "main_connect_temporal_client cfg E connect = Inr cl"
    "app_plane a' = (app_plane a)\<lparr>rt_approval_service := Some cl, rt_policy_engine := Some (opa_url cfg), rt_session_mgr := Some m\<rparr>"
    using assms(2) unfolding startup_event_def
    by (auto simp: thenE_def bindE_Inr liftE_def on_plane_def zoomE_def configure_hitl_controls_def modifyE_def app_log_def
        info_def emit_eq split: prod.splits)
  have "sm_revoked_jtis m = Map.empty"
    using s(1) by (auto simp: new_session_manager_def split: sum.splits option.splits)
  moreover obtain codec where "new_payload_codec (en_fernet E) None (en_encryption_key E) = Inr codec" "connect (temporal_host cfg) codec = Inr cl"
    using s(2) by (auto simp: main_connect_temporal_client_def create_aegis_data_converter_def split: sum.splits)
  ultimately show ?thesis
    using s(3) assms(1) by (simp add: route_task_def execute_task_def require_orchestrator_def bindE_def getE_def raiseE_def)
qed

definition demo_app :: "(string \<rightharpoonup> rat, workflow_server) application" where
  "demo_app = \<lparr>app_plane = demo_plane\<lparr>rt_orchestrator := None\<rparr>, app_logger = new_audit_logger ''api'' int demo_span,
     app_temporal_client = None, app_approval_service = None, app_gauge = Map.empty, app_tracked = [], app_clock = (\<lambda>_. 5), app_ticks = 0\<rparr>"

theorem metrics_follow_pending_witness:
  "\<exists>a'. refresh_pending_approval_metrics True (Some server_client) demo_app = (Inr (), a') \<and> app_gauge a' ''t1'' = Some 5"
proof -
  have r: "reachable app_init (app_step True) demo_app"
    by (rule reach_init) (simp add: demo_app_def app_init.simps)
  have "server_list 200 demo_server = (Inr [\<lparr>we_id = str_uuid demo_session_id, we_close_time = None\<rparr>], demo_server)"
    by (simp add: server_list_def Let_def demo_server_simps) (simp add: demo_server_def)
  moreover have "server_query (str_uuid demo_session_id) demo_server = (Inr (approval_status awaiting_workflow), demo_server)"
    by (simp add: server_query_def Let_def demo_server_simps)
  moreover have "ap_approval_state (approval_status awaiting_workflow) = approval_value AWAITING_APPROVAL"
    by (simp add: approval_status_def demo_server_simps)
  ultimately have "list_pending_snapshots server_client 200 demo_server = (Inr [approval_status awaiting_workflow], demo_server)"
    by (simp add: list_pending_snapshots_def server_client_def bindE_def tryE_def returnE_def)
  then have ns: "\<exists>a1. pending_snapshots (Some server_client) demo_app = (Inr [approval_status awaiting_workflow], a1)"
    by (simp add: pending_snapshots_def demo_app_def demo_plane_def on_plane_def on_server_def tryE_def zoomE_def)
  obtain ns a1 a' where f: "pending_snapshots (Some server_client) demo_app = (Inr ns, a1)"
      "refresh_pending_approval_metrics True (Some server_client) demo_app = (Inr (), a')"
      "dom (app_gauge a') = ap_task_id ` {n \<in> set ns. ap_pending_since n \<noteq> None}"
      "\<forall>i v. app_gauge a' i = Some v \<longrightarrow> 0 \<le> v \<and> (\<exists>n \<in> set ns. \<exists>since. ap_task_id n = i \<and> ap_pending_since n = Some since \<and>
        v = max (app_clock demo_app (app_ticks demo_app) - since) 0)"
    using metrics_follow_pending [OF r, of "Some server_client"] by (elim exE conjE)
  have "ns = [approval_status awaiting_workflow]"
    using f(1) ns by auto
  then have set: "n \<in> set ns \<longleftrightarrow> n = approval_status awaiting_workflow" for n
    by auto
  have n: "ap_task_id (approval_status awaiting_workflow) = ''t1''" "ap_pending_since (approval_status awaiting_workflow) = Some 0"
    by (simp_all add: approval_status_def awaiting_workflow_def)
  have "''t1'' \<in> dom (app_gauge a')"
    unfolding f(3) by (rule image_eqI [of _ _ "approval_status awaiting_workflow"]) (simp_all add: n set)
  then obtain v where v: "app_gauge a' ''t1'' = Some v"
    by blast
  from f(4) [rule_format, OF this] obtain m since where "m \<in> set ns" "ap_pending_since m = Some since"
      "v = max (app_clock demo_app (app_ticks demo_app) - since) 0"
    by blast
  then have "v = max (app_clock demo_app (app_ticks demo_app) - 0) 0"
    using n(2) set by simp
  then have "v = 5"
    by (simp add: demo_app_def)
  then show ?thesis
    using f(2) v by blast
qed

definition demo_environment :: "(string \<rightharpoonup> rat) environment" where
  "demo_environment = \<lparr>en_libs = table_libs [], en_db = ascii_db, en_redis = Map.empty, en_clock = of_nat, en_uuids = demo_uuids,
     en_wall = int, en_span = demo_span, en_http = sv_http demo_world, en_new_span = (\<lambda>_. demo_span), en_keys = (\<lambda>_. (''k'', 1, 2)),
     en_fernet = plain_fernet, en_encryption_key = None\<rparr>"

theorem startup_serves_no_tasks_witness:
  "\<exists>a' e. startup_event default_settings demo_environment (\<lambda>_ _. Inr server_client) demo_app = (Inr (), a') \<and>
     route_task (demo_task_request (asc ''hi'')) (app_plane a') = (Inl e, app_plane a') \<and> exc_cls e = RuntimeError"
proof -
  have "length DEV_KEY = 44"
    by code_simp
  then have c: "main_connect_temporal_client cfg demo_environment (\<lambda>_ _. Inr server_client) = Inr server_client" for cfg
    by (simp add: main_connect_temporal_client_def create_aegis_data_converter_def new_payload_codec_def resolve_key_def
        demo_environment_def plain_fernet_def)
  have "\<exists>a'. startup_event default_settings demo_environment (\<lambda>_ _. Inr server_client) demo_app = (Inr (), a')"
    by (simp add: startup_event_def c app_log_def demo_eval info_def emit_eq new_session_manager_def default_replay_store_def default_settings_def
        modifyE_def on_plane_def configure_hitl_controls_def lower_def lower_char_def)
  then obtain a' where a': "startup_event default_settings demo_environment (\<lambda>_ _. Inr server_client) demo_app = (Inr (), a')"
    by blast
  have "rt_orchestrator (app_plane demo_app) = None"
    by (simp add: demo_app_def)
  then show ?thesis
    using startup_serves_no_tasks [OF _ a'] a' by blast
qed

section \<open>Start and stop of the processes\<close>

lemma run_worker_Inr:
  assumes "run_worker cfg E connect = Inr (client, D, s)"
  shows "\<exists>codec. create_aegis_data_converter (en_fernet E) None (en_encryption_key E) = Inr codec \<and>
      connect (temporal_host cfg) codec = Inr client"
    and "build_adapter cfg = Inr (dp_adapter D)" "dp_cfg D = cfg" "dp_opa D = opa_url cfg"
    and "sm_revoked_jtis (sv_session s) = Map.empty" "sv_audit s = be_audit (sv_budget s)"
  using assms
  by (auto simp: run_worker_def connect_temporal_client_def create_worker_def Let_def new_session_manager_def new_budget_enforcer_def
      split: sum.splits option.splits)

lemma processes_exchange_payloads:
  assumes "fernet_documented (en_fernet E)" "en_fernet E' = en_fernet E" "en_encryption_key E' = en_encryption_key E"
    and "create_aegis_data_converter (en_fernet E) None (en_encryption_key E) = Inr c"
    and "create_aegis_data_converter (en_fernet E') None (en_encryption_key E') = Inr d"
    and "\<not> list_ex encrypted ps"
  shows "\<exists>qs c'. encode (en_fernet E) ps c = (Inr qs, c') \<and> decode (en_fernet E') qs d = (Inr (map stripped ps), d)"
proof -
  obtain qs n where e: "encode (en_fernet E) ps c = (Inr qs, c\<lparr>pc_ticks := n\<rparr>)"
    using encode_run by blast
  have "pc_key d = pc_key c" "fl_valid_key (en_fernet E) (pc_key d)"
    using assms(2-5) by (auto simp: create_aegis_data_converter_def new_payload_codec_def Let_def split: if_splits)
  then show ?thesis
    using e encode_sealed [OF e] decode_sealed [OF assms(1), of d ps qs] received_open [OF assms(6)] assms(2) by auto
qed

lemma shutdown_event_run:
  assumes "shutdown_event close a = (r, a')"
  shows "app_gauge a' = app_gauge a" "app_tracked a' = app_tracked a"
    and "r = Inl e \<Longrightarrow> \<exists>cl p. app_temporal_client a = Some cl \<and> close cl = Some p \<and> fst (p (rt_server (app_plane a))) = Inl e"
  using assms
  by (auto simp: shutdown_event_def thenE_def bindE_def getE_def returnE_def on_plane_def on_server_def zoomE_def app_log_def
      info_def emit_eq split: option.splits prod.splits sum.splits)

end
