(* ===== verification/ApprovalDemo.thy ===== *)
theory ApprovalDemo
  imports Application
begin

text \<open>
  \<open>scripts/verify_pending_approval_demo.py\<close>: the check of a running installation. It starts a workflow
  that has to wait for approval, polls until the workflow and the metrics page of the API show that,
  sends a decision through the API and polls until the page no longer shows it.

  The Temporal client and the API behind HTTP are parameters, operations on a state \<open>'w\<close> of what runs
  outside. A call that waits without a limit of its own (\<open>handle.result()\<close>) may never return, so what
  waits gives an option: \<open>None\<close> stands for not returning. \<open>print\<close> appends to \<open>dw_output\<close>.

  Time is what \<open>loop.time()\<close> reads: the time slept so far plus \<open>dw_clock n\<close> at the \<open>n\<close>-th reading. A
  clock that never goes back and sleeps that last at least as long as asked are, together, a
  monotonic \<open>dw_clock\<close>.
\<close>

section \<open>The script's world\<close>

datatype demo_line =
    WorkflowPending string string | MetricsVisible utext | ApiReply string json | MetricsCleared string
  | WorkflowCompleted string string | ApproveSent

record 'w script_world =
  dw_stack :: 'w
  dw_clock :: "nat \<Rightarrow> rat"
  dw_ticks :: nat
  dw_slept :: rat
  dw_output :: "demo_line list"

text \<open>The text of a response beside its status.\<close>

record http_page = http_response +
  hp_text :: utext

record 'w demo_client =
  dc_start :: "workflow_input \<Rightarrow> string \<Rightarrow> string \<Rightarrow> ('w, unit) prog"
  dc_query :: "string \<Rightarrow> ('w, approval_status_snapshot) prog"
  dc_result :: "string \<Rightarrow> 'w \<Rightarrow> ((exn + workflow_output) \<times> 'w) option"

record 'w demo_api =
  pa_get :: "string \<Rightarrow> ('w, http_page) prog"
  pa_post :: "string \<Rightarrow> json \<Rightarrow> string dict \<Rightarrow> ('w, http_page) prog"

type_synonym ('s, 'a) waits = "'s \<Rightarrow> ((exn + 'a) \<times> 's) option"

definition atonce :: "('s, 'a) prog \<Rightarrow> ('s, 'a) waits" where
  "atonce p = (\<lambda>s. Some (p s))"

definition bindW :: "('s, 'a) waits \<Rightarrow> ('a \<Rightarrow> ('s, 'b) waits) \<Rightarrow> ('s, 'b) waits" where
  "bindW m f = (\<lambda>s. case m s of None \<Rightarrow> None | Some (Inl e, s') \<Rightarrow> Some (Inl e, s') | Some (Inr x, s') \<Rightarrow> f x s')"

definition on_stack :: "('w, 'a) prog \<Rightarrow> ('w script_world, 'a) prog" where
  "on_stack p = zoomE dw_stack (\<lambda>k w. w\<lparr>dw_stack := k\<rparr>) p"

definition loop_time :: "'w script_world \<Rightarrow> rat" where
  "loop_time w = dw_clock w (dw_ticks w) + dw_slept w"

definition tick :: "'w script_world \<Rightarrow> 'w script_world" where
  "tick w = w\<lparr>dw_ticks := Suc (dw_ticks w)\<rparr>"

definition sleep :: "rat \<Rightarrow> 'w script_world \<Rightarrow> 'w script_world" where
  "sleep d w = w\<lparr>dw_slept := dw_slept w + d\<rparr>"

definition print_line :: "demo_line \<Rightarrow> ('w script_world, unit) prog" where
  "print_line l = modifyE (\<lambda>w. w\<lparr>dw_output := dw_output w @ [l]\<rparr>)"


section \<open>Waiting\<close>

text \<open>
  The loop that both waits have: while the deadline is not reached, look, return what was found, else
  sleep.
\<close>

partial_function (option) poll_until ::
  "rat \<Rightarrow> rat \<Rightarrow> exn \<Rightarrow> ('w, 'a option) prog \<Rightarrow> 'w script_world \<Rightarrow> ((exn + 'a) \<times> 'w script_world) option" where
  "poll_until deadline pause late look w =
     (if loop_time w < deadline
      then (case look (dw_stack w) of
              (Inl e, k) \<Rightarrow> Some (Inl e, (tick w)\<lparr>dw_stack := k\<rparr>)
            | (Inr (Some x), k) \<Rightarrow> Some (Inr x, (tick w)\<lparr>dw_stack := k\<rparr>)
            | (Inr None, k) \<Rightarrow> poll_until deadline pause late look (sleep pause ((tick w)\<lparr>dw_stack := k\<rparr>)))
      else Some (Inl late, tick w))"

definition look_pending :: "'w demo_client \<Rightarrow> string \<Rightarrow> ('w, approval_status_snapshot option) prog" where
  "look_pending cl task_id =
     bindE (dc_query cl task_id) (\<lambda>n.
     returnE (if ap_approval_state n = approval_value AWAITING_APPROVAL then Some n else None))"

definition wait_for_pending_state ::
  "'w demo_client \<Rightarrow> string \<Rightarrow> rat \<Rightarrow> ('w script_world, approval_status_snapshot) waits" where
  "wait_for_pending_state cl task_id timeout_seconds =
     (\<lambda>w. poll_until (loop_time w + timeout_seconds) (1/2)
        (exn_of TimeoutError ''Workflow did not reach PendingApproval before timeout'') (look_pending cl task_id) (tick w))"

definition METRIC_NAME :: string where
  "METRIC_NAME = ''aegis_workflow_pending_approval_seconds''"

text \<open>The line for a task up to the white space before the number, and the pattern without its anchors.\<close>

definition metric_key :: "string \<Rightarrow> string" where
  "metric_key task_id = METRIC_NAME @ ''{workflow_id='' @ [CHR 34] @ task_id @ [CHR 34] @ ''}''"

definition metric_pattern :: "string \<Rightarrow> re" where
  "metric_pattern task_id =
     Seq (lit (metric_key task_id)) (Seq (plus (Cls [CSpace])) (plus (Cls [CRange 48 57, CRange 46 46])))"

definition line_start :: "int option \<Rightarrow> bool" where
  "line_start p = (case p of None \<Rightarrow> True | Some c \<Rightarrow> c = 10)"

definition line_end :: "utext \<Rightarrow> bool" where
  "line_end t = (case t of [] \<Rightarrow> True | c # _ \<Rightarrow> c = 10)"

text \<open>\<open>re.compile("^...$", re.MULTILINE).search(text)\<close>, the text it matched.\<close>

definition line_match :: "unicode_db \<Rightarrow> re \<Rightarrow> int option \<Rightarrow> utext \<Rightarrow> utext option" where
  "line_match db r p t =
     (if line_start p
      then map_option (\<lambda>q. take (length t - length (snd q)) t) (List.find (\<lambda>q. line_end (snd q)) (re_m db False r (p, t)))
      else None)"

fun line_search :: "unicode_db \<Rightarrow> re \<Rightarrow> int option \<Rightarrow> utext \<Rightarrow> utext option" where
  "line_search db r p [] = line_match db r p []"
| "line_search db r p (c # cs) =
     (case line_match db r p (c # cs) of Some m \<Rightarrow> Some m | None \<Rightarrow> line_search db r (Some c) cs)"

definition look_metric :: "unicode_db \<Rightarrow> 'w demo_api \<Rightarrow> string \<Rightarrow> string \<Rightarrow> bool \<Rightarrow> ('w, utext option) prog" where
  "look_metric db api api_base_url task_id should_exist =
     bindE (pa_get api (api_base_url @ ''/metrics'')) (\<lambda>response.
     bindE (liftE (raise_for_status (http_response.truncate response))) (\<lambda>_.
     let matched = line_search db (metric_pattern task_id) None (hp_text response) in
     returnE (if should_exist then matched else if matched = None then Some (hp_text response) else None)))"

definition wait_for_metric ::
  "unicode_db \<Rightarrow> 'w demo_api \<Rightarrow> string \<Rightarrow> string \<Rightarrow> bool \<Rightarrow> rat \<Rightarrow> ('w script_world, utext) waits" where
  "wait_for_metric db api api_base_url task_id should_exist timeout_seconds =
     (\<lambda>w. poll_until (loop_time w + timeout_seconds) 1
        (exn_of TimeoutError (''PendingApproval metric did not '' @ (if should_exist then ''appear'' else ''clear'')
           @ '' before timeout'')) (look_metric db api api_base_url task_id should_exist) (tick w))"


section \<open>The decision\<close>

definition admin_request :: "string \<Rightarrow> string \<Rightarrow> token_request" where
  "admin_request session_id requester_id =
     \<lparr>rq_agent_type = ''general'', rq_requester_id = requester_id, rq_metadata = [], rq_session_id = Some session_id,
      rq_allowed_actions = [''hitl:approve'', ''hitl:deny''], rq_role = Some ''admin'', rq_expires_in_seconds = None,
      rq_rotation_key = None, rq_task_id = None, rq_confirmation_jwk = None\<rparr>"

text \<open>A session manager of its own; the first \<open>uuid4\<close> of the process names the task.\<close>

definition issue_admin_token :: "settings \<Rightarrow> 'r environment \<Rightarrow> string \<Rightarrow> string \<Rightarrow> exn + string" where
  "issue_admin_token cfg E session_id requester_id =
     (case new_session_manager cfg None (en_redis E) (en_clock E) (\<lambda>n. en_uuids E (Suc n)) of
        Inl e \<Rightarrow> Inl e
      | Inr m \<Rightarrow> fst (issue_token (en_libs E) cfg (admin_request session_id requester_id) m))"

definition send_decision ::
  "settings \<Rightarrow> 'r environment \<Rightarrow> 'w demo_api \<Rightarrow> string \<Rightarrow> string \<Rightarrow> string \<Rightarrow> string \<Rightarrow> string \<Rightarrow> string \<Rightarrow> ('w, json) prog" where
  "send_decision cfg E api api_base_url task_id action approver_id reason session_id =
     bindE (liftE (issue_admin_token cfg E session_id approver_id)) (\<lambda>token.
     bindE (pa_post api (api_base_url @ ''/api/v1/tasks/'' @ task_id @ ''/'' @ action)
              (JObj [(''approver_id'', JStr approver_id), (''reason'', JStr reason)])
              [(''Authorization'', ''Bearer '' @ token)]) (\<lambda>response.
     bindE (liftE (raise_for_status (http_response.truncate response))) (\<lambda>_.
     liftE (hs_json response))))"


section \<open>The run\<close>

record demo_args =
  da_api_base_url :: string
  da_temporal_host :: string
  da_task_queue :: string
  da_action :: string
  da_approver_id :: string
  da_reason :: string
  da_requester_id :: string
  da_projected_spend_usd :: string
  da_timeout_seconds :: rat

text \<open>What \<open>_build_parser\<close> gives for an empty command line, and what it lets pass for \<open>--action\<close>.\<close>

definition default_args :: "settings \<Rightarrow> demo_args" where
  "default_args cfg =
     \<lparr>da_api_base_url = ''http://localhost:18000'', da_temporal_host = temporal_host cfg, da_task_queue = temporal_task_queue cfg,
      da_action = ''deny'', da_approver_id = ''admin-user'', da_reason = ''Demo verification completed.'',
      da_requester_id = ''demo-operator'', da_projected_spend_usd = ''75.25'', da_timeout_seconds = 30\<rparr>"

definition action_choices :: "string list" where
  "action_choices = [''approve'', ''deny'']"

definition demo_workflow_input :: "demo_args \<Rightarrow> string \<Rightarrow> workflow_input" where
  "demo_workflow_input a task_id =
     \<lparr>wi_task_id = task_id, wi_prompt = asc ''Demo PendingApproval verification request.'', wi_agent_type = ''general'',
      wi_requester_id = da_requester_id a, wi_model = ''gpt-4o-mini'', wi_max_tokens = 1024, wi_temperature = 7/10,
      wi_system_prompt = [], wi_protect_outbound_request = False, wi_session_id = Some (''demo-session-'' @ task_id),
      wi_budget_session_id = None, wi_budget_limit_usd = None, wi_cost_per_token_usd = ''0.000002'',
      wi_loop_session_id = None, wi_loop_signal = NO_PROGRESS, wi_loop_token_delta = None,
      wi_loop_max_agent_steps = None, wi_loop_max_token_velocity = None, wi_projected_spend_usd = da_projected_spend_usd a,
      wi_approval_timeout_seconds = max \<lfloor>da_timeout_seconds a\<rfloor> 5, wi_traceparent = None\<rparr>"

definition or_session :: "string option \<Rightarrow> string \<Rightarrow> string" where
  "or_session s d = (case s of Some (c # cs) \<Rightarrow> c # cs | _ \<Rightarrow> d)"

text \<open>\<open>handle.result()\<close> and what is printed of it.\<close>

definition report_result :: "'w demo_client \<Rightarrow> string \<Rightarrow> string \<Rightarrow> ('w script_world, unit) waits" where
  "report_result cl action task_id =
     (if action = ''deny''
      then bindW (\<lambda>w. map_option (map_prod id (\<lambda>k. w\<lparr>dw_stack := k\<rparr>)) (dc_result cl task_id (dw_stack w)))
             (\<lambda>res. atonce (print_line (WorkflowCompleted (wo_workflow_status res) (wo_approval_state res))))
      else atonce (print_line ApproveSent))"

definition run_demo ::
  "settings \<Rightarrow> 'r environment \<Rightarrow> 'w demo_api \<Rightarrow> (string \<Rightarrow> payload_codec \<Rightarrow> exn + 'w demo_client) \<Rightarrow> demo_args
     \<Rightarrow> ('w script_world, int) waits" where
  "run_demo cfg E api connect a =
     (let task_id = str_uuid (en_uuids E 0); session_id = ''demo-session-'' @ task_id in
      bindW (atonce (liftE (case create_aegis_data_converter (en_fernet E) None (en_encryption_key E) of
               Inl e \<Rightarrow> Inl e | Inr codec \<Rightarrow> connect (da_temporal_host a) codec))) (\<lambda>cl.
      bindW (atonce (on_stack (dc_start cl (demo_workflow_input a task_id) task_id (da_task_queue a)))) (\<lambda>_.
      bindW (wait_for_pending_state cl task_id (da_timeout_seconds a)) (\<lambda>snapshot.
      bindW (atonce (print_line (WorkflowPending task_id session_id))) (\<lambda>_.
      bindW (wait_for_metric (en_db E) api (da_api_base_url a) task_id True (da_timeout_seconds a)) (\<lambda>metric_line.
      bindW (atonce (print_line (MetricsVisible metric_line))) (\<lambda>_.
      bindW (atonce (on_stack (send_decision cfg E api (da_api_base_url a) task_id (da_action a) (da_approver_id a) (da_reason a)
               (or_session (ap_session_id snapshot) session_id)))) (\<lambda>decision_payload.
      bindW (atonce (print_line (ApiReply (da_action a) decision_payload))) (\<lambda>_.
      bindW (wait_for_metric (en_db E) api (da_api_base_url a) task_id False (da_timeout_seconds a)) (\<lambda>_.
      bindW (atonce (print_line (MetricsCleared task_id))) (\<lambda>_.
      bindW (report_result cl (da_action a) task_id) (\<lambda>_.
      atonce (returnE 0)))))))))))))"

end
