(* ===== verification/DemoSafety.thy ===== *)
theory DemoSafety
  imports ApprovalDemo
begin

text \<open>
  What the demonstration script guarantees: its waits end within a bounded number of looks, a run that
  exits with 0 has seen everything it reports, and the token it makes is accepted by the API.
\<close>

section \<open>Waiting ends\<close>

text \<open>
  How a wait that starts in the state \<open>k0\<close> of what runs outside can end: with what the last look found, after looks
  that found nothing and left off where the next began, with the exception of the last look, or late, after a
  reading of the clock that is not before the deadline.
\<close>

definition fruitless :: "('w, 'a option) prog \<Rightarrow> 'w \<Rightarrow> 'w \<Rightarrow> bool" where
  "fruitless look k k' \<longleftrightarrow> look k = (Inr None, k')"

definition poll_outcome :: "('w, 'a option) prog \<Rightarrow> 'w \<Rightarrow> rat \<Rightarrow> exn \<Rightarrow> exn + 'a \<Rightarrow> 'w script_world \<Rightarrow> bool" where
  "poll_outcome look k0 deadline late r w \<longleftrightarrow>
     (case r of
        Inr x \<Rightarrow> \<exists>k. (fruitless look)\<^sup>*\<^sup>* k0 k \<and> look k = (Inr (Some x), dw_stack w)
      | Inl e \<Rightarrow> (\<exists>k. look k = (Inl e, dw_stack w)) \<or> e = late \<and> (\<exists>v. w = tick v \<and> deadline \<le> loop_time v))"

lemma loop_time_sleep:
  assumes "mono (dw_clock w)"
  shows "loop_time w + d \<le> loop_time (sleep d ((tick w)\<lparr>dw_stack := k\<rparr>))"
  using monoD [OF assms, of "dw_ticks w" "Suc (dw_ticks w)"] by (simp add: loop_time_def sleep_def tick_def)

lemma poll_until_ends:
  fixes w :: "'w script_world"
  assumes "mono (dw_clock w)" "0 < pause" "deadline - loop_time w \<le> of_nat n * pause"
  shows "\<exists>r w'. poll_until deadline pause late look w = Some (r, w') \<and> dw_ticks w' \<le> dw_ticks w + n + 1 \<and>
    dw_clock w' = dw_clock w \<and> dw_output w' = dw_output w \<and> poll_outcome look (dw_stack w) deadline late r w'"
  using assms(1,3)
proof (induction n arbitrary: w)
  case 0
  then show ?case
    by (subst poll_until.simps) (auto simp: poll_outcome_def tick_def)
next
  case (Suc n)
  show ?case
  proof (cases "loop_time w < deadline")
    case False
    then show ?thesis
      by (subst poll_until.simps) (auto simp: poll_outcome_def tick_def)
  next
    case True
    obtain x k where look: "look (dw_stack w) = (x, k)"
      by fastforce
    consider (found) y where "x = Inr (Some y)" | (raised) e where "x = Inl e" | (again) "x = Inr None"
      by (metis option.exhaust sum.exhaust)
    then show ?thesis
    proof cases
      case again
      let ?w = "sleep pause ((tick w)\<lparr>dw_stack := k\<rparr>)"
      have same: "dw_clock ?w = dw_clock w" "dw_output ?w = dw_output w" "dw_ticks ?w = Suc (dw_ticks w)" "dw_stack ?w = k"
        by (simp_all add: sleep_def tick_def)
      have "deadline - loop_time ?w \<le> of_nat n * pause"
        using loop_time_sleep [OF Suc.prems(1), of pause k] Suc.prems(2) by (simp add: algebra_simps)
      from Suc.IH [OF _ this] obtain r w' where IH: "poll_until deadline pause late look ?w = Some (r, w')"
          "dw_ticks w' \<le> dw_ticks ?w + n + 1" "dw_clock w' = dw_clock ?w" "dw_output w' = dw_output ?w"
          "poll_outcome look k deadline late r w'"
        using Suc.prems(1) same(1,4) by auto
      have "poll_until deadline pause late look w = poll_until deadline pause late look ?w"
        using True look again by (subst poll_until.simps) simp
      moreover have "fruitless look (dw_stack w) k"
        using look again by (simp add: fruitless_def)
      then have "poll_outcome look (dw_stack w) deadline late r w'"
        using IH(5) unfolding poll_outcome_def by (auto split: sum.splits intro: converse_rtranclp_into_rtranclp)
      ultimately show ?thesis
        using IH same by auto
    qed (use True look in \<open>subst poll_until.simps, auto simp: poll_outcome_def tick_def\<close>)+
  qed
qed

lemma poll_from_now:
  fixes w :: "'w script_world"
  assumes "mono (dw_clock w)" "0 < pause"
  shows "\<exists>r w'. poll_until (loop_time w + timeout) pause late look (tick w) = Some (r, w') \<and>
    dw_ticks w' \<le> dw_ticks w + nat \<lceil>timeout / pause\<rceil> + 2 \<and>
    dw_clock w' = dw_clock w \<and> dw_output w' = dw_output w \<and> poll_outcome look (dw_stack w) (loop_time w + timeout) late r w'"
proof -
  have "loop_time w \<le> loop_time (tick w)"
    using monoD [OF assms(1), of "dw_ticks w" "Suc (dw_ticks w)"] by (simp add: loop_time_def tick_def)
  moreover have "timeout / pause \<le> of_nat (nat \<lceil>timeout / pause\<rceil>)"
    by (rule of_nat_ceiling)
  then have "timeout \<le> of_nat (nat \<lceil>timeout / pause\<rceil>) * pause"
    using assms(2) by (simp add: pos_divide_le_eq)
  ultimately have "loop_time w + timeout - loop_time (tick w) \<le> of_nat (nat \<lceil>timeout / pause\<rceil>) * pause"
    by linarith
  from poll_until_ends [OF _ assms(2) this, of late look] show ?thesis
    using assms(1) by (auto simp: tick_def)
qed

lemma poll_found:
  fixes w :: "'w script_world"
  assumes "mono (dw_clock w)" "0 < pause" "poll_until (loop_time w + timeout) pause late look (tick w) = Some (Inr x, w')"
  shows "\<exists>k. (fruitless look)\<^sup>*\<^sup>* (dw_stack w) k \<and> look k = (Inr (Some x), dw_stack w')"
  using poll_from_now [OF assms(1,2), of timeout late look] assms(3) by (auto simp: poll_outcome_def)

text \<open>What the two looks see.\<close>

lemma look_pending_Inr:
  "look_pending cl t k = (Inr (Some n), k') \<longleftrightarrow> dc_query cl t k = (Inr n, k') \<and> ap_approval_state n = approval_value AWAITING_APPROVAL"
  by (auto simp: look_pending_def bindE_Inr returnE_def simp del: approval_value.simps split: if_splits)

definition page_ok :: "http_page \<Rightarrow> bool" where
  "page_ok p \<longleftrightarrow> 200 \<le> hs_status p \<and> hs_status p < 300"

lemma status_passes: "raise_for_status (http_response.truncate p) = Inr () \<longleftrightarrow> page_ok p"
  by (simp add: raise_for_status_def http_response.truncate_def page_ok_def)

lemma look_metric_Inr:
  "look_metric db api url t should k = (Inr (Some x), k') \<longleftrightarrow>
     (\<exists>p. pa_get api (url @ ''/metrics'') k = (Inr p, k') \<and> page_ok p \<and>
       (if should then line_search db (metric_pattern t) None (hp_text p) = Some x
        else line_search db (metric_pattern t) None (hp_text p) = None \<and> x = hp_text p))"
proof -
  have "raise_for_status r = Inr u \<longleftrightarrow> raise_for_status r = Inr ()" for r u
    by simp
  then show ?thesis
    unfolding look_metric_def bindE_Inr liftE_def prod.inject status_passes [symmetric] Let_def
    by (cases should) (auto simp: returnE_def split: if_splits)
qed

text \<open>
  A line of the page that shows the age of a task: the key of the task at the start of the line, white
  space, digits and dots to the end of the line.
\<close>

definition shows_age :: "unicode_db \<Rightarrow> string \<Rightarrow> utext \<Rightarrow> bool" where
  "shows_age db t text \<longleftrightarrow> (\<exists>before ws ds after. text = before @ asc (metric_key t) @ ws @ ds @ after \<and>
     (before = [] \<or> last before = 10) \<and> ws \<noteq> [] \<and> (\<forall>c \<in> set ws. is_uspace db c) \<and>
     ds \<noteq> [] \<and> (\<forall>c \<in> set ds. 48 \<le> c \<and> c \<le> 57 \<or> c = 46) \<and> line_end after)"

lemma mt_lit: "mt db False (lit s) p w u \<longleftrightarrow> w = asc s"
proof (induction s arbitrary: p w)
  case Nil
  then show ?case by (simp add: lit_def asc_def)
next
  case (Cons c s)
  have "lit (c # s) = Seq (Cls [CRange (of_char c) (of_char c)]) (lit s)"
    by (simp add: lit_def)
  then show ?case
    using Cons by (auto simp: cls_ok_def asc_def)
qed

lemma star_cls: "star_rel (mt db False (Cls items)) p w s \<longleftrightarrow> (\<forall>c \<in> set w. cls_ok db False items c)"
proof
  show "\<forall>c \<in> set w. cls_ok db False items c" if "star_rel (mt db False (Cls items)) p w s"
    using that by induction auto
  show "star_rel (mt db False (Cls items)) p w s" if "\<forall>c \<in> set w. cls_ok db False items c"
    using that
  proof (induction w arbitrary: p)
    case (Cons c w)
    then have "star_rel (mt db False (Cls items)) p ([c] @ w) s"
      by (intro star_step) auto
    then show ?case by simp
  qed (rule star_nil)
qed

lemma mt_plus_cls: "mt db False (plus (Cls items)) p w s \<longleftrightarrow> w \<noteq> [] \<and> (\<forall>c \<in> set w. cls_ok db False items c)"
proof -
  have "mt db False (plus (Cls items)) p w s \<longleftrightarrow>
      (\<exists>c v. w = [c] @ v \<and> cls_ok db False items c \<and> star_rel (mt db False (Cls items)) (Some c) v s)"
  proof
    assume "mt db False (plus (Cls items)) p w s"
    then obtain u v where "w = u @ v" "mt db False (Cls items) p u (v @ s)" "star_rel (mt db False (Cls items)) (lastp p u) v s"
      unfolding mt.simps(3,5) by blast
    then show "\<exists>c v. w = [c] @ v \<and> cls_ok db False items c \<and> star_rel (mt db False (Cls items)) (Some c) v s"
      unfolding mt.simps(2) by auto
  next
    assume "\<exists>c v. w = [c] @ v \<and> cls_ok db False items c \<and> star_rel (mt db False (Cls items)) (Some c) v s"
    then obtain c v where "w = [c] @ v" "cls_ok db False items c" "star_rel (mt db False (Cls items)) (lastp p [c]) v s"
      unfolding lastp_simps by blast
    then show "mt db False (plus (Cls items)) p w s"
      unfolding mt.simps(3,5) by (intro exI [of _ "[c]"] exI [of _ v] conjI) simp_all
  qed
  also have "\<dots> \<longleftrightarrow> (\<exists>c v. w = c # v \<and> cls_ok db False items c \<and> (\<forall>c \<in> set v. cls_ok db False items c))"
    unfolding star_cls by simp
  also have "\<dots> \<longleftrightarrow> w \<noteq> [] \<and> (\<forall>c \<in> set w. cls_ok db False items c)"
    by (cases w) simp_all
  finally show ?thesis .
qed

lemma mt_metric_pattern:
  "mt db False (metric_pattern t) p m s \<longleftrightarrow> (\<exists>ws ds. m = asc (metric_key t) @ ws @ ds \<and>
     ws \<noteq> [] \<and> (\<forall>c \<in> set ws. is_uspace db c) \<and> ds \<noteq> [] \<and> (\<forall>c \<in> set ds. 48 \<le> c \<and> c \<le> 57 \<or> c = 46))"
proof -
  have "cls_ok db False [CSpace] c \<longleftrightarrow> is_uspace db c"
    "cls_ok db False [CRange 48 57, CRange 46 46] c \<longleftrightarrow> 48 \<le> c \<and> c \<le> 57 \<or> c = 46" for c
    by (auto simp: cls_ok_def)
  then show ?thesis
    unfolding metric_pattern_def mt.simps(3) [of _ _ "lit _"] mt.simps(3) [of _ _ "plus (Cls [CSpace])" "plus _"] mt_lit mt_plus_cls
    by auto
qed

lemma line_match_found:
  "line_match db r p t \<noteq> None \<longleftrightarrow> line_start p \<and> (\<exists>m s. t = m @ s \<and> mt db False r p m s \<and> line_end s)"
proof -
  have "List.find (\<lambda>q. line_end (snd q)) (re_m db False r (p, t)) \<noteq> None \<longleftrightarrow>
      (\<exists>q \<in> found (mt db False r) p t. line_end (snd q))"
    unfolding find_None_iff re_m_found [symmetric] by blast
  then show ?thesis
    by (auto simp: line_match_def found_def)
qed

lemma line_search_found:
  "line_search db r p t \<noteq> None \<longleftrightarrow>
     (\<exists>b m s. t = b @ m @ s \<and> line_start (lastp p b) \<and> mt db False r (lastp p b) m s \<and> line_end s)"
proof (induction db r p t rule: line_search.induct)
  case (1 db r p)
  then show ?case
    using line_match_found [of db r p "[]"] by auto
next
  case (2 db r p c cs)
  show ?case
  proof (cases "line_match db r p (c # cs)")
    case None
    then have no: "\<not> (line_start p \<and> (\<exists>m s. c # cs = m @ s \<and> mt db False r p m s \<and> line_end s))"
      using line_match_found [of db r p "c # cs"] by simp
    have "(\<exists>b m s. c # cs = b @ m @ s \<and> line_start (lastp p b) \<and> mt db False r (lastp p b) m s \<and> line_end s) \<longleftrightarrow>
        (\<exists>b m s. cs = b @ m @ s \<and> line_start (lastp (Some c) b) \<and> mt db False r (lastp (Some c) b) m s \<and> line_end s)"
      (is "(\<exists>b m s. ?P b m s) \<longleftrightarrow> (\<exists>b m s. ?Q b m s)")
    proof
      assume "\<exists>b m s. ?P b m s"
      then obtain b m s where P: "?P b m s"
        by blast
      then obtain b' where "b = c # b'"
        using no by (cases b) auto
      then show "\<exists>b m s. ?Q b m s"
        using P by auto
    next
      assume "\<exists>b m s. ?Q b m s"
      then obtain b m s where "?Q b m s"
        by blast
      then have "?P (c # b) m s"
        by simp
      then show "\<exists>b m s. ?P b m s"
        by blast
    qed
    then show ?thesis
      using "2.IH" None by simp
  next
    case (Some x)
    then have "line_start p \<and> (\<exists>m s. c # cs = m @ s \<and> mt db False r p m s \<and> line_end s)"
      using line_match_found [of db r p "c # cs"] by simp
    then obtain m s where "c # cs = [] @ m @ s" "line_start (lastp p [])" "mt db False r (lastp p []) m s" "line_end s"
      by auto
    then show ?thesis
      using Some by (metis line_search.simps(2) option.simps(3,5))
  qed
qed

lemma metric_found: "line_search db (metric_pattern t) None text \<noteq> None \<longleftrightarrow> shows_age db t text"
proof -
  have start: "line_start (lastp None b) \<longleftrightarrow> b = [] \<or> last b = 10" for b
    by (simp add: line_start_def lastp_def)
  show ?thesis
    unfolding line_search_found mt_metric_pattern shows_age_def start
  proof (intro iffI; elim exE conjE)
    fix b m s ws ds
    assume "text = b @ m @ s" "m = asc (metric_key t) @ ws @ ds" "b = [] \<or> last b = 10" "ws \<noteq> []" "\<forall>c \<in> set ws. is_uspace db c"
      "ds \<noteq> []" "\<forall>c \<in> set ds. 48 \<le> c \<and> c \<le> 57 \<or> c = 46" "line_end s"
    then show "\<exists>b ws ds a. text = b @ asc (metric_key t) @ ws @ ds @ a \<and> (b = [] \<or> last b = 10) \<and> ws \<noteq> [] \<and>
        (\<forall>c \<in> set ws. is_uspace db c) \<and> ds \<noteq> [] \<and> (\<forall>c \<in> set ds. 48 \<le> c \<and> c \<le> 57 \<or> c = 46) \<and> line_end a"
      by (intro exI [of _ b] exI [of _ ws] exI [of _ ds] exI [of _ s]) simp
  next
    fix b ws ds a
    assume "text = b @ asc (metric_key t) @ ws @ ds @ a" "b = [] \<or> last b = 10" "ws \<noteq> []" "\<forall>c \<in> set ws. is_uspace db c"
      "ds \<noteq> []" "\<forall>c \<in> set ds. 48 \<le> c \<and> c \<le> 57 \<or> c = 46" "line_end a"
    then show "\<exists>b m s. text = b @ m @ s \<and> (b = [] \<or> last b = 10) \<and> (\<exists>ws ds. m = asc (metric_key t) @ ws @ ds \<and> ws \<noteq> [] \<and>
        (\<forall>c \<in> set ws. is_uspace db c) \<and> ds \<noteq> [] \<and> (\<forall>c \<in> set ds. 48 \<le> c \<and> c \<le> 57 \<or> c = 46)) \<and> line_end s"
      by (intro exI [of _ b] exI [of _ "asc (metric_key t) @ ws @ ds"] exI [of _ a] exI [of _ ws] exI [of _ ds] conjI) simp_all
  qed
qed

lemma pending_wait_ends:
  fixes w :: "'w script_world"
  assumes "mono (dw_clock w)"
  shows "\<exists>r w'. wait_for_pending_state cl t timeout w = Some (r, w') \<and> dw_ticks w' \<le> dw_ticks w + nat \<lceil>2 * timeout\<rceil> + 2 \<and>
    (case r of
       Inr n \<Rightarrow> \<exists>k. dc_query cl t k = (Inr n, dw_stack w') \<and> ap_approval_state n = approval_value AWAITING_APPROVAL
     | Inl e \<Rightarrow> (\<exists>k. dc_query cl t k = (Inl e, dw_stack w')) \<or>
         exc_cls e = TimeoutError \<and> (\<exists>v. w' = tick v \<and> loop_time w + timeout \<le> loop_time v)) \<and>
    dw_clock w' = dw_clock w \<and> dw_output w' = dw_output w"
proof -
  let ?late = "exn_of TimeoutError ''Workflow did not reach PendingApproval before timeout''"
  obtain r w' where p: "wait_for_pending_state cl t timeout w = Some (r, w')" "dw_ticks w' \<le> dw_ticks w + nat \<lceil>timeout / (1/2)\<rceil> + 2"
      "dw_clock w' = dw_clock w" "dw_output w' = dw_output w"
      and out: "poll_outcome (look_pending cl t) (dw_stack w) (loop_time w + timeout) ?late r w'"
    using poll_from_now [OF assms, of "1/2"] unfolding wait_for_pending_state_def by fastforce
  have half: "timeout / (1/2) = 2 * timeout"
    by simp
  have raised: "dc_query cl t k = (Inl e, k')" if "look_pending cl t k = (Inl e, k')" for e k k'
    using that by (auto simp: look_pending_def bindE_Inl returnE_def)
  have "case r of
       Inr n \<Rightarrow> \<exists>k. dc_query cl t k = (Inr n, dw_stack w') \<and> ap_approval_state n = approval_value AWAITING_APPROVAL
     | Inl e \<Rightarrow> (\<exists>k. dc_query cl t k = (Inl e, dw_stack w')) \<or>
         exc_cls e = TimeoutError \<and> (\<exists>v. w' = tick v \<and> loop_time w + timeout \<le> loop_time v)"
    using out raised unfolding poll_outcome_def look_pending_Inr by (cases r) (auto simp del: approval_value.simps, blast)
  then show ?thesis
    using p unfolding half by blast
qed

lemma metric_wait_ends:
  fixes w :: "'w script_world"
  assumes "mono (dw_clock w)"
  shows "\<exists>r w'. wait_for_metric db api url t should timeout w = Some (r, w') \<and> dw_ticks w' \<le> dw_ticks w + nat \<lceil>timeout\<rceil> + 2 \<and>
    (case r of
       Inr x \<Rightarrow> \<exists>k p. pa_get api (url @ ''/metrics'') k = (Inr p, dw_stack w') \<and> page_ok p \<and> shows_age db t (hp_text p) = should
     | Inl e \<Rightarrow> (\<exists>k. look_metric db api url t should k = (Inl e, dw_stack w')) \<or>
         exc_cls e = TimeoutError \<and> (\<exists>v. w' = tick v \<and> loop_time w + timeout \<le> loop_time v)) \<and>
    dw_clock w' = dw_clock w \<and> dw_output w' = dw_output w"
proof -
  let ?late = "exn_of TimeoutError (''PendingApproval metric did not '' @ (if should then ''appear'' else ''clear'') @ '' before timeout'')"
  obtain r w' where p: "wait_for_metric db api url t should timeout w = Some (r, w')" "dw_ticks w' \<le> dw_ticks w + nat \<lceil>timeout\<rceil> + 2"
      "dw_clock w' = dw_clock w" "dw_output w' = dw_output w"
      and out: "poll_outcome (look_metric db api url t should) (dw_stack w) (loop_time w + timeout) ?late r w'"
    using poll_from_now [OF assms, of 1] unfolding wait_for_metric_def by fastforce
  have "case r of
       Inr x \<Rightarrow> \<exists>k p. pa_get api (url @ ''/metrics'') k = (Inr p, dw_stack w') \<and> page_ok p \<and> shows_age db t (hp_text p) = should
     | Inl e \<Rightarrow> (\<exists>k. look_metric db api url t should k = (Inl e, dw_stack w')) \<or>
         exc_cls e = TimeoutError \<and> (\<exists>v. w' = tick v \<and> loop_time w + timeout \<le> loop_time v)"
  proof (cases r)
    case (Inl e)
    then show ?thesis
      using out by (auto simp: poll_outcome_def)
  next
    case (Inr x)
    then obtain k where "look_metric db api url t should k = (Inr (Some x), dw_stack w')"
      using out by (auto simp: poll_outcome_def)
    then obtain p where "pa_get api (url @ ''/metrics'') k = (Inr p, dw_stack w')" "page_ok p" "shows_age db t (hp_text p) = should"
      unfolding look_metric_Inr metric_found [symmetric] by (auto split: if_splits)
    then show ?thesis
      using Inr by auto
  qed
  then show ?thesis
    using p by blast
qed

text \<open>
  (C11) The waits of the demonstration end. Whatever Temporal and the API answer, and whenever they change,
  each wait returns or raises after at most \<open>\<lceil>timeout / pause\<rceil>\<close> looks and sleeps: the wait for the workflow
  returns only a snapshot of a task that is awaiting approval, the wait for the metric only if the page
  it read last shows (or no longer shows) an age for the task; the only other outcomes are the exception
  of the last look and \<open>TimeoutError\<close> after the deadline.
\<close>

theorem demo_waits_end:
  fixes w :: "'w script_world"
  assumes "mono (dw_clock w)"
  shows "(\<exists>r w'. wait_for_pending_state cl t timeout w = Some (r, w') \<and> dw_ticks w' \<le> dw_ticks w + nat \<lceil>2 * timeout\<rceil> + 2 \<and>
      (case r of
         Inr n \<Rightarrow> \<exists>k. dc_query cl t k = (Inr n, dw_stack w') \<and> ap_approval_state n = approval_value AWAITING_APPROVAL
       | Inl e \<Rightarrow> (\<exists>k. dc_query cl t k = (Inl e, dw_stack w')) \<or>
           exc_cls e = TimeoutError \<and> (\<exists>v. w' = tick v \<and> loop_time w + timeout \<le> loop_time v))) \<and>
    (\<exists>r w'. wait_for_metric db api url t should timeout w = Some (r, w') \<and> dw_ticks w' \<le> dw_ticks w + nat \<lceil>timeout\<rceil> + 2 \<and>
      (case r of
         Inr x \<Rightarrow> \<exists>k p. pa_get api (url @ ''/metrics'') k = (Inr p, dw_stack w') \<and> page_ok p \<and> shows_age db t (hp_text p) = should
       | Inl e \<Rightarrow> (\<exists>k. look_metric db api url t should k = (Inl e, dw_stack w')) \<or>
           exc_cls e = TimeoutError \<and> (\<exists>v. w' = tick v \<and> loop_time w + timeout \<le> loop_time v)))"
    (is "?P \<and> ?Q")
proof
  from pending_wait_ends [OF assms, of cl t timeout] show ?P
    by (elim exE conjE, intro exI conjI)
  from metric_wait_ends [OF assms, of db api url t should timeout] show ?Q
    by (elim exE conjE, intro exI conjI)
qed

section \<open>What a successful run has seen\<close>

lemma bindW_Inr:
  "bindW m f s = Some (Inr y, t) \<longleftrightarrow> (\<exists>x s'. m s = Some (Inr x, s') \<and> f x s' = Some (Inr y, t))"
  by (auto simp: bindW_def split: option.splits prod.splits sum.splits)

text \<open>A program returns or raises from every state of \<open>I\<close>, and stays in \<open>I\<close>.\<close>

definition returnsW :: "('s \<Rightarrow> bool) \<Rightarrow> ('s, 'a) waits \<Rightarrow> bool" where
  "returnsW I m \<longleftrightarrow> (\<forall>s. I s \<longrightarrow> (\<exists>r s'. m s = Some (r, s') \<and> I s'))"

named_theorems returns_intros \<open>programs that wait and return\<close>

lemma returnsW_bindW [returns_intros]:
  assumes "returnsW I m" "\<And>x. returnsW I (f x)"
  shows "returnsW I (bindW m f)"
proof -
  have "\<exists>r s'. bindW m f s = Some (r, s') \<and> I s'" if s: "I s" for s
  proof -
    obtain r s1 where m: "m s = Some (r, s1)" "I s1"
      using assms(1) s by (auto simp: returnsW_def)
    show ?thesis
    proof (cases r)
      case (Inl e)
      then show ?thesis using m by (simp add: bindW_def)
    next
      case (Inr x)
      then show ?thesis
        using m assms(2) [of x] by (auto simp: bindW_def returnsW_def)
    qed
  qed
  then show ?thesis by (simp add: returnsW_def)
qed

lemma returnsW_atonce [returns_intros]: "keepsE I p \<Longrightarrow> returnsW I (atonce p)"
  by (simp add: returnsW_def atonce_def keepsE_def prod_eq_iff)

lemma keeps_on_stack [returns_intros]:
  "keepsE (\<lambda>w. mono (dw_clock w)) (on_stack p)" "keepsE (\<lambda>w. mono (dw_clock w)) (print_line l)"
  by (auto simp: keepsE_def on_stack_def zoomE_def print_line_def modifyE_def split: prod.splits)

lemma returnsW_waits [returns_intros]:
  "returnsW (\<lambda>w. mono (dw_clock w)) (wait_for_pending_state cl t timeout)"
  "returnsW (\<lambda>w. mono (dw_clock w)) (wait_for_metric db api url t should timeout)"
  unfolding returnsW_def by (metis pending_wait_ends, metis metric_wait_ends)

lemma returnsW_report [returns_intros]:
  assumes "\<And>k. dc_result cl t k \<noteq> None"
  shows "returnsW (\<lambda>w. mono (dw_clock w)) (report_result cl act t)"
proof -
  have "returnsW (\<lambda>w. mono (dw_clock w)) (\<lambda>w. map_option (map_prod id (\<lambda>k. w\<lparr>dw_stack := k\<rparr>)) (dc_result cl t (dw_stack w)))"
    using assms by (fastforce simp: returnsW_def)
  then show ?thesis
    unfolding report_result_def by (auto intro!: returns_intros)
qed

lemma run_demo_returns:
  assumes "\<And>host codec cl k. connect host codec = Inr cl \<Longrightarrow> dc_result cl (str_uuid (en_uuids E 0)) k \<noteq> None"
  shows "returnsW (\<lambda>w. mono (dw_clock w)) (run_demo cfg E api connect a)"
proof (cases "case create_aegis_data_converter (en_fernet E) None (en_encryption_key E) of
    Inl e \<Rightarrow> Inl e | Inr codec \<Rightarrow> connect (da_temporal_host a) codec")
  case (Inl e)
  then show ?thesis
    by (simp add: run_demo_def returnsW_def bindW_def atonce_def liftE_def)
next
  case (Inr cl)
  then have cl: "dc_result cl (str_uuid (en_uuids E 0)) k \<noteq> None" for k
    using assms by (auto split: sum.splits)
  have step: "bindW (atonce (liftE (Inr cl))) f = f cl" for f :: "'a demo_client \<Rightarrow> ('a script_world, int) waits"
    by (simp add: bindW_def atonce_def liftE_def fun_eq_iff)
  show ?thesis
    unfolding run_demo_def Let_def Inr step
    by (intro returns_intros keepsE_pure cl)
qed

lemma on_stack_Inr: "on_stack p w = (Inr x, w') \<longleftrightarrow> (\<exists>k. p (dw_stack w) = (Inr x, k) \<and> w' = w\<lparr>dw_stack := k\<rparr>)"
  by (auto simp: on_stack_def zoomE_def split: prod.splits)

lemma send_decision_Inr:
  assumes "send_decision cfg E api url t act approver reason session k = (Inr payload, k')"
  shows "\<exists>token p. issue_admin_token cfg E session approver = Inr token \<and>
    pa_post api (url @ ''/api/v1/tasks/'' @ t @ ''/'' @ act) (JObj [(''approver_id'', JStr approver), (''reason'', JStr reason)])
      [(''Authorization'', ''Bearer '' @ token)] k = (Inr p, k') \<and> page_ok p \<and> hs_json p = Inr payload"
  using assms unfolding send_decision_def bindE_Inr liftE_def prod.inject status_passes [symmetric] by auto

lemma report_result_Inr:
  assumes "report_result cl act t w = Some (Inr u, w')"
  shows "\<exists>l. dw_output w' = dw_output w @ [l] \<and> (if act = ''deny''
    then \<exists>res. dc_result cl t (dw_stack w) = Some (Inr res, dw_stack w') \<and> l = WorkflowCompleted (wo_workflow_status res) (wo_approval_state res)
    else l = ApproveSent \<and> dw_stack w' = dw_stack w)"
  using assms by (auto simp: report_result_def bindW_Inr atonce_def print_line_def modifyE_def split: if_splits)

lemma wait_frame:
  assumes "mono (dw_clock w)" "wait_for_metric db api url t should timeout w = Some (Inr x, w')"
  shows "mono (dw_clock w')" "dw_output w' = dw_output w"
    "\<exists>k p. (fruitless (look_metric db api url t should))\<^sup>*\<^sup>* (dw_stack w) k \<and> pa_get api (url @ ''/metrics'') k = (Inr p, dw_stack w') \<and>
       page_ok p \<and> shows_age db t (hp_text p) = should \<and> (should \<longrightarrow> line_search db (metric_pattern t) None (hp_text p) = Some x)"
proof -
  show "mono (dw_clock w')" "dw_output w' = dw_output w"
    using metric_wait_ends [OF assms(1), of db api url t should timeout] assms by auto
  obtain k where "(fruitless (look_metric db api url t should))\<^sup>*\<^sup>* (dw_stack w) k" "look_metric db api url t should k = (Inr (Some x), dw_stack w')"
    using poll_found [OF assms(1) _ assms(2) [unfolded wait_for_metric_def]] by auto
  then show "\<exists>k p. (fruitless (look_metric db api url t should))\<^sup>*\<^sup>* (dw_stack w) k \<and> pa_get api (url @ ''/metrics'') k = (Inr p, dw_stack w') \<and>
       page_ok p \<and> shows_age db t (hp_text p) = should \<and> (should \<longrightarrow> line_search db (metric_pattern t) None (hp_text p) = Some x)"
    unfolding look_metric_Inr metric_found [symmetric] by (auto split: if_splits)
qed

lemma pending_frame:
  assumes "mono (dw_clock w)" "wait_for_pending_state cl t timeout w = Some (Inr n, w')"
  shows "mono (dw_clock w')" "dw_output w' = dw_output w"
    "\<exists>k. (fruitless (look_pending cl t))\<^sup>*\<^sup>* (dw_stack w) k \<and> dc_query cl t k = (Inr n, dw_stack w') \<and>
       ap_approval_state n = approval_value AWAITING_APPROVAL"
proof -
  show "mono (dw_clock w')" "dw_output w' = dw_output w"
    using pending_wait_ends [OF assms(1), of cl t timeout] assms by auto
  show "\<exists>k. (fruitless (look_pending cl t))\<^sup>*\<^sup>* (dw_stack w) k \<and> dc_query cl t k = (Inr n, dw_stack w') \<and>
       ap_approval_state n = approval_value AWAITING_APPROVAL"
    using poll_found [OF assms(1) _ assms(2) [unfolded wait_for_pending_state_def]] unfolding look_pending_Inr by auto
qed

text \<open>
  The evidence of a successful run for task \<open>t\<close> from the state \<open>k0\<close> of what runs outside to the state \<open>k9\<close>, in
  the order in which it was collected: each call starts in the state that the one before it left. The workflow was
  started in \<open>k0\<close>; it answered that it was awaiting approval (\<open>k2\<close>); then a page of the API showed an age for it (\<open>k4\<close>);
  in the state that page was read in, the API accepted the decision under a token for the approver and the session
  of the workflow (\<open>k5\<close>); and a page read after that showed no age (\<open>k7\<close>). Between these are only looks that found nothing.
  The lines printed say what was seen.
\<close>

definition demo_evidence ::
  "settings \<Rightarrow> 'r environment \<Rightarrow> 'w demo_api \<Rightarrow> 'w demo_client \<Rightarrow> demo_args \<Rightarrow> string \<Rightarrow> 'w \<Rightarrow> demo_line list \<Rightarrow> 'w \<Rightarrow> bool" where
  "demo_evidence cfg E api cl a t k0 lines k9 \<longleftrightarrow>
     (\<exists>k1 k2 n k3 k4 p line k5 token q payload k6 k7 p' k8 last.
        lines = [WorkflowPending t (''demo-session-'' @ t), MetricsVisible line, ApiReply (da_action a) payload, MetricsCleared t, last] \<and>
        dc_start cl (demo_workflow_input a t) t (da_task_queue a) k0 = (Inr (), k1) \<and>
        (fruitless (look_pending cl t))\<^sup>*\<^sup>* k1 k2 \<and>
        dc_query cl t k2 = (Inr n, k3) \<and> ap_approval_state n = approval_value AWAITING_APPROVAL \<and>
        (fruitless (look_metric (en_db E) api (da_api_base_url a) t True))\<^sup>*\<^sup>* k3 k4 \<and>
        pa_get api (da_api_base_url a @ ''/metrics'') k4 = (Inr p, k5) \<and> page_ok p \<and> shows_age (en_db E) t (hp_text p) \<and>
        line_search (en_db E) (metric_pattern t) None (hp_text p) = Some line \<and>
        issue_admin_token cfg E (or_session (ap_session_id n) (''demo-session-'' @ t)) (da_approver_id a) = Inr token \<and>
        pa_post api (da_api_base_url a @ ''/api/v1/tasks/'' @ t @ ''/'' @ da_action a)
          (JObj [(''approver_id'', JStr (da_approver_id a)), (''reason'', JStr (da_reason a))])
          [(''Authorization'', ''Bearer '' @ token)] k5 = (Inr q, k6) \<and> page_ok q \<and> hs_json q = Inr payload \<and>
        (fruitless (look_metric (en_db E) api (da_api_base_url a) t False))\<^sup>*\<^sup>* k6 k7 \<and>
        pa_get api (da_api_base_url a @ ''/metrics'') k7 = (Inr p', k8) \<and> page_ok p' \<and> \<not> shows_age (en_db E) t (hp_text p') \<and>
        (if da_action a = ''deny''
         then \<exists>res. dc_result cl t k8 = Some (Inr res, k9) \<and> last = WorkflowCompleted (wo_workflow_status res) (wo_approval_state res)
         else last = ApproveSent \<and> k9 = k8))"

lemma run_demo_Inr:
  fixes w :: "'w script_world"
  assumes mono: "mono (dw_clock w)" and run: "run_demo cfg E api connect a w = Some (Inr c, w')"
  shows "c = 0" "\<exists>codec cl lines. new_payload_codec (en_fernet E) None (en_encryption_key E) = Inr codec \<and>
    connect (da_temporal_host a) codec = Inr cl \<and> dw_output w' = dw_output w @ lines \<and>
    demo_evidence cfg E api cl a (str_uuid (en_uuids E 0)) (dw_stack w) lines (dw_stack w')"
proof -
  let ?t = "str_uuid (en_uuids E 0)"
  let ?s = "''demo-session-'' @ ?t"
  obtain codec cl k1 n w2 line w3 payload k6 w5 u where con: "create_aegis_data_converter (en_fernet E) None (en_encryption_key E) = Inr codec"
      "connect (da_temporal_host a) codec = Inr cl"
    and started: "dc_start cl (demo_workflow_input a ?t) ?t (da_task_queue a) (dw_stack w) = (Inr (), k1)"
    and pending: "wait_for_pending_state cl ?t (da_timeout_seconds a) (w\<lparr>dw_stack := k1\<rparr>) = Some (Inr n, w2)"
    and shown: "wait_for_metric (en_db E) api (da_api_base_url a) ?t True (da_timeout_seconds a)
        (w2\<lparr>dw_output := dw_output w2 @ [WorkflowPending ?t ?s]\<rparr>) = Some (Inr line, w3)"
    and sent: "send_decision cfg E api (da_api_base_url a) ?t (da_action a) (da_approver_id a) (da_reason a)
        (or_session (ap_session_id n) ?s) (dw_stack w3) = (Inr payload, k6)"
    and gone: "\<exists>x. wait_for_metric (en_db E) api (da_api_base_url a) ?t False (da_timeout_seconds a)
        (w3\<lparr>dw_stack := k6, dw_output := dw_output w3 @ [MetricsVisible line, ApiReply (da_action a) payload]\<rparr>) = Some (Inr x, w5)"
    and report: "report_result cl (da_action a) ?t (w5\<lparr>dw_output := dw_output w5 @ [MetricsCleared ?t]\<rparr>) = Some (Inr u, w')"
    and c: "c = 0"
    using run unfolding run_demo_def Let_def
    by (auto simp: bindW_Inr atonce_def liftE_def on_stack_Inr print_line_def modifyE_def returnE_def split: sum.splits)
  show "c = 0" by (rule c)
  note p = pending_frame [OF _ pending]
  note m = wait_frame [OF _ shown]
  obtain x where gone: "wait_for_metric (en_db E) api (da_api_base_url a) ?t False (da_timeout_seconds a)
      (w3\<lparr>dw_stack := k6, dw_output := dw_output w3 @ [MetricsVisible line, ApiReply (da_action a) payload]\<rparr>) = Some (Inr x, w5)"
    using gone by blast
  note g = wait_frame [OF _ gone]
  have clocks: "mono (dw_clock w2)" "mono (dw_clock w3)"
    using mono p(1) m(1) by simp_all
  obtain l where l: "dw_output w' = dw_output w5 @ [MetricsCleared ?t, l]" "if da_action a = ''deny''
      then \<exists>res. dc_result cl ?t (dw_stack w5) = Some (Inr res, dw_stack w') \<and> l = WorkflowCompleted (wo_workflow_status res) (wo_approval_state res)
      else l = ApproveSent \<and> dw_stack w' = dw_stack w5"
    using report_result_Inr [OF report] by (auto split: if_splits)
  have lines: "dw_output w' = dw_output w @ [WorkflowPending ?t ?s, MetricsVisible line, ApiReply (da_action a) payload, MetricsCleared ?t, l]"
    using l(1) p(2) m(2) g(2) mono clocks by simp
  obtain k2 where q: "(fruitless (look_pending cl ?t))\<^sup>*\<^sup>* k1 k2" "dc_query cl ?t k2 = (Inr n, dw_stack w2)"
      "ap_approval_state n = approval_value AWAITING_APPROVAL"
    using p(3) mono by auto
  obtain k4 p4 where v: "(fruitless (look_metric (en_db E) api (da_api_base_url a) ?t True))\<^sup>*\<^sup>* (dw_stack w2) k4"
      "pa_get api (da_api_base_url a @ ''/metrics'') k4 = (Inr p4, dw_stack w3)" "page_ok p4" "shows_age (en_db E) ?t (hp_text p4)"
      "line_search (en_db E) (metric_pattern ?t) None (hp_text p4) = Some line"
    using m(3) clocks by auto
  obtain k7 p7 where z: "(fruitless (look_metric (en_db E) api (da_api_base_url a) ?t False))\<^sup>*\<^sup>* k6 k7"
      "pa_get api (da_api_base_url a @ ''/metrics'') k7 = (Inr p7, dw_stack w5)" "page_ok p7" "\<not> shows_age (en_db E) ?t (hp_text p7)"
    using g(3) clocks by auto
  have "demo_evidence cfg E api cl a ?t (dw_stack w)
      [WorkflowPending ?t ?s, MetricsVisible line, ApiReply (da_action a) payload, MetricsCleared ?t, l] (dw_stack w')"
    unfolding demo_evidence_def
    using started q v send_decision_Inr [OF sent] z l(2) by blast
  then show "\<exists>codec cl lines. new_payload_codec (en_fernet E) None (en_encryption_key E) = Inr codec \<and>
    connect (da_temporal_host a) codec = Inr cl \<and> dw_output w' = dw_output w @ lines \<and>
    demo_evidence cfg E api cl a ?t (dw_stack w) lines (dw_stack w')"
    using con lines unfolding create_aegis_data_converter_def by blast
qed

text \<open>
  (C15) The demonstration can be trusted. If every workflow has a result, the script ends, whatever Temporal
  and the API answer; and if it exits with 0, then it connected with the codec of the configured key, and in this
  order, each call in the state that the one before it left: the workflow was started, it said it was awaiting
  approval, the metrics page showed its age, the API accepted the decision, and a page read after that no longer
  showed it.
\<close>

theorem demo_run_verifies:
  fixes w :: "'w script_world"
  assumes "mono (dw_clock w)"
    and "\<And>host codec cl k. connect host codec = Inr cl \<Longrightarrow> dc_result cl (str_uuid (en_uuids E 0)) k \<noteq> None"
  shows "\<exists>r w'. run_demo cfg E api connect a w = Some (r, w') \<and>
    (case r of Inl e \<Rightarrow> True
     | Inr c \<Rightarrow> c = 0 \<and> (\<exists>codec cl lines. new_payload_codec (en_fernet E) None (en_encryption_key E) = Inr codec \<and>
         connect (da_temporal_host a) codec = Inr cl \<and> dw_output w' = dw_output w @ lines \<and>
         demo_evidence cfg E api cl a (str_uuid (en_uuids E 0)) (dw_stack w) lines (dw_stack w')))"
proof -
  obtain r w' where r: "run_demo cfg E api connect a w = Some (r, w')"
    using run_demo_returns [of connect E cfg api a] assms unfolding returnsW_def by blast
  then show ?thesis
    using run_demo_Inr [OF assms(1), of cfg E api connect a] by (cases r) auto
qed

section \<open>The decision and the API\<close>

text \<open>
  (C14) The script and the API fit together. The token that the script makes for itself is accepted by an
  API process with the same keys, up to the second in which its default lifetime ends by the clock of the API and
  as long as that process has not revoked its id. With an approver and a reason of the lengths the API takes, the
  decision goes through for every task whose workflow has no other session, if the policy server allows the
  action to this approver as administrator, the workflow is still awaiting approval and the signal is delivered; it
  is reported and signalled under the name of the approver.
\<close>

theorem admin_decision_accepted:
  assumes "jose_documented (en_libs E) pair" and "keys_ready (en_libs E) cfg pair"
    and "issue_admin_token cfg E session approver = Inr token" and "token \<noteq> ''''"
    and "length approver \<in> {1..256}" and "length reason \<in> {1..4096}"
    and "rt_approval_service w = Some cl" and "rt_policy_engine w = Some opa" and "rt_session_mgr w = Some m"
    and "sm_revoked_jtis m (str_uuid (en_uuids E 1)) = None"
    and "\<lfloor>sm_clock m (sm_ticks m)\<rfloor> \<le> trunc (en_clock E 0 + of_int (token_expiry_seconds cfg))"
    and "cl_query cl (str_uuid t) (rt_server w) = (Inr n, c1)" and "ap_session_id n \<in> {None, Some session}"
    and "evaluate opa ''agent_access''
      \<lparr>pin_agent_type = ap_agent_type n, pin_requester_id = approver, pin_action = (if ok then ''approve'' else ''deny''),
       pin_resource = ''workflow:pending_approval'', pin_metadata = [], pin_principal_role = Some ''admin'', pin_token_expired = False\<rparr>
      (rt_http w) = (Inr d, h)" and "pr_allowed d"
    and "cl_query cl (str_uuid t) c1 = (Inr n2, c2)" and "ap_approval_state n2 = approval_value AWAITING_APPROVAL"
    and "cl_signal cl (str_uuid t) ((if ok then Approve else Deny) (payload_of ok approver reason)) c2 = (Inr (), c3)"
  shows "\<exists>resp w'. hitl_decision ok (en_libs E) cfg errs t [(''approver_id'', JStr approver), (''reason'', JStr reason)]
      (Some (''Bearer '' @ token)) w = (Inr resp, w') \<and>
    dr_task_id resp = t \<and> dr_status resp = (if ok then ''approved'' else ''denied'') \<and> dr_actor_id resp = approver \<and> rt_server w' = c3"
proof -
  let ?act = "if ok then ''approve'' else ''deny''"
  obtain m0 m1 where m0: "new_session_manager cfg None (en_redis E) (en_clock E) (\<lambda>n. en_uuids E (Suc n)) = Inr m0"
    and issue: "issue_token (en_libs E) cfg (admin_request session approver) m0 = (Inr token, m1)"
    using assms(3) unfolding issue_admin_token_def by (auto split: sum.splits) (metis prod.collapse)
  have now: "sm_clock m0 (sm_ticks m0) = en_clock E 0" "sm_uuids m0 (sm_uuid_ticks m0) = en_uuids E 1"
      "expiry_of cfg (admin_request session approver) = token_expiry_seconds cfg"
    using m0 by (auto simp: new_session_manager_def expiry_of_def admin_request_def split: sum.splits option.splits)
  let ?p = "full_payload (admin_request session approver) (str_uuid (en_uuids E 1)) (en_clock E 0) (token_expiry_seconds cfg)"
  obtain cnf vk where "thumbprint_of (en_libs E) (admin_request session approver) = Inr cnf" and vk: "verification_key (en_libs E) cfg = Inr vk"
    "jwt_decode (en_libs E) token vk (token_algorithm cfg) (sm_clock m (sm_ticks m)) = Inr (?p cnf)"
    using issued_token_decodes [OF assms(1,2) issue] assms(11) unfolding now by metis
  define claims where "claims = claims_for (admin_request session approver) (str_uuid (en_uuids E 1)) (en_clock E 0) (token_expiry_seconds cfg) cnf"
  have valid: "validate_token (en_libs E) cfg token m = (Inr claims, after_validation m)"
    using validate_token_decoded [OF vk, of "str_uuid (en_uuids E 1)"] assms(10)
    by (simp add: token_claims_of_payload claims_def) (simp add: after_validation_def)
  have "tc_allowed_actions claims = [''hitl:approve'', ''hitl:deny'']" "tc_session_id claims = Some session"
    by (simp_all add: claims_def claims_for_def admin_request_def)
  then have scope: "''hitl:'' @ ?act \<in> set (tc_allowed_actions claims)" "\<not> other_session claims n"
    using assms(13) by (auto simp: other_session_def)
  have input: "hitl_policy_input n claims ?act = \<lparr>pin_agent_type = ap_agent_type n, pin_requester_id = approver, pin_action = ?act,
       pin_resource = ''workflow:pending_approval'', pin_metadata = [], pin_principal_role = Some ''admin'', pin_token_expired = False\<rparr>"
    by (simp add: hitl_policy_input_def claims_def claims_for_def admin_request_def)
  have q: "validate_decision_request errs [(''approver_id'', JStr approver), (''reason'', JStr reason)]
      = Inr \<lparr>dq_approver_id = approver, dq_reason = reason\<rparr>"
    using assms(5,6) by (simp add: validate_decision_request_def bounded_str_def)
  have "lower ''Bearer'' = ''bearer''"
    by code_simp
  then have b: "extract_bearer_token (Some (''Bearer '' @ token)) = Inr token"
    using assms(4) by (simp add: extract_bearer_token_def partition_space_def)
  have service: "(if ok then service_approve else service_deny) cl t approver reason c1 =
      (Inr \<lparr>ad_task_id = t, ad_status = (if ok then ''approved'' else ''denied''), ad_actor_id = approver, ad_reason = reason\<rparr>, c3)"
    using assms(16-18)
    by (cases ok) (simp_all add: service_decides decide_def get_pending_snapshot_def get_snapshot_def tryE_def thenE_def bindE_def returnE_def payload_of_def)
  show ?thesis
    using decision_goes_through [OF assms(7-9) q b valid scope(1) assms(12) scope(2) _ assms(15)] assms(14) service
    unfolding input hitl_decision_eq by fastforce
qed

section \<open>Instances\<close>

text \<open>
  An installation in which nothing fails: the workflow awaits approval, the page shows its age until a
  decision is posted. The state is whether one was.
\<close>

definition admin_table :: jwt_table where
  "admin_table = [(''tok-a'', token_payload (admin_request ''s1'' ''admin-user'') (str_uuid (demo_uuids 1)) 0 900,
     token_secret_key default_settings, ''HS256'', [])]"

definition admin_environment :: "(string \<rightharpoonup> rat) environment" where
  "admin_environment = demo_environment\<lparr>en_libs := table_libs admin_table\<rparr>"

definition page :: "utext \<Rightarrow> http_page" where
  "page t = \<lparr>hs_status = 200, hs_json = Inr (JObj [(''status'', JStr ''denied'')]), hs_message = [], hp_text = t\<rparr>"

definition denied_output :: workflow_output where
  "denied_output = \<lparr>wo_task_id = str_uuid (demo_uuids 0), wo_content = [], wo_sanitized_prompt = [], wo_pii_types = [], wo_tokens_used = 0,
     wo_model = [], wo_workflow_status = ''completed'', wo_approval_state = ''denied'', wo_approver_id = None, wo_reason = None,
     wo_budget_spent_usd = None\<rparr>"

definition live_client :: "bool demo_client" where
  "live_client = \<lparr>dc_start = (\<lambda>_ _ _. returnE ()), dc_query = (\<lambda>_. returnE (approval_status awaiting_workflow)),
     dc_result = (\<lambda>_ k. Some (Inr denied_output, k))\<rparr>"

definition age_line :: utext where
  "age_line = asc (metric_key (str_uuid (demo_uuids 0)) @ '' 12.5'')"

definition live_api :: "bool demo_api" where
  "live_api = \<lparr>pa_get = (\<lambda>_ decided. (Inr (page (if decided then [] else age_line)), decided)),
     pa_post = (\<lambda>_ _ _ _. (Inr (page []), True))\<rparr>"

definition script_start :: "bool script_world" where
  "script_start = \<lparr>dw_stack = False, dw_clock = of_nat, dw_ticks = 0, dw_slept = 0, dw_output = []\<rparr>"

lemma script_mono: "mono (dw_clock script_start)"
  by (simp add: script_start_def mono_def)

lemma admin_token: "issue_admin_token default_settings admin_environment ''s1'' ''admin-user'' = Inr ''tok-a''"
proof -
  have "rq_agent_type (admin_request ''s1'' ''admin-user'') \<noteq> []" "rq_requester_id (admin_request ''s1'' ''admin-user'') \<noteq> []"
    by (simp_all add: admin_request_def)
  moreover have "thumbprint_of (table_libs admin_table) (admin_request ''s1'' ''admin-user'') = Inr None"
      "expiry_of default_settings (admin_request ''s1'' ''admin-user'') = 900"
      "signing_key default_settings = Inr (token_secret_key default_settings)" "token_algorithm default_settings = ''HS256''"
    by (simp_all add: thumbprint_of_def expiry_of_def admin_request_def default_settings_def signing_key_def starts_with_HS_def)
  moreover have "jwt_encode (table_libs admin_table) (token_payload (admin_request ''s1'' ''admin-user'') (str_uuid (demo_uuids 1)) 0 900)
      (token_secret_key default_settings) ''HS256'' [] = Inr ''tok-a''"
    by (simp add: table_libs_def admin_table_def)
  moreover have "default_replay_store default_settings (Map.empty :: string \<rightharpoonup> rat) = Inr (InMemoryDPoPReplayStore Map.empty)"
    by (simp add: default_replay_store_def default_settings_def lower_def lower_char_def)
  ultimately show ?thesis
    by (simp add: issue_admin_token_def admin_environment_def demo_environment_def new_session_manager_def issue_token_steps rotate_out_def
        rotate_in_def revoke_jti_def session_defs full_payload_def admin_request_def [THEN arg_cong [where f = rq_rotation_key]])
qed

theorem admin_decision_accepted_witness:
  "\<exists>resp w'. hitl_decision False (table_libs admin_table) default_settings (\<lambda>_. []) demo_session_id
      [(''approver_id'', JStr ''admin-user''), (''reason'', JStr ''no'')] (Some ''Bearer tok-a'') demo_plane = (Inr resp, w') \<and>
    dr_status resp = ''denied''"
proof -
  have E: "en_libs admin_environment = table_libs admin_table" "en_uuids admin_environment 1 = demo_uuids 1" "en_clock admin_environment 0 = 0"
    by (simp_all add: admin_environment_def demo_environment_def)
  have doc: "jose_documented (en_libs admin_environment) demo_pair"
    unfolding E by (rule table_libs_documented) (simp add: admin_table_def)
  have keys: "keys_ready (en_libs admin_environment) default_settings demo_pair"
    by (simp add: keys_ready_def signing_key_def verification_key_def default_settings_def starts_with_HS_def demo_pair_def)
  have plane: "rt_approval_service demo_plane = Some server_client" "rt_policy_engine demo_plane = Some ''http://opa''"
      "rt_session_mgr demo_plane = Some demo_manager" "rt_http demo_plane = sv_http demo_world" "rt_server demo_plane = demo_server"
    by (simp_all add: demo_plane_def)
  have m: "sm_revoked_jtis demo_manager (str_uuid (en_uuids admin_environment 1)) = None"
      "\<lfloor>sm_clock demo_manager (sm_ticks demo_manager)\<rfloor> \<le> trunc (en_clock admin_environment 0 + of_int (token_expiry_seconds default_settings))"
    by (simp_all add: demo_manager_def E default_settings_def trunc_def)
  have query: "cl_query server_client (str_uuid demo_session_id) demo_server = (Inr (approval_status awaiting_workflow), demo_server)"
    by (simp add: server_client_def server_query_def demo_server_simps Let_def)
  have snap: "ap_session_id (approval_status awaiting_workflow) \<in> {None, Some ''s1''}"
      "ap_approval_state (approval_status awaiting_workflow) = approval_value AWAITING_APPROVAL"
    by (simp_all add: approval_status_def awaiting_workflow_def)
  have sig: "\<exists>c3. cl_signal server_client (str_uuid demo_session_id) ((if False then Approve else Deny) (payload_of False ''admin-user'' ''no''))
      demo_server = (Inr (), c3)"
    by (simp add: server_client_def server_signal_def demo_server_simps Let_def)
  then obtain c3 where sig: "cl_signal server_client (str_uuid demo_session_id)
      ((if False then Approve else Deny) (payload_of False ''admin-user'' ''no'')) demo_server = (Inr (), c3)"
    by blast
  show ?thesis
    using admin_decision_accepted [OF doc keys admin_token _ _ _ plane(1-3) m, of "''no''" demo_session_id "approval_status awaiting_workflow"
        demo_server False _ _ "approval_status awaiting_workflow" demo_server c3]
      demo_evaluate query snap sig unfolding plane(4,5) E(1) by fastforce
qed

lemma live_pages:
  "line_search ascii_db (metric_pattern (str_uuid (demo_uuids 0))) None age_line = Some age_line"
  "line_search ascii_db (metric_pattern (str_uuid (demo_uuids 0))) None [] = None"
  by code_simp+

lemma live_waits:
  assumes "dw_clock w = of_nat"
  shows "wait_for_pending_state live_client t 30 w = Some (Inr (approval_status awaiting_workflow), tick (tick w))"
    and "dw_stack w = (\<not> should) \<Longrightarrow> \<exists>x. wait_for_metric ascii_db live_api url (str_uuid (demo_uuids 0)) should 30 w = Some (Inr x, tick (tick w))"
proof -
  have early: "loop_time (tick w) < loop_time w + 30"
    using assms by (simp add: loop_time_def tick_def)
  have same: "(tick (tick w))\<lparr>dw_stack := dw_stack w\<rparr> = tick (tick w)" "dw_stack (tick w) = dw_stack w"
    by (simp_all add: tick_def)
  have "ap_approval_state (approval_status awaiting_workflow) = approval_value AWAITING_APPROVAL"
    by (simp add: approval_status_def awaiting_workflow_def)
  then have "look_pending live_client t (dw_stack w) = (Inr (Some (approval_status awaiting_workflow)), dw_stack w)"
    unfolding look_pending_def by (simp add: live_client_def bindE_def returnE_def del: approval_value.simps)
  then show "wait_for_pending_state live_client t 30 w = Some (Inr (approval_status awaiting_workflow), tick (tick w))"
    unfolding wait_for_pending_state_def using early same by (subst poll_until.simps) simp
  show "\<exists>x. wait_for_metric ascii_db live_api url (str_uuid (demo_uuids 0)) should 30 w = Some (Inr x, tick (tick w))"
    if "dw_stack w = (\<not> should)"
  proof -
    have "\<exists>x. look_metric ascii_db live_api url (str_uuid (demo_uuids 0)) should (dw_stack w) = (Inr (Some x), dw_stack w)"
      unfolding look_metric_Inr using that live_pages by (cases should) (simp_all add: live_api_def page_def page_ok_def)
    then obtain x where "look_metric ascii_db live_api url (str_uuid (demo_uuids 0)) should (dw_stack w) = (Inr (Some x), dw_stack w)"
      by blast
    then show ?thesis
      unfolding wait_for_metric_def using early same by (subst poll_until.simps) simp
  qed
qed

lemma live_run:
  "\<exists>w'. run_demo default_settings admin_environment live_api (\<lambda>_ _. Inr live_client) (default_args default_settings) script_start = Some (Inr 0, w')"
proof -
  have key: "length DEV_KEY = 44"
    by code_simp
  have E: "en_db admin_environment = ascii_db" "en_uuids admin_environment 0 = demo_uuids 0" "en_fernet admin_environment = plain_fernet"
      "en_encryption_key admin_environment = None"
    by (simp_all add: admin_environment_def demo_environment_def)
  have codec: "create_aegis_data_converter plain_fernet None None = Inr \<lparr>pc_key = DEV_KEY, pc_ticks = 0\<rparr>"
    using key by (simp add: create_aegis_data_converter_def new_payload_codec_def resolve_key_def plain_fernet_def)
  let ?n = "approval_status awaiting_workflow" and ?t = "str_uuid (demo_uuids 0)"
  let ?say = "\<lambda>l w. w\<lparr>dw_output := dw_output w @ [l]\<rparr>"
  let ?w2 = "?say (WorkflowPending ?t (''demo-session-'' @ ?t)) (tick (tick script_start))"
  have clock: "dw_clock script_start = of_nat" "dw_stack script_start = False"
    by (simp_all add: script_start_def)
  have c2: "dw_clock ?w2 = of_nat" "dw_stack ?w2 = (\<not> True)"
    using clock by (simp_all add: tick_def)
  obtain line where m: "wait_for_metric ascii_db live_api (da_api_base_url (default_args default_settings)) ?t True 30 ?w2
      = Some (Inr line, tick (tick ?w2))"
    using live_waits(2) [OF c2] by blast
  let ?w4 = "?say (ApiReply ''deny'' (JObj [(''status'', JStr ''denied'')])) ((?say (MetricsVisible line) (tick (tick ?w2)))\<lparr>dw_stack := True\<rparr>)"
  have c4: "dw_clock ?w4 = of_nat" "dw_stack ?w4 = (\<not> False)"
    using clock by (simp_all add: tick_def)
  obtain x where g: "wait_for_metric ascii_db live_api (da_api_base_url (default_args default_settings)) ?t False 30 ?w4
      = Some (Inr x, tick (tick ?w4))"
    using live_waits(2) [OF c4] by blast
  have s: "or_session (ap_session_id ?n) d = ''s1''" for d
    by (simp add: or_session_def approval_status_def awaiting_workflow_def)
  have send: "on_stack (send_decision default_settings admin_environment live_api url ?t ''deny'' ''admin-user'' r ''s1'') w
      = (Inr (JObj [(''status'', JStr ''denied'')]), w\<lparr>dw_stack := True\<rparr>)" for url r w
    by (simp add: on_stack_def zoomE_def send_decision_def admin_token live_api_def page_def bindE_def liftE_def raise_for_status_def http_response.truncate_def)
  have a: "da_timeout_seconds (default_args default_settings) = 30" "da_action (default_args default_settings) = ''deny''"
      "da_approver_id (default_args default_settings) = ''admin-user''"
    by (simp_all add: default_args_def)
  have start: "on_stack (dc_start live_client i t q) script_start = (Inr (), script_start)" for i t q
    by (simp add: on_stack_def zoomE_def live_client_def returnE_def script_start_def)
  have say: "print_line l w = (Inr (), ?say l w)" for l and w :: "bool script_world"
    by (simp add: print_line_def modifyE_def)
  have report: "report_result live_client ''deny'' ?t w = Some (Inr (), ?say (WorkflowCompleted ''completed'' ''denied'') w)" for w
    by (simp add: report_result_def bindW_def atonce_def live_client_def say denied_output_def)
  show ?thesis
    using m g
    by (simp add: run_demo_def Let_def E codec a s bindW_def atonce_def liftE_def start live_waits(1) [OF clock(1)] say send report
        returnE_def)
qed

theorem demo_run_verifies_witness:
  "\<exists>w' lines. run_demo default_settings admin_environment live_api (\<lambda>_ _. Inr live_client) (default_args default_settings) script_start
       = Some (Inr 0, w') \<and> dw_output w' = lines \<and>
     demo_evidence default_settings admin_environment live_api live_client (default_args default_settings) (str_uuid (demo_uuids 0)) False
       lines (dw_stack w')"
proof -
  have "dc_result live_client t k \<noteq> None" for t k
    by (simp add: live_client_def)
  then have "\<exists>r w'. run_demo default_settings admin_environment live_api (\<lambda>_ _. Inr live_client) (default_args default_settings) script_start
       = Some (r, w') \<and>
    (case r of Inl e \<Rightarrow> True
     | Inr c \<Rightarrow> c = 0 \<and> (\<exists>codec cl lines. new_payload_codec (en_fernet admin_environment) None (en_encryption_key admin_environment) = Inr codec \<and>
         (Inr live_client :: exn + bool demo_client) = Inr cl \<and> dw_output w' = dw_output script_start @ lines \<and>
         demo_evidence default_settings admin_environment live_api cl (default_args default_settings)
           (str_uuid (en_uuids admin_environment 0)) (dw_stack script_start) lines (dw_stack w')))"
    by (intro demo_run_verifies [OF script_mono, where connect = "\<lambda>_ _. Inr live_client"]) auto
  then show ?thesis
    using live_run by (auto simp: script_start_def admin_environment_def demo_environment_def)
qed

theorem demo_waits_end_witness:
  "\<exists>e w'. wait_for_metric ascii_db (live_api\<lparr>pa_get := \<lambda>_ k. (Inr (page []), k)\<rparr>) ''http://api'' ''t1'' True 3 script_start = Some (Inl e, w') \<and>
     exc_cls e = TimeoutError \<and> dw_ticks w' \<le> 5"
proof -
  let ?api = "live_api\<lparr>pa_get := \<lambda>_ k. (Inr (page []), k)\<rparr>"
  have blank: "\<not> shows_age ascii_db ''t1'' (hp_text (page []))"
    by (simp add: shows_age_def page_def asc_def)
  have look: "\<not> isl (fst (look_metric ascii_db ?api u t b k))" for u t b k
    by (simp add: look_metric_def page_def bindE_def liftE_def raise_for_status_def http_response.truncate_def returnE_def Let_def)
  obtain r w' where r: "wait_for_metric ascii_db ?api ''http://api'' ''t1'' True 3 script_start = Some (r, w')" "dw_ticks w' \<le> dw_ticks script_start + nat \<lceil>3 :: rat\<rceil> + 2"
    and out: "case r of
         Inr x \<Rightarrow> \<exists>k p. pa_get ?api (''http://api'' @ ''/metrics'') k = (Inr p, dw_stack w') \<and> page_ok p \<and> shows_age ascii_db ''t1'' (hp_text p) = True
       | Inl e \<Rightarrow> (\<exists>k. look_metric ascii_db ?api ''http://api'' ''t1'' True k = (Inl e, dw_stack w')) \<or>
           exc_cls e = TimeoutError \<and> (\<exists>v. w' = tick v \<and> loop_time script_start + 3 \<le> loop_time v)"
    using demo_waits_end [OF script_mono, of live_client "''t1''" 3 ascii_db ?api "''http://api''" True] by (elim exE conjE) (rule that)
  have ticks: "dw_ticks w' \<le> 5"
    using r(2) by (simp add: script_start_def)
  show ?thesis
  proof (cases r)
    case (Inl e)
    have "look_metric ascii_db ?api ''http://api'' ''t1'' True k \<noteq> (Inl e, k')" for k k'
      using look [of "''http://api''" "''t1''" True k] by (intro notI) simp
    then have "exc_cls e = TimeoutError"
      using out unfolding Inl sum.case by blast
    then show ?thesis
      using r(1) ticks Inl by (intro exI [of _ e] exI [of _ w']) simp
  next
    case (Inr x)
    then obtain k p where "pa_get ?api (''http://api'' @ ''/metrics'') k = (Inr p, dw_stack w')" "shows_age ascii_db ''t1'' (hp_text p)"
      using out unfolding Inr sum.case by blast
    then show ?thesis
      using blank by simp
  qed
qed

end
