(* ===== verification/Metrics.thy ===== *)
theory Metrics
  imports Application
begin

text \<open>
  \<open>src/watchdog/metrics.py\<close>: the metrics of a process, and what the budget enforcer sets its gauge to. The
  registry of \<open>prometheus_client\<close> is not part of the repository; the calls that the components make are recorded
  in their states: \<open>be_metrics\<close> of the budget enforcer, \<open>sv_errors\<close> of the orchestrator, \<open>app_gauge\<close> of the API process.
\<close>

section \<open>The metrics\<close>

datatype metric_kind = Counter | Gauge

record metric =
  me_kind :: metric_kind
  me_name :: string
  me_help :: string
  me_labels :: "string list"

definition tokens_consumed :: metric where
  "tokens_consumed = \<lparr>me_kind = Counter, me_name = ''aegis_tokens_consumed_total'',
     me_help = ''Total tokens consumed by agent sessions, labelled by agent type.'', me_labels = [''agent_type'']\<rparr>"

definition budget_remaining :: metric where
  "budget_remaining = \<lparr>me_kind = Gauge, me_name = ''aegis_budget_remaining_usd'',
     me_help = ''Remaining budget in USD for each active budget session.'', me_labels = [''session_id'']\<rparr>"

definition orchestrator_errors :: metric where
  "orchestrator_errors = \<lparr>me_kind = Counter, me_name = ''aegis_orchestrator_errors_total'',
     me_help = ''Count of errors raised at each orchestrator pipeline stage, '' @ ''labelled by stage name and agent type.'',
     me_labels = [''stage'', ''agent_type'']\<rparr>"

definition workflow_pending_approval_seconds :: metric where
  "workflow_pending_approval_seconds = \<lparr>me_kind = Gauge, me_name = ''aegis_workflow_pending_approval_seconds'',
     me_help = ''Seconds a workflow has been in the PendingApproval state. '' @ ''Alert fires when this exceeds 86400 (24 h).'',
     me_labels = [''workflow_id'']\<rparr>"

definition hitl_stuck_seconds :: metric where
  "hitl_stuck_seconds = workflow_pending_approval_seconds"


text \<open>No two metrics share a name, which the registry would refuse.\<close>

lemma metric_names_distinct:
  "distinct (map me_name [tokens_consumed, budget_remaining, orchestrator_errors, workflow_pending_approval_seconds])"
  by (simp add: tokens_consumed_def budget_remaining_def orchestrator_errors_def workflow_pending_approval_seconds_def)


section \<open>What the gauge was set to\<close>

fun set_gauge :: "metric_call \<Rightarrow> (string \<rightharpoonup> float64) \<Rightarrow> (string \<rightharpoonup> float64)" where
  "set_gauge (GaugeSet l v) g = g(l \<mapsto> v)"
| "set_gauge (CounterInc l n) g = g"

text \<open>The float that the last call for each label value set the gauge to.\<close>

definition last_set :: "metric_call list \<Rightarrow> string \<Rightarrow> float64 option" where
  "last_set calls = fold set_gauge calls Map.empty"

lemma last_set_snoc [simp]:
  "last_set (calls @ [GaugeSet l v]) = (last_set calls)(l \<mapsto> v)" "last_set (calls @ [CounterInc l n]) = last_set calls"
  by (simp_all add: last_set_def)


section \<open>The budget gauge\<close>

lemma str_uuid_inj: "str_uuid u = str_uuid v \<Longrightarrow> u = v"
proof -
  assume eq: "str_uuid u = str_uuid v"
  have "length (str_uuid x) = length (hex x) + 4" for x
    using arg_cong [OF hex_parts [of "hex x"], of length] by (simp add: str_uuid_def Let_def)
  then have len: "length (hex u) = length (hex v)"
    using arg_cong [OF eq, of length] by simp
  have "take 8 (hex u) = take 8 (hex v) \<and> take 4 (drop 8 (hex u)) = take 4 (drop 8 (hex v)) \<and> take 4 (drop 12 (hex u)) = take 4 (drop 12 (hex v)) \<and>
      take 4 (drop 16 (hex u)) = take 4 (drop 16 (hex v)) \<and> drop 20 (hex u) = drop 20 (hex v)"
    using eq len by (simp add: str_uuid_def Let_def append_eq_append_conv)
  then have "hex u = hex v"
    by (metis hex_parts)
  then show "u = v"
    by (cases u; cases v) simp
qed

text \<open>
  What the gauge of a session shows, as a float: its remaining budget, or the limit as it was given if nothing was
  spent yet.
\<close>

definition gauge_shows :: "budget_session \<Rightarrow> float64 \<Rightarrow> bool" where
  "gauge_shows s g \<longleftrightarrow> g = float_of_decimal (remaining_gauge s) \<or>
     g = float_of_decimal (bs_budget_limit_usd s) \<and> bs_cost_usd s = dzero"

definition gauges_ok :: "budget_enforcer \<Rightarrow> bool" where
  "gauges_ok b \<longleftrightarrow> (\<forall>sid s. be_sessions b sid = Some s \<longrightarrow> (\<exists>g. last_set (be_metrics b) (str_uuid sid) = Some g \<and> gauge_shows s g))"

lemma gauges_set:
  assumes "gauges_ok b" "be_sessions c = (be_sessions b)(sid \<mapsto> s)" "be_metrics c = be_metrics b @ [GaugeSet (str_uuid sid) g]" "gauge_shows s g"
  shows "gauges_ok c"
  using assms by (auto simp: gauges_ok_def dest: str_uuid_inj)

lemma gauges_same:
  assumes "gauges_ok b" "be_sessions b sid = Some s" "be_sessions c = (be_sessions b)(sid \<mapsto> t)"
    "last_set (be_metrics c) = last_set (be_metrics b)" "\<And>g. gauge_shows s g \<Longrightarrow> gauge_shows t g"
  shows "gauges_ok c"
  using assms by (fastforce simp: gauges_ok_def)

lemma gauges_create: "gauges_ok b \<Longrightarrow> gauges_ok (snd (create_session d sid agent_type a b))"
proof (cases "resolve_limit d a")
  case (Inr limit)
  assume "gauges_ok b"
  then show ?thesis
    by (rule gauges_set [where s = "new_budget_session sid agent_type limit" and g = "float_of_decimal limit"])
       (use Inr in \<open>auto simp: create_session_def budget_defs Let_def gauge_shows_def new_budget_session_def\<close>)
qed (simp add: create_session_def prog_simps)

lemma gauges_spend: "gauges_ok b \<Longrightarrow> gauges_ok (snd (record_spend sid a op b))"
proof (cases "be_sessions b sid")
  case (Some s)
  assume ok: "gauges_ok b"
  consider (dup) "is_duplicate_operation s op" | (over) "\<not> is_duplicate_operation s op" "over_limit (charged s a op)"
    | (within) "\<not> is_duplicate_operation s op" "\<not> over_limit (charged s a op)" by blast
  then show ?thesis
  proof cases
    case dup
    then show ?thesis using ok Some by (simp add: record_spend_duplicate)
  next
    case over
    show ?thesis
      by (rule gauges_set [OF ok, of _ sid "(charged s a op)\<lparr>bs_alerts := bs_alerts (charged s a op) @ [exceeded_msg sid (charged s a op)]\<rparr>"
            "float_of_decimal (remaining_gauge (charged s a op))"])
         (simp_all add: record_spend_over [OF Some over] gauge_shows_def, simp add: remaining_gauge_def)
  next
    case within
    show ?thesis
      by (rule gauges_set [OF ok, of _ sid "charged s a op" "float_of_decimal (remaining_gauge (charged s a op))"])
         (simp_all add: record_spend_within [OF Some within] gauge_shows_def)
  qed
qed (simp add: record_spend_missing)

lemma gauges_tokens: "gauges_ok b \<Longrightarrow> gauges_ok (snd (record_tokens sid n c op b))"
proof (cases "be_sessions b sid")
  case (Some s)
  assume ok: "gauges_ok b"
  have same: "gauge_shows (s\<lparr>bs_tokens_used := k\<rparr>) g" if "gauge_shows s g" for k g
    using that by (simp add: gauge_shows_def remaining_gauge_def)
  consider (dup) "is_duplicate_operation s op" | (negative) "\<not> is_duplicate_operation s op" "n < 0"
    | (fresh) "\<not> is_duplicate_operation s op" "0 \<le> n" by fastforce
  then show ?thesis
  proof cases
    case dup
    then show ?thesis using ok Some by (simp add: record_tokens_duplicate)
  next
    case negative
    obtain m where "record_tokens sid n c op b = (Inl (exn_of ValueError m),
       b\<lparr>be_sessions := (be_sessions b)(sid \<mapsto> s\<lparr>bs_tokens_used := bs_tokens_used s + n\<rparr>)\<rparr>)"
      using record_tokens_negative [OF Some negative] by blast
    then show ?thesis
      using same by (intro gauges_same [OF ok Some, of _ "s\<lparr>bs_tokens_used := bs_tokens_used s + n\<rparr>"]) simp_all
  next
    case fresh
    have "gauges_ok (tokens_counted sid s n b)"
      using same by (intro gauges_same [OF ok Some, of _ "s\<lparr>bs_tokens_used := bs_tokens_used s + n\<rparr>"])
        (simp_all add: tokens_counted_def)
    then show ?thesis
      using gauges_spend record_tokens_fresh [OF Some fresh] by simp
  qed
qed (simp add: record_tokens_missing)

lemma gauges_restore: "gauges_ok b \<Longrightarrow> gauges_ok (snd (restore_session n b))"
proof (cases "deserialize n")
  case (Inr s)
  assume "gauges_ok b"
  then show ?thesis
    by (rule gauges_set [where s = s and sid = "bs_session_id s" and g = "float_of_decimal (remaining_gauge s)"])
       (use Inr in \<open>simp_all add: restore_session_def budget_defs gauge_shows_def\<close>)
qed (simp add: restore_session_def prog_simps)

lemma gauges_history: "gauges_ok b \<Longrightarrow> gauges_ok (snd (restore_from_history sid agent_type limit hist b))"
proof -
  assume "gauges_ok b"
  then have "gauges_ok (fresh_registry sid agent_type limit b)"
    by (rule gauges_set [where s = "new_budget_session sid agent_type limit" and g = "float_of_decimal limit"])
       (simp_all add: fresh_registry_def gauge_shows_def new_budget_session_def)
  moreover have "gauges_ok (snd (replay_entry sid h b))" if "gauges_ok b" for h b
    using gauges_tokens [OF that, of sid] that
    by (auto simp: replay_entry_def thenE_def bindE_def liftE_def returnE_def split: sum.splits prod.splits) (metis snd_conv)+
  ultimately show ?thesis
    unfolding restore_from_history_replays by (simp add: snd_thenE require_session_state forE_invariant)
qed

lemma gauges_check: "gauges_ok b \<Longrightarrow> gauges_ok (snd (check_budget sid b))"
  using check_budget_missing [of b sid] check_budget_open [of b sid] check_budget_exhausted [of b sid]
  by (cases "be_sessions b sid"; cases "exhausted (the (be_sessions b sid))") (auto simp: gauges_ok_def)

interpretation gauge_sys: invariant_system budget_init budget_step gauges_ok
proof
  show "gauges_ok b" if "budget_init b" for b
    using that by (auto simp: budget_init_def new_budget_enforcer_def gauges_ok_def)
  have "gauges_ok (run_op d x b)" if "gauges_ok b" for d x b
    using that by (cases x) (simp_all add: gauges_create gauges_spend gauges_tokens gauges_check gauges_restore gauges_history)
  then show "gauges_ok c" if "gauges_ok b" "budget_step b c" for b c
    using that by (auto simp: budget_step_def)
qed

text \<open>
  (C16) The budget gauge. After every sequence of operations, refused ones and negative amounts included, the
  gauge of every registered session was last set to the float of what is left of its budget, the difference of
  limit and cost as \<open>Decimal\<close> computes it, but of zero when that is negative; or to the float of the limit itself
  while the cost is still the initial zero. Unless that amount is astronomic, the float is a number and differs from
  it by at most one part in \<open>2 ^ 53\<close>, or by half of the smallest positive double. The gauges of different sessions do
  not get mixed up.
\<close>

theorem budget_gauge_shows_rest:
  assumes "reachable budget_init budget_step b" and "be_sessions b sid = Some s"
  shows "\<exists>m. (m = max (dval (dsub (bs_budget_limit_usd s) (bs_cost_usd s))) 0 \<or> bs_cost_usd s = dzero \<and> m = dval (bs_budget_limit_usd s)) \<and>
    last_set (be_metrics b) (str_uuid sid) = Some (to_float m) \<and>
    (\<bar>m\<bar> < 2 ^ 1023 \<longrightarrow> (\<exists>x. to_float m = Finite x \<and> \<bar>x - m\<bar> \<le> max (\<bar>m\<bar> / 2 ^ 53) (2 powi - 1075)))"
proof -
  obtain g where "last_set (be_metrics b) (str_uuid sid) = Some g" "gauge_shows s g"
    using gauge_sys.reachable_inv [OF assms(1)] assms(2) by (auto simp: gauges_ok_def)
  then show ?thesis
    using to_float_near by (fastforce simp: gauge_shows_def remaining_gauge_def float_of_decimal_def dval_dmax)
qed

theorem budget_gauge_shows_rest_witness:
  "last_set (be_metrics (snd (record_spend demo_session_id (Dec 2 0) None (snd (create_session ''10'' demo_session_id ''hr'' (LimitDecimal (Dec 5 0))
     (new_budget_enforcer (new_audit_logger ''b'' int demo_span))))))) (str_uuid demo_session_id) = Some (Finite 3)"
proof -
  let ?b0 = "new_budget_enforcer (new_audit_logger ''b'' int demo_span)"
  let ?b1 = "snd (create_session ''10'' demo_session_id ''hr'' (LimitDecimal (Dec 5 0)) ?b0)"
  let ?b2 = "snd (record_spend demo_session_id (Dec 2 0) None ?b1)"
  let ?s = "new_budget_session demo_session_id ''hr'' (Dec 5 0)"
  have "reachable budget_init budget_step ?b0"
    by (rule reach_init) (auto simp: budget_init_def)
  then have "reachable budget_init budget_step ?b1"
    by (rule reach_step) (metis budget_step_def run_op.simps(1))
  then have r: "reachable budget_init budget_step ?b2"
    by (rule reach_step) (metis budget_step_def run_op.simps(2))
  have s1: "be_sessions ?b1 demo_session_id = Some ?s"
    by (simp add: create_session_def resolve_limit_def budget_defs Let_def new_budget_enforcer_def)
  have c: "charged ?s (Dec 2 0) None = ?s\<lparr>bs_cost_usd := Dec 2 0\<rparr>"
    by (simp add: charged_def mark_operation_def new_budget_session_def) code_simp
  have "\<not> over_limit (?s\<lparr>bs_cost_usd := Dec 2 0\<rparr>)"
    by (simp add: over_limit_def new_budget_session_def dval_def)
  then have s2: "be_sessions ?b2 demo_session_id = Some (?s\<lparr>bs_cost_usd := Dec 2 0\<rparr>)"
    using record_spend_within [OF s1, of None "Dec 2 0"] by (simp add: c is_duplicate_operation_def)
  have "dsub (Dec 5 0) (Dec 2 0) = Dec 3 0" "Dec 2 0 \<noteq> dzero"
    by code_simp+
  moreover have "to_float 3 = Finite 3"
    by code_simp
  ultimately show ?thesis
    using budget_gauge_shows_rest [OF r s2] by (auto simp: new_budget_session_def dval_def)
qed

end
