(* ===== verification/LoopActivity.thy ===== *)
theory LoopActivity
  imports Activities Pipeline
begin

text \<open>
  The activity \<open>LoopRecordStep\<close> builds a detector for every step and carries the execution context from one
  step to the next as a checkpoint. It is compared with one detector that sees all steps.
\<close>

section \<open>One step\<close>

definition max_steps_of :: "'r deps \<Rightarrow> loop_record_input \<Rightarrow> int" where
  "max_steps_of D i = (case lo_max_agent_steps i of Some n \<Rightarrow> n | None \<Rightarrow> max_agent_steps (dp_cfg D))"

definition max_velocity_of :: "'r deps \<Rightarrow> loop_record_input \<Rightarrow> int" where
  "max_velocity_of D i = (case lo_max_token_velocity i of Some n \<Rightarrow> n | None \<Rightarrow> max_token_velocity (dp_cfg D))"

text \<open>The context that the input of a step stands for.\<close>

definition starts_from :: "loop_record_input \<Rightarrow> uuid \<Rightarrow> execution_context \<Rightarrow> bool" where
  "starts_from i sid c \<longleftrightarrow> uuid_ok sid \<and> ec_session_id c = sid \<and>
     (case lo_checkpoint i of None \<Rightarrow> c = new_execution_context sid (lo_agent_type i) | Some n \<Rightarrow> n = snap_context c)"

definition result_of :: "execution_context \<Rightarrow> loop_record_result" where
  "result_of c = \<lparr>lor_checkpoint = snap_context c, lor_step_count = int (length (ec_steps c)), lor_total_tokens = ec_total_tokens c,
     lor_loop_detected = ec_loop_detected c, lor_intervention_required = ec_intervention_required c\<rparr>"

fun class_name :: "exc_class \<Rightarrow> string" where
  "class_name LoopDetectedError = ''LoopDetectedError''"
| "class_name TokenVelocityError = ''TokenVelocityError''"
| "class_name PendingApprovalError = ''PendingApprovalError''"
| "class_name _ = ''''"

lemma put_ctx_put_ctx [simp]: "put_ctx sid x l (put_ctx sid y k d) = put_ctx sid x l d"
  by (simp add: put_ctx_def)

lemma detector_step_run:
  fixes d :: loop_detector
  assumes "starts_from i sid c"
  defines "c' \<equiv> stepped (lo_token_delta i) (lo_signal i) (lo_description i) c"
  defines "v \<equiv> verdict_of d (ec_steps c')"
  shows "\<exists>m l. detector_step i sid d = (case v of None \<Rightarrow> Inr c' | Some k \<Rightarrow> Inl (exn_of k m), put_ctx sid (flagged v c') l d)"
proof -
  have "\<exists>l. (case lo_checkpoint i of None \<Rightarrow> create_context sid (lo_agent_type i) | Some n \<Rightarrow> restore n) d = (Inr c, put_ctx sid c l d)"
  proof (cases "lo_checkpoint i")
    case None
    then show ?thesis
      using assms(1) create_context_eq [of sid "lo_agent_type i" d] by (simp add: starts_from_def)
  next
    case (Some n)
    then have "unsnap_context n = Inr c" "ec_session_id c = sid"
      using assms(1) loop_codec.roundtrip [of c] by (simp_all add: starts_from_def)
    then show ?thesis
      using Some restore_eq [of n c d] by auto
  qed
  then obtain l where start: "(case lo_checkpoint i of None \<Rightarrow> create_context sid (lo_agent_type i) | Some n \<Rightarrow> restore n) d
      = (Inr c, put_ctx sid c l d)"
    by blast
  have "lp_contexts (put_ctx sid c l d) sid = Some c"
    by simp
  from record_step_verdict [OF this, of "lo_token_delta i" "lo_signal i" "lo_description i"] show ?thesis
    using start unfolding detector_step_def thenE_def v_def c'_def by (auto simp: bindE_ok)
qed

lemma loop_step_run:
  assumes "lo_task_id i \<noteq> ''''" "parse_uuid (lo_loop_session_id i) = Inr sid" "starts_from i sid c"
  defines "c' \<equiv> stepped (lo_token_delta i) (lo_signal i) (lo_description i) c"
  shows "\<exists>r w'. loop_record_step D i w = (r, w') \<and>
    (case verdict (max_steps_of D i) (max_velocity_of D i) (ec_steps c') of
       None \<Rightarrow> r = Inr (result_of c')
     | Some k \<Rightarrow> \<exists>e. r = Inl e \<and> exc_cls e = ApplicationError (class_name k) True)"
proof -
  let ?t = "lo_task_id i" and ?w = "opened w"
  let ?d = "new_loop_detector (dp_cfg D) (lo_max_agent_steps i) (lo_max_token_velocity i) (sv_audit ?w)"
  let ?v = "verdict (max_steps_of D i) (max_velocity_of D i) (ec_steps c')"
  have v: "verdict_of ?d (ec_steps c') = ?v"
    by (simp add: new_loop_detector_def max_steps_of_def max_velocity_of_def)
  obtain m l where step: "detector_step i sid ?d = (case ?v of None \<Rightarrow> Inr c' | Some k \<Rightarrow> Inl (exn_of k m), put_ctx sid (flagged ?v c') l ?d)"
    using detector_step_run [OF assms(3), of ?d] unfolding c'_def [symmetric] v by blast
  have same: "?d\<lparr>lp_audit := sv_audit ?w\<rparr> = ?d"
    by (simp add: new_loop_detector_def)
  define body where "body = bindE (build_loop_detector D i) (\<lambda>d.
        bindE (on_detector d (detector_step i sid)) (\<lambda>(r, d1).
        case r of
          Inl e \<Rightarrow> loop_refusal ?t i sid d1 e
        | Inr ctx \<Rightarrow>
            thenE (stage_log ?t (lo_agent_type i) ''loop.step_recorded'' ''allow'' ''watchdog.loop-detect''
                     [(''step'', VStr (show_nat (length (ec_steps ctx)))), (''signal'', VStr (signal_value (lo_signal i)))])
           (bindE (on_detector d1 (checkpoint sid)) (\<lambda>(c, d2).
            bindE (liftE c) (\<lambda>c.
            returnE \<lparr>lor_checkpoint = c, lor_step_count = int (length (ec_steps ctx)), lor_total_tokens = ec_total_tokens ctx,
                     lor_loop_detected = ec_loop_detected ctx, lor_intervention_required = ec_intervention_required ctx\<rparr>)))))"
  have run: "loop_record_step D i = activity_span ''watchdog.loop-detect'' ?t (lo_agent_type i) (\<lambda>e. Some (marked e)) body"
    using assms(1,2) by (simp add: loop_record_step_def require_task_id_def body_def)
  have log: "audit_name ev \<Longrightarrow> stage_log ?t a ev oc st kw k = (Inr (), staged ev oc st ?t a kw k)" for a ev oc st kw k
    by (simp add: stage_log_def on_audit_stage)
  have names: "audit_name ''loop.step_recorded''" "audit_name ''loop.halted''" "audit_name ''loop.velocity_exceeded''" "audit_name ''loop.pending_approval''"
    by (simp_all add: audit_name_def)
  have d: "bindE (build_loop_detector D i) f ?w = f ?d ?w" for f :: "loop_detector \<Rightarrow> ('a services, loop_record_result) prog"
    by (simp add: build_loop_detector_def bindE_def getE_def)
  show ?thesis
  proof (cases ?v)
    case None
    have "\<exists>w1. body ?w = (Inr (result_of c'), w1)"
      using step None unfolding body_def d
      by (simp add: bindE_def thenE_def on_detector_def same log names liftE_def returnE_def flagged_def result_of_def checkpoint_def
          require_context_def get_context_def getE_def)
    then show ?thesis
      using None unfolding run activity_span_def by (auto dest: in_span_ok)
  next
    case (Some k)
    then have k: "k \<in> {LoopDetectedError, TokenVelocityError, PendingApprovalError}"
      by (auto simp: verdict_def split: if_splits)
    have "\<exists>e w1. body ?w = (Inl e, w1) \<and> exc_cls e = ApplicationError (class_name k) True"
      using step Some k unfolding body_def d
      by (auto simp: bindE_def thenE_def on_detector_def same loop_refusal_def Let_def isinstance_def log names raiseE_def application_error_def
          split: option.splits)
    then obtain e w1 where "body ?w = (Inl e, w1)" "exc_cls e = ApplicationError (class_name k) True"
      by blast
    then show ?thesis
      using Some unfolding run activity_span_def by (auto simp: in_span_err [of _ _ e w1 _ w1] returnE_def)
  qed
qed

section \<open>All steps\<close>

text \<open>A caller that executes the activity step by step and hands each checkpoint to the next execution.\<close>

definition step_input :: "loop_record_input \<Rightarrow> int \<times> loop_signal \<times> string \<Rightarrow> loop_record_result option \<Rightarrow> loop_record_input" where
  "step_input i x r = (case x of (n, g, descr) \<Rightarrow>
     i\<lparr>lo_token_delta := n, lo_signal := g, lo_description := descr, lo_checkpoint := map_option lor_checkpoint r\<rparr>)"

fun loop_run :: "'r deps \<Rightarrow> loop_record_input \<Rightarrow> (int \<times> loop_signal \<times> string) list \<Rightarrow> loop_record_result option
    \<Rightarrow> ('r services, loop_record_result option) prog" where
  "loop_run D i [] r = returnE r"
| "loop_run D i (x # xs) r = bindE (loop_record_step D (step_input i x r)) (\<lambda>r'. loop_run D i xs (Some r'))"

lemma step_input_simps [simp]:
  "lo_task_id (step_input i x r) = lo_task_id i" "lo_loop_session_id (step_input i x r) = lo_loop_session_id i"
  "lo_agent_type (step_input i x r) = lo_agent_type i" "lo_checkpoint (step_input i x r) = map_option lor_checkpoint r"
  "max_steps_of D (step_input i x r) = max_steps_of D i" "max_velocity_of D (step_input i x r) = max_velocity_of D i"
  "lo_token_delta (step_input i (n, g, descr) r) = n" "lo_signal (step_input i (n, g, descr) r) = g"
  "lo_description (step_input i (n, g, descr) r) = descr"
  by (simp_all add: step_input_def max_steps_of_def max_velocity_of_def split: prod.splits)

lemma raised_case: "raised (case v of None \<Rightarrow> Inr c | Some k \<Rightarrow> Inl (exn_of k m)) = v"
  by (cases v) (simp_all add: raised_def)

lemma loop_run_follows:
  assumes "lo_task_id i \<noteq> ''''" "parse_uuid (lo_loop_session_id i) = Inr sid"
    and "lp_max_agent_steps d = max_steps_of D i" "lp_max_token_velocity d = max_velocity_of D i"
    and "lp_contexts d sid = Some c" "\<And>x. starts_from (step_input i x r) sid c"
  shows "\<exists>q w'. loop_run D i xs r w = (q, w') \<and>
    (case find (\<lambda>v. v \<noteq> None) (fst (record_all sid xs d)) of
       None \<Rightarrow> q = Inr (if xs = [] then r else map_option result_of (lp_contexts (snd (record_all sid xs d)) sid))
     | Some v \<Rightarrow> \<exists>e. q = Inl e \<and> exc_cls e = ApplicationError (class_name (the v)) True)"
  using assms(3-6)
proof (induction xs arbitrary: d c r w)
  case Nil
  then show ?case
    by (simp add: returnE_def)
next
  case (Cons x xs)
  obtain n g descr where x: "x = (n, g, descr)"
    by (cases x)
  let ?c = "stepped n g descr c"
  let ?v = "verdict_of d (ec_steps ?c)"
  obtain m l where rec: "record_step sid n g descr d = (case ?v of None \<Rightarrow> Inr ?c | Some k \<Rightarrow> Inl (exn_of k m), put_ctx sid (flagged ?v ?c) l d)"
    using record_step_verdict [OF Cons.prems(3), of n g descr] by blast
  let ?d = "put_ctx sid (flagged ?v ?c) l d"
  have all: "record_all sid (x # xs) d = (?v # fst (record_all sid xs ?d), snd (record_all sid xs ?d))"
    by (simp add: x rec raised_case split: prod.splits)
  have "lo_task_id (step_input i (n, g, descr) r) \<noteq> ''''" "parse_uuid (lo_loop_session_id (step_input i (n, g, descr) r)) = Inr sid"
    using assms(1,2) by simp_all
  from loop_step_run [OF this Cons.prems(4), of D w] obtain q w1 where act: "loop_record_step D (step_input i x r) w = (q, w1)"
      and q: "case ?v of None \<Rightarrow> q = Inr (result_of ?c) | Some k \<Rightarrow> \<exists>e. q = Inl e \<and> exc_cls e = ApplicationError (class_name k) True"
    unfolding step_input_simps x Cons.prems(1,2) by blast
  show ?case
  proof (cases ?v)
    case (Some k)
    then show ?thesis
      using act q all by (auto simp: bindE_def)
  next
    case None
    have d: "lp_contexts ?d sid = Some ?c" "lp_max_agent_steps ?d = max_steps_of D i" "lp_max_token_velocity ?d = max_velocity_of D i"
      using None Cons.prems by (simp_all add: flagged_def)
    have "starts_from (step_input i y (Some (result_of ?c))) sid ?c" for y
      using Cons.prems(4) [of y] by (simp add: starts_from_def result_of_def stepped_def)
    from Cons.IH [OF d(2,3,1) this, of w1] obtain p w2 where IH: "loop_run D i xs (Some (result_of ?c)) w1 = (p, w2)"
        "case find (\<lambda>v. v \<noteq> None) (fst (record_all sid xs ?d)) of
           None \<Rightarrow> p = Inr (if xs = [] then Some (result_of ?c) else map_option result_of (lp_contexts (snd (record_all sid xs ?d)) sid))
         | Some v \<Rightarrow> \<exists>e. p = Inl e \<and> exc_cls e = ApplicationError (class_name (the v)) True"
      by blast
    have "loop_run D i (x # xs) r w = (p, w2)"
      using act q None IH(1) by (simp add: bindE_def)
    then show ?thesis
      using IH(2) all None d(1) by (cases xs) (auto split: option.splits)
  qed
qed

text \<open>
  (C13) Steps as activities. Executing \<open>LoopRecordStep\<close> for one step after the other, each with a detector of
  its own restored from the checkpoint of the last, gives the same as one detector that records all of
  them: if that accepts every step, the last result describes its context; otherwise the run ends at
  the first step it refuses, with a non-retryable \<open>ApplicationError\<close> of the type of its exception.
\<close>

theorem loop_activity_equivalent:
  assumes "lo_task_id i \<noteq> ''''" and "parse_uuid (lo_loop_session_id i) = Inr sid" and "uuid_ok sid" and "xs \<noteq> []"
    and "create_context sid (lo_agent_type i) (new_loop_detector (dp_cfg D) (lo_max_agent_steps i) (lo_max_token_velocity i) l) = (q, d)"
    and "record_all sid xs d = (verdicts, d')"
  shows "\<exists>r w'. loop_run D i xs None w = (r, w') \<and>
    (case find (\<lambda>v. v \<noteq> None) verdicts of
       None \<Rightarrow> \<exists>c. lp_contexts d' sid = Some c \<and> r = Inr (Some (result_of c))
     | Some v \<Rightarrow> \<exists>e. r = Inl e \<and> exc_cls e = ApplicationError (class_name (the v)) True)"
proof -
  let ?c = "new_execution_context sid (lo_agent_type i)"
  obtain k where d: "d = put_ctx sid ?c k (new_loop_detector (dp_cfg D) (lo_max_agent_steps i) (lo_max_token_velocity i) l)"
    using create_context_eq assms(5) by (metis prod.inject)
  then have lim: "lp_max_agent_steps d = max_steps_of D i" "lp_max_token_velocity d = max_velocity_of D i" "lp_contexts d sid = Some ?c"
    by (simp_all add: new_loop_detector_def max_steps_of_def max_velocity_of_def)
  have start: "starts_from (step_input i x None) sid ?c" for x
    using assms(3) by (simp add: starts_from_def new_execution_context_def)
  have "\<exists>c. lp_contexts d' sid = Some c"
    using record_all_run [OF lim(3), of xs] assms(6) by auto
  then show ?thesis
    using loop_run_follows [OF assms(1,2) lim start, of xs w] assms(4,6) by (auto split: option.splits)
qed

definition demo_loop_input :: loop_record_input where
  "demo_loop_input = \<lparr>lo_task_id = ''t'', lo_agent_type = ''general'', lo_loop_session_id = str_uuid demo_sid, lo_token_delta = 0,
     lo_signal = PROGRESS, lo_description = [], lo_checkpoint = None, lo_max_agent_steps = Some 2, lo_max_token_velocity = Some 10,
     lo_traceparent = None\<rparr>"

theorem loop_activity_equivalent_witness:
  "\<exists>e w'. loop_run (demo_deps []) demo_loop_input [(3, PROGRESS, ''a''), (1, NO_PROGRESS, ''b''), (4, NO_PROGRESS, ''c'')] None demo_world = (Inl e, w') \<and>
     exc_cls e = ApplicationError ''LoopDetectedError'' True"
proof -
  let ?xs = "[(3, PROGRESS, ''a''), (1, NO_PROGRESS, ''b''), (4, NO_PROGRESS, ''c'')] :: (int \<times> loop_signal \<times> string) list"
  let ?D = "demo_deps []" and ?i = demo_loop_input
  let ?n = "new_loop_detector (dp_cfg ?D) (lo_max_agent_steps ?i) (lo_max_token_velocity ?i) (sv_audit demo_world)"
  have sid: "uuid_ok demo_sid"
    by (simp add: uuid_ok_def demo_sid_def hex_chars_def)
  obtain q d where d: "create_context demo_sid (lo_agent_type ?i) ?n = (q, d)"
    by (cases "create_context demo_sid (lo_agent_type ?i) ?n")
  then obtain k where "d = put_ctx demo_sid (new_execution_context demo_sid ''general'') k ?n"
    using create_context_eq [of demo_sid "lo_agent_type ?i" ?n] by (auto simp: demo_loop_input_def)
  then have "lp_contexts d demo_sid = Some (new_execution_context demo_sid ''general'')"
      "lp_max_agent_steps d = 2" "lp_max_token_velocity d = 10"
    by (simp_all add: new_loop_detector_def demo_loop_input_def)
  then obtain d' where "record_all demo_sid ?xs d = ([None, None, Some LoopDetectedError], d')"
    using record_all_run [of d demo_sid _ ?xs]
    by (auto simp: upt_rec verdict_def add_step_def trailing_def new_execution_context_def)
  then show ?thesis
    using loop_activity_equivalent [OF _ _ sid _ d, of ?xs _ d' demo_world] sid by (auto simp: demo_loop_input_def)
qed

end
