(* ===== verification/Spec2Isabelle.thy ===== *)
theory Spec2Isabelle
  imports TaskLiveness HumanApproval DemoSafety Metrics LoopActivity
begin

text \<open>
  A verification library for Aegis-OS, the control plane that governs LLM agents (Python, under
  \<open>src/src\<close>; paths below are relative to it).

  \<^bold>\<open>The program.\<close> A task reaches the system in one of two ways. The HTTP router
  (\<open>control_plane/router.py\<close>) hands it to the orchestrator (\<open>control_plane/orchestrator.py\<close>), a pipeline
  of five stages: sanitise the prompt, ask the policy server (OPA), issue or check a session token, call
  the LLM provider, sanitise its answer; the watchdog checks budget and loops before and after the call.
  Or Temporal runs \<open>AgentTaskWorkflow\<close> (\<open>control_plane/scheduler.py\<close>), which executes the same stages as
  activities with retries, and stops at an approval gate when the projected spend is above a limit;
  people approve or deny through the router and the approval service. Every step goes to the audit
  logger. Two processes are started: the API (\<open>main.py\<close>) and the worker (\<open>control_plane/worker.py\<close>);
  a script (\<open>scripts/verify_pending_approval_demo.py\<close>) checks a running installation from outside.

  \<^bold>\<open>Conventions.\<close> A Python method is a \<open>prog\<close> (theory \<open>Prelude\<close>): a function from the state of its
  object to an exception or a value, together with the state, because what was written before a raise
  stays written. \<open>tryE\<close> with \<open>isinstance\<close> is \<open>try/except\<close>; \<open>zoomE\<close> runs a method on a component. Classes
  with state are records whose fields carry a prefix, enumerations are datatypes, dictionaries are maps,
  or association lists where their order is visible. Definitions keep the names of the source; a few
  have a prefix where two modules use one name (\<open>main_connect_temporal_client\<close>, \<open>service_approve\<close>).
  Free text is a list of code points, identifiers are strings.

  \<^bold>\<open>Theories and what they show.\<close>

  \<^item> \<open>Prelude\<close>, \<open>PyDecimal\<close>, \<open>PyFloat\<close>, \<open>PyStd\<close>, \<open>PyCodec\<close>, \<open>Regex\<close>: exceptions and the state-and-exception
    combinators, decimal arithmetic with 28 digits and half-even rounding, the nearest double of a decimal with
    the bound of its error, UUIDs, JSON, times, base64,
    SHA-256, and the backtracking matcher of \<open>re\<close>, shown to find exactly the matches of a declarative
    relation. The locales \<open>invariant_system\<close> (invariants of reachable states) and \<open>snapshot_codec\<close>
    (round trips of checkpoints) are interpreted for every component that has them.
  \<^item> \<open>Config\<close> (\<open>config.py\<close>): the settings and their defaults.
  \<^item> \<open>AuditLogger\<close> (\<open>audit_vault/logger.py\<close>): the entries of every task are numbered without gap and
    their times never decrease.
  \<^item> \<open>BudgetEnforcer\<close> (\<open>watchdog/budget_enforcer.py\<close>): refinement of an abstract ledger, exhaustion is
    permanent as long as no negative amount is recorded (and is not otherwise: nothing checks the sign),
    redelivery, snapshots and replay of the ledger.
  \<^item> \<open>LoopDetector\<close> (\<open>watchdog/loop_detector.py\<close>): flags and totals agree with the recorded steps in
    detectors that share their limits and exchange checkpoints, the
    breaker trips exactly at the limit, a restored checkpoint continues like the original.
  \<^item> \<open>ReplayStore\<close> (\<open>governance/replay_store.py\<close>), \<open>SessionManager\<close>, \<open>SessionSecurity\<close>
    (\<open>governance/session_mgr.py\<close>): single use of proof identifiers (locale \<open>replay_contract\<close>), validity and
    expiry of tokens, revocation and rotation, soundness of sender-constrained tokens, round trips.
  \<^item> \<open>Guardrails\<close> (\<open>governance/guardrails.py\<close>): masked text matches no PII pattern; the injection check
    refuses exactly the texts with a match.
  \<^item> \<open>OpaClient\<close> (\<open>governance/policy_engine/opa_client.py\<close>): the decision fails closed.
  \<^item> \<open>Services\<close>: the object graph that the control plane shares. \<open>Adapters\<close> (\<open>adapters\<close>): the locale
    \<open>outbound_adapter\<close> states what every provider adapter promises, interpreted for the three of them;
    protected requests leave only with a valid proof.
  \<^item> \<open>Orchestrator\<close>, \<open>Pipeline\<close> (\<open>control_plane/orchestrator.py\<close>): no completion request without all
    checks, what a completed run guarantees, how refusals and errors are counted and reported.
  \<^item> \<open>Activities\<close>, \<open>Workflow\<close> (\<open>control_plane/scheduler.py\<close>): the activities, the workflow with its
    signals, query and approval gate, and \<open>AgentScheduler\<close>. \<open>Temporal\<close>: the locale \<open>temporal\<close>.
    \<open>LoopActivity\<close>: a sequence of \<open>LoopRecordStep\<close> activities, each on a detector restored from the last
    checkpoint, is equivalent to one detector that sees all steps.
    \<open>TaskRequests\<close>, \<open>TaskSafety\<close>, \<open>TaskLiveness\<close>: over every executor that Temporal's documentation
    allows, what a task sends and after which checks, how the gate decides within its timeout, that
    outputs hold no PII, which exceptions a task can raise with which status, and that the budget of a
    session starts at zero in every run.
  \<^item> \<open>ApprovalService\<close> (\<open>control_plane/approval_service.py\<close>), \<open>Router\<close>, \<open>RouterSafety\<close>
    (\<open>control_plane/router.py\<close>): over the locale \<open>workflow_client\<close>, a decision reaches a workflow only when
    it is authorised; all the ways in which a decision can fail (\<open>hitl_failure\<close>), and that nothing is signalled
    then unless the signal call itself fails; that of two decisions the later one counts (locale \<open>quiet_client\<close>); task requests keep the guarantees of the pipeline and fail with documented status.
  \<^item> \<open>HumanApproval\<close>: router, approval service, policy server and workflow together. Over every history of
    the API process (an inductive relation) and every executor, an expensive task reaches the LLM
    provider only after an approval that was authorised for its workflow, if Temporal delivers to it only
    signals that the API sent.
  \<^item> \<open>DataConverter\<close> (\<open>control_plane/data_converter.py\<close>): the encrypted history can be read with the same
    key and with no other. \<open>Compliance\<close> (\<open>audit_vault/compliance.py\<close>): how the reports of two periods
    add up.
  \<^item> \<open>Application\<close> (\<open>main.py\<close>, \<open>control_plane/worker.py\<close>): start and stop of the processes, and the gauges
    of pending approvals, which always follow what the server reports. \<open>Metrics\<close> (\<open>watchdog/metrics.py\<close>):
    the metrics of the process; in every reachable state the budget gauge was last set to the float of what is left.
  \<^item> \<open>ApprovalDemo\<close>, \<open>DemoSafety\<close> (\<open>scripts/verify_pending_approval_demo.py\<close>, beside \<open>src/src\<close>): its polling loops
    end, a run that exits with 0 has seen what it reports in that order, and the token it makes is accepted by the API.

  \<^bold>\<open>Parameters.\<close> Code outside the repository is an argument of the definitions that use it, and what is
  documented of it is a named hypothesis with an instance that has it:
  \<open>token_libs\<close> for \<open>python-jose\<close> and \<open>cryptography\<close> (\<open>jose_documented\<close>: a token that was encoded is decoded by the
  matching key to the same claims until its expiry, if the claims pass the library's own checks of the registered ones,
  \<open>claims_valid\<close>; \<open>keys_ready\<close>), \<open>fernet_libs\<close>
  (\<open>fernet_documented\<close>, \<open>fernet_authentic\<close>), the Redis call \<open>SET NX EX\<close>, the Unicode database
  (\<open>unicode_ok\<close>), the replies of HTTP servers by the number of the request, \<open>execute_activity\<close> of Temporal
  (locale \<open>temporal\<close>: an activity is attempted at most as often as its retry policy allows, an attempt may
  run although its completion is lost, a result is that of some attempt), and the client of the Temporal
  server (locale \<open>workflow_client\<close>: between two calls other actors may change the server). Clocks, random
  identifiers, generated keys and spans are functions of the number of the reading. All hypotheses are
  satisfied by the instances used in the witnesses.

  \<^bold>\<open>Bounds and termination.\<close> All definitions but one are total. The exception is the polling loop
  \<open>poll_until\<close> of the script, which depends on the clock: it is a \<open>partial_function (option)\<close>, and with a clock
  that never goes back it returns after at most \<open>\<lceil>timeout / pause\<rceil>\<close> looks. The reference executor \<open>direct_executor\<close> recurs on
  the number of attempts that are left; the retry policies of the code allow 5 for \<open>LLMInvoke\<close>, so no
  result is cut off. At the approval gate Temporal wakes the workflow at the times \<open>kw_after\<close> with the signals
  \<open>kw_inbox\<close>; the wait looks at the activations before \<open>approval_timeout_seconds\<close> and no later ones. Doubles have 53
  significant bits and exponents from -1074 to 1023.
  Repetition in \<open>Regex\<close> is bounded by the length of the text that is left, since a part that matches nothing is not
  repeated.

  \<^bold>\<open>Not modelled.\<close> The set-up of OpenTelemetry and the parent of spans, registration of metrics and the
  Prometheus text format, the parsing of HTTP requests by FastAPI and of the environment by
  pydantic-settings, the transport below the Temporal and HTTP clients, and one message to the standard
  \<open>logging\<close> module at the end of a run: none of them feeds back into the program. Command-line parsing of
  the script beyond its defaults and choices, and \<open>_fix_e501.py\<close>, which replaced one literal in a test file
  once. Infinity, NaN and signed zero of \<open>Decimal\<close> are outside the number type; a text that denotes one is
  refused like a malformed one. Strings are ASCII: the dash in the message of a policy refusal without a server is a hyphen.
\<close>

end
